(* ===== verification/Prelude.thy ===== *)
theory Prelude
  imports Main "HOL-Library.Word"
begin

section \<open>Shared vocabulary: Go strings, integers, durations and formatting\<close>

text \<open>
  What every component of the model uses of the Go language and its standard library:
  byte strings (\<open>string\<close>) with the \<^verbatim>\<open>strings\<close> functions the source calls, 32- and 64-bit
  two's complement conversions on \<open>int\<close>, truncated division, \<^verbatim>\<open>time.Duration\<close> as
  an \<open>int\<close> number of nanoseconds, and the \<^verbatim>\<open>fmt\<close> verbs the source's messages use.

  Two collections carry the component proofs: \<open>go_defs\<close> gathers the definitions a
  proof unfolds to compute, \<open>call_log\<close> the facts on the log of API calls.
\<close>

named_theorems go_defs
named_theorems call_log

subsection \<open>Machine integers\<close>

definition wrap32 :: "int \<Rightarrow> int" where
  "wrap32 i = signed_take_bit 31 i"

definition wrap64 :: "int \<Rightarrow> int" where
  "wrap64 i = signed_take_bit 63 i"

definition in_i32 :: "int \<Rightarrow> bool" where
  "in_i32 i \<longleftrightarrow> - (2 ^ 31) \<le> i \<and> i < 2 ^ 31"

definition in_i64 :: "int \<Rightarrow> bool" where
  "in_i64 i \<longleftrightarrow> - (2 ^ 63) \<le> i \<and> i < 2 ^ 63"

lemma wrap32_id [simp]: "in_i32 i \<Longrightarrow> wrap32 i = i"
  unfolding wrap32_def in_i32_def by (simp add: signed_take_bit_int_eq_self)

lemma wrap64_id [simp]: "in_i64 i \<Longrightarrow> wrap64 i = i"
  unfolding wrap64_def in_i64_def by (simp add: signed_take_bit_int_eq_self)

lemma wrap32_range: "in_i32 (wrap32 i)"
  unfolding wrap32_def in_i32_def
  using signed_take_bit_int_greater_eq_minus_exp [of 31 i] signed_take_bit_int_less_exp [of 31 i]
  by simp

lemma wrap64_range: "in_i64 (wrap64 i)"
  unfolding wrap64_def in_i64_def
  using signed_take_bit_int_greater_eq_minus_exp [of 63 i] signed_take_bit_int_less_exp [of 63 i]
  by simp

text \<open>Go's \<^verbatim>\<open>/\<close> and \<^verbatim>\<open>%\<close> truncate towards zero.\<close>

definition go_div :: "int \<Rightarrow> int \<Rightarrow> int" where
  "go_div a b = sgn a * sgn b * (\<bar>a\<bar> div \<bar>b\<bar>)"

definition go_mod :: "int \<Rightarrow> int \<Rightarrow> int" where
  "go_mod a b = a - b * go_div a b"

lemma go_div_nonneg: "0 \<le> a \<Longrightarrow> 0 < b \<Longrightarrow> go_div a b = a div b"
  by (cases "a = 0") (simp_all add: go_div_def)

lemma go_mod_nonneg: "0 \<le> a \<Longrightarrow> 0 < b \<Longrightarrow> go_mod a b = a mod b"
  by (simp add: go_mod_def go_div_nonneg minus_mult_div_eq_mod)

subsection \<open>Times and durations\<close>

text \<open>
  A \<^verbatim>\<open>time.Time\<close> is an \<open>int\<close>: nanoseconds since the Unix epoch. A
  \<^verbatim>\<open>time.Duration\<close> is an \<open>int\<close> in the 64-bit range. \<^verbatim>\<open>Time.Sub\<close> (and so
  \<^verbatim>\<open>time.Since\<close>) saturates at the ends of that range.
\<close>

definition second :: int where "second = 1000000000"
definition millisecond :: int where "millisecond = 1000000"
definition microsecond :: int where "microsecond = 1000"
definition minute :: int where "minute = 60000000000"

definition max_duration :: int where "max_duration = 9223372036854775807"
definition min_duration :: int where "min_duration = -9223372036854775808"

definition time_sub :: "int \<Rightarrow> int \<Rightarrow> int" where
  "time_sub t u = max min_duration (min max_duration (t - u))"

text \<open>\<^verbatim>\<open>int64(d.Seconds())\<close> and \<^verbatim>\<open>int(d.Seconds())\<close>: whole seconds, truncated. Exact
  where the code's \<^verbatim>\<open>float64\<close> holds the value, which is below \<open>2 ^ 23\<close> seconds (97 days).\<close>

definition whole_seconds :: "int \<Rightarrow> int" where
  "whole_seconds d = go_div d second"

lemma time_sub_mono: "t \<le> t' \<Longrightarrow> time_sub t u \<le> time_sub t' u"
  by (auto simp: time_sub_def)

lemma time_sub_exact: "in_i64 (t - u) \<Longrightarrow> time_sub t u = t - u"
  by (simp add: time_sub_def in_i64_def max_duration_def min_duration_def)

lemma whole_seconds_nonneg: "0 \<le> d \<Longrightarrow> 0 \<le> whole_seconds d"
  by (simp add: whole_seconds_def go_div_nonneg second_def)

subsection \<open>Strings\<close>

fun join :: "string \<Rightarrow> string list \<Rightarrow> string" where
  "join sep [] = ''''"
| "join sep [x] = x"
| "join sep (x # y # xs) = x @ sep @ join sep (y # xs)"

definition has_prefix :: "string \<Rightarrow> string \<Rightarrow> bool" where
  "has_prefix s p \<longleftrightarrow> take (length p) s = p"

definition has_suffix :: "string \<Rightarrow> string \<Rightarrow> bool" where
  "has_suffix s p \<longleftrightarrow> length p \<le> length s \<and> drop (length s - length p) s = p"

definition trim_suffix :: "string \<Rightarrow> string \<Rightarrow> string" where
  "trim_suffix s p = (if has_suffix s p then take (length s - length p) s else s)"

fun contains :: "string \<Rightarrow> string \<Rightarrow> bool" where
  "contains [] p = (p = [])"
| "contains (c # s) p = (has_prefix (c # s) p \<or> contains s p)"

definition lower_char :: "char \<Rightarrow> char" where
  "lower_char c = (let n = of_char c :: nat in if 65 \<le> n \<and> n \<le> 90 then char_of (n + 32) else c)"

definition to_lower :: "string \<Rightarrow> string" where
  "to_lower s = map lower_char s"

lemma has_suffix_append [simp]: "has_suffix (s @ p) p"
  by (simp add: has_suffix_def)

lemma trim_suffix_append [simp]: "trim_suffix (s @ p) p = s"
  by (simp add: trim_suffix_def)

lemma set_join: "set (join sep xs) \<subseteq> set sep \<union> \<Union> (set ` set xs)"
  by (induction sep xs rule: join.induct) auto

subsection \<open>Formatting\<close>

text \<open>The digits of \<^verbatim>\<open>%d\<close>, least significant last.\<close>

definition digit_char :: "nat \<Rightarrow> char" where
  "digit_char n = char_of (48 + n)"

fun nat_digits :: "nat \<Rightarrow> string" where
  "nat_digits n = (if n < 10 then [digit_char n] else nat_digits (n div 10) @ [digit_char (n mod 10)])"

declare nat_digits.simps [simp del]

definition fmt_d :: "int \<Rightarrow> string" where
  "fmt_d i = (if i < 0 then ''-'' @ nat_digits (nat (- i)) else nat_digits (nat i))"

definition fmt_bool :: "bool \<Rightarrow> string" where
  "fmt_bool b = (if b then ''true'' else ''false'')"

text \<open>\<^verbatim>\<open>%v\<close> of a string slice.\<close>

definition fmt_strings :: "string list \<Rightarrow> string" where
  "fmt_strings xs = ''['' @ join '' '' xs @ '']''"

text \<open>
  \<^verbatim>\<open>%q\<close>: double quotes with Go's escapes. Bytes from 128 on are kept as they are, which is
  \<^verbatim>\<open>strconv.Quote\<close> on printable UTF-8.
\<close>

definition hex_char :: "nat \<Rightarrow> char" where
  "hex_char n = (if n < 10 then char_of (48 + n) else char_of (87 + n))"

definition quote_char :: "char \<Rightarrow> string" where
  "quote_char c =
     (let n = of_char c :: nat in
      if n = 34 then [char_of (92::nat), char_of (34::nat)]
      else if n = 92 then [char_of (92::nat), char_of (92::nat)]
      else if n = 7 then char_of (92::nat) # ''a''
      else if n = 8 then char_of (92::nat) # ''b''
      else if n = 9 then char_of (92::nat) # ''t''
      else if n = 10 then char_of (92::nat) # ''n''
      else if n = 11 then char_of (92::nat) # ''v''
      else if n = 12 then char_of (92::nat) # ''f''
      else if n = 13 then char_of (92::nat) # ''r''
      else if n < 32 \<or> n = 127 then char_of (92::nat) # ''x'' @ [hex_char (n div 16), hex_char (n mod 16)]
      else [c])"

definition fmt_q :: "string \<Rightarrow> string" where
  "fmt_q s = [char_of (34::nat)] @ concat (map quote_char s) @ [char_of (34::nat)]"

text \<open>Digits are decimal digits, and printing is injective.\<close>

lemma of_char_digit: "n < 10 \<Longrightarrow> of_char (digit_char n) = 48 + n"
  by (simp add: digit_char_def)

lemma digit_char_inject: "m < 10 \<Longrightarrow> n < 10 \<Longrightarrow> digit_char m = digit_char n \<longleftrightarrow> m = n"
  by (metis add_left_cancel of_char_digit)

lemma nat_digits_nonempty [simp]: "nat_digits n \<noteq> []"
  by (subst nat_digits.simps) simp

lemma nat_digits_nonempty_sym [simp]: "[] \<noteq> nat_digits n"
  by (metis nat_digits_nonempty)

lemma nat_digits_decimal:
  "c \<in> set (nat_digits n) \<Longrightarrow> 48 \<le> (of_char c :: nat) \<and> (of_char c :: nat) \<le> 57"
proof (induction n rule: nat_digits.induct)
  case (1 n)
  show ?case
  proof (cases "n < 10")
    case True
    with 1(2) show ?thesis by (simp add: nat_digits.simps [of n] of_char_digit)
  next
    case False
    have m: "n mod 10 < 10" by simp
    from False 1(2) have "c \<in> set (nat_digits (n div 10)) \<or> c = digit_char (n mod 10)"
      by (auto simp: nat_digits.simps [of n])
    then show ?thesis
      using 1(1) [OF False] m by (auto simp: of_char_digit)
  qed
qed

lemma nat_digits_snoc:
  "nat_digits k = (if k < 10 then [] else nat_digits (k div 10)) @ [digit_char (k mod 10)]"
  by (subst nat_digits.simps) simp

lemma nat_digits_inject: "nat_digits m = nat_digits n \<Longrightarrow> m = n"
proof (induction m arbitrary: n rule: nat_digits.induct)
  case (1 m)
  from 1(2) have "(if m < 10 then [] else nat_digits (m div 10)) @ [digit_char (m mod 10)] =
      (if n < 10 then [] else nat_digits (n div 10)) @ [digit_char (n mod 10)]"
    by (simp only: nat_digits_snoc [symmetric])
  then have pre: "(if m < 10 then [] else nat_digits (m div 10)) = (if n < 10 then [] else nat_digits (n div 10))"
    and last: "digit_char (m mod 10) = digit_char (n mod 10)"
    by (simp_all only: append1_eq_conv)
  have mods: "m mod 10 = n mod 10"
    using last by (simp add: digit_char_inject)
  show ?case
  proof (cases "m < 10")
    case True
    with pre have "n < 10" by (simp split: if_splits)
    with True mods show ?thesis by simp
  next
    case False
    with pre have eq: "nat_digits (m div 10) = nat_digits (n div 10)"
      by (simp split: if_splits)
    from 1(1) [OF False eq] have "m div 10 = n div 10" .
    with mods show ?thesis by (metis div_mult_mod_eq)
  qed
qed

lemma fmt_d_nonneg: "0 \<le> i \<Longrightarrow> fmt_d i = nat_digits (nat i)"
  by (simp add: fmt_d_def)

lemma fmt_d_inject_nonneg: "0 \<le> i \<Longrightarrow> 0 \<le> j \<Longrightarrow> fmt_d i = fmt_d j \<Longrightarrow> i = j"
  by (metis fmt_d_nonneg nat_digits_inject eq_nat_nat_iff)

text \<open>\<^verbatim>\<open>time.Duration.String\<close>: the largest units first, trailing zeros of the fraction dropped.\<close>

fun pad_digits :: "nat \<Rightarrow> int \<Rightarrow> string" where
  "pad_digits 0 v = []"
| "pad_digits (Suc p) v = pad_digits p (v div 10) @ [digit_char (nat (v mod 10))]"

definition fmt_frac :: "nat \<Rightarrow> int \<Rightarrow> string" where
  "fmt_frac prec v =
     (let ds = rev (dropWhile (\<lambda>c. c = digit_char 0) (rev (pad_digits prec v)))
      in if ds = [] then [] else ''.'' @ ds)"

definition duration_string :: "int \<Rightarrow> string" where
  "duration_string d =
     (let u = \<bar>d\<bar>;
          body =
            (if u = 0 then ''0s''
             else if u < 1000 then fmt_d u @ ''ns''
             else if u < 1000000 then
               fmt_d (u div 1000) @ fmt_frac 3 u @ [char_of (194::nat), char_of (181::nat)] @ ''s''
             else if u < 1000000000 then fmt_d (u div 1000000) @ fmt_frac 6 u @ ''ms''
             else
               let secs = u div 1000000000; mins = secs div 60; hours = mins div 60;
                   s = fmt_d (secs mod 60) @ fmt_frac 9 u @ ''s''
               in if mins = 0 then s
                  else if hours = 0 then fmt_d (mins mod 60) @ ''m'' @ s
                  else fmt_d hours @ ''h'' @ fmt_d (mins mod 60) @ ''m'' @ s)
      in if d < 0 then ''-'' @ body else body)"

subsection \<open>Lists and options\<close>

lemma set_takeWhile_subset: "set (takeWhile P xs) \<subseteq> set xs"
  by (auto dest: set_takeWhileD)

lemma length_filter_less_iff: "x \<in> set xs \<Longrightarrow> \<not> P x \<Longrightarrow> length (filter P xs) < length xs"
  by (rule length_filter_less)

end
