(* ===== verification/Api_Types.thy ===== *)
theory Api_Types
  imports Prelude
begin

section \<open>The ChaosRun API types\<close>

text \<open>
  The types of \<^verbatim>\<open>api/v1alpha1/chaosrun_types.go\<close>. A Go string type with constants is a
  datatype with one constructor per constant, one for the empty string and one that carries any
  other string; the two conversions are \<open>string_of_x\<close> and \<open>x_of_string\<close>. A struct is a
  record, a pointer field an option, a \<^verbatim>\<open>metav1.Duration\<close> or \<^verbatim>\<open>metav1.Time\<close> an \<open>int\<close> of
  nanoseconds, a string map an association list with one entry per key.
\<close>

subsection \<open>String enumerations\<close>

datatype target_type = FlinkDeployment | VervericaDeployment | PodSelector | OtherTarget string

definition string_of_target_type :: "target_type \<Rightarrow> string" where
  "string_of_target_type t = (case t of
     FlinkDeployment \<Rightarrow> ''FlinkDeployment'' | VervericaDeployment \<Rightarrow> ''VervericaDeployment''
   | PodSelector \<Rightarrow> ''PodSelector'' | OtherTarget s \<Rightarrow> s)"

datatype scenario_type =
    NoScenario | TaskManagerPodKill | NetworkPartition | NetworkChaos | ResourceExhaustion
  | OtherScenario string

definition string_of_scenario :: "scenario_type \<Rightarrow> string" where
  "string_of_scenario s = (case s of
     NoScenario \<Rightarrow> '''' | TaskManagerPodKill \<Rightarrow> ''TaskManagerPodKill''
   | NetworkPartition \<Rightarrow> ''NetworkPartition'' | NetworkChaos \<Rightarrow> ''NetworkChaos''
   | ResourceExhaustion \<Rightarrow> ''ResourceExhaustion'' | OtherScenario x \<Rightarrow> x)"

definition scenario_of_string :: "string \<Rightarrow> scenario_type" where
  "scenario_of_string s =
     (if s = '''' then NoScenario
      else if s = ''TaskManagerPodKill'' then TaskManagerPodKill
      else if s = ''NetworkPartition'' then NetworkPartition
      else if s = ''NetworkChaos'' then NetworkChaos
      else if s = ''ResourceExhaustion'' then ResourceExhaustion
      else OtherScenario s)"

datatype selection_mode = NoMode | RandomMode | ExplicitMode | OtherMode string

definition string_of_mode :: "selection_mode \<Rightarrow> string" where
  "string_of_mode m = (case m of NoMode \<Rightarrow> '''' | RandomMode \<Rightarrow> ''Random''
     | ExplicitMode \<Rightarrow> ''Explicit'' | OtherMode s \<Rightarrow> s)"

datatype action_type = NoAction | DeletePodAction | OtherAction string

datatype run_phase =
    NoPhase | Pending | Injecting | Observing | CleaningUp | Completed | Aborted | Failed
  | OtherPhase string

definition string_of_phase :: "run_phase \<Rightarrow> string" where
  "string_of_phase p = (case p of
     NoPhase \<Rightarrow> '''' | Pending \<Rightarrow> ''Pending'' | Injecting \<Rightarrow> ''Injecting''
   | Observing \<Rightarrow> ''Observing'' | CleaningUp \<Rightarrow> ''CleaningUp'' | Completed \<Rightarrow> ''Completed''
   | Aborted \<Rightarrow> ''Aborted'' | Failed \<Rightarrow> ''Failed'' | OtherPhase s \<Rightarrow> s)"

datatype run_verdict = NoVerdict | VPassed | VFailed | VInconclusive | OtherVerdict string

definition string_of_verdict :: "run_verdict \<Rightarrow> string" where
  "string_of_verdict v = (case v of NoVerdict \<Rightarrow> '''' | VPassed \<Rightarrow> ''Passed''
     | VFailed \<Rightarrow> ''Failed'' | VInconclusive \<Rightarrow> ''Inconclusive'' | OtherVerdict s \<Rightarrow> s)"

datatype cond_type =
    TargetResolved | SafetyChecksPassed | InjectionStarted | InjectionCompleted
  | RecoveryObserved | AbortRequested | RunFailed | NetworkChaosInjected | NetworkChaosCleanedUp
  | OtherCond string

definition string_of_cond :: "cond_type \<Rightarrow> string" where
  "string_of_cond t = (case t of
     TargetResolved \<Rightarrow> ''TargetResolved'' | SafetyChecksPassed \<Rightarrow> ''SafetyChecksPassed''
   | InjectionStarted \<Rightarrow> ''InjectionStarted'' | InjectionCompleted \<Rightarrow> ''InjectionCompleted''
   | RecoveryObserved \<Rightarrow> ''RecoveryObserved'' | AbortRequested \<Rightarrow> ''AbortRequested''
   | RunFailed \<Rightarrow> ''RunFailed'' | NetworkChaosInjected \<Rightarrow> ''NetworkChaosInjected''
   | NetworkChaosCleanedUp \<Rightarrow> ''NetworkChaosCleanedUp'' | OtherCond s \<Rightarrow> s)"

datatype network_target = NoNetTarget | TMtoTM | TMtoJM | TMtoCheckpoint | TMtoExternal | OtherNetTarget string

definition string_of_net_target :: "network_target \<Rightarrow> string" where
  "string_of_net_target t = (case t of NoNetTarget \<Rightarrow> '''' | TMtoTM \<Rightarrow> ''TMtoTM''
     | TMtoJM \<Rightarrow> ''TMtoJM'' | TMtoCheckpoint \<Rightarrow> ''TMtoCheckpoint''
     | TMtoExternal \<Rightarrow> ''TMtoExternal'' | OtherNetTarget s \<Rightarrow> s)"

datatype net_direction = NoDirection | Ingress | Egress | Both | OtherDirection string

definition string_of_direction :: "net_direction \<Rightarrow> string" where
  "string_of_direction d = (case d of NoDirection \<Rightarrow> '''' | Ingress \<Rightarrow> ''Ingress''
     | Egress \<Rightarrow> ''Egress'' | Both \<Rightarrow> ''Both'' | OtherDirection s \<Rightarrow> s)"

datatype exhaustion_mode = CPU | Memory | OtherExhaustion string

definition string_of_exhaustion :: "exhaustion_mode \<Rightarrow> string" where
  "string_of_exhaustion m = (case m of CPU \<Rightarrow> ''CPU'' | Memory \<Rightarrow> ''Memory'' | OtherExhaustion s \<Rightarrow> s)"

subsection \<open>Spec\<close>

type_synonym string_map = "(string \<times> string) list"

definition map_get :: "string_map \<Rightarrow> string \<Rightarrow> string" where
  \<comment> \<open>Go's \<^verbatim>\<open>m[k]\<close>: the zero value when the key is absent.\<close>
  "map_get m k = (case map_of m k of None \<Rightarrow> '''' | Some v \<Rightarrow> v)"

record selector_req =
  sr_key :: string
  sr_operator :: string
  sr_values :: "string list"

record label_selector =
  matchLabels :: string_map
  matchExpressions :: "selector_req list"

record target_spec =
  t_type :: target_type
  t_name :: string
  t_deploymentID :: string
  t_deploymentName :: string
  t_vvpNamespace :: string
  t_selector :: "label_selector option"

record selection_spec =
  sel_mode :: selection_mode
  sel_count :: int
  sel_podNames :: "string list"

record action_spec =
  act_type :: action_type
  act_gracePeriodSeconds :: "int option"

record external_target =
  x_cidr :: string
  x_hostname :: string
  x_port :: int

record network_chaos_spec =
  n_target :: network_target
  n_direction :: net_direction
  n_externalEndpoint :: "external_target option"
  n_latency :: "int option"
  n_jitter :: "int option"
  n_loss :: "int option"
  n_bandwidth :: string
  n_duration :: "int option"

record resource_exhaustion_spec =
  re_mode :: exhaustion_mode
  re_workers :: int
  re_memoryPercent :: int
  re_duration :: "int option"

record scenario_spec =
  s_type :: scenario_type
  s_selection :: selection_spec
  s_action :: action_spec
  s_network :: "network_chaos_spec option"
  s_resourceExhaustion :: "resource_exhaustion_spec option"

record flink_rest_observe =
  fr_enabled :: bool
  fr_endpoint :: string
  fr_requireStableCheckpoint :: bool
  fr_stableWindowSeconds :: int
  fr_waitTimeout :: "int option"

record observe_spec =
  o_enabled :: bool
  o_timeout :: int
  o_pollInterval :: int
  o_flinkRest :: flink_rest_observe

record safety_spec =
  sf_dryRun :: bool
  sf_maxConcurrentRuns :: int
  sf_minTaskManagers :: "int option"
  sf_allowSharedCluster :: bool
  sf_maxNetworkDuration :: "int option"
  sf_allowCheckpointStorage :: bool
  sf_maxExhaustionDuration :: "int option"

record control_spec =
  ctl_abort :: bool

record chaos_run_spec =
  sp_target :: target_spec
  sp_scenario :: scenario_spec
  sp_observe :: observe_spec
  sp_safety :: safety_spec
  sp_control :: control_spec

subsection \<open>Status\<close>

record target_summary =
  sum_type :: string
  sum_name :: string

record observation_status =
  ob_jobStateBefore :: string
  ob_jobStateAfter :: string
  ob_tmCountBefore :: int
  ob_tmCountAfter :: int
  ob_recoveryObservedAt :: "int option"
  ob_recoveryTimeSeconds :: "int option"

definition empty_observation :: observation_status where
  "empty_observation = \<lparr>ob_jobStateBefore = '''', ob_jobStateAfter = '''', ob_tmCountBefore = 0,
     ob_tmCountAfter = 0, ob_recoveryObservedAt = None, ob_recoveryTimeSeconds = None\<rparr>"

record container_record =
  er_podName :: string
  er_containerName :: string
  er_injectedAt :: "int option"
  er_cleanedUp :: bool

datatype cond_status = CTrue | CFalse | CUnknown string

record condition =
  c_type :: cond_type
  c_status :: cond_status
  c_reason :: string
  c_message :: string
  c_time :: int

text \<open>Conditions are told apart by the text of their type.\<close>

definition cond_key :: "condition \<Rightarrow> string" where
  "cond_key c = string_of_cond (c_type c)"

record chaos_run_status =
  st_phase :: run_phase
  st_verdict :: run_verdict
  st_message :: string
  st_startedAt :: "int option"
  st_observingStartedAt :: "int option"
  st_endedAt :: "int option"
  st_selectedPods :: "string list"
  st_injectedPods :: "string list"
  st_replacementObserved :: bool
  st_targetSummary :: "target_summary option"
  st_observation :: "observation_status option"
  st_networkPolicies :: "string list"
  st_tcInjections :: "container_record list"
  st_stressInjections :: "container_record list"
  st_dryRunPreview :: string
  st_conditions :: "condition list"

subsection \<open>The object\<close>

text \<open>Of \<^verbatim>\<open>metav1.ObjectMeta\<close> the fields the source reads or writes.\<close>

record chaos_run =
  cr_name :: string
  cr_namespace :: string
  cr_deletionTimestamp :: "int option"
  cr_finalizers :: "string list"
  cr_spec :: chaos_run_spec
  cr_status :: chaos_run_status

abbreviation phase_of :: "chaos_run \<Rightarrow> run_phase" where
  "phase_of r \<equiv> st_phase (cr_status r)"

abbreviation scenario_of :: "chaos_run \<Rightarrow> scenario_type" where
  "scenario_of r \<equiv> s_type (sp_scenario (cr_spec r))"

abbreviation upd_status :: "(chaos_run_status \<Rightarrow> chaos_run_status) \<Rightarrow> chaos_run \<Rightarrow> chaos_run" where
  "upd_status f r \<equiv> cr_status_update f r"

subsection \<open>The conversions\<close>

text \<open>A datatype value is canonical when its catch-all constructor does not hold a known constant.\<close>

definition scenario_wf :: "scenario_type \<Rightarrow> bool" where
  "scenario_wf s \<longleftrightarrow> scenario_of_string (string_of_scenario s) = s"

lemma scenario_of_string_inverse: "string_of_scenario (scenario_of_string s) = s"
  by (simp add: scenario_of_string_def string_of_scenario_def)

lemma scenario_of_string_wf: "scenario_wf (scenario_of_string s)"
  by (simp add: scenario_wf_def scenario_of_string_inverse)

end
