(* ===== verification/Kube.thy ===== *)
theory Kube
  imports Api_Types
begin

section \<open>The outside world: Kubernetes client, clock and call log\<close>

text \<open>
  The controller-runtime client, the API server, the clock and the random shuffle are not
  code of the repository: they are the fields of a record \<open>'w kube\<close> of functions over an
  abstract world \<open>'w\<close>, a parameter of every operation that uses them. What a theorem needs
  of them is a named hypothesis on that record.

  The state the code runs on is \<open>'w sys\<close>: the world and a history of the writes issued so
  far (API writes with their outcome, events, metrics), in order. The history influences nothing;
  it lets a theorem say which calls a piece of code makes.
\<close>

subsection \<open>Objects\<close>

datatype pod_phase = PodPending | PodRunning | PodPhaseOther string

record eph_container =
  ec_name :: string
  ec_image :: string
  ec_command :: "string list"
  ec_capabilities :: "string list"

record eph_container_status =
  es_name :: string
  es_terminated :: bool

record pod =
  p_name :: string
  p_namespace :: string
  p_labels :: string_map
  p_deletionTimestamp :: "int option"
  p_phase :: pod_phase
  p_containersReady :: "bool list"
  p_ephContainers :: "eph_container list"
  p_ephStatuses :: "eph_container_status list"

datatype policy_type = PolicyIngress | PolicyEgress

record ip_block =
  ib_cidr :: string
  ib_except :: "string list"

text \<open>A rule: the TCP ports it is restricted to (empty: all ports) and its peers (empty: all).\<close>

record policy_rule =
  pr_ports :: "int list"
  pr_peers :: "ip_block list"

record network_policy =
  np_name :: string
  np_namespace :: string
  np_labels :: string_map
  np_podSelector :: string_map
  np_policyTypes :: "policy_type list"
  np_ingress :: "policy_rule list"
  np_egress :: "policy_rule list"

text \<open>What \<^verbatim>\<open>unstructured.NestedString\<close> finds on a FlinkDeployment.\<close>

datatype nested_string = NestedError string | NestedAbsent | NestedFound string

record flink_deployment =
  fd_name :: string
  fd_executionTarget :: nested_string

datatype api_error = NotFound string | AlreadyExists string | OtherApi string

primrec api_error_text :: "api_error \<Rightarrow> string" where
  "api_error_text (NotFound s) = s"
| "api_error_text (AlreadyExists s) = s"
| "api_error_text (OtherApi s) = s"

subsection \<open>The client and the library\<close>

record 'w kube =
  k_now :: "'w \<Rightarrow> int \<times> 'w"
  k_shuffle :: "string list \<Rightarrow> 'w \<Rightarrow> string list \<times> 'w"
  k_get_run :: "string \<Rightarrow> string \<Rightarrow> 'w \<Rightarrow> (api_error + chaos_run) \<times> 'w"
  k_list_runs :: "string \<Rightarrow> 'w \<Rightarrow> (api_error + chaos_run list) \<times> 'w"
  k_status_patch :: "chaos_run \<Rightarrow> chaos_run \<Rightarrow> 'w \<Rightarrow> (api_error + chaos_run) \<times> 'w"
  k_patch :: "chaos_run \<Rightarrow> chaos_run \<Rightarrow> 'w \<Rightarrow> (api_error + chaos_run) \<times> 'w"
  k_list_pods :: "string \<Rightarrow> 'w \<Rightarrow> (api_error + pod list) \<times> 'w"
  k_list_pods_matching :: "string \<Rightarrow> label_selector \<Rightarrow> 'w \<Rightarrow> (api_error + pod list) \<times> 'w"
  k_get_pod :: "string \<Rightarrow> string \<Rightarrow> 'w \<Rightarrow> (api_error + pod) \<times> 'w"
  k_delete_pod :: "string \<Rightarrow> string \<Rightarrow> int option \<Rightarrow> 'w \<Rightarrow> api_error option \<times> 'w"
  k_get_flink_deployment :: "string \<Rightarrow> string \<Rightarrow> 'w \<Rightarrow> (api_error + flink_deployment) \<times> 'w"
  k_create_policy :: "network_policy \<Rightarrow> 'w \<Rightarrow> api_error option \<times> 'w"
  k_list_policies :: "string \<Rightarrow> string_map \<Rightarrow> 'w \<Rightarrow> (api_error + network_policy list) \<times> 'w"
  k_delete_policy :: "string \<Rightarrow> string \<Rightarrow> 'w \<Rightarrow> api_error option \<times> 'w"
  k_update_ephemeral :: "string \<Rightarrow> string \<Rightarrow> pod \<Rightarrow> 'w \<Rightarrow> api_error option \<times> 'w"
  k_selector_error :: "label_selector \<Rightarrow> string option"
  k_set_condition :: "condition list \<Rightarrow> condition \<Rightarrow> condition list"
  k_contains_finalizer :: "string list \<Rightarrow> string \<Rightarrow> bool"
  k_add_finalizer :: "string list \<Rightarrow> string \<Rightarrow> string list"
  k_remove_finalizer :: "string list \<Rightarrow> string \<Rightarrow> string list"

subsection \<open>The call log\<close>

datatype call =
    StatusPatch chaos_run bool
  | ObjectPatch chaos_run bool
  | DeletePod string string "int option" bool
  | CreatePolicy network_policy bool
  | DeletePolicy string string bool
  | UpdateEphemeral string string "eph_container list" bool
  | Event string string string
  | RunsTotalInc string string string
  | RunDurationObserve string string int
  | InjectionsTotalInc string
  | AbortRequestsInc
  | RecoveryObservedInc

text \<open>The calls that change the workload under test.\<close>

fun disruptive :: "call \<Rightarrow> bool" where
  "disruptive (DeletePod _ _ _ _) = True"
| "disruptive (CreatePolicy _ _) = True"
| "disruptive (UpdateEphemeral _ _ _ _) = True"
| "disruptive _ = False"

fun is_write_of_run :: "call \<Rightarrow> bool" where
  "is_write_of_run (StatusPatch _ _) = True"
| "is_write_of_run (ObjectPatch _ _) = True"
| "is_write_of_run _ = False"

text \<open>The metric a call updates: its name in the registry and the values of its labels.\<close>

fun metric_of :: "call \<Rightarrow> (string \<times> string list) option" where
  "metric_of (RunsTotalInc scenario phase verdict) = Some (''fchaos_runs_total'', [scenario, phase, verdict])"
| "metric_of (RunDurationObserve scenario verdict _) = Some (''fchaos_run_duration_seconds'', [scenario, verdict])"
| "metric_of (InjectionsTotalInc scenario) = Some (''fchaos_injections_total'', [scenario])"
| "metric_of AbortRequestsInc = Some (''fchaos_abort_requests_total'', [])"
| "metric_of RecoveryObservedInc = Some (''fchaos_recovery_observed_total'', [])"
| "metric_of _ = None"

lemma disruptive_no_metric: "disruptive c \<Longrightarrow> metric_of c = None"
  by (cases c) simp_all

record 'w sys =
  ext :: 'w
  calls :: "call list"

definition no_error :: "'e option \<Rightarrow> bool" where
  "no_error r \<longleftrightarrow> r = None"

definition succeeded :: "'e + 'a \<Rightarrow> bool" where
  "succeeded r \<longleftrightarrow> (\<exists>x. r = Inr x)"

lemma succeeded_simps [simp]: "succeeded (Inr x)" "\<not> succeeded (Inl e)"
  by (simp_all add: succeeded_def)

lemma succeeded_code [code]:
  "succeeded (Inr x) = True" "succeeded (Inl e) = False"
  by simp_all

lemma no_error_simps [simp]: "no_error None" "\<not> no_error (Some e)"
  by (simp_all add: no_error_def)

text \<open>A read runs on the world only; a write is recorded with its outcome.\<close>

definition read_ext :: "('w \<Rightarrow> 'a \<times> 'w) \<Rightarrow> 'w sys \<Rightarrow> 'a \<times> 'w sys" where
  "read_ext f s = (case f (ext s) of (a, w) \<Rightarrow> (a, s\<lparr>ext := w\<rparr>))"

definition write_ext :: "('w \<Rightarrow> 'a \<times> 'w) \<Rightarrow> ('a \<Rightarrow> call) \<Rightarrow> 'w sys \<Rightarrow> 'a \<times> 'w sys" where
  "write_ext f c s = (case f (ext s) of (a, w) \<Rightarrow> (a, s\<lparr>ext := w, calls := calls s @ [c a]\<rparr>))"

definition emit :: "call \<Rightarrow> 'w sys \<Rightarrow> 'w sys" where
  "emit c s = s\<lparr>calls := calls s @ [c]\<rparr>"

definition now :: "'w kube \<Rightarrow> 'w sys \<Rightarrow> int \<times> 'w sys" where
  "now k = read_ext (k_now k)"

definition get_pod :: "'w kube \<Rightarrow> string \<Rightarrow> string \<Rightarrow> 'w sys \<Rightarrow> (api_error + pod) \<times> 'w sys" where
  "get_pod k ns n = read_ext (k_get_pod k ns n)"

definition delete_pod :: "'w kube \<Rightarrow> string \<Rightarrow> string \<Rightarrow> int option \<Rightarrow> 'w sys \<Rightarrow> api_error option \<times> 'w sys" where
  "delete_pod k ns n g = write_ext (k_delete_pod k ns n g) (\<lambda>r. DeletePod ns n g (no_error r))"

definition create_policy :: "'w kube \<Rightarrow> network_policy \<Rightarrow> 'w sys \<Rightarrow> api_error option \<times> 'w sys" where
  "create_policy k np = write_ext (k_create_policy k np) (\<lambda>r. CreatePolicy np (no_error r))"

definition delete_policy :: "'w kube \<Rightarrow> string \<Rightarrow> string \<Rightarrow> 'w sys \<Rightarrow> api_error option \<times> 'w sys" where
  "delete_policy k ns n = write_ext (k_delete_policy k ns n) (\<lambda>r. DeletePolicy ns n (no_error r))"

definition update_ephemeral :: "'w kube \<Rightarrow> string \<Rightarrow> string \<Rightarrow> pod \<Rightarrow> 'w sys \<Rightarrow> api_error option \<times> 'w sys" where
  "update_ephemeral k ns n p =
     write_ext (k_update_ephemeral k ns n p) (\<lambda>r. UpdateEphemeral ns n (p_ephContainers p) (no_error r))"

definition status_patch :: "'w kube \<Rightarrow> chaos_run \<Rightarrow> chaos_run \<Rightarrow> 'w sys \<Rightarrow> (api_error + chaos_run) \<times> 'w sys" where
  "status_patch k base run = write_ext (k_status_patch k base run) (\<lambda>r. StatusPatch run (succeeded r))"

definition object_patch :: "'w kube \<Rightarrow> chaos_run \<Rightarrow> chaos_run \<Rightarrow> 'w sys \<Rightarrow> (api_error + chaos_run) \<times> 'w sys" where
  "object_patch k base run = write_ext (k_patch k base run) (\<lambda>r. ObjectPatch run (succeeded r))"

definition event :: "string \<Rightarrow> string \<Rightarrow> string \<Rightarrow> 'w sys \<Rightarrow> 'w sys" where
  "event ty reason msg = emit (Event ty reason msg)"

subsection \<open>What a computation adds to the log\<close>

definition emits :: "(call \<Rightarrow> bool) \<Rightarrow> 'w sys \<Rightarrow> 'w sys \<Rightarrow> bool" where
  "emits P s s' \<longleftrightarrow> (\<exists>cs. calls s' = calls s @ cs \<and> (\<forall>c \<in> set cs. P c))"

abbreviation silent :: "'w sys \<Rightarrow> 'w sys \<Rightarrow> bool" where
  "silent s s' \<equiv> calls s' = calls s"

lemma emits_refl [simp, intro]: "emits P s s"
  by (simp add: emits_def)

lemma emits_silent: "silent s s' \<Longrightarrow> emits P s s'"
  by (simp add: emits_def)

lemma emits_trans [trans]: "emits P s t \<Longrightarrow> emits P t u \<Longrightarrow> emits P s u"
proof -
  assume "emits P s t" and "emits P t u"
  then obtain cs ds where "calls t = calls s @ cs" "\<forall>c \<in> set cs. P c"
    "calls u = calls t @ ds" "\<forall>c \<in> set ds. P c"
    by (auto simp: emits_def)
  then show "emits P s u"
    unfolding emits_def by (intro exI [of _ "cs @ ds"]) auto
qed

lemma emits_mono: "emits P s t \<Longrightarrow> (\<And>c. P c \<Longrightarrow> Q c) \<Longrightarrow> emits Q s t"
  by (auto simp: emits_def)

lemma emits_then_silent: "emits P s t \<Longrightarrow> silent t u \<Longrightarrow> emits P s u"
  by (auto simp: emits_def)

lemma silent_then_emits: "silent s t \<Longrightarrow> emits P t u \<Longrightarrow> emits P s u"
  by (auto simp: emits_def)

lemma emits_emit: "emits P s t \<Longrightarrow> P c \<Longrightarrow> emits P s (emit c t)"
  by (auto simp: emits_def emit_def)

lemma emits_new: "emits P s t \<Longrightarrow> c \<in> set (calls t) \<Longrightarrow> c \<notin> set (calls s) \<Longrightarrow> P c"
  by (auto simp: emits_def)

lemma emits_None: "emits (\<lambda>_. False) s t \<Longrightarrow> silent s t"
  by (auto simp: emits_def)

lemma calls_emit [simp, call_log]: "calls (emit c s) = calls s @ [c]"
  by (simp add: emit_def)

lemma calls_event [simp, call_log]: "calls (event a b c s) = calls s @ [Event a b c]"
  by (simp add: event_def)

lemma read_ext_silent: "read_ext f s = (a, s') \<Longrightarrow> silent s s'"
  by (auto simp: read_ext_def split: prod.splits)

lemma write_ext_calls: "write_ext f c s = (a, s') \<Longrightarrow> calls s' = calls s @ [c a]"
  by (auto simp: write_ext_def split: prod.splits)

lemma now_silent [call_log]: "now k s = (t, s') \<Longrightarrow> silent s s'"
  by (simp add: now_def read_ext_silent)

lemma get_pod_silent [call_log]: "get_pod k ns n s = (r, s') \<Longrightarrow> silent s s'"
  by (simp add: get_pod_def read_ext_silent)

lemma delete_pod_calls [call_log]:
  "delete_pod k ns n g s = (r, s') \<Longrightarrow> calls s' = calls s @ [DeletePod ns n g (no_error r)]"
  by (simp add: delete_pod_def write_ext_calls)

lemma create_policy_calls [call_log]:
  "create_policy k np s = (r, s') \<Longrightarrow> calls s' = calls s @ [CreatePolicy np (no_error r)]"
  by (simp add: create_policy_def write_ext_calls)

lemma delete_policy_calls [call_log]:
  "delete_policy k ns n s = (r, s') \<Longrightarrow> calls s' = calls s @ [DeletePolicy ns n (no_error r)]"
  by (simp add: delete_policy_def write_ext_calls)

lemma update_ephemeral_calls [call_log]:
  "update_ephemeral k ns n p s = (r, s') \<Longrightarrow>
   calls s' = calls s @ [UpdateEphemeral ns n (p_ephContainers p) (no_error r)]"
  by (simp add: update_ephemeral_def write_ext_calls)

lemma status_patch_calls [call_log]:
  "status_patch k b r s = (x, s') \<Longrightarrow> calls s' = calls s @ [StatusPatch r (succeeded x)]"
  by (simp add: status_patch_def write_ext_calls)

lemma object_patch_calls [call_log]:
  "object_patch k b r s = (x, s') \<Longrightarrow> calls s' = calls s @ [ObjectPatch r (succeeded x)]"
  by (simp add: object_patch_def write_ext_calls)

end
