(* ===== verification/Phases.thy ===== *)
theory Phases
  imports Kube
begin

section \<open>Phase helpers\<close>

text \<open>
  \<^verbatim>\<open>internal/controller/phases.go\<close>: the terminal phases, the condition setter and the four
  functions that move a run to another phase. \<^verbatim>\<open>meta.SetStatusCondition\<close> is the library's,
  a field of the client record.
\<close>

definition is_terminal :: "run_phase \<Rightarrow> bool" where
  "is_terminal p = (case p of Completed \<Rightarrow> True | Aborted \<Rightarrow> True | Failed \<Rightarrow> True | _ \<Rightarrow> False)"

definition set_condition ::
  "'w kube \<Rightarrow> chaos_run \<Rightarrow> cond_type \<Rightarrow> cond_status \<Rightarrow> string \<Rightarrow> string \<Rightarrow> 'w sys \<Rightarrow> chaos_run \<times> 'w sys" where
  "set_condition k run ct st reason msg s =
     (case now k s of (t, s1) \<Rightarrow>
        (upd_status (st_conditions_update (\<lambda>cs. k_set_condition k cs
           \<lparr>c_type = ct, c_status = st, c_reason = reason, c_message = msg, c_time = t\<rparr>)) run, s1))"

definition transition_phase :: "chaos_run \<Rightarrow> run_phase \<Rightarrow> string \<Rightarrow> chaos_run" where
  "transition_phase run p msg = upd_status (\<lambda>st. st\<lparr>st_phase := p, st_message := msg\<rparr>) run"

definition finalize_run :: "'w kube \<Rightarrow> chaos_run \<Rightarrow> run_verdict \<Rightarrow> string \<Rightarrow> 'w sys \<Rightarrow> chaos_run \<times> 'w sys" where
  "finalize_run k run v msg s =
     (case now k s of (t, s1) \<Rightarrow>
        (upd_status (\<lambda>st. st\<lparr>st_phase := Completed, st_verdict := v, st_endedAt := Some t,
           st_message := msg\<rparr>) run, s1))"

definition fail_run :: "'w kube \<Rightarrow> chaos_run \<Rightarrow> string \<Rightarrow> 'w sys \<Rightarrow> chaos_run \<times> 'w sys" where
  "fail_run k run msg s =
     (case now k s of (t, s1) \<Rightarrow>
        (upd_status (\<lambda>st. st\<lparr>st_phase := Failed, st_verdict := VFailed, st_endedAt := Some t,
           st_message := msg\<rparr>) run, s1))"

definition abort_run :: "'w kube \<Rightarrow> chaos_run \<Rightarrow> string \<Rightarrow> 'w sys \<Rightarrow> chaos_run \<times> 'w sys" where
  "abort_run k run msg s =
     (case now k s of (t, s1) \<Rightarrow>
        (upd_status (\<lambda>st. st\<lparr>st_phase := Aborted, st_verdict := VInconclusive, st_endedAt := Some t,
           st_message := msg\<rparr>) run, s1))"

lemmas phase_helper_defs = set_condition_def finalize_run_def fail_run_def abort_run_def

text \<open>The helpers read the clock only, and each leaves everything but its own fields alone.\<close>

lemma set_condition_silent [call_log]: "set_condition k r ct st a b s = (r', s') \<Longrightarrow> silent s s'"
  by (auto simp: set_condition_def split: prod.splits dest: now_silent)

lemma finalize_run_silent [call_log]: "finalize_run k r v m s = (r', s') \<Longrightarrow> silent s s'"
  by (auto simp: finalize_run_def split: prod.splits dest: now_silent)

lemma fail_run_silent [call_log]: "fail_run k r m s = (r', s') \<Longrightarrow> silent s s'"
  by (auto simp: fail_run_def split: prod.splits dest: now_silent)

lemma abort_run_silent [call_log]: "abort_run k r m s = (r', s') \<Longrightarrow> silent s s'"
  by (auto simp: abort_run_def split: prod.splits dest: now_silent)

text \<open>What a helper keeps: identity, spec and the fields that record what has been injected.\<close>

definition same_object :: "chaos_run \<Rightarrow> chaos_run \<Rightarrow> bool" where
  "same_object r r' \<longleftrightarrow>
     cr_name r' = cr_name r \<and> cr_namespace r' = cr_namespace r \<and>
     cr_deletionTimestamp r' = cr_deletionTimestamp r \<and> cr_finalizers r' = cr_finalizers r \<and>
     cr_spec r' = cr_spec r"

lemma same_object_refl [simp, intro]: "same_object r r"
  by (simp add: same_object_def)

lemma same_object_trans [trans]: "same_object r s \<Longrightarrow> same_object s t \<Longrightarrow> same_object r t"
  by (simp add: same_object_def)

lemma same_object_upd_status [simp]: "same_object r (upd_status f r')= same_object r r'"
  by (simp add: same_object_def)

lemma set_condition_keeps:
  "set_condition k r ct st a b s = (r', s') \<Longrightarrow>
   same_object r r' \<and> st_conditions_update (\<lambda>_. []) (cr_status r') = st_conditions_update (\<lambda>_. []) (cr_status r)"
  by (auto simp: set_condition_def same_object_def split: prod.splits)

lemma set_condition_phase [simp]:
  "set_condition k r ct st a b s = (r', s') \<Longrightarrow> phase_of r' = phase_of r"
  by (auto simp: set_condition_def split: prod.splits)

lemma transition_phase_phase [simp]: "phase_of (transition_phase r p m) = p"
  by (simp add: transition_phase_def)

lemma finalize_run_phase: "finalize_run k r v m s = (r', s') \<Longrightarrow> phase_of r' = Completed"
  by (auto simp: finalize_run_def split: prod.splits)

lemma fail_run_phase: "fail_run k r m s = (r', s') \<Longrightarrow> phase_of r' = Failed"
  by (auto simp: fail_run_def split: prod.splits)

lemma abort_run_phase: "abort_run k r m s = (r', s') \<Longrightarrow> phase_of r' = Aborted"
  by (auto simp: abort_run_def split: prod.splits)

text \<open>
  The invariant of a finished run: a terminal phase comes with an end time and a verdict, and
  \<^verbatim>\<open>Aborted\<close> and \<^verbatim>\<open>Failed\<close> have the one verdict their helper writes.
\<close>

definition ended_well :: "chaos_run_status \<Rightarrow> bool" where
  "ended_well st \<longleftrightarrow>
     (is_terminal (st_phase st) \<longrightarrow> st_endedAt st \<noteq> None \<and> st_verdict st \<noteq> NoVerdict) \<and>
     (st_phase st = Failed \<longrightarrow> st_verdict st = VFailed) \<and>
     (st_phase st = Aborted \<longrightarrow> st_verdict st = VInconclusive)"

lemma fail_run_ended_well: "fail_run k r m s = (r', s') \<Longrightarrow> ended_well (cr_status r')"
  by (auto simp: fail_run_def ended_well_def split: prod.splits)

lemma abort_run_ended_well: "abort_run k r m s = (r', s') \<Longrightarrow> ended_well (cr_status r')"
  by (auto simp: abort_run_def ended_well_def split: prod.splits)

lemma finalize_run_ended_well:
  "finalize_run k r v m s = (r', s') \<Longrightarrow> v \<noteq> NoVerdict \<Longrightarrow> ended_well (cr_status r')"
  by (auto simp: finalize_run_def ended_well_def split: prod.splits)

lemma set_condition_ended_well:
  "set_condition k r ct st a b s = (r', s') \<Longrightarrow> ended_well (cr_status r) \<Longrightarrow> ended_well (cr_status r')"
  unfolding set_condition_def by (cases "now k s") (simp add: ended_well_def, elim conjE, hypsubst, simp)

lemma transition_phase_ended_well: "\<not> is_terminal p \<Longrightarrow> ended_well (cr_status (transition_phase r p m))"
  by (auto simp: transition_phase_def ended_well_def is_terminal_def)

end
