(* ===== verification/Interfaces.thy ===== *)
theory Interfaces
  imports Phases
begin

section \<open>The pluggable contracts\<close>

text \<open>
  \<^verbatim>\<open>internal/interfaces/interfaces.go\<close>: the data that crosses the interfaces, the errors each
  side returns, and one locale per Go interface. A locale states what the reconciler relies on;
  the theory of every implementation interprets it.
\<close>

subsection \<open>Data\<close>

record resolved_target =
  rt_platform :: string
  rt_namespace :: string
  rt_logicalName :: string
  rt_tmPods :: "string list"
  rt_jmPods :: "string list"
  rt_sharedCluster :: bool

record injection_result =
  ir_selected :: "string list"
  ir_injected :: "string list"

record observation_result =
  or_replacementObserved :: bool
  or_allReady :: bool
  or_tmCountBefore :: int
  or_tmCountAfter :: int
  or_flinkJobState :: string
  or_checkpointStatus :: string

definition empty_result :: observation_result where
  "empty_result = \<lparr>or_replacementObserved = False, or_allReady = False, or_tmCountBefore = 0,
     or_tmCountAfter = 0, or_flinkJobState = '''', or_checkpointStatus = ''''\<rparr>"

subsection \<open>Errors\<close>

datatype resolve_error =
    UnsupportedTargetType target_type
  | WrongTargetType target_type target_type
  | SelectorMissing
  | SelectorInvalid string
  | ListingPods string api_error
  | NoPodsMatched string
  | DeploymentNotFound string string
  | DeploymentFetch string string api_error
  | NoTaskManagers target_type string
  | IdOrNameMissing

primrec resolve_error_text :: "resolve_error \<Rightarrow> string" where
  "resolve_error_text (UnsupportedTargetType t) =
     ''unsupported target type '' @ fmt_q (string_of_target_type t)"
| "resolve_error_text (WrongTargetType w g) =
     ''resolver: expected target type '' @ fmt_q (string_of_target_type w) @ '', got '' @
     fmt_q (string_of_target_type g)"
| "resolve_error_text SelectorMissing = ''PodSelector target requires spec.target.selector''"
| "resolve_error_text (SelectorInvalid e) = ''resolver: converting label selector: '' @ e"
| "resolve_error_text (ListingPods ns e) =
     ''resolver: listing pods in namespace '' @ fmt_q ns @ '': '' @ api_error_text e"
| "resolve_error_text (NoPodsMatched ns) = ''no pods matched selector in namespace '' @ fmt_q ns"
| "resolve_error_text (DeploymentNotFound n ns) =
     ''FlinkDeployment '' @ fmt_q n @ '' not found in namespace '' @ fmt_q ns"
| "resolve_error_text (DeploymentFetch n ns e) =
     ''fetching FlinkDeployment '' @ fmt_q n @ '' in namespace '' @ fmt_q ns @ '': '' @ api_error_text e"
| "resolve_error_text (NoTaskManagers t n) =
     ''no TaskManager pods found for '' @ string_of_target_type t @ '' '' @ fmt_q n"
| "resolve_error_text IdOrNameMissing =
     ''resolver: VervericaDeployment target requires at least one of DeploymentID or DeploymentName''"

datatype driver_error =
    NilTarget
  | UnsupportedScenario scenario_type
  | WrongScenario scenario_type scenario_type
  | UnknownPods "string list"
  | DeletingPod string api_error
  | PartitionSpecRequired
  | ChaosSpecRequired
  | ExhaustionSpecRequired
  | PeerCidrRequired network_target
  | UnsupportedNetTarget network_target
  | CreatingPolicy string api_error
  | ListingPolicies string api_error
  | DeletingPolicy string api_error
  | FetchingPod string api_error
  | InjectingContainer string api_error
  | FetchingPodInCleanup string api_error

primrec driver_error_text :: "driver_error \<Rightarrow> string" where
  "driver_error_text NilTarget = ''target is nil''"
| "driver_error_text (UnsupportedScenario s) = ''unsupported scenario type '' @ fmt_q (string_of_scenario s)"
| "driver_error_text (WrongScenario w g) =
     ''driver supports '' @ fmt_q (string_of_scenario w) @ '' scenario only, got '' @
     fmt_q (string_of_scenario g)"
| "driver_error_text (UnknownPods ps) = ''pod names not found in target: '' @ join '', '' ps"
| "driver_error_text (DeletingPod p e) = ''deleting pod '' @ fmt_q p @ '': '' @ api_error_text e"
| "driver_error_text PartitionSpecRequired = ''network spec is required for NetworkPartition scenario''"
| "driver_error_text ChaosSpecRequired =
     ''network spec is required for '' @ fmt_q ''NetworkChaos'' @ '' scenario''"
| "driver_error_text ExhaustionSpecRequired =
     ''resourceExhaustion spec is required for '' @ fmt_q ''ResourceExhaustion'' @ '' scenario''"
| "driver_error_text (PeerCidrRequired t) =
     ''network target '' @ fmt_q (string_of_net_target t) @ '' requires ExternalEndpoint.CIDR to be set''"
| "driver_error_text (UnsupportedNetTarget t) =
     ''unsupported network target '' @ fmt_q (string_of_net_target t)"
| "driver_error_text (CreatingPolicy n e) = ''creating NetworkPolicy '' @ fmt_q n @ '': '' @ api_error_text e"
| "driver_error_text (ListingPolicies r e) =
     ''listing NetworkPolicies for run '' @ fmt_q r @ '': '' @ api_error_text e"
| "driver_error_text (DeletingPolicy n e) = ''deleting NetworkPolicy '' @ fmt_q n @ '': '' @ api_error_text e"
| "driver_error_text (FetchingPod p e) = ''fetching pod '' @ p @ '': '' @ api_error_text e"
| "driver_error_text (InjectingContainer p e) =
     ''injecting ephemeral container into '' @ p @ '': '' @ api_error_text e"
| "driver_error_text (FetchingPodInCleanup p e) =
     ''fetching pod '' @ p @ '' during cleanup: '' @ api_error_text e"

text \<open>
  What a Go \<^verbatim>\<open>(*InjectionResult, error)\<close> can be, and a panic of the code that builds the
  injection. A failing driver may return the part it has done.
\<close>

datatype driver_result =
    DriverPanic string
  | DriverError driver_error "injection_result option"
  | DriverOk injection_result

datatype observe_error =
    PodReadiness string api_error
  | FlinkJobsQuery string
  | FlinkTaskManagersQuery string

subsection \<open>TargetResolver\<close>

locale target_resolver =
  fixes resolve :: "chaos_run \<Rightarrow> 'w sys \<Rightarrow> (resolve_error + resolved_target) \<times> 'w sys"
  assumes resolve_silent: "resolve run s = (r, s') \<Longrightarrow> silent s s'"
    and resolve_namespace: "resolve run s = (Inr t, s') \<Longrightarrow> rt_namespace t = cr_namespace run"
    and resolve_finds: "resolve run s = (Inr t, s') \<Longrightarrow> rt_tmPods t \<noteq> [] \<or> rt_jmPods t \<noteq> []"

subsection \<open>SafetyChecker\<close>

datatype safety_error =
    DeniedNamespace string
  | SharedClusterTarget string
  | TooFewTaskManagers int nat int int
  | ListingRuns string api_error
  | TooManyActiveRuns nat string int
  | NetworkDurationOverCap int int
  | CheckpointStorageTarget
  | FullMeshPartition
  | ExhaustionDurationOverCap int int

locale safety_check =
  fixes check :: "chaos_run \<Rightarrow> resolved_target \<Rightarrow> 'w sys \<Rightarrow> safety_error option \<times> 'w sys"
  assumes check_silent: "check run t s = (r, s') \<Longrightarrow> silent s s'"

subsection \<open>ScenarioDriver and CleanableScenarioDriver\<close>

text \<open>The status fields a driver may write: the selection and the records of what it injected.\<close>

definition driver_frame :: "chaos_run \<Rightarrow> chaos_run \<Rightarrow> bool" where
  "driver_frame r r' \<longleftrightarrow> same_object r r' \<and>
     (\<exists>sel nps tcs sts. cr_status r' = (cr_status r)\<lparr>st_selectedPods := sel, st_networkPolicies := nps,
        st_tcInjections := tcs, st_stressInjections := sts\<rparr>)"

lemma driver_frame_refl [simp, intro]: "driver_frame r r"
  by (simp add: driver_frame_def) (metis chaos_run_status.surjective chaos_run_status.update_convs(7,12,13,14))

lemma driver_frame_phase: "driver_frame r r' \<Longrightarrow> phase_of r' = phase_of r"
  by (auto simp: driver_frame_def)

lemma driver_frame_spec: "driver_frame r r' \<Longrightarrow> cr_spec r' = cr_spec r"
  by (simp add: driver_frame_def same_object_def)

lemma driver_frame_trans: "driver_frame r s \<Longrightarrow> driver_frame s t \<Longrightarrow> driver_frame r t"
  unfolding driver_frame_def by (auto intro: same_object_trans) blast

text \<open>What is still to be removed: policies by name and containers not yet marked clean.\<close>

definition leftovers :: "chaos_run_status \<Rightarrow> nat" where
  "leftovers st =
     length (st_networkPolicies st) +
     length (filter (\<lambda>r. \<not> er_cleanedUp r) (st_tcInjections st)) +
     length (filter (\<lambda>r. \<not> er_cleanedUp r) (st_stressInjections st))"

locale scenario_driver =
  fixes inject :: "chaos_run \<Rightarrow> resolved_target \<Rightarrow> 'w sys \<Rightarrow> driver_result \<times> chaos_run \<times> 'w sys"
    and own :: "call \<Rightarrow> bool"
  assumes own_disruptive: "own c \<Longrightarrow> disruptive c"
    and inject_emits: "inject run t s = (r, run', s') \<Longrightarrow> emits own s s'"
    and inject_frame: "inject run t s = (r, run', s') \<Longrightarrow> driver_frame run run'"

locale cleanable_driver = scenario_driver inject own
  for inject :: "chaos_run \<Rightarrow> resolved_target \<Rightarrow> 'w sys \<Rightarrow> driver_result \<times> chaos_run \<times> 'w sys"
    and own :: "call \<Rightarrow> bool" +
  fixes cleanup :: "chaos_run \<Rightarrow> 'w sys \<Rightarrow> driver_error option \<times> chaos_run \<times> 'w sys"
    and undo :: "call \<Rightarrow> bool"
  assumes undo_harmless: "undo c \<Longrightarrow> \<not> disruptive c \<and> \<not> is_write_of_run c \<and> metric_of c = None"
    and cleanup_emits: "cleanup run s = (e, run', s') \<Longrightarrow> emits undo s s'"
    and cleanup_frame: "cleanup run s = (e, run', s') \<Longrightarrow> driver_frame run run'"
    and cleanup_shrinks: "cleanup run s = (e, run', s') \<Longrightarrow> leftovers (cr_status run') \<le> leftovers (cr_status run)"

context scenario_driver begin

lemma inject_disruptive_only: "inject run t s = (r, run', s') \<Longrightarrow> emits disruptive s s'"
  by (rule emits_mono [OF inject_emits own_disruptive])

lemma inject_phase: "inject run t s = (r, run', s') \<Longrightarrow> phase_of run' = phase_of run"
  by (rule driver_frame_phase [OF inject_frame])

lemma inject_spec: "inject run t s = (r, run', s') \<Longrightarrow> cr_spec run' = cr_spec run"
  by (rule driver_frame_spec [OF inject_frame])

end

context cleanable_driver begin

lemma cleanup_harmless:
  "cleanup run s = (e, run', s') \<Longrightarrow> emits (\<lambda>c. \<not> disruptive c \<and> \<not> is_write_of_run c \<and> metric_of c = None) s s'"
  by (rule emits_mono [OF cleanup_emits undo_harmless])

lemma cleanup_phase: "cleanup run s = (e, run', s') \<Longrightarrow> phase_of run' = phase_of run"
  by (rule driver_frame_phase [OF cleanup_frame])

end

subsection \<open>Observer\<close>

locale recovery_observer =
  fixes observe :: "chaos_run \<Rightarrow> resolved_target option \<Rightarrow> 'w sys \<Rightarrow> (observe_error + observation_result) \<times> 'w sys"
  assumes observe_silent: "observe run t s = (r, s') \<Longrightarrow> silent s s'"

end
