(* ===== verification/Call_Logic.thy ===== *)
theory Call_Logic
  imports Interfaces "HOL-Library.State_Monad"
begin

section \<open>A small logic for stateful code\<close>

text \<open>
  The reconciler is written in the state monad over \<open>'w sys\<close>; \<open>State f\<close> lifts a client call or
  a helper. \<open>triple P Q m\<close> says that every call \<open>m\<close> adds to the log satisfies \<open>P\<close> and that its
  result satisfies \<open>Q\<close>. The rules follow the structure of the code, so a whole handler is
  checked by the introduction rules of the collection \<open>triple_rules\<close>.
\<close>

named_theorems triple_rules

definition triple :: "(call \<Rightarrow> bool) \<Rightarrow> ('a \<Rightarrow> bool) \<Rightarrow> ('w sys, 'a) state \<Rightarrow> bool" where
  "triple P Q m \<longleftrightarrow> (\<forall>s a s'. run_state m s = (a, s') \<longrightarrow> emits P s s' \<and> Q a)"

abbreviation logs :: "(call \<Rightarrow> bool) \<Rightarrow> ('w sys, 'a) state \<Rightarrow> bool" where
  "logs P m \<equiv> triple P (\<lambda>_. True) m"

lemma tripleD: "triple P Q m \<Longrightarrow> run_state m s = (a, s') \<Longrightarrow> emits P s s' \<and> Q a"
  by (simp add: triple_def)

lemma tripleI: "(\<And>s a s'. run_state m s = (a, s') \<Longrightarrow> emits P s s' \<and> Q a) \<Longrightarrow> triple P Q m"
  by (simp add: triple_def)

lemma triple_State:
  "(\<And>s a s'. f s = (a, s') \<Longrightarrow> emits P s s' \<and> Q a) \<Longrightarrow> triple P Q (State f)"
  by (simp add: triple_def)

lemma triple_weaken: "triple P Q m \<Longrightarrow> (\<And>c. P c \<Longrightarrow> P' c) \<Longrightarrow> (\<And>a. Q a \<Longrightarrow> Q' a) \<Longrightarrow> triple P' Q' m"
  unfolding triple_def by (blast intro: emits_mono)

lemma triple_return [triple_rules]: "Q a \<Longrightarrow> triple P Q (State_Monad.return a)"
  by (simp add: triple_def)

lemma run_state_bind:
  "run_state (State_Monad.bind m f) s = (case run_state m s of (a, s1) \<Rightarrow> run_state (f a) s1)"
  by (simp add: State_Monad.bind_def)

lemma triple_bind:
  assumes "triple P R m" and "\<And>a. R a \<Longrightarrow> triple P Q (f a)"
  shows "triple P Q (State_Monad.bind m f)"
proof (rule tripleI)
  fix s b s'
  assume run: "run_state (State_Monad.bind m f) s = (b, s')"
  obtain a s1 where m: "run_state m s = (a, s1)" by (cases "run_state m s")
  with run have f: "run_state (f a) s1 = (b, s')" by (simp add: run_state_bind)
  from tripleD [OF assms(1) m] have one: "emits P s s1" and a: "R a" by simp_all
  from tripleD [OF assms(2) [OF a] f] show "emits P s s' \<and> Q b"
    using emits_trans [OF one] by blast
qed

lemma triple_if [triple_rules]:
  "(b \<Longrightarrow> triple P Q m) \<Longrightarrow> (\<not> b \<Longrightarrow> triple P Q n) \<Longrightarrow> triple P Q (if b then m else n)"
  by simp

lemma triple_option [triple_rules]:
  "(x = None \<Longrightarrow> triple P Q m) \<Longrightarrow> (\<And>y. x = Some y \<Longrightarrow> triple P Q (f y)) \<Longrightarrow>
   triple P Q (case x of None \<Rightarrow> m | Some y \<Rightarrow> f y)"
  by (cases x) simp_all

lemma triple_sum [triple_rules]:
  "(\<And>e. x = Inl e \<Longrightarrow> triple P Q (f e)) \<Longrightarrow> (\<And>y. x = Inr y \<Longrightarrow> triple P Q (g y)) \<Longrightarrow>
   triple P Q (case x of Inl e \<Rightarrow> f e | Inr y \<Rightarrow> g y)"
  by (cases x) simp_all

lemma triple_prod [triple_rules]:
  "(\<And>a b. x = (a, b) \<Longrightarrow> triple P Q (f a b)) \<Longrightarrow> triple P Q (case x of (a, b) \<Rightarrow> f a b)"
  by (cases x) simp

subsection \<open>Lifted operations\<close>

definition read_clock :: "'w kube \<Rightarrow> ('w sys, int) state" where
  "read_clock k = State (now k)"

definition log_call :: "call \<Rightarrow> ('w sys, unit) state" where
  "log_call c = State (\<lambda>s. ((), emit c s))"

text \<open>A function on the run and the system that returns the changed run.\<close>

definition lift_run :: "(chaos_run \<Rightarrow> 'w sys \<Rightarrow> 'a \<times> chaos_run \<times> 'w sys) \<Rightarrow> chaos_run \<Rightarrow>
    ('w sys, 'a \<times> chaos_run) state" where
  "lift_run f run = State (\<lambda>s. case f run s of (a, r, s1) \<Rightarrow> ((a, r), s1))"

lemma triple_clock: "triple P (\<lambda>_. True) (read_clock k)"
  unfolding read_clock_def by (rule triple_State) (auto dest: now_silent intro: emits_silent)

lemma triple_log: "P c \<Longrightarrow> triple P (\<lambda>_. True) (log_call c)"
  unfolding log_call_def by (rule triple_State) (auto simp: emits_def emit_def)

lemmas bind_clock [triple_rules] = triple_bind [OF triple_clock]
lemmas bind_log [triple_rules] = triple_bind [OF triple_log]
lemmas last_log [triple_rules] = triple_log

lemma triple_silent:
  "(\<And>s a s'. f s = (a, s') \<Longrightarrow> silent s s') \<Longrightarrow> triple P (\<lambda>_. True) (State f)"
  by (rule triple_State) (auto intro: emits_silent)

subsection \<open>The phase helpers, lifted\<close>

definition condition_set ::
  "'w kube \<Rightarrow> cond_type \<Rightarrow> cond_status \<Rightarrow> string \<Rightarrow> string \<Rightarrow> chaos_run \<Rightarrow> ('w sys, chaos_run) state" where
  "condition_set k ct st reason msg run = State (set_condition k run ct st reason msg)"

definition failed_run :: "'w kube \<Rightarrow> string \<Rightarrow> chaos_run \<Rightarrow> ('w sys, chaos_run) state" where
  "failed_run k msg run = State (fail_run k run msg)"

definition aborted_run :: "'w kube \<Rightarrow> string \<Rightarrow> chaos_run \<Rightarrow> ('w sys, chaos_run) state" where
  "aborted_run k msg run = State (abort_run k run msg)"

definition finalized_run :: "'w kube \<Rightarrow> run_verdict \<Rightarrow> string \<Rightarrow> chaos_run \<Rightarrow> ('w sys, chaos_run) state" where
  "finalized_run k v msg run = State (finalize_run k run v msg)"

text \<open>What the code keeps true of a run it is about to patch.\<close>

definition settled :: "run_phase \<Rightarrow> chaos_run \<Rightarrow> bool" where
  "settled p run \<longleftrightarrow> phase_of run = p \<and> ended_well (cr_status run)"

lemma settled_nonterminal: "phase_of run = p \<Longrightarrow> \<not> is_terminal p \<Longrightarrow> settled p run"
  by (auto simp: settled_def ended_well_def is_terminal_def)

lemma settled_transition [simp]: "\<not> is_terminal p \<Longrightarrow> settled p (transition_phase run p msg)"
  by (simp add: settled_nonterminal)

lemma triple_condition:
  "settled p run \<Longrightarrow> triple P (settled p) (condition_set k ct st a b run)"
  unfolding condition_set_def
  by (rule triple_State)
    (auto simp: settled_def dest: set_condition_silent set_condition_ended_well intro: emits_silent)

lemma triple_failed: "triple P (settled Failed) (failed_run k msg run)"
  unfolding failed_run_def
  by (rule triple_State)
    (auto simp: settled_def fail_run_phase dest: fail_run_silent fail_run_ended_well intro: emits_silent)

lemmas bind_condition [triple_rules] = triple_bind [OF triple_condition]
lemmas bind_failed [triple_rules] = triple_bind [OF triple_failed]

lemma triple_aborted: "triple P (settled Aborted) (aborted_run k msg run)"
  unfolding aborted_run_def
  by (rule triple_State)
    (auto simp: settled_def abort_run_phase dest: abort_run_silent abort_run_ended_well intro: emits_silent)

lemma triple_finalized: "v \<noteq> NoVerdict \<Longrightarrow> triple P (settled Completed) (finalized_run k v msg run)"
  unfolding finalized_run_def
  by (rule triple_State)
    (auto simp: settled_def finalize_run_phase dest: finalize_run_silent finalize_run_ended_well intro: emits_silent)

lemmas bind_aborted [triple_rules] = triple_bind [OF triple_aborted]
lemmas bind_finalized [triple_rules] = triple_bind [OF triple_finalized]

text \<open>The binding of a pure value, as a \<^verbatim>\<open>let\<close> in the code.\<close>

lemma triple_let [triple_rules]: "(\<And>x. x = v \<Longrightarrow> triple P Q (f x)) \<Longrightarrow> triple P Q (let x = v in f x)"
  by simp

end
