(* ===== verification/Go_Net.thy ===== *)
theory Go_Net
  imports Prelude
begin

section \<open>The standard library's CIDR syntax\<close>

text \<open>
  \<^verbatim>\<open>net.ParseCIDR\<close> as the validation of the source uses it: only whether it returns an
  error. \<open>valid_cidr\<close> is the recogniser: the address before the first slash is an IPv4
  address in dotted form without leading zeros or an IPv6 address without zone, and the mask
  is a decimal number no larger than the address width. The main lemma says that an accepted
  string consists of hexadecimal digits, dots, colons and the slash only.
\<close>

definition is_digit :: "char \<Rightarrow> bool" where
  "is_digit c \<longleftrightarrow> 48 \<le> (of_char c :: nat) \<and> (of_char c :: nat) \<le> 57"

definition is_hex :: "char \<Rightarrow> bool" where
  "is_hex c \<longleftrightarrow>
     (let n = of_char c :: nat in (48 \<le> n \<and> n \<le> 57) \<or> (97 \<le> n \<and> n \<le> 102) \<or> (65 \<le> n \<and> n \<le> 70))"

definition digit_val :: "char \<Rightarrow> nat" where
  "digit_val c = of_char c - 48"

fun split_first :: "char \<Rightarrow> string \<Rightarrow> (string \<times> string) option" where
  "split_first c [] = None"
| "split_first c (x # xs) =
     (if x = c then Some ([], xs)
      else map_option (\<lambda>(a, b). (x # a, b)) (split_first c xs))"

definition decimal_value :: "string \<Rightarrow> nat" where
  "decimal_value s = fold (\<lambda>c n. n * 10 + digit_val c) s 0"

text \<open>\<^verbatim>\<open>dtoi\<close> over the whole mask.\<close>

definition parse_mask :: "string \<Rightarrow> nat option" where
  "parse_mask s = (if s \<noteq> [] \<and> list_all is_digit s then Some (decimal_value s) else None)"

text \<open>
  \<^verbatim>\<open>parseIPv4Fields\<close>: \<open>pos\<close> counts the finished octets, \<open>v\<close> and \<open>n\<close> are the value and the
  number of digits of the current one, \<open>prev\<close> is the byte before.
\<close>

fun ipv4_fields :: "nat \<Rightarrow> nat \<Rightarrow> nat \<Rightarrow> char option \<Rightarrow> string \<Rightarrow> bool" where
  "ipv4_fields pos v n prev [] = (3 \<le> pos)"
| "ipv4_fields pos v n prev (c # cs) =
     (if is_digit c then
        (if n = 1 \<and> v = 0 then False
         else if 255 < v * 10 + digit_val c then False
         else ipv4_fields pos (v * 10 + digit_val c) (n + 1) (Some c) cs)
      else if c = CHR ''.'' then
        (if prev = None \<or> cs = [] \<or> prev = Some (CHR ''.'') then False
         else if pos = 3 then False
         else ipv4_fields (pos + 1) 0 0 (Some c) cs)
      else False)"

definition ipv4_ok :: "string \<Rightarrow> bool" where
  "ipv4_ok s = ipv4_fields 0 0 0 None s"

text \<open>
  \<^verbatim>\<open>parseIPv6\<close>: \<open>i\<close> is the position in the 16 bytes, \<open>ell\<close> says whether the ellipsis has been
  seen. \<open>ipv6_end\<close> is the code after the loop.
\<close>

definition ipv6_end :: "nat \<Rightarrow> bool \<Rightarrow> string \<Rightarrow> bool" where
  "ipv6_end i ell s = (if s \<noteq> [] then False else if i < 16 then ell else \<not> ell)"

function ipv6_loop :: "nat \<Rightarrow> bool \<Rightarrow> string \<Rightarrow> bool" where
  "ipv6_loop i ell s =
     (if \<not> i < 16 then ipv6_end i ell s
      else
        let g = takeWhile is_hex s; rest = dropWhile is_hex s in
        if g = [] \<or> 4 < length g then False
        else case rest of
          [] \<Rightarrow> ipv6_end (i + 2) ell []
        | c # s1 \<Rightarrow>
            if c = CHR ''.'' then
              (\<not> (\<not> ell \<and> i \<noteq> 12)) \<and> i + 4 \<le> 16 \<and> ipv4_ok s \<and> ipv6_end (i + 4) ell []
            else if c \<noteq> CHR '':'' then False
            else case s1 of
              [] \<Rightarrow> False
            | c2 # s2 \<Rightarrow>
                if c2 = CHR '':'' then
                  (if ell then False
                   else if s2 = [] then ipv6_end (i + 2) True []
                   else ipv6_loop (i + 2) True s2)
                else ipv6_loop (i + 2) ell s1)"
  by pat_completeness auto
termination
  by (relation "measure (\<lambda>(i, ell, s). 16 - i)") auto

declare ipv6_loop.simps [simp del]

definition ipv6_ok :: "string \<Rightarrow> bool" where
  "ipv6_ok s =
     (if has_prefix s ''::'' then (if drop 2 s = [] then True else ipv6_loop 0 True (drop 2 s))
      else ipv6_loop 0 False s)"

text \<open>\<^verbatim>\<open>netip.ParseAddr\<close> looks for the first of dot, colon and percent; the result is the width.\<close>

definition addr_width :: "string \<Rightarrow> nat option" where
  "addr_width s =
     (case dropWhile (\<lambda>c. c \<noteq> CHR ''.'' \<and> c \<noteq> CHR '':'' \<and> c \<noteq> CHR ''%'') s of
        [] \<Rightarrow> None
      | c # _ \<Rightarrow>
          if c = CHR ''.'' then (if ipv4_ok s then Some 32 else None)
          else if c = CHR '':'' then (if ipv6_ok s then Some 128 else None)
          else None)"

definition valid_cidr :: "string \<Rightarrow> bool" where
  "valid_cidr s =
     (case split_first (CHR ''/'') s of
        None \<Rightarrow> False
      | Some (addr, bits) \<Rightarrow>
          (case (addr_width addr, parse_mask bits) of
             (Some w, Some n) \<Rightarrow> n \<le> w
           | _ \<Rightarrow> False))"

subsection \<open>The characters of an accepted CIDR\<close>

definition cidr_char :: "char \<Rightarrow> bool" where
  "cidr_char c \<longleftrightarrow> is_hex c \<or> c = CHR ''.'' \<or> c = CHR '':'' \<or> c = CHR ''/''"

lemma is_digit_cidr: "is_digit c \<Longrightarrow> cidr_char c"
  by (simp add: cidr_char_def is_hex_def is_digit_def Let_def)

lemma split_first_Some: "split_first c s = Some (a, b) \<Longrightarrow> s = a @ c # b"
  by (induction s arbitrary: a b) (auto split: if_splits)

lemma ipv4_fields_chars: "ipv4_fields pos v n prev s \<Longrightarrow> list_all cidr_char s"
proof (induction pos v n prev s rule: ipv4_fields.induct)
  case (2 pos v n prev c cs)
  then show ?case
    by (auto split: if_splits simp: is_digit_cidr) (simp_all add: cidr_char_def)
qed simp

lemma ipv4_ok_chars: "ipv4_ok s \<Longrightarrow> list_all cidr_char s"
  by (simp add: ipv4_ok_def ipv4_fields_chars)

lemma takeWhile_hex_chars: "list_all cidr_char (takeWhile is_hex s)"
  by (auto simp: list_all_iff cidr_char_def dest: set_takeWhileD)

lemma hex_prefix_chars: "list_all cidr_char (dropWhile is_hex s) \<Longrightarrow> list_all cidr_char s"
  using takeWhile_hex_chars [of s] takeWhile_dropWhile_id [of is_hex s]
  by (metis list_all_append)

lemma ipv6_loop_chars: "ipv6_loop i ell s \<Longrightarrow> list_all cidr_char s"
proof (induction i ell s rule: ipv6_loop.induct)
  case (1 i ell s)
  note unfolded = 1(3) [unfolded ipv6_loop.simps [of i ell s], simplified Let_def]
  show ?case
  proof (cases "i < 16")
    case False
    with unfolded show ?thesis by (simp add: ipv6_end_def split: if_splits)
  next
    case i: True
    show ?thesis
    proof (cases "dropWhile is_hex s")
      case Nil
      have "list_all cidr_char (dropWhile is_hex s)" unfolding Nil by simp
      then show ?thesis by (rule hex_prefix_chars)
    next
      case (Cons c s1)
      have g: "\<not> (takeWhile is_hex s = [] \<or> 4 < length (takeWhile is_hex s))"
        using unfolded i by (auto split: if_splits)
      show ?thesis
      proof (cases "c = CHR ''.''")
        case True
        with unfolded i Cons g have "ipv4_ok s" by (simp split: if_splits)
        then show ?thesis by (rule ipv4_ok_chars)
      next
        case dot: False
        with unfolded i Cons g have colon: "c = CHR '':''" by (simp split: if_splits)
        from unfolded i Cons g colon obtain c2 s2 where s1: "s1 = c2 # s2"
          by (cases s1) (simp_all split: if_splits)
        have rest: "list_all cidr_char s1"
        proof (cases "c2 = CHR '':''")
          case True
          with unfolded i Cons g colon s1 have "s2 = [] \<or> ipv6_loop (i + 2) True s2" "\<not> ell"
            by (simp_all split: if_splits)
          then have "list_all cidr_char s2"
            using 1(1) [OF _ refl refl g Cons dot _ s1 True] i colon by (cases "s2 = []") auto
          with True s1 show ?thesis by (simp add: cidr_char_def)
        next
          case False
          with unfolded i Cons g colon s1 have "ipv6_loop (i + 2) ell s1"
            by (simp split: if_splits)
          then show ?thesis
            using 1(2) [OF _ refl refl g Cons dot _ s1 False] i colon by auto
        qed
        then have "list_all cidr_char (dropWhile is_hex s)"
          using Cons colon by (simp add: cidr_char_def)
        then show ?thesis by (rule hex_prefix_chars)
      qed
    qed
  qed
qed

lemma ipv6_ok_chars: "ipv6_ok s \<Longrightarrow> list_all cidr_char s"
proof -
  assume ok: "ipv6_ok s"
  show "list_all cidr_char s"
  proof (cases "has_prefix s ''::''")
    case True
    then have s: "s = ''::'' @ drop 2 s"
      by (metis append_take_drop_id has_prefix_def length_Cons list.size(3) numeral_2_eq_2)
    from ok True have "list_all cidr_char (drop 2 s)"
      by (auto simp: ipv6_ok_def intro: ipv6_loop_chars split: if_splits)
    then have "list_all cidr_char (''::'' @ drop 2 s)" by (simp add: cidr_char_def)
    with s show ?thesis by simp
  next
    case False
    with ok show ?thesis by (simp add: ipv6_ok_def ipv6_loop_chars)
  qed
qed

lemma addr_width_chars: "addr_width s = Some w \<Longrightarrow> list_all cidr_char s"
  by (auto simp: addr_width_def intro: ipv4_ok_chars ipv6_ok_chars split: list.splits if_splits)

lemma valid_cidr_chars:
  assumes "valid_cidr s"
  shows "list_all cidr_char s"
proof -
  from assms obtain p where p: "split_first (CHR ''/'') s = Some p"
    by (cases "split_first (CHR ''/'') s") (simp_all add: valid_cidr_def)
  obtain addr bits where ab: "p = (addr, bits)" by (cases p)
  with p have s: "split_first (CHR ''/'') s = Some (addr, bits)" by simp
  with assms have aw: "addr_width addr \<noteq> None" and pm: "parse_mask bits \<noteq> None"
    by (cases "addr_width addr"; cases "parse_mask bits"; simp add: valid_cidr_def)+
  from aw have a: "list_all cidr_char addr" using addr_width_chars by blast
  from pm have m: "list_all cidr_char bits"
    by (auto simp: parse_mask_def list_all_iff is_digit_cidr split: if_splits)
  have "s = addr @ CHR ''/'' # bits" using s by (rule split_first_Some)
  with a m show ?thesis by (simp add: cidr_char_def)
qed

end
