(* ===== verification/Demo_Run.thy ===== *)
theory Demo_Run
  imports Api_Types
begin

section \<open>A concrete run\<close>

text \<open>A run that kills one TaskManager pod of the FlinkDeployment \<^verbatim>\<open>orders\<close>, in any phase.\<close>

definition demo_spec :: chaos_run_spec where
  "demo_spec = \<lparr>
     sp_target = \<lparr>t_type = FlinkDeployment, t_name = ''orders'', t_deploymentID = '''', t_deploymentName = '''',
       t_vvpNamespace = '''', t_selector = None\<rparr>,
     sp_scenario = \<lparr>s_type = TaskManagerPodKill,
       s_selection = \<lparr>sel_mode = RandomMode, sel_count = 1, sel_podNames = []\<rparr>,
       s_action = \<lparr>act_type = DeletePodAction, act_gracePeriodSeconds = Some 0\<rparr>,
       s_network = None, s_resourceExhaustion = None\<rparr>,
     sp_observe = \<lparr>o_enabled = True, o_timeout = 600000000000, o_pollInterval = 5000000000,
       o_flinkRest = \<lparr>fr_enabled = False, fr_endpoint = '''', fr_requireStableCheckpoint = False,
         fr_stableWindowSeconds = 0, fr_waitTimeout = None\<rparr>\<rparr>,
     sp_safety = \<lparr>sf_dryRun = False, sf_maxConcurrentRuns = 1, sf_minTaskManagers = Some 1,
       sf_allowSharedCluster = False, sf_maxNetworkDuration = None, sf_allowCheckpointStorage = False,
       sf_maxExhaustionDuration = None\<rparr>,
     sp_control = \<lparr>ctl_abort = False\<rparr>\<rparr>"

definition demo_status :: "run_phase \<Rightarrow> chaos_run_status" where
  "demo_status p = \<lparr>st_phase = p, st_verdict = NoVerdict, st_message = '''', st_startedAt = None,
     st_observingStartedAt = None, st_endedAt = None, st_selectedPods = [], st_injectedPods = [],
     st_replacementObserved = False, st_targetSummary = None, st_observation = None,
     st_networkPolicies = [], st_tcInjections = [], st_stressInjections = [], st_dryRunPreview = '''',
     st_conditions = []\<rparr>"

definition demo_run :: "run_phase \<Rightarrow> chaos_run" where
  "demo_run p = \<lparr>cr_name = ''kill-one'', cr_namespace = ''flink'', cr_deletionTimestamp = None,
     cr_finalizers = [], cr_spec = demo_spec, cr_status = demo_status p\<rparr>"

definition with_network :: "scenario_type \<Rightarrow> network_chaos_spec \<Rightarrow> chaos_run \<Rightarrow> chaos_run" where
  "with_network sc n r = r\<lparr>cr_spec := (cr_spec r)\<lparr>sp_scenario := (sp_scenario (cr_spec r))
     \<lparr>s_type := sc, s_network := Some n\<rparr>\<rparr>\<rparr>"

definition demo_network :: network_chaos_spec where
  "demo_network = \<lparr>n_target = TMtoExternal, n_direction = Egress,
     n_externalEndpoint = Some \<lparr>x_cidr = ''10.0.0.0/8'', x_hostname = '''', x_port = 0\<rparr>,
     n_latency = Some 100000000, n_jitter = None, n_loss = None, n_bandwidth = '''',
     n_duration = Some 60000000000\<rparr>"

end
