(* ===== verification/Validation.thy ===== *)
theory Validation
  imports Go_Net Demo_Run
begin

section \<open>Validation and defaulting of a ChaosRun\<close>

text \<open>
  \<^verbatim>\<open>api/v1alpha1/chaosrun_validation.go\<close>. The Go functions collect errors in a slice and
  join them; here they return the list of errors, with the empty list for \<^verbatim>\<open>nil\<close>.
  \<open>valid_msgs\<close> is the text of the joined error.
\<close>

datatype valid_error =
    TargetNameRequired
  | DeploymentIdOrNameRequired
  | SelectorRequired
  | TargetTypeUnsupported target_type
  | CountTooSmall int
  | PodNamesRequired
  | ModeUnsupported selection_mode
  | NetworkRequired scenario_type
  | NetworkTargetEmpty
  | NoDisruption
  | JitterWithoutLatency
  | BandwidthTarget
  | BandwidthSyntax string
  | EndpointRequired network_target
  | CidrRequired network_target
  | CidrSyntax string
  | ExhaustionRequired
  | ExhaustionModeUnsupported exhaustion_mode
  | MemoryPercentRange int
  | ScenarioUnsupported scenario_type
  | StableNeedsEnabled
  | StableNeedsEndpoint
  | TimeoutBelowPoll int int

primrec valid_msg :: "valid_error \<Rightarrow> string" where
  "valid_msg TargetNameRequired = ''target.name is required when target.type is FlinkDeployment''"
| "valid_msg DeploymentIdOrNameRequired =
     ''at least one of target.deploymentId or target.deploymentName is required when target.type is VervericaDeployment''"
| "valid_msg SelectorRequired =
     ''target.selector with at least one matchLabel or matchExpression is required when target.type is PodSelector''"
| "valid_msg (TargetTypeUnsupported t) =
     ''target.type '' @ fmt_q (string_of_target_type t) @ '' is not supported''"
| "valid_msg (CountTooSmall n) =
     ''scenario.selection.count must be >= 1 when scenario.selection.mode is Random (got '' @ fmt_d n @ '')''"
| "valid_msg PodNamesRequired =
     ''scenario.selection.podNames must be non-empty when scenario.selection.mode is Explicit''"
| "valid_msg (ModeUnsupported m) =
     ''scenario.selection.mode '' @ fmt_q (string_of_mode m) @ '' is not supported''"
| "valid_msg (NetworkRequired s) =
     ''scenario.network is required when scenario.type is '' @ string_of_scenario s"
| "valid_msg NetworkTargetEmpty = ''scenario.network.target must be non-empty''"
| "valid_msg NoDisruption =
     ''at least one of scenario.network.latency, scenario.network.loss, or scenario.network.bandwidth must be set for NetworkChaos''"
| "valid_msg JitterWithoutLatency =
     ''scenario.network.latency must be set when scenario.network.jitter is set''"
| "valid_msg BandwidthTarget =
     ''scenario.network.bandwidth may only be set when scenario.network.target is TMtoExternal''"
| "valid_msg (BandwidthSyntax b) =
     ''scenario.network.bandwidth '' @ fmt_q b @
     '' is not a valid rate; expected a positive integer followed by kbit, mbit, gbit, or tbit (e.g. '' @
     fmt_q ''10mbit'' @ '')''"
| "valid_msg (EndpointRequired t) =
     ''scenario.network.externalEndpoint is required when scenario.network.target is '' @ string_of_net_target t"
| "valid_msg (CidrRequired t) =
     ''scenario.network.externalEndpoint.cidr is required for NetworkPartition when scenario.network.target is ''
     @ string_of_net_target t @ '' (hostname is not usable for NetworkPolicy)''"
| "valid_msg (CidrSyntax c) =
     ''scenario.network.externalEndpoint.cidr '' @ fmt_q c @ '' is not a valid CIDR: invalid CIDR address: '' @ c"
| "valid_msg ExhaustionRequired =
     ''scenario.resourceExhaustion is required when scenario.type is ResourceExhaustion''"
| "valid_msg (ExhaustionModeUnsupported m) =
     ''scenario.resourceExhaustion.mode '' @ fmt_q (string_of_exhaustion m) @
     '' is not supported; must be CPU or Memory''"
| "valid_msg (MemoryPercentRange n) =
     ''scenario.resourceExhaustion.memoryPercent must be between 1 and 100 (got '' @ fmt_d n @ '')''"
| "valid_msg (ScenarioUnsupported s) =
     ''scenario.type '' @ fmt_q (string_of_scenario s) @ '' is not supported''"
| "valid_msg StableNeedsEnabled =
     ''observe.flinkRest.requireStableCheckpointBeforeInject=true requires observe.flinkRest.enabled=true''"
| "valid_msg StableNeedsEndpoint =
     ''observe.flinkRest.requireStableCheckpointBeforeInject=true requires observe.flinkRest.endpoint to be non-empty''"
| "valid_msg (TimeoutBelowPoll t p) =
     ''observe.timeout ('' @ duration_string t @ '') must be >= observe.pollInterval ('' @ duration_string p @ '')''"

definition newline :: string where "newline = [char_of (10::nat)]"

definition valid_msgs :: "valid_error list \<Rightarrow> string" where
  "valid_msgs es = join newline (map valid_msg es)"

text \<open>
  \<^verbatim>\<open>bandwidthRe\<close>: \<^verbatim>\<open>(?i)^[1-9][0-9]*(kbit|mbit|gbit|tbit)$\<close>. Under \<^verbatim>\<open>(?i)\<close> Go matches
  \<^verbatim>\<open>k\<close> with the Kelvin sign U+212A as well, whose UTF-8 bytes are 226, 132, 170.
\<close>

definition kelvin_sign :: string where
  "kelvin_sign = [char_of (226::nat), char_of (132::nat), char_of (170::nat)]"

definition bandwidth_unit :: "string \<Rightarrow> bool" where
  "bandwidth_unit u \<longleftrightarrow>
     to_lower u \<in> {''kbit'', ''mbit'', ''gbit'', ''tbit''} \<or>
     (take 3 u = kelvin_sign \<and> to_lower (drop 3 u) = ''bit'')"

definition bandwidth_ok :: "string \<Rightarrow> bool" where
  "bandwidth_ok s =
     (case s of
        [] \<Rightarrow> False
      | c # cs \<Rightarrow> is_digit c \<and> c \<noteq> CHR ''0'' \<and> bandwidth_unit (dropWhile is_digit cs))"

subsection \<open>Validate\<close>

definition validate_target_spec :: "target_spec \<Rightarrow> valid_error list" where
  "validate_target_spec t =
     (case t_type t of
        FlinkDeployment \<Rightarrow> (if t_name t = '''' then [TargetNameRequired] else [])
      | VervericaDeployment \<Rightarrow>
          (if t_deploymentID t = '''' \<and> t_deploymentName t = '''' then [DeploymentIdOrNameRequired] else [])
      | PodSelector \<Rightarrow>
          (case t_selector t of
             None \<Rightarrow> [SelectorRequired]
           | Some s \<Rightarrow>
               (if length (matchLabels s) = 0 \<and> length (matchExpressions s) = 0
                then [SelectorRequired] else []))
      | OtherTarget s \<Rightarrow> [TargetTypeUnsupported (t_type t)])"

definition validate_pod_kill :: "selection_spec \<Rightarrow> valid_error list" where
  "validate_pod_kill sel =
     (if sel_mode sel = RandomMode \<or> sel_mode sel = NoMode
      then (if sel_count sel < 1 then [CountTooSmall (sel_count sel)] else [])
      else if sel_mode sel = ExplicitMode
      then (if length (sel_podNames sel) = 0 then [PodNamesRequired] else [])
      else [ModeUnsupported (sel_mode sel)])"

definition validate_endpoint :: "scenario_type \<Rightarrow> network_chaos_spec \<Rightarrow> valid_error list" where
  "validate_endpoint st n =
     (if n_target n = TMtoCheckpoint \<or> n_target n = TMtoExternal then
        (case n_externalEndpoint n of
           None \<Rightarrow> [EndpointRequired (n_target n)]
         | Some x \<Rightarrow>
             (if st = NetworkPartition \<and> x_cidr x = '''' then [CidrRequired (n_target n)] else []) @
             (if x_cidr x \<noteq> '''' \<and> \<not> valid_cidr (x_cidr x) then [CidrSyntax (x_cidr x)] else []))
      else [])"

definition validate_network :: "scenario_type \<Rightarrow> network_chaos_spec \<Rightarrow> valid_error list" where
  "validate_network st n =
     (if n_target n = NoNetTarget then [NetworkTargetEmpty] else []) @
     (if st = NetworkChaos then
        (if n_latency n = None \<and> n_loss n = None \<and> n_bandwidth n = '''' then [NoDisruption] else []) @
        (if n_jitter n \<noteq> None \<and> n_latency n = None then [JitterWithoutLatency] else []) @
        (if n_bandwidth n \<noteq> '''' \<and> n_target n \<noteq> TMtoExternal then [BandwidthTarget] else [])
      else []) @
     (if n_bandwidth n \<noteq> '''' \<and> \<not> bandwidth_ok (n_bandwidth n) then [BandwidthSyntax (n_bandwidth n)] else []) @
     validate_endpoint st n"

definition validate_exhaustion :: "resource_exhaustion_spec \<Rightarrow> valid_error list" where
  "validate_exhaustion re =
     (if re_mode re \<noteq> CPU \<and> re_mode re \<noteq> Memory then [ExhaustionModeUnsupported (re_mode re)] else []) @
     (if re_mode re = Memory \<and> re_memoryPercent re \<noteq> 0 \<and>
         (re_memoryPercent re < 1 \<or> 100 < re_memoryPercent re)
      then [MemoryPercentRange (re_memoryPercent re)] else [])"

definition validate_scenario_spec :: "scenario_spec \<Rightarrow> valid_error list" where
  "validate_scenario_spec s =
     (if s_type s = TaskManagerPodKill \<or> s_type s = NoScenario then validate_pod_kill (s_selection s)
      else if s_type s = NetworkPartition \<or> s_type s = NetworkChaos then
        (case s_network s of
           None \<Rightarrow> [NetworkRequired (s_type s)]
         | Some n \<Rightarrow> validate_network (s_type s) n)
      else if s_type s = ResourceExhaustion then
        (case s_resourceExhaustion s of
           None \<Rightarrow> [ExhaustionRequired]
         | Some re \<Rightarrow> validate_exhaustion re)
      else [ScenarioUnsupported (s_type s)])"

definition validate_observe_spec :: "observe_spec \<Rightarrow> valid_error list" where
  "validate_observe_spec obs =
     (if fr_requireStableCheckpoint (o_flinkRest obs) then
        (if \<not> fr_enabled (o_flinkRest obs) then [StableNeedsEnabled] else []) @
        (if fr_endpoint (o_flinkRest obs) = '''' then [StableNeedsEndpoint] else [])
      else []) @
     (if 0 < o_timeout obs \<and> 0 < o_pollInterval obs \<and> o_timeout obs < o_pollInterval obs
      then [TimeoutBelowPoll (o_timeout obs) (o_pollInterval obs)] else [])"

definition validate :: "chaos_run \<Rightarrow> valid_error list" where
  "validate run =
     validate_target_spec (sp_target (cr_spec run)) @
     validate_scenario_spec (sp_scenario (cr_spec run)) @
     validate_observe_spec (sp_observe (cr_spec run))"

subsection \<open>SetDefaults\<close>

definition default_selection :: "selection_spec \<Rightarrow> selection_spec" where
  "default_selection sel0 =
     (let sel = (if sel_mode sel0 = NoMode then sel0\<lparr>sel_mode := RandomMode\<rparr> else sel0)
      in if sel_mode sel = RandomMode \<and> sel_count sel = 0 then sel\<lparr>sel_count := 1\<rparr> else sel)"

definition default_action :: "action_spec \<Rightarrow> action_spec" where
  "default_action a0 =
     (let a = (if act_type a0 = NoAction then a0\<lparr>act_type := DeletePodAction\<rparr> else a0)
      in if act_gracePeriodSeconds a = None then a\<lparr>act_gracePeriodSeconds := Some 0\<rparr> else a)"

definition default_network :: "network_chaos_spec \<Rightarrow> network_chaos_spec" where
  "default_network n0 =
     (let n = (if n_direction n0 = NoDirection then n0\<lparr>n_direction := Both\<rparr> else n0)
      in if n_duration n = None then n\<lparr>n_duration := Some (60 * second)\<rparr> else n)"

definition default_exhaustion :: "resource_exhaustion_spec \<Rightarrow> resource_exhaustion_spec" where
  "default_exhaustion r0 =
     (let r1 = (if re_workers r0 = 0 then r0\<lparr>re_workers := 1\<rparr> else r0);
          r2 = (if re_mode r1 = Memory \<and> re_memoryPercent r1 = 0 then r1\<lparr>re_memoryPercent := 80\<rparr> else r1)
      in if re_duration r2 = None then r2\<lparr>re_duration := Some (60 * second)\<rparr> else r2)"

definition set_scenario_defaults :: "scenario_spec \<Rightarrow> scenario_spec" where
  "set_scenario_defaults s =
     (let s1 = (if s_type s = TaskManagerPodKill \<or> s_type s = NoScenario
                then s\<lparr>s_selection := default_selection (s_selection s),
                       s_action := default_action (s_action s)\<rparr> else s);
          s2 = s1\<lparr>s_network := map_option default_network (s_network s1)\<rparr>
      in if s_type s2 = ResourceExhaustion
         then s2\<lparr>s_resourceExhaustion := map_option default_exhaustion (s_resourceExhaustion s2)\<rparr>
         else s2)"

definition default_flink_rest :: "flink_rest_observe \<Rightarrow> flink_rest_observe" where
  "default_flink_rest f =
     (if fr_requireStableCheckpoint f then
        (let f1 = (if fr_stableWindowSeconds f = 0 then f\<lparr>fr_stableWindowSeconds := 60\<rparr> else f)
         in if fr_waitTimeout f1 = None then f1\<lparr>fr_waitTimeout := Some (5 * minute)\<rparr> else f1)
      else f)"

definition set_observe_defaults :: "observe_spec \<Rightarrow> observe_spec" where
  "set_observe_defaults obs =
     (let o1 = (if \<not> o_enabled obs \<and> o_timeout obs = 0 \<and> o_pollInterval obs = 0
                then obs\<lparr>o_enabled := True\<rparr> else obs);
          o2 = (if o_timeout o1 = 0 then o1\<lparr>o_timeout := 10 * minute\<rparr> else o1);
          o3 = (if o_pollInterval o2 = 0 then o2\<lparr>o_pollInterval := 5 * second\<rparr> else o2)
      in o3\<lparr>o_flinkRest := default_flink_rest (o_flinkRest o3)\<rparr>)"

definition set_safety_defaults :: "safety_spec \<Rightarrow> safety_spec" where
  "set_safety_defaults s =
     (let s1 = (if sf_maxConcurrentRuns s = 0 then s\<lparr>sf_maxConcurrentRuns := 1\<rparr> else s);
          s2 = (if sf_minTaskManagers s1 = None then s1\<lparr>sf_minTaskManagers := Some 1\<rparr> else s1);
          s3 = (if sf_maxNetworkDuration s2 = None then s2\<lparr>sf_maxNetworkDuration := Some (5 * minute)\<rparr> else s2)
      in if sf_maxExhaustionDuration s3 = None
         then s3\<lparr>sf_maxExhaustionDuration := Some (5 * minute)\<rparr> else s3)"

definition set_defaults :: "chaos_run \<Rightarrow> chaos_run" where
  "set_defaults run = run\<lparr>cr_spec := (cr_spec run)\<lparr>
     sp_scenario := set_scenario_defaults (sp_scenario (cr_spec run)),
     sp_observe := set_observe_defaults (sp_observe (cr_spec run)),
     sp_safety := set_safety_defaults (sp_safety (cr_spec run))\<rparr>\<rparr>"

subsection \<open>Defaults are stable and keep a spec valid\<close>

lemma default_selection_idem: "default_selection (default_selection x) = default_selection x"
  by (simp add: default_selection_def Let_def)

lemma default_action_idem: "default_action (default_action x) = default_action x"
  by (simp add: default_action_def Let_def)

lemma default_network_idem: "default_network (default_network x) = default_network x"
  by (simp add: default_network_def Let_def)

lemma default_exhaustion_idem: "default_exhaustion (default_exhaustion x) = default_exhaustion x"
  by (simp add: default_exhaustion_def Let_def)

lemma default_flink_rest_idem: "default_flink_rest (default_flink_rest x) = default_flink_rest x"
  by (simp add: default_flink_rest_def Let_def)

lemma set_scenario_defaults_idem: "set_scenario_defaults (set_scenario_defaults x) = set_scenario_defaults x"
  by (simp add: set_scenario_defaults_def Let_def default_selection_idem default_action_idem
      default_network_idem default_exhaustion_idem option.map_comp comp_def cong: option.map_cong)

lemma set_observe_defaults_idem: "set_observe_defaults (set_observe_defaults x) = set_observe_defaults x"
proof -
  have pos: "10 * minute \<noteq> 0" "5 * second \<noteq> 0" by (simp_all add: minute_def second_def)
  show ?thesis
    by (cases "o_enabled x"; cases "o_timeout x = 0"; cases "o_pollInterval x = 0")
      (simp_all add: set_observe_defaults_def Let_def default_flink_rest_idem pos)
qed

lemma set_safety_defaults_idem: "set_safety_defaults (set_safety_defaults x) = set_safety_defaults x"
  by (cases "sf_maxConcurrentRuns x = 0"; cases "sf_minTaskManagers x"; cases "sf_maxNetworkDuration x";
      cases "sf_maxExhaustionDuration x") (simp_all add: set_safety_defaults_def Let_def)

text \<open>Applying the spec defaults twice is applying them once, for every run.\<close>

theorem defaults_idempotent: "set_defaults (set_defaults run) = set_defaults run"
  by (simp add: set_defaults_def set_scenario_defaults_idem set_observe_defaults_idem set_safety_defaults_idem)

text \<open>What the defaults leave of a spec that validates.\<close>

lemma validate_pod_kill_defaults:
  "validate_pod_kill sel = [] \<Longrightarrow> validate_pod_kill (default_selection sel) = []"
  by (auto simp: validate_pod_kill_def default_selection_def Let_def split: if_splits)

lemma default_network_fields [simp]:
  "n_target (default_network n) = n_target n" "n_externalEndpoint (default_network n) = n_externalEndpoint n"
  "n_latency (default_network n) = n_latency n" "n_jitter (default_network n) = n_jitter n"
  "n_loss (default_network n) = n_loss n" "n_bandwidth (default_network n) = n_bandwidth n"
  by (simp_all add: default_network_def Let_def)

lemma validate_network_defaults: "validate_network st (default_network n) = validate_network st n"
  by (simp add: validate_network_def validate_endpoint_def split: option.split)

lemma validate_exhaustion_defaults:
  "validate_exhaustion re = [] \<Longrightarrow> validate_exhaustion (default_exhaustion re) = []"
  by (auto simp: validate_exhaustion_def default_exhaustion_def Let_def split: if_splits)

lemma validate_scenario_defaults:
  "validate_scenario_spec s = [] \<Longrightarrow> validate_scenario_spec (set_scenario_defaults s) = []"
  by (auto simp: validate_scenario_spec_def set_scenario_defaults_def Let_def validate_pod_kill_defaults
      validate_network_defaults validate_exhaustion_defaults split: if_splits option.splits)

definition timeout_survives_defaults :: "observe_spec \<Rightarrow> bool" where
  "timeout_survives_defaults obs \<longleftrightarrow>
     o_pollInterval obs \<le> (if o_timeout obs = 0 then 10 * minute else o_timeout obs) \<and>
     (o_pollInterval obs = 0 \<longrightarrow> o_timeout obs \<le> 0 \<or> 5 * second \<le> o_timeout obs)"

lemma validate_observe_defaults:
  "validate_observe_spec obs = [] \<Longrightarrow> timeout_survives_defaults obs \<Longrightarrow>
   validate_observe_spec (set_observe_defaults obs) = []"
  by (auto simp: validate_observe_spec_def set_observe_defaults_def default_flink_rest_def Let_def
      timeout_survives_defaults_def minute_def second_def split: if_splits)

text \<open>
  Defaulting a run that validates gives a run that validates, provided the observation timeout
  is not below the poll interval it ends up with; a timeout under the default poll interval of
  five seconds does not survive an unset interval.
\<close>

theorem defaults_keep_valid:
  assumes "validate run = []" and "timeout_survives_defaults (sp_observe (cr_spec run))"
  shows "validate (set_defaults run) = []"
  using assms
  by (simp add: validate_def set_defaults_def validate_scenario_defaults validate_observe_defaults)

theorem defaults_keep_valid_witness:
  "validate (demo_run Pending) = [] \<and> validate (set_defaults (demo_run Pending)) = []"
proof -
  have "validate (demo_run Pending) = []" by code_simp
  moreover have "timeout_survives_defaults (sp_observe (cr_spec (demo_run Pending)))" by code_simp
  ultimately show ?thesis using defaults_keep_valid by blast
qed

end
