(* ===== verification/Demo_World.thy ===== *)
theory Demo_World
  imports Interfaces Demo_Run
begin

section \<open>A concrete world\<close>

text \<open>
  An instance of the client record: a server that stores one ChaosRun, the pods and the policies
  of one namespace, and a clock that ticks by a second at every reading. The theorems of the
  library quantify over all clients; this one shows that their hypotheses can hold and lets the
  model be run.
\<close>

record world =
  w_run :: chaos_run
  w_pods :: "pod list"
  w_policies :: "network_policy list"
  w_time :: int

definition stored_condition :: "condition list \<Rightarrow> condition \<Rightarrow> condition list" where
  "stored_condition cs c =
     (if cond_key c \<in> set (map cond_key cs) then map (\<lambda>x. if cond_key x = cond_key c then c else x) cs else cs @ [c])"

definition find_pod :: "string \<Rightarrow> pod list \<Rightarrow> api_error + pod" where
  "find_pod n ps = (case filter (\<lambda>p. p_name p = n) ps of [] \<Rightarrow> Inl (NotFound n) | p # _ \<Rightarrow> Inr p)"

definition has_labels :: "string_map \<Rightarrow> string_map \<Rightarrow> bool" where
  "has_labels want labels \<longleftrightarrow> list_all (\<lambda>(key, v). map_of labels key = Some v) want"

definition demo_kube :: "world kube" where
  "demo_kube = \<lparr>
     k_now = (\<lambda>w. (w_time w, w\<lparr>w_time := w_time w + 1000000000\<rparr>)),
     k_shuffle = (\<lambda>ps w. (rev ps, w)),
     k_get_run = (\<lambda>ns n w. (if n = cr_name (w_run w) then Inr (w_run w) else Inl (NotFound n), w)),
     k_list_runs = (\<lambda>ns w. (Inr [w_run w], w)),
     k_status_patch = (\<lambda>base r w.
       (let r' = (w_run w)\<lparr>cr_status := cr_status r\<rparr> in (Inr r', w\<lparr>w_run := r'\<rparr>))),
     k_patch = (\<lambda>base r w.
       (let r' = (w_run w)\<lparr>cr_finalizers := cr_finalizers r\<rparr> in (Inr r', w\<lparr>w_run := r'\<rparr>))),
     k_list_pods = (\<lambda>ns w. (Inr (w_pods w), w)),
     k_list_pods_matching = (\<lambda>ns sel w. (Inr (filter (\<lambda>p. has_labels (matchLabels sel) (p_labels p)) (w_pods w)), w)),
     k_get_pod = (\<lambda>ns n w. (find_pod n (w_pods w), w)),
     k_delete_pod = (\<lambda>ns n g w.
       (if n \<in> set (map p_name (w_pods w))
        then (None, w\<lparr>w_pods := filter (\<lambda>p. p_name p \<noteq> n) (w_pods w)\<rparr>) else (Some (NotFound n), w))),
     k_get_flink_deployment = (\<lambda>ns n w. (Inr \<lparr>fd_name = n, fd_executionTarget = NestedAbsent\<rparr>, w)),
     k_create_policy = (\<lambda>np w.
       (if list_ex (\<lambda>q. np_namespace q = np_namespace np \<and> np_name q = np_name np) (w_policies w)
        then (Some (AlreadyExists (np_name np)), w)
        else (None, w\<lparr>w_policies := w_policies w @ [np]\<rparr>))),
     k_list_policies = (\<lambda>ns want w.
       (Inr (filter (\<lambda>np. np_namespace np = ns \<and> has_labels want (np_labels np)) (w_policies w)), w)),
     k_delete_policy = (\<lambda>ns n w.
       (if list_ex (\<lambda>np. np_namespace np = ns \<and> np_name np = n) (w_policies w)
        then (None, w\<lparr>w_policies := filter (\<lambda>np. \<not> (np_namespace np = ns \<and> np_name np = n)) (w_policies w)\<rparr>)
        else (Some (NotFound n), w))),
     k_update_ephemeral = (\<lambda>ns n p w.
       (None, w\<lparr>w_pods := map (\<lambda>q. if p_name q = n then p else q) (w_pods w)\<rparr>)),
     k_selector_error = (\<lambda>_. None),
     k_set_condition = stored_condition,
     k_contains_finalizer = (\<lambda>fs f. f \<in> set fs),
     k_add_finalizer = (\<lambda>fs f. fs @ [f]),
     k_remove_finalizer = (\<lambda>fs f. filter (\<lambda>x. x \<noteq> f) fs)\<rparr>"

definition demo_pod :: "string \<Rightarrow> string \<Rightarrow> pod" where
  "demo_pod name role = \<lparr>p_name = name, p_namespace = ''flink'',
     p_labels = [(''app'', ''orders''), (''component'', role)], p_deletionTimestamp = None,
     p_phase = PodRunning, p_containersReady = [True], p_ephContainers = [], p_ephStatuses = []\<rparr>"

definition demo_sys :: "chaos_run \<Rightarrow> world sys" where
  "demo_sys r = \<lparr>ext = \<lparr>w_run = r,
       w_pods = [demo_pod ''jm-0'' ''jobmanager'', demo_pod ''tm-0'' ''taskmanager'', demo_pod ''tm-1'' ''taskmanager''],
       w_policies = [], w_time = 1000000000000\<rparr>, calls = []\<rparr>"

definition demo_target :: resolved_target where
  "demo_target = \<lparr>rt_platform = ''flink-operator'', rt_namespace = ''flink'', rt_logicalName = ''orders'',
     rt_tmPods = [''tm-0'', ''tm-1''], rt_jmPods = [''jm-0''], rt_sharedCluster = False\<rparr>"

lemmas demo_defs = demo_kube_def demo_pod_def demo_spec_def demo_status_def demo_run_def demo_sys_def
  find_pod_def has_labels_def stored_condition_def

end
