(* ===== verification/Safety.thy ===== *)
theory Safety
  imports Interfaces Validation Demo_World
begin

section \<open>Pre-injection safety checks\<close>

text \<open>
  \<^verbatim>\<open>internal/safety/checker.go\<close>. Each check returns the error it fails with or \<open>None\<close>;
  \<open>check\<close> runs them in the order of the code. Counts are \<open>int\<close> with the conversion
  to \<^verbatim>\<open>int32\<close> written out.
\<close>

definition denied_namespaces :: "string list" where
  "denied_namespaces = [''kube-system'', ''kube-public'', ''kube-node-lease'']"

definition check_namespace_denylist :: "chaos_run \<Rightarrow> safety_error option" where
  "check_namespace_denylist run =
     (if cr_namespace run \<in> set denied_namespaces then Some (DeniedNamespace (cr_namespace run)) else None)"

definition check_shared_cluster :: "chaos_run \<Rightarrow> resolved_target \<Rightarrow> safety_error option" where
  "check_shared_cluster run t =
     (if rt_sharedCluster t \<and> \<not> sf_allowSharedCluster (sp_safety (cr_spec run))
      then Some (SharedClusterTarget (rt_logicalName t)) else None)"

definition check_min_task_managers :: "chaos_run \<Rightarrow> resolved_target \<Rightarrow> safety_error option" where
  "check_min_task_managers run t =
     (let count0 = sel_count (s_selection (sp_scenario (cr_spec run)));
          count = (if count0 = 0 then 1 else count0);
          remaining = int (length (rt_tmPods t)) - count;
          minRequired = (case sf_minTaskManagers (sp_safety (cr_spec run)) of None \<Rightarrow> 1 | Some m \<Rightarrow> m)
      in if wrap32 remaining < minRequired
         then Some (TooFewTaskManagers count (length (rt_tmPods t)) remaining minRequired) else None)"

definition counts_as_active :: "chaos_run \<Rightarrow> resolved_target \<Rightarrow> chaos_run \<Rightarrow> bool" where
  "counts_as_active run t peer \<longleftrightarrow>
     \<not> (cr_name peer = cr_name run \<and> cr_namespace peer = cr_namespace run) \<and>
     \<not> is_terminal (phase_of peer) \<and>
     (case st_targetSummary (cr_status peer) of
        None \<Rightarrow> False | Some ts \<Rightarrow> sum_name ts = rt_logicalName t)"

definition check_concurrency ::
  "'w kube \<Rightarrow> chaos_run \<Rightarrow> resolved_target \<Rightarrow> 'w sys \<Rightarrow> safety_error option \<times> 'w sys" where
  "check_concurrency k run t s =
     (case read_ext (k_list_runs k (cr_namespace run)) s of
        (Inl e, s1) \<Rightarrow> (Some (ListingRuns (cr_namespace run) e), s1)
      | (Inr items, s1) \<Rightarrow>
          (let active = length (filter (counts_as_active run t) items);
               limit = sf_maxConcurrentRuns (sp_safety (cr_spec run))
           in (if limit \<le> int active then Some (TooManyActiveRuns active (rt_logicalName t) limit) else None, s1)))"

definition check_network_duration :: "chaos_run \<Rightarrow> safety_error option" where
  "check_network_duration run =
     (case s_network (sp_scenario (cr_spec run)) of
        None \<Rightarrow> None
      | Some n \<Rightarrow>
          (case (n_duration n, sf_maxNetworkDuration (sp_safety (cr_spec run))) of
             (Some d, Some cap) \<Rightarrow> (if cap < d then Some (NetworkDurationOverCap d cap) else None)
           | _ \<Rightarrow> None))"

definition check_checkpoint_storage :: "chaos_run \<Rightarrow> safety_error option" where
  "check_checkpoint_storage run =
     (case s_network (sp_scenario (cr_spec run)) of
        None \<Rightarrow> None
      | Some n \<Rightarrow>
          (if n_target n \<noteq> TMtoCheckpoint then None
           else if \<not> sf_allowCheckpointStorage (sp_safety (cr_spec run)) then Some CheckpointStorageTarget
           else None))"

definition check_partition_blast_radius :: "chaos_run \<Rightarrow> safety_error option" where
  "check_partition_blast_radius run =
     (case s_network (sp_scenario (cr_spec run)) of
        None \<Rightarrow> None
      | Some n \<Rightarrow>
          (if n_target n = TMtoTM \<and> n_direction n = Both \<and>
              \<not> sf_allowSharedCluster (sp_safety (cr_spec run))
           then Some FullMeshPartition else None))"

definition check_exhaustion_duration :: "chaos_run \<Rightarrow> safety_error option" where
  "check_exhaustion_duration run =
     (case s_resourceExhaustion (sp_scenario (cr_spec run)) of
        None \<Rightarrow> None
      | Some re \<Rightarrow>
          (case (re_duration re, sf_maxExhaustionDuration (sp_safety (cr_spec run))) of
             (Some d, Some cap) \<Rightarrow> (if cap < d then Some (ExhaustionDurationOverCap d cap) else None)
           | _ \<Rightarrow> None))"

text \<open>The first error of a sequence of checks.\<close>

definition or_else :: "'e option \<Rightarrow> 'e option \<Rightarrow> 'e option" where
  "or_else a b = (case a of Some e \<Rightarrow> Some e | None \<Rightarrow> b)"

lemma or_else_None [simp]: "or_else a b = None \<longleftrightarrow> a = None \<and> b = None"
  by (simp add: or_else_def split: option.splits)

definition check_network_scenario :: "chaos_run \<Rightarrow> safety_error option" where
  "check_network_scenario run =
     (if scenario_of run = NetworkPartition \<or> scenario_of run = NetworkChaos then
        or_else (check_network_duration run)
          (if s_network (sp_scenario (cr_spec run)) \<noteq> None then
             or_else (check_checkpoint_storage run)
               (if scenario_of run = NetworkPartition then check_partition_blast_radius run else None)
           else None)
      else None)"

definition check :: "'w kube \<Rightarrow> chaos_run \<Rightarrow> resolved_target \<Rightarrow> 'w sys \<Rightarrow> safety_error option \<times> 'w sys" where
  "check k run t s =
     (case or_else (check_namespace_denylist run)
             (or_else (check_shared_cluster run t)
               (if scenario_of run = TaskManagerPodKill then check_min_task_managers run t else None)) of
        Some e \<Rightarrow> (Some e, s)
      | None \<Rightarrow>
          (case check_concurrency k run t s of
             (Some e, s1) \<Rightarrow> (Some e, s1)
           | (None, s1) \<Rightarrow>
               (or_else (check_network_scenario run)
                  (if scenario_of run = ResourceExhaustion then check_exhaustion_duration run else None), s1)))"

primrec safety_error_text :: "safety_error \<Rightarrow> string" where
  "safety_error_text (DeniedNamespace ns) =
     ''namespace '' @ fmt_q ns @ '' is in the denylist and may not be targeted for chaos injection''"
| "safety_error_text (SharedClusterTarget n) =
     ''target '' @ fmt_q n @
     '' is on a shared cluster; set spec.safety.allowSharedClusterImpact=true to permit injection''"
| "safety_error_text (TooFewTaskManagers c n r m) =
     ''injecting '' @ fmt_d c @ '' pod(s) from '' @ fmt_d (int n) @
     '' available TaskManagers would leave '' @ fmt_d r @ '' remaining, below the required minimum of '' @
     fmt_d m @ '' (spec.safety.minTaskManagersRemaining)''"
| "safety_error_text (ListingRuns ns e) =
     ''concurrency guard: failed to list ChaosRuns in namespace '' @ fmt_q ns @ '': '' @ api_error_text e"
| "safety_error_text (TooManyActiveRuns a n m) =
     ''concurrency guard: '' @ fmt_d (int a) @ '' active run(s) already target '' @ fmt_q n @
     '', which meets or exceeds the limit of '' @ fmt_d m @ '' (spec.safety.maxConcurrentRunsPerTarget)''"
| "safety_error_text (NetworkDurationOverCap d c) =
     ''network chaos duration '' @ duration_string d @ '' exceeds safety cap '' @ duration_string c @
     ''; increase safety.maxNetworkChaosDuration or reduce network.duration''"
| "safety_error_text CheckpointStorageTarget =
     ''targeting checkpoint storage has high blast-radius risk (data loss possible); set safety.allowCheckpointStorageChaos=true to confirm''"
| "safety_error_text FullMeshPartition =
     ''NetworkPartition with target=TMtoTM and direction=Both will fully isolate all TaskManagers from each other; set safety.allowSharedClusterImpact=true to confirm''"
| "safety_error_text (ExhaustionDurationOverCap d c) =
     ''resource exhaustion duration '' @ duration_string d @ '' exceeds safety cap '' @ duration_string c @
     ''; increase safety.maxResourceExhaustionDuration or reduce resourceExhaustion.duration''"

lemmas static_check_defs =
  check_namespace_denylist_def check_shared_cluster_def check_min_task_managers_def
  check_network_scenario_def check_network_duration_def check_checkpoint_storage_def
  check_partition_blast_radius_def check_exhaustion_duration_def

subsection \<open>The contract\<close>

lemma check_concurrency_silent: "check_concurrency k run t s = (r, s') \<Longrightarrow> silent s s'"
  by (auto simp: check_concurrency_def Let_def split: prod.splits sum.splits dest!: read_ext_silent)

lemma check_silent_model: "check k run t s = (r, s') \<Longrightarrow> silent s s'"
  by (auto simp: check_def split: prod.splits option.splits dest: check_concurrency_silent)

interpretation safe: safety_check "check k" for k
  by unfold_locales (rule check_silent_model)

subsection \<open>What it means to pass\<close>

lemma check_passes_parts:
  "fst (check k run t s) = None \<longleftrightarrow>
      check_namespace_denylist run = None \<and> check_shared_cluster run t = None \<and>
      (scenario_of run = TaskManagerPodKill \<longrightarrow> check_min_task_managers run t = None) \<and>
      fst (check_concurrency k run t s) = None \<and> check_network_scenario run = None \<and>
      (scenario_of run = ResourceExhaustion \<longrightarrow> check_exhaustion_duration run = None)"
  by (auto simp: check_def or_else_def split: option.splits prod.splits if_splits)

text \<open>
  C17. The checker passes exactly when the namespace is none of kube-system, kube-public and kube-node-lease; a
  shared cluster is allowed; for a pod kill, the TaskManagers of the target less the count of the
  selection, which is taken as one when it is zero and is the count also in Explicit mode, whatever pods are listed,
  are at least the minimum, which is one when it is not set; fewer runs than the limit are active on the target, that
  is other runs of the namespace, not Completed, Aborted or Failed, whose status names the same target; and the
  scenario's own caps hold: durations within the caps, checkpoint storage
  confirmed, and no unconfirmed full-mesh partition.
\<close>

theorem check_passes_iff:
  "fst (check k run t s) = None \<longleftrightarrow>
     (let sf = sp_safety (cr_spec run); sc = scenario_of run in
      cr_namespace run \<notin> {''kube-system'', ''kube-public'', ''kube-node-lease''} \<and>
      (rt_sharedCluster t \<longrightarrow> sf_allowSharedCluster sf) \<and>
      (sc = TaskManagerPodKill \<longrightarrow>
         (let count = sel_count (s_selection (sp_scenario (cr_spec run)))
          in (case sf_minTaskManagers sf of None \<Rightarrow> 1 | Some m \<Rightarrow> m)
            \<le> wrap32 (int (length (rt_tmPods t)) - (if count = 0 then 1 else count)))) \<and>
      (\<exists>items. fst (k_list_runs k (cr_namespace run) (ext s)) = Inr items \<and>
         int (length (filter (\<lambda>peer. \<not> (cr_name peer = cr_name run \<and> cr_namespace peer = cr_namespace run) \<and>
              phase_of peer \<notin> {Completed, Aborted, Failed} \<and>
              (\<exists>ts. st_targetSummary (cr_status peer) = Some ts \<and> sum_name ts = rt_logicalName t)) items))
           < sf_maxConcurrentRuns sf) \<and>
      (sc = NetworkPartition \<or> sc = NetworkChaos \<longrightarrow>
         (\<forall>n. s_network (sp_scenario (cr_spec run)) = Some n \<longrightarrow>
            (\<forall>d cap. n_duration n = Some d \<longrightarrow> sf_maxNetworkDuration sf = Some cap \<longrightarrow> d \<le> cap) \<and>
            (n_target n = TMtoCheckpoint \<longrightarrow> sf_allowCheckpointStorage sf) \<and>
            (sc = NetworkPartition \<and> n_target n = TMtoTM \<and> n_direction n = Both \<longrightarrow> sf_allowSharedCluster sf))) \<and>
      (sc = ResourceExhaustion \<longrightarrow>
         (\<forall>re. s_resourceExhaustion (sp_scenario (cr_spec run)) = Some re \<longrightarrow>
            (\<forall>d cap. re_duration re = Some d \<longrightarrow> sf_maxExhaustionDuration sf = Some cap \<longrightarrow> d \<le> cap))))"
proof -
  have active: "counts_as_active run t = (\<lambda>peer. \<not> (cr_name peer = cr_name run \<and> cr_namespace peer = cr_namespace run) \<and>
      phase_of peer \<notin> {Completed, Aborted, Failed} \<and>
      (\<exists>ts. st_targetSummary (cr_status peer) = Some ts \<and> sum_name ts = rt_logicalName t))"
    by (rule ext) (auto simp: counts_as_active_def is_terminal_def split: option.splits run_phase.splits)
  have mins: "check_min_task_managers run t = None \<longleftrightarrow>
      (let count = sel_count (s_selection (sp_scenario (cr_spec run)))
       in (case sf_minTaskManagers (sp_safety (cr_spec run)) of None \<Rightarrow> 1 | Some m \<Rightarrow> m)
         \<le> wrap32 (int (length (rt_tmPods t)) - (if count = 0 then 1 else count)))"
    by (simp add: check_min_task_managers_def Let_def not_less)
  have conc: "fst (check_concurrency k run t s) = None \<longleftrightarrow>
      (\<exists>items. fst (k_list_runs k (cr_namespace run) (ext s)) = Inr items \<and>
         int (length (filter (\<lambda>peer. \<not> (cr_name peer = cr_name run \<and> cr_namespace peer = cr_namespace run) \<and>
              phase_of peer \<notin> {Completed, Aborted, Failed} \<and>
              (\<exists>ts. st_targetSummary (cr_status peer) = Some ts \<and> sum_name ts = rt_logicalName t)) items))
           < sf_maxConcurrentRuns (sp_safety (cr_spec run)))"
    unfolding active [symmetric]
    by (auto simp: check_concurrency_def read_ext_def Let_def split: prod.splits sum.splits)
  have net: "check_network_scenario run = None \<longleftrightarrow>
      (scenario_of run = NetworkPartition \<or> scenario_of run = NetworkChaos \<longrightarrow>
         (\<forall>n. s_network (sp_scenario (cr_spec run)) = Some n \<longrightarrow>
            (\<forall>d cap. n_duration n = Some d \<longrightarrow> sf_maxNetworkDuration (sp_safety (cr_spec run)) = Some cap \<longrightarrow> d \<le> cap) \<and>
            (n_target n = TMtoCheckpoint \<longrightarrow> sf_allowCheckpointStorage (sp_safety (cr_spec run))) \<and>
            (scenario_of run = NetworkPartition \<and> n_target n = TMtoTM \<and> n_direction n = Both \<longrightarrow>
               sf_allowSharedCluster (sp_safety (cr_spec run)))))"
    by (auto simp: check_network_scenario_def check_network_duration_def check_checkpoint_storage_def
        check_partition_blast_radius_def split: option.splits if_splits)
  have ex: "check_exhaustion_duration run = None \<longleftrightarrow>
      (\<forall>re. s_resourceExhaustion (sp_scenario (cr_spec run)) = Some re \<longrightarrow>
         (\<forall>d cap. re_duration re = Some d \<longrightarrow> sf_maxExhaustionDuration (sp_safety (cr_spec run)) = Some cap \<longrightarrow> d \<le> cap))"
    by (auto simp: check_exhaustion_duration_def split: option.splits if_splits)
  show ?thesis
    unfolding check_passes_parts conc net ex mins Let_def
    by (auto simp: check_namespace_denylist_def check_shared_cluster_def denied_namespaces_def)
qed

theorem check_passes_iff_witness:
  "fst (check demo_kube (demo_run Injecting) demo_target (demo_sys (demo_run Injecting))) = None"
  unfolding check_passes_iff
  by (simp add: demo_defs demo_target_def Let_def wrap32_def)

end
