(* ===== verification/Observers.thy ===== *)
theory Observers
  imports Demo_World
begin

section \<open>Recovery observers\<close>

subsection \<open>The Kubernetes observer\<close>

text \<open>\<^verbatim>\<open>internal/observer/kubernetes/observer.go\<close>.\<close>

fun all_pods_ready :: "'w kube \<Rightarrow> string \<Rightarrow> string list \<Rightarrow> 'w sys \<Rightarrow> (observe_error + bool) \<times> 'w sys" where
  "all_pods_ready k ns [] s = (Inr True, s)"
| "all_pods_ready k ns (n # names) s =
     (case get_pod k ns n s of
        (Inl e, s1) \<Rightarrow> (Inl (PodReadiness n e), s1)
      | (Inr pod, s1) \<Rightarrow>
          (if p_phase pod \<noteq> PodRunning then (Inr False, s1)
           else if False \<in> set (p_containersReady pod) then (Inr False, s1)
           else all_pods_ready k ns names s1))"

definition replacement_observed :: "string list \<Rightarrow> string list \<Rightarrow> bool" where
  "replacement_observed injected live =
     (let tmCountBefore = int (length live) + int (length injected);
          tmCountAfter = int (length live)
      in if length injected = 0 then True
         else
           (let stillPresent = list_ex (\<lambda>n. n \<in> set live) injected;
                expectedMinimum = tmCountBefore - int (length injected)
            in \<not> stillPresent \<and> expectedMinimum \<le> tmCountAfter))"

definition kube_observe ::
  "'w kube \<Rightarrow> chaos_run \<Rightarrow> resolved_target option \<Rightarrow> 'w sys \<Rightarrow> (observe_error + observation_result) \<times> 'w sys" where
  "kube_observe k run target s =
     (case target of
        None \<Rightarrow> (Inr empty_result, s)
      | Some t \<Rightarrow>
          (if length (rt_tmPods t) = 0 then (Inr empty_result, s)
           else
             let injected = st_injectedPods (cr_status run);
                 replaced = replacement_observed injected (rt_tmPods t);
                 result = (\<lambda>ready. \<lparr>or_replacementObserved = replaced, or_allReady = ready,
                   or_tmCountBefore = int (length (rt_tmPods t)) + int (length injected),
                   or_tmCountAfter = int (length (rt_tmPods t)),
                   or_flinkJobState = '''', or_checkpointStatus = ''''\<rparr>)
             in if replaced then
                  (case all_pods_ready k (cr_namespace run) (rt_tmPods t) s of
                     (Inl e, s1) \<Rightarrow> (Inl e, s1)
                   | (Inr ready, s1) \<Rightarrow> (Inr (result ready), s1))
                else (Inr (result False), s)))"

text \<open>
  The count comparison of the code adds the injected pods and takes them away again, so it holds
  always: the flag says only that no injected name is live.
\<close>

lemma replacement_observed_iff:
  "replacement_observed injected live \<longleftrightarrow> set injected \<inter> set live = {}"
  by (auto simp: replacement_observed_def Let_def list_ex_iff)

lemma all_pods_ready_silent: "all_pods_ready k ns names s = (r, s') \<Longrightarrow> silent s s'"
  by (induction k ns names s arbitrary: r s' rule: all_pods_ready.induct)
    (auto split: sum.splits prod.splits if_splits dest!: get_pod_silent)

lemma kube_observe_silent: "kube_observe k run t s = (r, s') \<Longrightarrow> silent s s'"
  by (auto simp: kube_observe_def Let_def split: option.splits if_splits sum.splits prod.splits
      dest!: all_pods_ready_silent)

interpretation kube_observer: recovery_observer "kube_observe k" for k
  by unfold_locales (rule kube_observe_silent)

lemma kube_observe_ready:
  "kube_observe k run t s = (Inr r, s') \<Longrightarrow> or_allReady r \<Longrightarrow>
   \<exists>t'. t = Some t' \<and> rt_tmPods t' \<noteq> [] \<and> set (st_injectedPods (cr_status run)) \<inter> set (rt_tmPods t') = {} \<and>
     (\<exists>s1. all_pods_ready k (cr_namespace run) (rt_tmPods t') s1 = (Inr True, s'))"
  by (auto simp: kube_observe_def Let_def empty_result_def replacement_observed_iff
      split: option.splits if_splits sum.splits prod.splits)

subsection \<open>The Flink REST client interface\<close>

text \<open>
  The methods of the Go interface \<^verbatim>\<open>flinkrest.Client\<close> the operator's controller uses; its
  implementations are plugged in through a factory.
\<close>

record flink_job =
  fj_id :: string
  fj_state :: string

record checkpoint_detail =
  cp_triggerTimestamp :: int
  cp_status :: string

record 'w flink_client =
  fc_jobs :: "'w \<Rightarrow> (string + flink_job list) \<times> 'w"
  fc_task_managers :: "'w \<Rightarrow> (string + int) \<times> 'w"
  fc_checkpoints :: "'w \<Rightarrow> (string + checkpoint_detail option) \<times> 'w"

type_synonym 'w client_cache = "string \<Rightarrow> 'w flink_client option"

definition cached_client ::
  "(string \<Rightarrow> 'w flink_client) \<Rightarrow> 'w client_cache \<Rightarrow> string \<Rightarrow> 'w flink_client \<times> 'w client_cache" where
  "cached_client newClient cache endpoint =
     (case cache endpoint of
        Some c \<Rightarrow> (c, cache)
      | None \<Rightarrow> (let c = newClient endpoint in (c, cache(endpoint := Some c))))"

text \<open>The invariant of the cache: an entry is what the factory makes.\<close>

definition cache_ok :: "(string \<Rightarrow> 'w flink_client) \<Rightarrow> 'w client_cache \<Rightarrow> bool" where
  "cache_ok newClient cache \<longleftrightarrow> (\<forall>e c. cache e = Some c \<longrightarrow> c = newClient e)"

lemma cached_client_ok:
  assumes "cache_ok newClient cache" and "cached_client newClient cache e = (c, cache')"
  shows "c = newClient e" and "cache_ok newClient cache'"
  using assms by (auto simp: cached_client_def cache_ok_def Let_def split: option.splits if_splits)

subsection \<open>The Flink REST observer\<close>

text \<open>
  \<^verbatim>\<open>internal/observer/flinkrest/observer.go\<close>. The cache of the observer is threaded; the lock
  around it has no counterpart, every look-up being one step.
\<close>

definition job_state :: "flink_job list \<Rightarrow> string" where
  "job_state jobs =
     (if list_ex (\<lambda>j. fj_state j = ''RUNNING'') jobs then ''RUNNING''
      else case jobs of [] \<Rightarrow> '''' | j # js \<Rightarrow> fj_state j)"

definition flink_observe ::
  "(string \<Rightarrow> 'w flink_client) \<Rightarrow> 'w client_cache \<Rightarrow> chaos_run \<Rightarrow> resolved_target option \<Rightarrow> 'w sys \<Rightarrow>
   (observe_error + observation_result) \<times> 'w client_cache \<times> 'w sys" where
  "flink_observe newClient cache run target s =
     (let fr = o_flinkRest (sp_observe (cr_spec run)) in
      if \<not> fr_enabled fr \<or> fr_endpoint fr = ''''
      then (Inr (empty_result\<lparr>or_allReady := True\<rparr>), cache, s)
      else
        case cached_client newClient cache (fr_endpoint fr) of (c, cache1) \<Rightarrow>
        (case read_ext (fc_jobs c) s of
           (Inl e, s1) \<Rightarrow> (Inl (FlinkJobsQuery e), cache1, s1)
         | (Inr jobs, s1) \<Rightarrow>
             (case read_ext (fc_task_managers c) s1 of
                (Inl e, s2) \<Rightarrow> (Inl (FlinkTaskManagersQuery e), cache1, s2)
              | (Inr tmCount, s2) \<Rightarrow>
                  (let baseline = (case st_observation (cr_status run) of
                         None \<Rightarrow> 0 | Some o' \<Rightarrow> ob_tmCountBefore o')
                   in (Inr \<lparr>or_replacementObserved = (0 < tmCount),
                         or_allReady = (job_state jobs = ''RUNNING'' \<and> baseline \<le> tmCount),
                         or_tmCountBefore = 0, or_tmCountAfter = tmCount,
                         or_flinkJobState = job_state jobs, or_checkpointStatus = ''''\<rparr>, cache1, s2)))))"

text \<open>One observation with a fresh cache, the form in which the reconciler's model holds it.\<close>

definition flink_child ::
  "(string \<Rightarrow> 'w flink_client) \<Rightarrow> chaos_run \<Rightarrow> resolved_target option \<Rightarrow> 'w sys \<Rightarrow>
   (observe_error + observation_result) \<times> 'w sys" where
  "flink_child newClient run target s =
     (case flink_observe newClient Map.empty run target s of (r, _, s1) \<Rightarrow> (r, s1))"

lemma cached_client_fresh: "cached_client newClient Map.empty e = (newClient e, Map.empty(e := Some (newClient e)))"
  by (simp add: cached_client_def Let_def)

lemma flink_observe_cache_transparent:
  assumes "cache_ok newClient cache" and "flink_observe newClient cache run target s = (r, cache', s')"
  shows "flink_child newClient run target s = (r, s') \<and> cache_ok newClient cache'"
proof (cases "\<not> fr_enabled (o_flinkRest (sp_observe (cr_spec run))) \<or> fr_endpoint (o_flinkRest (sp_observe (cr_spec run))) = ''''")
  case True
  with assms show ?thesis by (auto simp: flink_child_def flink_observe_def Let_def)
next
  case False
  obtain c cache1 where c: "cached_client newClient cache (fr_endpoint (o_flinkRest (sp_observe (cr_spec run)))) = (c, cache1)"
    (is "?c = _") by (cases ?c)
  note ok = cached_client_ok [OF assms(1) c]
  from False assms(2) c ok show ?thesis
    by (auto simp: flink_child_def flink_observe_def Let_def cached_client_fresh split: prod.splits sum.splits)
qed

lemma flink_observe_silent: "flink_observe newClient cache run t s = (r, cache', s') \<Longrightarrow> silent s s'"
  by (auto simp: flink_observe_def Let_def split: if_splits prod.splits sum.splits dest!: read_ext_silent)

interpretation flink_observer: recovery_observer "flink_child newClient" for newClient
  by unfold_locales (auto simp: flink_child_def split: prod.splits dest: flink_observe_silent)

subsection \<open>The composite observer\<close>

text \<open>\<^verbatim>\<open>internal/observer/composite/observer.go\<close>.\<close>

type_synonym 'w observer =
  "chaos_run \<Rightarrow> resolved_target option \<Rightarrow> 'w sys \<Rightarrow> (observe_error + observation_result) \<times> 'w sys"

definition merge_result :: "observation_result \<Rightarrow> observation_result \<Rightarrow> observation_result" where
  "merge_result m r =
     (let m1 = (if \<not> or_allReady r then m\<lparr>or_allReady := False\<rparr> else m);
          m2 = (if or_replacementObserved r then m1\<lparr>or_replacementObserved := True\<rparr> else m1);
          m3 = (if 0 < or_tmCountBefore r then m2\<lparr>or_tmCountBefore := or_tmCountBefore r\<rparr> else m2);
          m4 = (if 0 < or_tmCountAfter r then m3\<lparr>or_tmCountAfter := or_tmCountAfter r\<rparr> else m3);
          m5 = (if or_flinkJobState r \<noteq> '''' then m4\<lparr>or_flinkJobState := or_flinkJobState r\<rparr> else m4)
      in if or_checkpointStatus r \<noteq> '''' then m5\<lparr>or_checkpointStatus := or_checkpointStatus r\<rparr> else m5)"

fun composite_loop ::
  "'w observer list \<Rightarrow> observation_result \<Rightarrow> chaos_run \<Rightarrow> resolved_target option \<Rightarrow> 'w sys \<Rightarrow>
   (observe_error + observation_result) \<times> 'w sys" where
  "composite_loop [] m run t s = (Inr m, s)"
| "composite_loop (c # cs) m run t s =
     (case c run t s of
        (Inl e, s1) \<Rightarrow> (Inl e, s1)
      | (Inr r, s1) \<Rightarrow> composite_loop cs (merge_result m r) run t s1)"

definition composite_observe :: "'w observer list \<Rightarrow> 'w observer" where
  "composite_observe cs run t s = composite_loop cs (empty_result\<lparr>or_allReady := True\<rparr>) run t s"

lemma merge_result_fields [simp]:
  "or_allReady (merge_result m r) \<longleftrightarrow> or_allReady m \<and> or_allReady r"
  "or_replacementObserved (merge_result m r) \<longleftrightarrow> or_replacementObserved m \<or> or_replacementObserved r"
  "or_tmCountBefore (merge_result m r) = (if 0 < or_tmCountBefore r then or_tmCountBefore r else or_tmCountBefore m)"
  "or_tmCountAfter (merge_result m r) = (if 0 < or_tmCountAfter r then or_tmCountAfter r else or_tmCountAfter m)"
  "or_flinkJobState (merge_result m r) = (if or_flinkJobState r \<noteq> '''' then or_flinkJobState r else or_flinkJobState m)"
  by (auto simp: merge_result_def Let_def)

text \<open>The runs of the children of one observation, in order, each in the state its predecessor left.\<close>

fun children_ran ::
  "'w observer list \<Rightarrow> chaos_run \<Rightarrow> resolved_target option \<Rightarrow> 'w sys \<Rightarrow> observation_result list \<Rightarrow> 'w sys \<Rightarrow> bool" where
  "children_ran [] run t s rs s' \<longleftrightarrow> rs = [] \<and> s' = s"
| "children_ran (c # cs) run t s rs s' \<longleftrightarrow>
     (\<exists>r s1 rs1. c run t s = (Inr r, s1) \<and> rs = r # rs1 \<and> children_ran cs run t s1 rs1 s')"

lemma composite_loop_Inr:
  "composite_loop cs m run t s = (Inr r, s') \<longleftrightarrow>
   (\<exists>rs. children_ran cs run t s rs s' \<and> r = foldl merge_result m rs)"
proof (induction cs arbitrary: m s)
  case (Cons c cs)
  obtain x s1 where c: "c run t s = (x, s1)" (is "?c = _") by (cases ?c)
  show ?case
    by (cases x) (auto simp: c Cons.IH)
qed auto

lemma foldl_merge_ready: "or_allReady (foldl merge_result m rs) \<longleftrightarrow> or_allReady m \<and> (\<forall>r \<in> set rs. or_allReady r)"
  by (induction rs arbitrary: m) auto

lemma foldl_merge_replaced:
  "or_replacementObserved (foldl merge_result m rs) \<longleftrightarrow>
   or_replacementObserved m \<or> (\<exists>r \<in> set rs. or_replacementObserved r)"
  by (induction rs arbitrary: m) auto

lemma composite_observe_spec:
  assumes "composite_observe cs run t s = (Inr r, s')"
  shows "\<exists>rs. children_ran cs run t s rs s' \<and>
     (or_allReady r \<longleftrightarrow> (\<forall>c \<in> set rs. or_allReady c)) \<and>
     (or_replacementObserved r \<longleftrightarrow> (\<exists>c \<in> set rs. or_replacementObserved c))"
  using assms
  by (auto simp: composite_observe_def composite_loop_Inr foldl_merge_ready foldl_merge_replaced empty_result_def)

definition quiet_observer :: "'w observer \<Rightarrow> bool" where
  "quiet_observer c \<longleftrightarrow> (\<forall>run t s r s'. c run t s = (r, s') \<longrightarrow> silent s s')"

lemma composite_loop_silent:
  assumes "\<forall>c \<in> set cs. quiet_observer c"
  shows "composite_loop cs m run t s = (r, s') \<Longrightarrow> silent s s'"
  using assms
proof (induction cs arbitrary: m s)
  case (Cons c cs)
  obtain x s1 where c: "c run t s = (x, s1)" (is "?c = _") by (cases ?c)
  have s1: "calls s1 = calls s" using Cons.prems(2) c by (auto simp: quiet_observer_def)
  show ?case
  proof (cases x)
    case (Inl e)
    with Cons.prems(1) c s1 show ?thesis by simp
  next
    case (Inr y)
    with Cons.prems(1) c have "composite_loop cs (merge_result m y) run t s1 = (r, s')" by simp
    from Cons.IH [OF this] Cons.prems(2) s1 show ?thesis by simp
  qed
qed simp

text \<open>The observer the operator installs: the Kubernetes observer, then the Flink REST observer.\<close>

definition operator_observer :: "'w kube \<Rightarrow> (string \<Rightarrow> 'w flink_client) \<Rightarrow> 'w observer" where
  "operator_observer k newClient = composite_observe [kube_observe k, flink_child newClient]"

interpretation operator_observers: recovery_observer "operator_observer k newClient" for k newClient
proof unfold_locales
  fix run t s r s'
  assume "operator_observer k newClient run t s = (r, s')"
  then show "calls s' = calls s"
    unfolding operator_observer_def composite_observe_def
    by (rule composite_loop_silent [rotated])
      (auto simp: quiet_observer_def dest: kube_observe_silent flink_observer.observe_silent)
qed

subsection \<open>Checkpoint stability\<close>

text \<open>
  \<^verbatim>\<open>IsCheckpointStable\<close> of \<^verbatim>\<open>internal/observer/flinkrest/checkpoints.go\<close>. The product of the
  window and a second is a 64-bit duration; a \<^verbatim>\<open>time.Time\<close> does not overflow.
\<close>

definition is_checkpoint_stable ::
  "'w kube \<Rightarrow> 'w flink_client \<Rightarrow> int \<Rightarrow> 'w sys \<Rightarrow> (string + bool) \<times> 'w sys" where
  "is_checkpoint_stable k c windowSeconds s =
     (case read_ext (fc_checkpoints c) s of
        (Inl e, s1) \<Rightarrow> (Inl (''checkpoints query: '' @ e), s1)
      | (Inr None, s1) \<Rightarrow> (Inr False, s1)
      | (Inr (Some d), s1) \<Rightarrow>
          (if cp_status d \<noteq> ''COMPLETED'' then (Inr False, s1)
           else (case now k s1 of (t, s2) \<Rightarrow>
             (Inr (time_sub t (cp_triggerTimestamp d * millisecond) \<le> wrap64 (windowSeconds * second)), s2))))"

lemma is_checkpoint_stable_silent:
  "is_checkpoint_stable k c w s = (r, s') \<Longrightarrow> silent s s'"
  by (auto simp: is_checkpoint_stable_def split: sum.splits prod.splits option.splits if_splits
      dest!: read_ext_silent now_silent)

text \<open>No 32-bit window overflows the duration.\<close>

lemma window_in_range: "in_i32 n \<Longrightarrow> wrap64 (n * second) = n * second"
  by (intro wrap64_id) (simp add: in_i32_def in_i64_def second_def)

subsection \<open>Properties\<close>

text \<open>
  The Kubernetes observer's replacement flag says only that no injected pod is among the live
  ones: it does not ask for a new pod, so the count of live pods may be below the one before.
  Readiness is the flag together with every live pod running with all its containers ready.
\<close>

theorem replacement_flag_meaning:
  assumes "kube_observe k run (Some t) s = (Inr r, s')" and "rt_tmPods t \<noteq> []"
  shows "(or_replacementObserved r \<longleftrightarrow> set (st_injectedPods (cr_status run)) \<inter> set (rt_tmPods t) = {}) \<and>
    (or_allReady r \<longleftrightarrow> or_replacementObserved r \<and>
       fst (all_pods_ready k (cr_namespace run) (rt_tmPods t) s) = Inr True) \<and>
    or_tmCountBefore r - or_tmCountAfter r = int (length (st_injectedPods (cr_status run)))"
  using assms
  by (auto simp: kube_observe_def Let_def replacement_observed_iff split: if_splits sum.splits prod.splits)

definition demo_killed :: chaos_run where
  "demo_killed = (demo_run Observing)\<lparr>cr_status := (demo_status Observing)\<lparr>st_injectedPods := [''tm-2'']\<rparr>\<rparr>"

text \<open>A third TaskManager was deleted and nothing replaced it, and yet the observer says ready.\<close>

theorem replacement_flag_meaning_witness:
  "\<exists>r s'. kube_observe demo_kube demo_killed (Some demo_target) (demo_sys demo_killed) = (Inr r, s') \<and>
     or_allReady r \<and> or_tmCountAfter r = 2 \<and> or_tmCountBefore r = 3"
proof -
  let ?o = "kube_observe demo_kube demo_killed (Some demo_target) (demo_sys demo_killed)"
  obtain x s' where o: "?o = (x, s')" by (cases ?o)
  have "case fst ?o of Inr r \<Rightarrow> or_tmCountAfter r = 2 | Inl _ \<Rightarrow> False" by code_simp
  with o obtain r where r: "?o = (Inr r, s')" and two: "or_tmCountAfter r = 2" by (cases x) auto
  have ready: "fst (all_pods_ready demo_kube (cr_namespace demo_killed) (rt_tmPods demo_target) (demo_sys demo_killed)) = Inr True"
    by code_simp
  have "rt_tmPods demo_target \<noteq> []" "set (st_injectedPods (cr_status demo_killed)) \<inter> set (rt_tmPods demo_target) = {}"
    "length (st_injectedPods (cr_status demo_killed)) = 1"
    by code_simp+
  with replacement_flag_meaning [OF r] ready two r show ?thesis by auto
qed

text \<open>
  The composite observer runs its children in order, each in the state the one before left, and
  answers ready only when all of them do and replaced when one does; the first error ends it.
\<close>

theorem composite_merges:
  assumes "composite_observe cs run t s = (x, s')"
  shows "case x of
      Inr r \<Rightarrow> \<exists>rs. length rs = length cs \<and> children_ran cs run t s rs s' \<and>
        (or_allReady r \<longleftrightarrow> (\<forall>c \<in> set rs. or_allReady c)) \<and>
        (or_replacementObserved r \<longleftrightarrow> (\<exists>c \<in> set rs. or_replacementObserved c))
    | Inl e \<Rightarrow> \<exists>pre c post rs s1. cs = pre @ c # post \<and> children_ran pre run t s rs s1 \<and>
        c run t s1 = (Inl e, s')"
proof (cases x)
  case (Inl e)
  have "\<exists>pre c post rs s1. cs = pre @ c # post \<and> children_ran pre run t s rs s1 \<and> c run t s1 = (Inl e, s')"
    if "composite_loop cs m run t s = (Inl e, s')" for m
    using that
  proof (induction cs arbitrary: m s)
    case (Cons c cs)
    obtain y s1 where c: "c run t s = (y, s1)" (is "?c = _") by (cases ?c)
    show ?case
    proof (cases y)
      case (Inl e')
      with Cons.prems c show ?thesis
        by (intro exI [of _ "[]"] exI [of _ c] exI [of _ cs] exI [of _ "[]"] exI [of _ s]) simp
    next
      case (Inr r)
      with Cons.prems c have "composite_loop cs (merge_result m r) run t s1 = (Inl e, s')" by simp
      from Cons.IH [OF this] obtain pre d post rs s2 where
        "cs = pre @ d # post" "children_ran pre run t s1 rs s2" "d run t s2 = (Inl e, s')" by blast
      with c Inr show ?thesis
        by (intro exI [of _ "c # pre"] exI [of _ d] exI [of _ post] exI [of _ "r # rs"] exI [of _ s2]) simp
    qed
  qed simp
  with Inl assms show ?thesis by (simp add: composite_observe_def)
next
  case (Inr r)
  have len: "children_ran cs run t s rs s' \<Longrightarrow> length rs = length cs" for rs
    by (induction cs run t s rs s' rule: children_ran.induct) auto
  from composite_observe_spec assms Inr len show ?thesis by fastforce
qed

definition ready_child :: "bool \<Rightarrow> world observer" where
  "ready_child b run t s = (Inr (empty_result\<lparr>or_allReady := b\<rparr>), s)"

theorem composite_merges_witness:
  "\<exists>r. composite_observe [ready_child True, ready_child False] demo_killed None (demo_sys demo_killed) =
     (Inr r, demo_sys demo_killed) \<and> \<not> or_allReady r"
proof -
  let ?o = "composite_observe [ready_child True, ready_child False] demo_killed None (demo_sys demo_killed)"
  obtain x s' where o: "?o = (x, s')" by (cases ?o)
  then obtain r where x: "x = Inr r" and s': "s' = demo_sys demo_killed"
    by (auto simp: composite_observe_def ready_child_def)
  from composite_merges [OF o] x have "\<not> or_allReady r"
    by (auto simp: ready_child_def)
  with o x s' show ?thesis by blast
qed

text \<open>
  C39. An observation over Flink's REST interface, switched on and with an endpoint, asks the client the factory makes for that
  endpoint, cached before or not, and leaves it in the cache. A failing query, the jobs first and the
  TaskManagers second, is the error of the observation. Else it is ready exactly when some job, not necessarily
  the first, is RUNNING and there are at least as many TaskManagers as recorded before the injection, it
  reports a replacement when there is any TaskManager at all, and its job state is RUNNING or that of the first job.
\<close>

theorem flink_observation_exact:
  assumes "flink_observe newClient cache run target s = (r, cache', s')"
    and "fr_enabled (o_flinkRest (sp_observe (cr_spec run)))"
    and "fr_endpoint (o_flinkRest (sp_observe (cr_spec run))) = e" and "e \<noteq> ''''"
    and "cache e = None \<or> cache e = Some (newClient e)"
  shows "cache' = cache(e \<mapsto> newClient e) \<and>
    (case fc_jobs (newClient e) (ext s) of
       (Inl err, w1) \<Rightarrow> r = Inl (FlinkJobsQuery err) \<and> s' = s\<lparr>ext := w1\<rparr>
     | (Inr jobs, w1) \<Rightarrow>
         (case fc_task_managers (newClient e) w1 of
            (Inl err, w2) \<Rightarrow> r = Inl (FlinkTaskManagersQuery err) \<and> s' = s\<lparr>ext := w2\<rparr>
          | (Inr n, w2) \<Rightarrow> s' = s\<lparr>ext := w2\<rparr> \<and> (\<exists>x. r = Inr x \<and>
              (or_allReady x \<longleftrightarrow> (\<exists>j \<in> set jobs. fj_state j = ''RUNNING'') \<and>
                 (case st_observation (cr_status run) of None \<Rightarrow> 0 | Some ob \<Rightarrow> ob_tmCountBefore ob) \<le> n) \<and>
              (or_replacementObserved x \<longleftrightarrow> 0 < n) \<and> or_tmCountAfter x = n \<and>
              or_flinkJobState x = (if \<exists>j \<in> set jobs. fj_state j = ''RUNNING'' then ''RUNNING''
                else if jobs = [] then '''' else fj_state (hd jobs)))))"
proof -
  have c: "cached_client newClient cache e = (newClient e, cache(e \<mapsto> newClient e))"
    using assms(5) by (auto simp: cached_client_def Let_def fun_upd_idem)
  have state: "job_state jobs = (if \<exists>j \<in> set jobs. fj_state j = ''RUNNING'' then ''RUNNING''
      else if jobs = [] then '''' else fj_state (hd jobs))" for jobs
    by (auto simp: job_state_def list_ex_iff split: list.splits)
  have ready: "job_state jobs = ''RUNNING'' \<longleftrightarrow> (\<exists>j \<in> set jobs. fj_state j = ''RUNNING'')" for jobs
    unfolding state by (cases jobs) auto
  show ?thesis
    using assms(1-4) c
    by (auto simp: flink_observe_def Let_def read_ext_def ready state split: prod.splits sum.splits)
qed

text \<open>
  C40. The operator's observer never reports readiness while an injected pod is live, so a scenario
  that leaves its pods running is not seen to recover.
\<close>

theorem live_injection_not_ready:
  assumes "operator_observer k newClient run t s = (Inr r, s')"
    and "t = Some t'" and "set (st_injectedPods (cr_status run)) \<inter> set (rt_tmPods t') \<noteq> {}"
  shows "\<not> or_allReady r"
proof
  assume "or_allReady r"
  moreover from composite_observe_spec [OF assms(1) [unfolded operator_observer_def]] obtain rs where
    rs: "children_ran [kube_observe k, flink_child newClient] run t s rs s'"
    "or_allReady r \<longleftrightarrow> (\<forall>c \<in> set rs. or_allReady c)" by blast
  ultimately obtain x s1 where "kube_observe k run t s = (Inr x, s1)" "or_allReady x" by auto
  from kube_observe_ready [OF this] assms(2,3) show False by auto
qed

text \<open>
  The checkpoint is stable exactly when the query finds a latest completed checkpoint with the
  status COMPLETED that was triggered no longer ago than the window; no 32-bit window overflows.
\<close>

theorem checkpoint_stable_iff:
  assumes "is_checkpoint_stable k c n s = (Inr b, s')" and "in_i32 n"
  shows "b \<longleftrightarrow> (\<exists>d s1 t. read_ext (fc_checkpoints c) s = (Inr (Some d), s1) \<and> cp_status d = ''COMPLETED'' \<and>
    now k s1 = (t, s') \<and> time_sub t (cp_triggerTimestamp d * millisecond) \<le> n * second)"
  using assms
  by (auto simp: is_checkpoint_stable_def window_in_range split: sum.splits option.splits prod.splits if_splits)

definition demo_flink :: "string \<Rightarrow> world flink_client" where
  "demo_flink e = \<lparr>fc_jobs = (\<lambda>w. (Inr [\<lparr>fj_id = ''j'', fj_state = ''RUNNING''\<rparr>], w)),
     fc_task_managers = (\<lambda>w. (Inr 2, w)),
     fc_checkpoints = (\<lambda>w. (Inr (Some \<lparr>cp_triggerTimestamp = 990000, cp_status = ''COMPLETED''\<rparr>), w))\<rparr>"

definition demo_rest :: chaos_run where
  "demo_rest = demo_killed\<lparr>cr_spec := demo_spec\<lparr>sp_observe := (sp_observe demo_spec)\<lparr>o_flinkRest :=
     (o_flinkRest (sp_observe demo_spec))\<lparr>fr_enabled := True, fr_endpoint := ''http://jm:8081''\<rparr>\<rparr>\<rparr>,
     cr_status := (demo_status Observing)\<lparr>st_observation := Some (empty_observation\<lparr>ob_tmCountBefore := 3\<rparr>)\<rparr>\<rparr>"

text \<open>One of three TaskManagers is missing; the client of the endpoint is in the cache.\<close>

theorem flink_observation_exact_witness:
  "\<exists>x cache' s'. flink_observe demo_flink [''http://jm:8081'' \<mapsto> demo_flink ''http://jm:8081''] demo_rest None (demo_sys demo_rest)
       = (Inr x, cache', s') \<and>
     cache' = [''http://jm:8081'' \<mapsto> demo_flink ''http://jm:8081''] \<and> or_tmCountAfter x = 2 \<and> or_replacementObserved x \<and>
     \<not> or_allReady x"
proof -
  let ?e = "''http://jm:8081''"
  obtain r cache' s' where o: "flink_observe demo_flink [?e \<mapsto> demo_flink ?e] demo_rest None (demo_sys demo_rest) = (r, cache', s')"
    (is "?o = _") by (cases ?o)
  have fr: "fr_enabled (o_flinkRest (sp_observe (cr_spec demo_rest)))" "fr_endpoint (o_flinkRest (sp_observe (cr_spec demo_rest))) = ?e"
    "st_observation (cr_status demo_rest) = Some (empty_observation\<lparr>ob_tmCountBefore := 3\<rparr>)"
    by (simp_all add: demo_rest_def)
  from flink_observation_exact [OF o fr(1,2)] fr(3) o show ?thesis by (auto simp: demo_flink_def)
qed

definition demo_live :: chaos_run where
  "demo_live = (demo_run Observing)\<lparr>cr_status := (demo_status Observing)\<lparr>st_injectedPods := [''tm-0'', ''tm-1'']\<rparr>\<rparr>"

theorem live_injection_not_ready_witness:
  "\<exists>r s'. operator_observer demo_kube demo_flink demo_live (Some demo_target) (demo_sys demo_live) = (Inr r, s') \<and>
     \<not> or_allReady r"
proof -
  let ?o = "operator_observer demo_kube demo_flink demo_live (Some demo_target) (demo_sys demo_live)"
  obtain x s' where o: "?o = (x, s')" by (cases ?o)
  have "case fst ?o of Inr _ \<Rightarrow> True | Inl _ \<Rightarrow> False" by code_simp
  with o obtain r where r: "?o = (Inr r, s')" by (cases x) auto
  have "set (st_injectedPods (cr_status demo_live)) \<inter> set (rt_tmPods demo_target) \<noteq> {}" by code_simp
  from live_injection_not_ready [OF r refl this] r show ?thesis by blast
qed

theorem checkpoint_stable_iff_witness:
  "\<exists>s'. is_checkpoint_stable demo_kube (demo_flink '''') 60 (demo_sys demo_live) = (Inr True, s')"
proof -
  let ?o = "is_checkpoint_stable demo_kube (demo_flink '''') 60 (demo_sys demo_live)"
  obtain x s' where o: "?o = (x, s')" by (cases ?o)
  have "case fst ?o of Inr _ \<Rightarrow> True | Inl _ \<Rightarrow> False" by code_simp
  with o obtain b where b: "?o = (Inr b, s')" by (cases x) auto
  have b': "b" if "in_i32 60"
    using checkpoint_stable_iff [OF b that] b
    by (auto simp: is_checkpoint_stable_def demo_flink_def demo_kube_def demo_sys_def read_ext_def now_def
        second_def millisecond_def time_sub_def max_duration_def min_duration_def wrap64_def)
  have "b" by (rule b') (simp add: in_i32_def)
  with b show ?thesis by simp
qed

end
