(* ===== verification/Reconciler.thy ===== *)
theory Reconciler
  imports Call_Logic Safety Observers
begin

section \<open>The ChaosRun reconciler\<close>

text \<open>
  \<^verbatim>\<open>internal/controller/chaosrun_controller.go\<close>. One call of \<open>reconcile\<close> is one pass of the
  control loop over one ChaosRun. The pluggable parts are the fields of the record \<open>reconciler\<close>;
  a status patch answers with the object as the server holds it, which the code goes on with, so
  the spec defaults set in memory last until the first patch of a pass only. Log output is not
  modelled.
\<close>

subsection \<open>State and results\<close>

record 'w driver =
  dr_inject :: "chaos_run \<Rightarrow> resolved_target \<Rightarrow> 'w sys \<Rightarrow> driver_result \<times> chaos_run \<times> 'w sys"
  dr_cleanup :: "(chaos_run \<Rightarrow> 'w sys \<Rightarrow> driver_error option \<times> chaos_run \<times> 'w sys) option"

text \<open>
  \<open>rc_httpFactory\<close> is \<^verbatim>\<open>flinkrest.NewHTTPClient\<close>, the default of the client factory;
  \<open>rc_lossPointer\<close> is the text \<^verbatim>\<open>%v\<close> prints for the address of a loss percentage.
\<close>

record 'w reconciler =
  rc_kube :: "'w kube"
  rc_safety :: "(chaos_run \<Rightarrow> resolved_target \<Rightarrow> 'w sys \<Rightarrow> safety_error option \<times> 'w sys) option"
  rc_resolvers :: "target_type \<Rightarrow> (chaos_run \<Rightarrow> 'w sys \<Rightarrow> (resolve_error + resolved_target) \<times> 'w sys) option"
  rc_drivers :: "(scenario_type \<Rightarrow> 'w driver option) option"
  rc_observer :: "'w observer option"
  rc_factory :: "(string \<Rightarrow> 'w flink_client) option"
  rc_httpFactory :: "string \<Rightarrow> 'w flink_client"
  rc_lossPointer :: string

datatype reconcile_error =
    ApiFailed api_error
  | CheckpointQuery string
  | WaitTimeoutNil
  | CheckpointNotStable

text \<open>\<open>Returned requeue after\<close> is \<^verbatim>\<open>ctrl.Result{Requeue: requeue, RequeueAfter: after}\<close> without error.\<close>

datatype outcome = Panicked string | Errored reconcile_error | Returned bool int

abbreviation finished :: outcome where "finished \<equiv> Returned False 0"
abbreviation requeue :: outcome where "requeue \<equiv> Returned True 0"
abbreviation requeue_after :: "int \<Rightarrow> outcome" where "requeue_after d \<equiv> Returned False d"

type_synonym 'w handler = "('w sys, outcome) state"

definition chaos_run_finalizer :: string where
  "chaos_run_finalizer = ''chaos.flink.io/cleanup''"

definition patch_status ::
  "'w kube \<Rightarrow> chaos_run \<Rightarrow> chaos_run \<Rightarrow> (chaos_run \<Rightarrow> 'w handler) \<Rightarrow> 'w handler" where
  \<comment> \<open>\<^verbatim>\<open>if err := r.Status().Patch(...); err != nil { return ctrl.Result{}, err }\<close>, then the rest.\<close>
  "patch_status k base run rest = do {
     r \<leftarrow> State (status_patch k base run);
     case r of Inl e \<Rightarrow> State_Monad.return (Errored (ApiFailed e)) | Inr run1 \<Rightarrow> rest run1
   }"

definition patch_object ::
  "'w kube \<Rightarrow> chaos_run \<Rightarrow> chaos_run \<Rightarrow> (chaos_run \<Rightarrow> 'w handler) \<Rightarrow> 'w handler" where
  "patch_object k base run rest = do {
     r \<leftarrow> State (object_patch k base run);
     case r of Inl e \<Rightarrow> State_Monad.return (Errored (ApiFailed e)) | Inr run1 \<Rightarrow> rest run1
   }"

subsection \<open>Delegation to the pluggable parts\<close>

definition resolve_target :: "'w reconciler \<Rightarrow> chaos_run \<Rightarrow> 'w sys \<Rightarrow> (resolve_error + resolved_target) \<times> 'w sys" where
  "resolve_target rc run s =
     (case rc_resolvers rc (t_type (sp_target (cr_spec run))) of
        None \<Rightarrow> (Inl (UnsupportedTargetType (t_type (sp_target (cr_spec run)))), s)
      | Some resolve \<Rightarrow> resolve run s)"

definition run_safety_checks ::
  "'w reconciler \<Rightarrow> chaos_run \<Rightarrow> resolved_target \<Rightarrow> 'w sys \<Rightarrow> safety_error option \<times> 'w sys" where
  "run_safety_checks rc run t s =
     (case rc_safety rc of None \<Rightarrow> (None, s) | Some chk \<Rightarrow> chk run t s)"

definition inject_chaos ::
  "'w reconciler \<Rightarrow> resolved_target \<Rightarrow> chaos_run \<Rightarrow> 'w sys \<Rightarrow> driver_result \<times> chaos_run \<times> 'w sys" where
  "inject_chaos rc t run s =
     (case rc_drivers rc of
        None \<Rightarrow> (DriverOk \<lparr>ir_selected = rt_tmPods t, ir_injected = rt_tmPods t\<rparr>, run, s)
      | Some drivers \<Rightarrow>
          (case drivers (scenario_of run) of
             None \<Rightarrow> (DriverError (UnsupportedScenario (scenario_of run)) None, run, s)
           | Some d \<Rightarrow> dr_inject d run t s))"

definition observe_recovery ::
  "'w reconciler \<Rightarrow> chaos_run \<Rightarrow> resolved_target option \<Rightarrow> 'w sys \<Rightarrow>
   (observe_error + observation_result) \<times> 'w sys" where
  "observe_recovery rc run t s =
     (case rc_observer rc of None \<Rightarrow> (Inr empty_result, s) | Some obs \<Rightarrow> obs run t s)"

text \<open>The driver's \<^verbatim>\<open>Cleanup\<close>, when there is a driver for the scenario and it can clean up.\<close>

definition cleanup_driver ::
  "'w reconciler \<Rightarrow> chaos_run \<Rightarrow> 'w sys \<Rightarrow> driver_error option \<times> chaos_run \<times> 'w sys" where
  "cleanup_driver rc run s =
     (case rc_drivers rc of
        None \<Rightarrow> (None, run, s)
      | Some drivers \<Rightarrow>
          (case drivers (scenario_of run) of
             None \<Rightarrow> (None, run, s)
           | Some d \<Rightarrow>
               (case dr_cleanup d of
                  None \<Rightarrow> (None, run, s)
                | Some cleanup \<Rightarrow> cleanup run s)))"

definition needs_cleanup :: "scenario_type \<Rightarrow> bool" where
  "needs_cleanup sc \<longleftrightarrow> sc = NetworkPartition \<or> sc = NetworkChaos \<or> sc = ResourceExhaustion"

fun has_condition_true :: "condition list \<Rightarrow> cond_type \<Rightarrow> bool" where
  "has_condition_true [] ct = False"
| "has_condition_true (c # cs) ct = (if c_type c = ct then c_status c = CTrue else has_condition_true cs ct)"

definition is_cleanup_complete :: "chaos_run \<Rightarrow> bool" where
  "is_cleanup_complete run =
     (let st = cr_status run in
      if 0 < length (st_networkPolicies st) then False
      else if \<not> list_all er_cleanedUp (st_tcInjections st) then False
      else list_all er_cleanedUp (st_stressInjections st))"

lemma is_cleanup_complete_iff: "is_cleanup_complete run \<longleftrightarrow> leftovers (cr_status run) = 0"
  by (auto simp: is_cleanup_complete_def leftovers_def Let_def list_all_iff filter_empty_conv)

definition opt_duration :: "int option \<Rightarrow> string" where
  "opt_duration d = (case d of None \<Rightarrow> ''<nil>'' | Some x \<Rightarrow> duration_string x)"

definition build_dry_run_preview :: "string \<Rightarrow> chaos_run \<Rightarrow> resolved_target \<Rightarrow> string" where
  "build_dry_run_preview lossPointer run t =
     (let n_tms = fmt_d (int (length (rt_tmPods t))) in
      case scenario_of run of
        TaskManagerPodKill \<Rightarrow>
          ''would delete '' @ n_tms @ '' TaskManager pod(s): '' @ fmt_strings (rt_tmPods t)
      | NetworkPartition \<Rightarrow>
          (case s_network (sp_scenario (cr_spec run)) of
             None \<Rightarrow> ''would create NetworkPolicy for network partition (network spec missing)''
           | Some n \<Rightarrow> ''would create NetworkPolicy: target='' @ string_of_net_target (n_target n) @
               '' direction='' @ string_of_direction (n_direction n))
      | NetworkChaos \<Rightarrow>
          (case s_network (sp_scenario (cr_spec run)) of
             None \<Rightarrow> ''would inject tc netem/tbf rules (network spec missing)''
           | Some n \<Rightarrow> ''would inject tc netem/tbf on '' @ n_tms @ '' pod(s): target='' @
               string_of_net_target (n_target n) @ '' direction='' @ string_of_direction (n_direction n) @
               '' latency='' @ opt_duration (n_latency n) @ '' jitter='' @ opt_duration (n_jitter n) @
               '' loss='' @ (case n_loss n of None \<Rightarrow> ''<nil>'' | Some _ \<Rightarrow> lossPointer) @
               '' bandwidth='' @ fmt_q (n_bandwidth n))
      | ResourceExhaustion \<Rightarrow>
          (case s_resourceExhaustion (sp_scenario (cr_spec run)) of
             None \<Rightarrow> ''would inject stress-ng (resource exhaustion spec missing)''
           | Some re \<Rightarrow> ''would inject stress-ng on '' @ n_tms @ '' pod(s): mode='' @
               string_of_exhaustion (re_mode re) @ '' workers='' @ fmt_d (re_workers re) @
               '' duration='' @ opt_duration (re_duration re))
      | sc \<Rightarrow> ''would execute scenario '' @ fmt_q (string_of_scenario sc) @ '' on '' @ n_tms @ '' pod(s)'')"

definition finish_run :: "'w reconciler \<Rightarrow> chaos_run \<Rightarrow> ('w sys, unit) state" where
  "finish_run rc run =
     (let scenario = string_of_scenario (scenario_of run);
          phase = string_of_phase (phase_of run);
          verdict = string_of_verdict (st_verdict (cr_status run))
      in do {
        log_call (RunsTotalInc scenario phase verdict);
        (case st_startedAt (cr_status run) of
           None \<Rightarrow> State_Monad.return ()
         | Some t0 \<Rightarrow> do {
             t \<leftarrow> read_clock (rc_kube rc);
             log_call (RunDurationObserve scenario verdict (time_sub t t0))
           });
        log_call (Event ''Normal'' ''RunFinished''
          (''ChaosRun reached terminal phase '' @ phase @ '' with verdict '' @ verdict))
      })"

subsection \<open>Pending\<close>

definition wait_for_stable_checkpoint ::
  "'w reconciler \<Rightarrow> chaos_run \<Rightarrow> chaos_run \<Rightarrow> ('w sys, reconcile_error option \<times> chaos_run) state" where
  "wait_for_stable_checkpoint rc run base =
     (let k = rc_kube rc; obs = o_flinkRest (sp_observe (cr_spec run));
          factory = (case rc_factory rc of None \<Rightarrow> rc_httpFactory rc | Some f \<Rightarrow> f)
      in do {
        r \<leftarrow> State (is_checkpoint_stable k (factory (fr_endpoint obs)) (fr_stableWindowSeconds obs));
        (case r of
           Inl e \<Rightarrow> State_Monad.return (Some (CheckpointQuery e), run)
         | Inr isStable \<Rightarrow>
             (if isStable then State_Monad.return (None, run)
              else case st_startedAt (cr_status run) of
                None \<Rightarrow> State_Monad.return (Some CheckpointNotStable, run)
              | Some t0 \<Rightarrow>
                  (case fr_waitTimeout obs of
                     None \<Rightarrow> State_Monad.return (Some WaitTimeoutNil, run)
                   | Some limit \<Rightarrow> do {
                       t \<leftarrow> read_clock k;
                       (if t0 + limit < t then do {
                          run1 \<leftarrow> failed_run k ''timed out waiting for a stable Flink checkpoint before injection'' run;
                          run2 \<leftarrow> condition_set k RunFailed CTrue ''CheckpointWaitTimeout''
                            ''No stable checkpoint was observed within the configured timeout'' run1;
                          log_call (Event ''Warning'' ''CheckpointWaitTimeout''
                            ''Timed out waiting for a stable Flink checkpoint'');
                          p \<leftarrow> State (status_patch k run run2);
                          (case p of
                             Inl e \<Rightarrow> State_Monad.return (Some (ApiFailed e), run2)
                           | Inr run3 \<Rightarrow> State_Monad.return (None, run3))
                        } else do {
                          p \<leftarrow> State (status_patch k base run);
                          (case p of
                             Inl e \<Rightarrow> State_Monad.return (Some (ApiFailed e), run)
                           | Inr run3 \<Rightarrow> State_Monad.return (Some CheckpointNotStable, run3))
                        })
                     })))
      })"

definition pending_invalid :: "'w reconciler \<Rightarrow> chaos_run \<Rightarrow> valid_error list \<Rightarrow> 'w handler" where
  "pending_invalid rc run errs =
     (let k = rc_kube rc; msg = valid_msgs errs
      in do {
        run1 \<leftarrow> failed_run k (''spec validation failed: '' @ msg) run;
        run2 \<leftarrow> condition_set k RunFailed CTrue ''ValidationFailed'' msg run1;
        log_call (Event ''Warning'' ''ValidationFailed'' (''ChaosRun spec validation failed: '' @ msg));
        patch_status k run run2 (\<lambda>_. State_Monad.return finished)
      })"

definition start_injecting :: "'w reconciler \<Rightarrow> chaos_run \<Rightarrow> 'w handler" where
  "start_injecting rc run =
     patch_status (rc_kube rc) run (transition_phase run Injecting ''target resolution and injection starting'')
       (\<lambda>_. State_Monad.return requeue)"

definition pending_checkpoint_wait :: "'w reconciler \<Rightarrow> chaos_run \<Rightarrow> 'w handler" where
  "pending_checkpoint_wait rc run = do {
     (e, run1) \<leftarrow> wait_for_stable_checkpoint rc run run;
     (case e of
        None \<Rightarrow> (if phase_of run1 = Failed then State_Monad.return finished else start_injecting rc run1)
      | Some err \<Rightarrow>
          (if err = CheckpointNotStable
           then State_Monad.return (requeue_after (o_pollInterval (sp_observe (cr_spec run1))))
           else State_Monad.return (Errored err)))
   }"

definition reconcile_pending :: "'w reconciler \<Rightarrow> chaos_run \<Rightarrow> 'w handler" where
  "reconcile_pending rc run =
     (if validate run \<noteq> [] then pending_invalid rc run (validate run)
      else do {
        t \<leftarrow> read_clock (rc_kube rc);
        patch_status (rc_kube rc) run (upd_status (st_startedAt_update (\<lambda>_. Some t)) run)
          (\<lambda>run1. if fr_requireStableCheckpoint (o_flinkRest (sp_observe (cr_spec run1)))
             then pending_checkpoint_wait rc run1
             else start_injecting rc run1)
      })"

subsection \<open>Injecting\<close>

definition transition_to_observing :: "'w reconciler \<Rightarrow> chaos_run \<Rightarrow> 'w handler" where
  "transition_to_observing rc run =
     (let pollInterval = o_pollInterval (sp_observe (cr_spec run))
      in do {
        t \<leftarrow> read_clock (rc_kube rc);
        patch_status (rc_kube rc) run
          (transition_phase (upd_status (st_observingStartedAt_update (\<lambda>_. Some t)) run) Observing
             ''injection complete, observing recovery'')
          (\<lambda>_. State_Monad.return (requeue_after pollInterval))
      })"

definition injecting_unresolved :: "'w reconciler \<Rightarrow> chaos_run \<Rightarrow> resolve_error \<Rightarrow> 'w handler" where
  "injecting_unresolved rc run e =
     (let k = rc_kube rc; msg = resolve_error_text e
      in do {
        run1 \<leftarrow> failed_run k (''target resolution failed: '' @ msg) run;
        run2 \<leftarrow> condition_set k TargetResolved CFalse ''ResolutionFailed'' msg run1;
        run3 \<leftarrow> condition_set k RunFailed CTrue ''TargetResolutionFailed'' msg run2;
        log_call (Event ''Warning'' ''TargetResolutionFailed'' (''Failed to resolve target: '' @ msg));
        patch_status k run run3 (\<lambda>_. State_Monad.return finished)
      })"

definition injecting_unsafe :: "'w reconciler \<Rightarrow> chaos_run \<Rightarrow> chaos_run \<Rightarrow> safety_error \<Rightarrow> 'w handler" where
  "injecting_unsafe rc base run e =
     (let k = rc_kube rc; msg = safety_error_text e
      in do {
        run1 \<leftarrow> failed_run k (''safety checks failed: '' @ msg) run;
        run2 \<leftarrow> condition_set k SafetyChecksPassed CFalse ''SafetyCheckFailed'' msg run1;
        run3 \<leftarrow> condition_set k RunFailed CTrue ''SafetyCheckFailed'' msg run2;
        log_call (Event ''Warning'' ''SafetyRejection'' (''Safety checks rejected injection: '' @ msg));
        patch_status k base run3 (\<lambda>_. State_Monad.return finished)
      })"

definition injecting_dry_run :: "'w reconciler \<Rightarrow> chaos_run \<Rightarrow> chaos_run \<Rightarrow> resolved_target \<Rightarrow> 'w handler" where
  "injecting_dry_run rc base run t = do {
     run1 \<leftarrow> finalized_run (rc_kube rc) VInconclusive ''dry-run: no pods deleted''
       (upd_status (\<lambda>st. st\<lparr>st_selectedPods := rt_tmPods t,
          st_dryRunPreview := build_dry_run_preview (rc_lossPointer rc) run t\<rparr>) run);
     patch_status (rc_kube rc) base run1 (\<lambda>_. State_Monad.return finished)
   }"

definition injecting_failed :: "'w reconciler \<Rightarrow> chaos_run \<Rightarrow> chaos_run \<Rightarrow> driver_error \<Rightarrow> 'w handler" where
  "injecting_failed rc base run e =
     (let k = rc_kube rc; msg = driver_error_text e
      in do {
        run1 \<leftarrow> failed_run k (''injection failed: '' @ msg) run;
        run2 \<leftarrow> condition_set k InjectionStarted CFalse ''InjectionFailed'' msg run1;
        run3 \<leftarrow> condition_set k RunFailed CTrue ''InjectionFailed'' msg run2;
        log_call (Event ''Warning'' ''RunFailed'' (''Injection failed: '' @ msg));
        patch_status k base run3 (\<lambda>_. State_Monad.return finished)
      })"

text \<open>The bookkeeping after a successful injection: status, finalizer, then the transition.\<close>

definition injecting_add_finalizer :: "'w reconciler \<Rightarrow> chaos_run \<Rightarrow> 'w handler" where
  "injecting_add_finalizer rc run =
     (let k = rc_kube rc in
      if needs_cleanup (scenario_of run) \<and> \<not> k_contains_finalizer k (cr_finalizers run) chaos_run_finalizer
      then patch_object k run
             (run\<lparr>cr_finalizers := k_add_finalizer k (cr_finalizers run) chaos_run_finalizer\<rparr>)
             (transition_to_observing rc)
      else transition_to_observing rc run)"

definition injecting_done ::
  "'w reconciler \<Rightarrow> chaos_run \<Rightarrow> chaos_run \<Rightarrow> resolved_target \<Rightarrow> injection_result \<Rightarrow> 'w handler" where
  "injecting_done rc base run t res =
     (let k = rc_kube rc
      in do {
        run1 \<leftarrow> condition_set k InjectionStarted CTrue ''InjectionStarted'' ''Chaos injection started'' run;
        run2 \<leftarrow> condition_set k InjectionCompleted CTrue ''InjectionCompleted'' ''Chaos injection completed'' run1;
        log_call (Event ''Normal'' ''InjectionStarted'' (''Chaos injection started for target '' @ rt_logicalName t));
        log_call (InjectionsTotalInc (string_of_scenario (scenario_of run)));
        patch_status k base
          (upd_status (\<lambda>st. st\<lparr>st_selectedPods := ir_selected res, st_injectedPods := ir_injected res,
             st_observation := Some ((case st_observation st of None \<Rightarrow> empty_observation | Some o' \<Rightarrow> o')
               \<lparr>ob_tmCountBefore := int (length (rt_tmPods t))\<rparr>)\<rparr>) run2)
          (injecting_add_finalizer rc)
      })"

definition injecting_inject :: "'w reconciler \<Rightarrow> chaos_run \<Rightarrow> chaos_run \<Rightarrow> resolved_target \<Rightarrow> 'w handler" where
  "injecting_inject rc base run t = do {
     (r, run1) \<leftarrow> lift_run (inject_chaos rc t) run;
     (case r of
        DriverPanic msg \<Rightarrow> State_Monad.return (Panicked msg)
      | DriverError e _ \<Rightarrow> injecting_failed rc base run1 e
      | DriverOk res \<Rightarrow> injecting_done rc base run1 t res)
   }"

definition injecting_checked :: "'w reconciler \<Rightarrow> chaos_run \<Rightarrow> chaos_run \<Rightarrow> resolved_target \<Rightarrow> 'w handler" where
  "injecting_checked rc base run t = do {
     run1 \<leftarrow> condition_set (rc_kube rc) SafetyChecksPassed CTrue ''SafetyChecksPassed''
       ''All pre-injection safety checks passed'' run;
     let run2 = upd_status (st_targetSummary_update
       (\<lambda>_. Some \<lparr>sum_type = rt_platform t, sum_name = rt_logicalName t\<rparr>)) run1;
     (if sf_dryRun (sp_safety (cr_spec run2)) then injecting_dry_run rc base run2 t
      else injecting_inject rc base run2 t)
   }"

definition injecting_resolved :: "'w reconciler \<Rightarrow> chaos_run \<Rightarrow> chaos_run \<Rightarrow> resolved_target \<Rightarrow> 'w handler" where
  "injecting_resolved rc base run t = do {
     run1 \<leftarrow> condition_set (rc_kube rc) TargetResolved CTrue ''TargetResolved'' ''Target successfully resolved'' run;
     log_call (Event ''Normal'' ''TargetResolved'' (''Target resolved: '' @ rt_logicalName t));
     e \<leftarrow> State (run_safety_checks rc run1 t);
     (case e of
        Some err \<Rightarrow> injecting_unsafe rc base run1 err
      | None \<Rightarrow> injecting_checked rc base run1 t)
   }"

definition reconcile_injecting :: "'w reconciler \<Rightarrow> chaos_run \<Rightarrow> 'w handler" where
  "reconcile_injecting rc run =
     (if 0 < length (st_injectedPods (cr_status run)) then transition_to_observing rc run
      else do {
        r \<leftarrow> State (resolve_target rc run);
        (case r of
           Inl e \<Rightarrow> injecting_unresolved rc run e
         | Inr t \<Rightarrow> injecting_resolved rc run run t)
      })"

subsection \<open>Observing\<close>

definition observing_disabled :: "'w reconciler \<Rightarrow> chaos_run \<Rightarrow> 'w handler" where
  "observing_disabled rc run =
     (let k = rc_kube rc in
      if needs_cleanup (scenario_of run)
      then patch_status k run
             (transition_phase run CleaningUp ''observation disabled, cleaning up network chaos resources'')
             (\<lambda>_. State_Monad.return requeue)
      else do {
        run1 \<leftarrow> finalized_run k VPassed ''observation disabled'' run;
        finish_run rc run1;
        patch_status k run run1 (\<lambda>_. State_Monad.return finished)
      })"

definition observe_anchor :: "chaos_run_status \<Rightarrow> int option" where
  "observe_anchor st = (if st_observingStartedAt st \<noteq> None then st_observingStartedAt st else st_startedAt st)"

definition recovery_seen :: "chaos_run_status \<Rightarrow> bool" where
  "recovery_seen st \<longleftrightarrow>
     (case st_observation st of None \<Rightarrow> False | Some o' \<Rightarrow> ob_recoveryObservedAt o' \<noteq> None)"

text \<open>The verdict and the message when the observation window has elapsed.\<close>

definition timeout_verdict :: "scenario_type \<Rightarrow> chaos_run_status \<Rightarrow> int \<Rightarrow> run_verdict \<times> string" where
  "timeout_verdict sc st timeout =
     (let secs = fmt_d (whole_seconds timeout) in
      if \<not> needs_cleanup sc then
        (if recovery_seen st then
           (VPassed, ''killed pod recovered in '' @
              fmt_d (case st_observation st of None \<Rightarrow> 0 | Some o' \<Rightarrow>
                (case ob_recoveryTimeSeconds o' of None \<Rightarrow> 0 | Some x \<Rightarrow> x)) @
              ''s (observation window: '' @ secs @ ''s)'')
         else (VFailed, ''killed pod was not recovered within the '' @ secs @ ''s observation window''))
      else if sc = ResourceExhaustion then (VPassed, ''resource exhaustion ran for '' @ secs @ ''s'')
      else if recovery_seen st then
        (VPassed, ''recovery confirmed within the '' @ secs @ ''s observation window'')
      else if st_replacementObserved st then
        (VInconclusive, ''replacement pod seen but full recovery not confirmed within the '' @ secs @
           ''s observation window'')
      else (VFailed, ''no Flink recovery detected within the '' @ secs @ ''s observation window''))"

definition observing_timeout :: "'w reconciler \<Rightarrow> chaos_run \<Rightarrow> 'w handler" where
  "observing_timeout rc run =
     (let k = rc_kube rc;
          vm = timeout_verdict (scenario_of run) (cr_status run) (o_timeout (sp_observe (cr_spec run)))
      in if \<not> needs_cleanup (scenario_of run) then do {
           run1 \<leftarrow> finalized_run k (fst vm) (snd vm) run;
           finish_run rc run1;
           patch_status k run run1 (\<lambda>_. State_Monad.return finished)
         }
         else patch_status k run
           (transition_phase (upd_status (st_verdict_update (\<lambda>_. fst vm)) run) CleaningUp
              (snd vm @ '', cleaning up''))
           (\<lambda>_. State_Monad.return requeue))"

text \<open>The duration of a partition and when observing began, where the partition rule applies.\<close>

definition partition_window :: "chaos_run \<Rightarrow> (int \<times> int) option" where
  "partition_window run =
     (if scenario_of run = NetworkPartition then
        (case s_network (sp_scenario (cr_spec run)) of
           None \<Rightarrow> None
         | Some n \<Rightarrow>
             (case (n_duration n, st_observingStartedAt (cr_status run)) of
                (Some d, Some t0) \<Rightarrow> Some (d, t0)
              | _ \<Rightarrow> None))
      else None)"

definition observing_partition :: "'w reconciler \<Rightarrow> chaos_run \<Rightarrow> int \<Rightarrow> int \<Rightarrow> 'w handler" where
  "observing_partition rc run duration t0 = do {
     t \<leftarrow> read_clock (rc_kube rc);
     let elapsed = time_sub t t0;
     (if duration \<le> elapsed then
        (let replaced = st_replacementObserved (cr_status run);
             verdict = (if replaced then VPassed else VInconclusive);
             msg = (if replaced then ''network partition duration elapsed, recovery confirmed''
                    else ''network partition duration elapsed'')
         in patch_status (rc_kube rc) run
              (transition_phase (upd_status (st_verdict_update (\<lambda>_. verdict)) run) CleaningUp
                 (msg @ '', removing policies''))
              (\<lambda>_. State_Monad.return requeue))
      else patch_status (rc_kube rc) run run
             (\<lambda>_. State_Monad.return (requeue_after (wrap64 (duration - elapsed)))))
   }"

definition record_observation :: "chaos_run \<Rightarrow> observation_result \<Rightarrow> chaos_run" where
  "record_observation run res =
     upd_status (\<lambda>st.
       let o0 = (case st_observation st of None \<Rightarrow> empty_observation | Some o' \<Rightarrow> o');
           o1 = (if ob_tmCountBefore o0 = 0 then o0\<lparr>ob_tmCountBefore := or_tmCountBefore res\<rparr> else o0)
       in st\<lparr>st_observation := Some (o1\<lparr>ob_tmCountAfter := or_tmCountAfter res\<rparr>),
             st_replacementObserved := or_replacementObserved res\<rparr>) run"

definition record_recovery :: "chaos_run \<Rightarrow> int \<Rightarrow> int option \<Rightarrow> chaos_run" where
  "record_recovery run at secs =
     upd_status (\<lambda>st. st\<lparr>st_observation :=
       Some (let o0 = (case st_observation st of None \<Rightarrow> empty_observation | Some o' \<Rightarrow> o');
                 o1 = o0\<lparr>ob_recoveryObservedAt := Some at\<rparr>
             in (case secs of None \<Rightarrow> o1 | Some x \<Rightarrow> o1\<lparr>ob_recoveryTimeSeconds := Some x\<rparr>))\<rparr>) run"

definition observing_recovered :: "'w reconciler \<Rightarrow> chaos_run \<Rightarrow> chaos_run \<Rightarrow> int option \<Rightarrow> 'w handler" where
  "observing_recovered rc base run anchor =
     (let k = rc_kube rc
      in do {
        at \<leftarrow> read_clock k;
        secs \<leftarrow> (case anchor of
          None \<Rightarrow> State_Monad.return None
        | Some t0 \<Rightarrow> do {
            t \<leftarrow> read_clock k;
            State_Monad.return (Some (whole_seconds (time_sub t t0)))
          });
        let msg = (case secs of None \<Rightarrow> ''recovery confirmed''
                   | Some x \<Rightarrow> ''recovery confirmed in '' @ fmt_d x @ ''s'');
        run1 \<leftarrow> condition_set k RecoveryObserved CTrue ''RecoveryObserved'' msg (record_recovery run at secs);
        log_call (Event ''Normal'' ''RecoveryObserved'' msg);
        log_call RecoveryObservedInc;
        (if needs_cleanup (scenario_of run1)
         then patch_status k base (transition_phase run1 CleaningUp (msg @ '', cleaning up''))
                (\<lambda>_. State_Monad.return requeue)
         else do {
           run2 \<leftarrow> finalized_run k VPassed msg run1;
           finish_run rc run2;
           patch_status k base run2 (\<lambda>_. State_Monad.return finished)
         })
      })"

definition observing_poll :: "'w reconciler \<Rightarrow> chaos_run \<Rightarrow> 'w handler" where
  "observing_poll rc run =
     (let k = rc_kube rc; pollInterval = o_pollInterval (sp_observe (cr_spec run));
          anchor = observe_anchor (cr_status run)
      in do {
        t \<leftarrow> State (resolve_target rc run);
        r \<leftarrow> State (observe_recovery rc run (case t of Inl e \<Rightarrow> None | Inr x \<Rightarrow> Some x));
        (case r of
           Inl e \<Rightarrow> State_Monad.return (requeue_after pollInterval)
         | Inr res \<Rightarrow>
             (let run1 = record_observation run res in
              if or_allReady res \<and> \<not> recovery_seen (cr_status run1)
              then observing_recovered rc run run1 anchor
              else patch_status k run run1 (\<lambda>_. State_Monad.return (requeue_after pollInterval))))
      })"

definition observing_within :: "'w reconciler \<Rightarrow> chaos_run \<Rightarrow> 'w handler" where
  "observing_within rc run =
     (case partition_window run of
        Some (d, t0) \<Rightarrow> observing_partition rc run d t0
      | None \<Rightarrow> observing_poll rc run)"

definition reconcile_observing :: "'w reconciler \<Rightarrow> chaos_run \<Rightarrow> 'w handler" where
  "reconcile_observing rc run =
     (if \<not> o_enabled (sp_observe (cr_spec run)) then observing_disabled rc run
      else case observe_anchor (cr_status run) of
        None \<Rightarrow> observing_within rc run
      | Some t0 \<Rightarrow> do {
          t \<leftarrow> read_clock (rc_kube rc);
          (if o_timeout (sp_observe (cr_spec run)) < time_sub t t0 then observing_timeout rc run
           else observing_within rc run)
        })"

subsection \<open>CleaningUp\<close>

definition cleanup_grace :: int where "cleanup_grace = 5 * minute"

definition cleaning_overdue :: "'w reconciler \<Rightarrow> chaos_run \<Rightarrow> 'w handler" where
  "cleaning_overdue rc run =
     (let k = rc_kube rc
      in do {
        run1 \<leftarrow> condition_set k NetworkChaosCleanedUp CFalse ''CleanupTimeout''
          ''Cleanup did not complete within the allotted time'' run;
        run2 \<leftarrow> failed_run k ''cleanup timeout: network chaos resources may not have been fully removed'' run1;
        finish_run rc run2;
        log_call (Event ''Warning'' ''CleanupTimeout''
          ''Cleanup timed out; network chaos resources may still be present'');
        patch_status k run run2 (\<lambda>_. State_Monad.return finished)
      })"

definition cleaned_message :: "string \<Rightarrow> string" where
  "cleaned_message msg =
     (if msg \<noteq> '''' then trim_suffix msg '', cleaning up'' @ '', cleaned up''
      else ''chaos experiment completed and cleaned up'')"

definition cleaned_verdict :: "run_verdict \<Rightarrow> run_verdict" where
  "cleaned_verdict v = (if v = NoVerdict then VPassed else v)"

definition drop_finalizer :: "'w reconciler \<Rightarrow> chaos_run \<Rightarrow> 'w handler" where
  "drop_finalizer rc run =
     (let k = rc_kube rc in
      if k_contains_finalizer k (cr_finalizers run) chaos_run_finalizer then do {
        r \<leftarrow> State (read_ext (k_get_run k (cr_namespace run) (cr_name run)));
        (case r of
           Inl e \<Rightarrow> State_Monad.return (Errored (ApiFailed e))
         | Inr fresh \<Rightarrow>
             (if k_contains_finalizer k (cr_finalizers fresh) chaos_run_finalizer
              then patch_object k fresh
                     (fresh\<lparr>cr_finalizers := k_remove_finalizer k (cr_finalizers fresh) chaos_run_finalizer\<rparr>)
                     (\<lambda>_. State_Monad.return finished)
              else State_Monad.return finished))
      }
      else State_Monad.return finished)"

definition cleaning_complete :: "'w reconciler \<Rightarrow> chaos_run \<Rightarrow> chaos_run \<Rightarrow> 'w handler" where
  "cleaning_complete rc base run =
     (let k = rc_kube rc
      in do {
        run1 \<leftarrow> condition_set k NetworkChaosCleanedUp CTrue ''CleanupComplete''
          ''All network chaos resources removed'' run;
        run2 \<leftarrow> (if has_condition_true (st_conditions (cr_status run1)) AbortRequested
          then aborted_run k ''abort requested, network chaos resources cleaned up'' run1
          else finalized_run k (cleaned_verdict (st_verdict (cr_status run1)))
                 (cleaned_message (st_message (cr_status run1))) run1);
        finish_run rc run2;
        log_call (Event ''Normal'' ''CleanupComplete'' ''Network chaos resources cleaned up, run finalized'');
        patch_status k base run2 (drop_finalizer rc)
      })"

definition cleaning_try :: "'w reconciler \<Rightarrow> chaos_run \<Rightarrow> 'w handler" where
  "cleaning_try rc run = do {
     (e, run1) \<leftarrow> lift_run (cleanup_driver rc) run;
     (if e \<noteq> None \<or> \<not> is_cleanup_complete run1
      then patch_status (rc_kube rc) run run1
             (\<lambda>run2. State_Monad.return (requeue_after (o_pollInterval (sp_observe (cr_spec run2)))))
      else cleaning_complete rc run run1)
   }"

definition reconcile_cleaning_up :: "'w reconciler \<Rightarrow> chaos_run \<Rightarrow> 'w handler" where
  "reconcile_cleaning_up rc run =
     (case st_startedAt (cr_status run) of
        None \<Rightarrow> cleaning_try rc run
      | Some t0 \<Rightarrow> do {
          t \<leftarrow> read_clock (rc_kube rc);
          (if t0 + o_timeout (sp_observe (cr_spec run)) + cleanup_grace < t then cleaning_overdue rc run
           else cleaning_try rc run)
        })"

subsection \<open>Deletion, abort and the dispatch on the phase\<close>

definition reconcile_deleted :: "'w reconciler \<Rightarrow> chaos_run \<Rightarrow> 'w handler" where
  "reconcile_deleted rc run = do {
     (e, run1) \<leftarrow> lift_run (cleanup_driver rc) run;
     (if e \<noteq> None then State_Monad.return (requeue_after (5 * second))
      else patch_object (rc_kube rc) run1
             (run1\<lparr>cr_finalizers := k_remove_finalizer (rc_kube rc) (cr_finalizers run1) chaos_run_finalizer\<rparr>)
             (\<lambda>_. State_Monad.return finished))
   }"

definition reconcile_abort :: "'w reconciler \<Rightarrow> chaos_run \<Rightarrow> 'w handler" where
  "reconcile_abort rc run =
     (let k = rc_kube rc;
          hasInjectedResources = (needs_cleanup (scenario_of run) \<and> phase_of run \<noteq> NoPhase \<and> phase_of run \<noteq> Pending)
      in do {
        run1 \<leftarrow> condition_set k AbortRequested CTrue ''AbortRequested'' ''User set spec.control.abort=true'' run;
        log_call AbortRequestsInc;
        log_call (Event ''Normal'' ''AbortRequested'' ''ChaosRun abort requested by user'');
        (if hasInjectedResources
         then patch_status k run
                (transition_phase run1 CleaningUp ''abort requested, cleaning up network chaos resources'')
                (\<lambda>_. State_Monad.return requeue)
         else do {
           run2 \<leftarrow> aborted_run k ''abort requested via spec.control.abort'' run1;
           patch_status k run run2 (\<lambda>run3. do {
             log_call (RunsTotalInc (string_of_scenario (scenario_of run3)) (string_of_phase Aborted) '''');
             State_Monad.return finished
           })
         })
      })"

definition reconcile_phase :: "'w reconciler \<Rightarrow> chaos_run \<Rightarrow> 'w handler" where
  "reconcile_phase rc run =
     (if phase_of run = NoPhase \<or> phase_of run = Pending then reconcile_pending rc run
      else if phase_of run = Injecting then reconcile_injecting rc run
      else if phase_of run = Observing then reconcile_observing rc run
      else if phase_of run = CleaningUp then reconcile_cleaning_up rc run
      else State_Monad.return finished)"

definition reconcile_run :: "'w reconciler \<Rightarrow> chaos_run \<Rightarrow> 'w handler" where
  "reconcile_run rc run =
     (if is_terminal (phase_of run) then State_Monad.return finished
      else if cr_deletionTimestamp run \<noteq> None \<and>
              k_contains_finalizer (rc_kube rc) (cr_finalizers run) chaos_run_finalizer
      then reconcile_deleted rc run
      else if ctl_abort (sp_control (cr_spec run)) \<and> phase_of run \<noteq> CleaningUp
      then reconcile_abort rc run
      else reconcile_phase rc run)"

definition reconcile :: "'w reconciler \<Rightarrow> string \<Rightarrow> string \<Rightarrow> 'w handler" where
  "reconcile rc ns name = do {
     r \<leftarrow> State (read_ext (k_get_run (rc_kube rc) ns name));
     (case r of
        Inl (NotFound m) \<Rightarrow> State_Monad.return finished
      | Inl e \<Rightarrow> State_Monad.return (Errored (ApiFailed e))
      | Inr run \<Rightarrow> reconcile_run rc (set_defaults run))
   }"

lemmas handler_defs =
  reconcile_run_def reconcile_phase_def reconcile_abort_def reconcile_deleted_def
  reconcile_pending_def pending_invalid_def pending_checkpoint_wait_def start_injecting_def
  wait_for_stable_checkpoint_def reconcile_injecting_def injecting_unresolved_def injecting_resolved_def
  injecting_unsafe_def injecting_checked_def injecting_dry_run_def injecting_inject_def injecting_failed_def
  injecting_done_def injecting_add_finalizer_def transition_to_observing_def
  reconcile_observing_def observing_disabled_def observing_timeout_def observing_within_def
  observing_partition_def observing_poll_def observing_recovered_def
  reconcile_cleaning_up_def cleaning_overdue_def cleaning_try_def cleaning_complete_def drop_finalizer_def

end
