(* ===== verification/Lifecycle.thy ===== *)
theory Lifecycle
  imports Reconciler
begin

section \<open>The lifecycle the reconciler drives a run through\<close>

lemma ended_well_open [simp]: "\<not> is_terminal (st_phase st) \<Longrightarrow> ended_well st"
  by (auto simp: ended_well_def is_terminal_def)

lemma is_terminal_simps [simp]:
  "\<not> is_terminal NoPhase" "\<not> is_terminal Pending" "\<not> is_terminal Injecting" "\<not> is_terminal Observing"
  "\<not> is_terminal CleaningUp" "\<not> is_terminal (OtherPhase x)"
  "is_terminal Completed" "is_terminal Aborted" "is_terminal Failed"
  by (simp_all add: is_terminal_def)


subsection \<open>The abstract phase machine\<close>

text \<open>
  The phases as \<^verbatim>\<open>Reconcile\<close> documents them: forward only, cleaning up before a terminal phase
  where resources were injected, and no way out of a terminal phase.
\<close>

inductive phase_step :: "run_phase \<Rightarrow> run_phase \<Rightarrow> bool" where
  start: "p = NoPhase \<or> p = Pending \<Longrightarrow> phase_step p Injecting"
| reject: "p = NoPhase \<or> p = Pending \<or> p = Injecting \<Longrightarrow> phase_step p Failed"
| dry_run: "phase_step Injecting Completed"
| injected: "phase_step Injecting Observing"
| observed: "phase_step Observing Completed"
| clean: "p = Observing \<Longrightarrow> phase_step p CleaningUp"
| cleaned: "phase_step CleaningUp Completed"
| clean_aborted: "phase_step CleaningUp Aborted"
| clean_late: "phase_step CleaningUp Failed"
| abort: "p \<noteq> CleaningUp \<Longrightarrow> \<not> is_terminal p \<Longrightarrow> phase_step p Aborted"
| abort_clean: "p \<noteq> CleaningUp \<Longrightarrow> \<not> is_terminal p \<Longrightarrow> p \<noteq> NoPhase \<Longrightarrow> p \<noteq> Pending \<Longrightarrow> phase_step p CleaningUp"

inductive_simps phase_step_iff: "phase_step p q"
inductive_cases phase_stepE: "phase_step p q"

fun phase_rank :: "run_phase \<Rightarrow> nat" where
  "phase_rank NoPhase = 0"
| "phase_rank Pending = 0"
| "phase_rank (OtherPhase s) = 0"
| "phase_rank Injecting = 1"
| "phase_rank Observing = 2"
| "phase_rank CleaningUp = 3"
| "phase_rank Completed = 4"
| "phase_rank Aborted = 4"
| "phase_rank Failed = 4"

lemma phase_step_rank: "phase_step p q \<Longrightarrow> phase_rank p < phase_rank q"
  by (cases p; cases q; auto simp: phase_step_iff is_terminal_def)

lemma phase_step_not_from_terminal: "phase_step p q \<Longrightarrow> \<not> is_terminal p"
  by (auto elim!: phase_stepE simp: is_terminal_def)

text \<open>A history of phases: each one is kept or left by a step.\<close>

fun phase_path :: "run_phase \<Rightarrow> run_phase list \<Rightarrow> bool" where
  "phase_path p [] = True"
| "phase_path p (q # qs) \<longleftrightarrow> (q = p \<or> phase_step p q) \<and> phase_path q qs"

lemma phase_path_ranks: "phase_path p qs \<Longrightarrow> sorted (map phase_rank (p # qs))"
proof (induction p qs rule: phase_path.induct)
  case (2 p q qs)
  then have "sorted (map phase_rank (q # qs))" and "phase_rank p \<le> phase_rank q"
    using phase_step_rank [of p q] by auto
  then show ?case by auto
qed simp

lemma phase_path_terminal: "phase_path p qs \<Longrightarrow> is_terminal p \<Longrightarrow> set qs \<subseteq> {p}"
  by (induction p qs rule: phase_path.induct) (auto dest: phase_step_not_from_terminal)

subsection \<open>What a pass may log\<close>

text \<open>
  \<open>allowed A d c\<close>: a status patch sends a phase of \<open>A\<close>, with end time and verdict when that
  phase is terminal; calls that disturb the workload are allowed when \<open>d\<close> holds.
\<close>

definition allowed :: "run_phase set \<Rightarrow> bool \<Rightarrow> call \<Rightarrow> bool" where
  "allowed A d c \<longleftrightarrow>
     (case c of StatusPatch r ok \<Rightarrow> phase_of r \<in> A \<and> ended_well (cr_status r) | _ \<Rightarrow> disruptive c \<longrightarrow> d)"

lemma allowed_simps [simp]:
  "allowed A d (StatusPatch r ok) \<longleftrightarrow> phase_of r \<in> A \<and> ended_well (cr_status r)"
  "allowed A d (ObjectPatch r ok)" "allowed A d (DeletePolicy ns n ok)" "allowed A d (Event x y z)"
  "allowed A d (RunsTotalInc x y z)" "allowed A d (RunDurationObserve x y t)"
  "allowed A d (InjectionsTotalInc x)" "allowed A d AbortRequestsInc" "allowed A d RecoveryObservedInc"
  by (simp_all add: allowed_def)

lemma disruptive_allowed: "disruptive c \<Longrightarrow> allowed A True c"
  by (cases c) (simp_all add: allowed_def)

lemma harmless_allowed: "\<not> disruptive c \<Longrightarrow> \<not> is_write_of_run c \<Longrightarrow> allowed A d c"
  by (cases c) (simp_all add: allowed_def)

lemma allowed_disruptive: "allowed A d c \<Longrightarrow> disruptive c \<Longrightarrow> d"
  by (cases c) (simp_all add: allowed_def)

text \<open>
  What is documented of a status patch: it answers with the object, whose phase is the one sent.
\<close>

definition patch_keeps_phase :: "'w kube \<Rightarrow> bool" where
  "patch_keeps_phase k \<longleftrightarrow>
     (\<forall>base r w r' w'. k_status_patch k base r w = (Inr r', w') \<longrightarrow> phase_of r' = phase_of r)"

lemma patch_keeps_phaseD:
  "patch_keeps_phase k \<Longrightarrow> k_status_patch k base r w = (Inr r', w') \<Longrightarrow> phase_of r' = phase_of r"
  unfolding patch_keeps_phase_def by blast

lemma triple_status_patch:
  assumes "settled p run" and "p \<in> A" and "patch_keeps_phase k"
  shows "triple (allowed A d) (\<lambda>x. \<forall>r. x = Inr r \<longrightarrow> phase_of r = p) (State (status_patch k base run))"
proof (rule triple_State)
  fix s a s'
  assume "status_patch k base run s = (a, s')"
  then have "calls s' = calls s @ [StatusPatch run (succeeded a)]" and
    "\<exists>w w'. k_status_patch k base run w = (a, w')"
    by (auto dest: status_patch_calls simp: status_patch_def write_ext_def split: prod.splits)
  then show "emits (allowed A d) s s' \<and> (\<forall>r. a = Inr r \<longrightarrow> phase_of r = p)"
    using assms by (auto simp: emits_def settled_def dest: patch_keeps_phaseD)
qed

lemma triple_patch_status:
  assumes "settled p run" and "p \<in> A" and "patch_keeps_phase k"
    and "\<And>r. phase_of r = p \<Longrightarrow> logs (allowed A d) (rest r)"
  shows "logs (allowed A d) (patch_status k base run rest)"
  unfolding patch_status_def
  by (rule triple_bind [OF triple_status_patch [OF assms(1-3)]], rule triple_sum)
    (auto intro!: triple_return assms(4))

lemma triple_patch_transition:
  assumes "\<not> is_terminal p" and "p \<in> A" and "patch_keeps_phase k"
    and "\<And>r. phase_of r = p \<Longrightarrow> logs (allowed A d) (rest r)"
  shows "logs (allowed A d) (patch_status k base (transition_phase run p msg) rest)"
  by (rule triple_patch_status [OF settled_transition]) (use assms in auto)

lemma triple_patch_object:
  assumes "\<And>r. logs (allowed A d) (rest r)"
  shows "logs (allowed A d) (patch_object k base run rest)"
proof -
  have "logs (allowed A d) (State (object_patch k base run))"
    by (rule triple_State) (auto dest!: object_patch_calls simp: emits_def)
  then show ?thesis
    unfolding patch_object_def
    by (rule triple_bind, intro triple_sum) (auto intro!: triple_return assms)
qed

lemma triple_finish: "logs (allowed A d) (finish_run rc run)"
proof -
  have duration: "logs (allowed A d) (case st_startedAt (cr_status run) of
      None \<Rightarrow> State_Monad.return ()
    | Some t0 \<Rightarrow> State_Monad.bind (read_clock (rc_kube rc))
        (\<lambda>t. log_call (RunDurationObserve sc v (time_sub t t0))))" for sc v
    by (intro triple_rules) simp_all
  show ?thesis
    unfolding finish_run_def Let_def
    by (intro triple_rules triple_bind [OF duration]) simp_all
qed

lemmas bind_finish [triple_rules] = triple_bind [OF triple_finish]

subsection \<open>What a pass may send and when it may inject\<close>

text \<open>The phases a pass may send: the one it found, or a successor of the abstract machine.\<close>

definition successors :: "run_phase \<Rightarrow> run_phase set" where
  "successors p = insert p {q. phase_step p q}"

text \<open>When a pass may disturb the workload.\<close>

definition may_inject :: "chaos_run \<Rightarrow> bool" where
  "may_inject run \<longleftrightarrow> phase_of run = Injecting \<and> \<not> sf_dryRun (sp_safety (cr_spec run)) \<and>
     \<not> ctl_abort (sp_control (cr_spec run)) \<and> st_injectedPods (cr_status run) = []"

text \<open>A pass that disturbs the workload got a target and a clean bill from the safety checker for it.\<close>

definition checks_passed :: "'w reconciler \<Rightarrow> chaos_run \<Rightarrow> bool" where
  "checks_passed rc run \<longleftrightarrow>
     (\<exists>t r s1 s2 s3 s4. resolve_target rc run s1 = (Inr t, s2) \<and> same_object run r \<and>
        run_safety_checks rc r t s3 = (None, s4))"

subsection \<open>The parts of an operator\<close>

text \<open>What the reconciler relies on: every part it is given meets the contract of its interface.\<close>

locale operator_parts =
  fixes rc :: "'w reconciler"
  assumes resolvers_ok: "rc_resolvers rc tt = Some f \<Longrightarrow> target_resolver f"
    and safety_ok: "rc_safety rc = Some chk \<Longrightarrow> safety_check chk"
    and observer_ok: "rc_observer rc = Some obs \<Longrightarrow> recovery_observer obs"
    and drivers_ok: "rc_drivers rc = Some m \<Longrightarrow> m sc = Some drv \<Longrightarrow> \<exists>own. scenario_driver (dr_inject drv) own"
    and cleanups_ok: "rc_drivers rc = Some m \<Longrightarrow> m sc = Some drv \<Longrightarrow> dr_cleanup drv = Some cl \<Longrightarrow>
      \<exists>own undo. cleanable_driver (dr_inject drv) own cl undo"

context operator_parts begin

lemma resolve_silent: "resolve_target rc run s = (r, s') \<Longrightarrow> silent s s'"
  by (auto simp: resolve_target_def split: option.splits
      dest: resolvers_ok target_resolver.resolve_silent)

lemma safety_silent: "run_safety_checks rc run t s = (r, s') \<Longrightarrow> silent s s'"
  by (auto simp: run_safety_checks_def split: option.splits dest: safety_ok safety_check.check_silent)

lemma observe_silent: "observe_recovery rc run t s = (r, s') \<Longrightarrow> silent s s'"
  by (auto simp: observe_recovery_def split: option.splits dest: observer_ok recovery_observer.observe_silent)

lemma inject_effect:
  assumes "inject_chaos rc t run s = (r, run', s')"
  shows "emits disruptive s s' \<and> driver_frame run run'"
proof (cases "rc_drivers rc")
  case None
  with assms show ?thesis by (simp add: inject_chaos_def)
next
  case (Some m)
  show ?thesis
  proof (cases "m (scenario_of run)")
    case None
    with assms Some show ?thesis by (simp add: inject_chaos_def)
  next
    case (Some drv)
    with drivers_ok [OF \<open>rc_drivers rc = Some m\<close> Some] obtain own where "scenario_driver (dr_inject drv) own"
      by blast
    moreover have "dr_inject drv run t s = (r, run', s')"
      using assms \<open>rc_drivers rc = Some m\<close> Some by (simp add: inject_chaos_def)
    ultimately show ?thesis
      using scenario_driver.inject_disruptive_only scenario_driver.inject_frame by blast
  qed
qed

lemma cleanup_effect:
  assumes "cleanup_driver rc run s = (e, run', s')"
  shows "emits (\<lambda>c. \<not> disruptive c \<and> \<not> is_write_of_run c \<and> metric_of c = None) s s' \<and> driver_frame run run' \<and>
    leftovers (cr_status run') \<le> leftovers (cr_status run)"
proof (cases "run' = run \<and> s' = s")
  case False
  then obtain m drv cl where m: "rc_drivers rc = Some m" "m (scenario_of run) = Some drv" "dr_cleanup drv = Some cl"
    and c: "cl run s = (e, run', s')"
    using assms by (auto simp: cleanup_driver_def split: option.splits)
  from cleanups_ok [OF m] obtain own undo where "cleanable_driver (dr_inject drv) own cl undo" by blast
  from cleanable_driver.cleanup_harmless [OF this c] cleanable_driver.cleanup_frame [OF this c]
    cleanable_driver.cleanup_shrinks [OF this c] show ?thesis by blast
qed simp

lemma triple_resolve: "triple P (\<lambda>_. True) (State (resolve_target rc run))"
  by (rule triple_silent) (rule resolve_silent)

lemma triple_safety: "triple P (\<lambda>_. True) (State (run_safety_checks rc run t))"
  by (rule triple_silent) (rule safety_silent)

lemma triple_observe: "triple P (\<lambda>_. True) (State (observe_recovery rc run t))"
  by (rule triple_silent) (rule observe_silent)

lemma triple_inject:
  assumes "\<not> is_terminal (phase_of run)"
  shows "triple (allowed A True) (\<lambda>(r, run'). settled (phase_of run) run') (lift_run (inject_chaos rc t) run)"
  unfolding lift_run_def
  by (rule triple_State)
    (auto split: prod.splits dest!: inject_effect intro: emits_mono disruptive_allowed
      simp: settled_nonterminal [OF driver_frame_phase] assms)

lemma triple_cleanup:
  assumes "\<not> is_terminal (phase_of run)"
  shows "triple (allowed A d) (\<lambda>(e, run'). settled (phase_of run) run') (lift_run (cleanup_driver rc) run)"
  unfolding lift_run_def
  by (rule triple_State)
    (auto split: prod.splits dest!: cleanup_effect intro: emits_mono harmless_allowed
      simp: settled_nonterminal [OF driver_frame_phase] assms)

lemmas bind_resolve = triple_bind [OF triple_resolve]
lemmas bind_safety = triple_bind [OF triple_safety]
lemmas bind_observe = triple_bind [OF triple_observe]
lemmas bind_inject = triple_bind [OF triple_inject]
lemmas bind_cleanup = triple_bind [OF triple_cleanup]

text \<open>Each handler, from a run in its phase: the phases it may send.\<close>

lemmas pass_rules = triple_rules triple_patch_status triple_patch_object
  bind_resolve bind_safety bind_observe bind_inject bind_cleanup

lemma start_injecting_logs:
  "patch_keeps_phase (rc_kube rc) \<Longrightarrow> Injecting \<in> A \<Longrightarrow> logs (allowed A d) (start_injecting rc run)"
  unfolding start_injecting_def
  by (intro pass_rules) (simp_all add: is_terminal_def)

lemma triple_stable: "triple P (\<lambda>_. True) (State (is_checkpoint_stable k c n))"
  by (rule triple_silent) (rule is_checkpoint_stable_silent)

lemma wait_logs:
  assumes "patch_keeps_phase (rc_kube rc)" and "phase_of run = p" and "\<not> is_terminal p" and "{p, Failed} \<subseteq> A"
  shows "triple (allowed A d) (\<lambda>(e, r). e = None \<longrightarrow> phase_of r = Failed \<or> phase_of r = p)
    (wait_for_stable_checkpoint rc run base)"
  unfolding wait_for_stable_checkpoint_def Let_def
  by (intro pass_rules triple_bind [OF triple_stable] triple_bind [OF triple_status_patch])
    (use assms in \<open>auto simp: settled_nonterminal settled_def\<close>)

lemma pending_logs:
  assumes "patch_keeps_phase (rc_kube rc)" and "phase_of run = p" and "\<not> is_terminal p"
    and "{p, Injecting, Failed} \<subseteq> A"
  shows "logs (allowed A d) (reconcile_pending rc run)"
proof -
  have wait: "logs (allowed A d) (pending_checkpoint_wait rc r)" if "phase_of r = p" for r
    unfolding pending_checkpoint_wait_def
    by (intro pass_rules triple_bind [OF wait_logs [of r p A]])
      (use assms that in \<open>auto intro: start_injecting_logs triple_return\<close>)
  show ?thesis
    unfolding reconcile_pending_def pending_invalid_def Let_def
    by (intro pass_rules wait start_injecting_logs)
      (use assms in \<open>auto simp: settled_nonterminal settled_def\<close>)
qed

lemma observing_start_logs:
  assumes "patch_keeps_phase (rc_kube rc)" and "Observing \<in> A"
  shows "logs (allowed A d) (transition_to_observing rc run)"
  unfolding transition_to_observing_def Let_def
  by (intro pass_rules) (use assms in \<open>simp_all add: is_terminal_def\<close>)

lemma add_finalizer_logs:
  assumes "patch_keeps_phase (rc_kube rc)" and "Observing \<in> A"
  shows "logs (allowed A d) (injecting_add_finalizer rc run)"
  unfolding injecting_add_finalizer_def Let_def
  by (intro pass_rules observing_start_logs) (use assms in simp_all)

lemma injecting_done_logs:
  assumes "patch_keeps_phase (rc_kube rc)" and "phase_of run = Injecting" and "{Injecting, Observing} \<subseteq> A"
  shows "logs (allowed A d) (injecting_done rc base run t res)"
  unfolding injecting_done_def Let_def
  by (intro pass_rules add_finalizer_logs)
    (use assms in \<open>auto simp: settled_nonterminal is_terminal_def settled_def ended_well_def\<close>)

lemma injecting_failed_logs:
  assumes "patch_keeps_phase (rc_kube rc)" and "Failed \<in> A"
  shows "logs (allowed A d) (injecting_failed rc base run e)"
  unfolding injecting_failed_def Let_def
  by (intro pass_rules) (use assms in auto)

lemma injecting_inject_logs:
  assumes "patch_keeps_phase (rc_kube rc)" and "phase_of run = Injecting"
    and "{Injecting, Observing, Failed} \<subseteq> A"
  shows "logs (allowed A True) (injecting_inject rc base run t)"
  unfolding injecting_inject_def
  apply (intro pass_rules)
  using assms by (auto simp: settled_def is_terminal_def split: driver_result.splits
      intro: triple_return injecting_failed_logs injecting_done_logs)

lemma triple_condition_spec:
  assumes "phase_of run = Injecting"
  shows "triple P (\<lambda>r. settled Injecting r \<and> cr_spec r = cr_spec run) (condition_set k ct st a b run)"
  unfolding condition_set_def
proof (rule triple_State)
  fix s r s'
  assume c: "set_condition k run ct st a b s = (r, s')"
  have "cr_spec r = cr_spec run" using set_condition_keeps [OF c] by (simp add: same_object_def)
  then show "emits P s s' \<and> settled Injecting r \<and> cr_spec r = cr_spec run"
    using assms set_condition_phase [OF c] set_condition_silent [OF c]
    by (simp add: emits_silent settled_nonterminal)
qed

lemma injecting_checked_logs:
  assumes "patch_keeps_phase (rc_kube rc)" and "phase_of run = Injecting"
    and "{Injecting, Observing, Failed, Completed} \<subseteq> A" and "sf_dryRun (sp_safety (cr_spec run)) \<or> d"
  shows "logs (allowed A d) (injecting_checked rc base run t)"
proof -
  note same = triple_condition_spec [OF assms(2)]
  have dry: "logs (allowed A d) (injecting_dry_run rc base r t)" for r
    unfolding injecting_dry_run_def by (intro pass_rules) (use assms in auto)
  have wet: "logs (allowed A d) (injecting_inject rc base r t)" if d "phase_of r = Injecting" for r
    using injecting_inject_logs [of r A base t] that assms by simp
  show ?thesis
    unfolding injecting_checked_def
    by (intro pass_rules triple_bind [OF same] dry wet) (use assms(4) in \<open>auto simp: settled_def\<close>)
qed

lemma injecting_resolved_logs:
  assumes "patch_keeps_phase (rc_kube rc)" and "phase_of run = Injecting"
    and "{Injecting, Observing, Failed, Completed} \<subseteq> A" and "sf_dryRun (sp_safety (cr_spec run)) \<or> d"
  shows "logs (allowed A d) (injecting_resolved rc base run t)"
  unfolding injecting_resolved_def injecting_unsafe_def Let_def
  by (intro pass_rules triple_bind [OF triple_condition_spec [OF assms(2)]] injecting_checked_logs)
    (use assms in \<open>auto simp: settled_def\<close>)

lemma injecting_logs:
  assumes "patch_keeps_phase (rc_kube rc)" and "phase_of run = Injecting"
    and "{Injecting, Observing, Failed, Completed} \<subseteq> A"
    and "sf_dryRun (sp_safety (cr_spec run)) \<or> st_injectedPods (cr_status run) \<noteq> [] \<or> d"
  shows "logs (allowed A d) (reconcile_injecting rc run)"
  unfolding reconcile_injecting_def injecting_unresolved_def Let_def
  by (intro pass_rules observing_start_logs injecting_resolved_logs) (use assms in \<open>auto simp: settled_def\<close>)

lemma verdict_written [simp]: "fst (timeout_verdict sc st d) \<noteq> NoVerdict" "cleaned_verdict v \<noteq> NoVerdict"
  by (simp_all add: timeout_verdict_def cleaned_verdict_def Let_def)

lemma observing_logs:
  assumes "patch_keeps_phase (rc_kube rc)" and "phase_of run = Observing"
    and "{Observing, CleaningUp, Completed} \<subseteq> A"
  shows "logs (allowed A d) (reconcile_observing rc run)"
proof -
  have partition: "logs (allowed A d) (observing_partition rc run du t0)" for du t0
    unfolding observing_partition_def Let_def by (intro pass_rules) (use assms in \<open>auto simp: settled_def\<close>)
  have secs: "logs (allowed A d) (case anchor of None \<Rightarrow> State_Monad.return None
      | Some t0 \<Rightarrow> State_Monad.bind (read_clock (rc_kube rc))
          (\<lambda>t. State_Monad.return (Some (whole_seconds (time_sub t t0)))))" for anchor
    by (intro pass_rules) simp_all
  have recovered: "logs (allowed A d) (observing_recovered rc run (record_observation run res) anchor)" for res anchor
    unfolding observing_recovered_def Let_def
    by (intro pass_rules triple_bind [OF secs])
      (use assms in \<open>auto simp: settled_def record_recovery_def record_observation_def Let_def\<close>)
  have poll: "logs (allowed A d) (observing_poll rc run)"
    unfolding observing_poll_def Let_def
    by (intro pass_rules recovered) (use assms in \<open>auto simp: settled_def record_observation_def Let_def\<close>)
  have within: "logs (allowed A d) (observing_within rc run)"
    unfolding observing_within_def by (intro pass_rules partition poll)
  show ?thesis
    unfolding reconcile_observing_def observing_disabled_def observing_timeout_def Let_def
    by (intro pass_rules within) (use assms in \<open>auto simp: settled_def\<close>)
qed

lemma drop_finalizer_logs: "logs (allowed A d) (drop_finalizer rc run)"
proof -
  have "logs (allowed A d) (State (read_ext (k_get_run (rc_kube rc) ns n)))" for ns n
    by (rule triple_silent) (rule read_ext_silent)
  then show ?thesis
    unfolding drop_finalizer_def Let_def
    by (intro pass_rules triple_bind [of _ "\<lambda>_. True"]) auto
qed

text \<open>Cleaning up, nothing that is sent depends on the phase that the server answers with.\<close>

lemma triple_patch_any:
  assumes "settled p run" and "p \<in> A" and "\<And>r. logs (allowed A d) (rest r)"
  shows "logs (allowed A d) (patch_status k base run rest)"
proof -
  have "logs (allowed A d) (State (status_patch k base run))"
    by (rule triple_State) (use assms(1,2) in \<open>auto dest!: status_patch_calls simp: emits_def settled_def\<close>)
  then show ?thesis
    unfolding patch_status_def
    by (rule triple_bind, intro triple_sum) (auto intro!: triple_return assms(3))
qed

lemmas cleaning_rules = triple_rules triple_patch_any bind_cleanup

lemma cleaning_logs:
  assumes "phase_of run = CleaningUp" and "{CleaningUp, Completed, Aborted, Failed} \<subseteq> A"
  shows "logs (allowed A d) (reconcile_cleaning_up rc run)"
proof -
  have verdict: "triple (allowed A d) (\<lambda>r. settled (phase_of r) r \<and> phase_of r \<in> {Aborted, Completed})
      (if b then aborted_run (rc_kube rc) m r else finalized_run (rc_kube rc) (cleaned_verdict v) m' r)" for b m r v m'
    by (cases b) (auto intro!: triple_weaken [OF triple_aborted] triple_weaken [OF triple_finalized] simp: settled_def)
  have complete: "logs (allowed A d) (cleaning_complete rc run r)" if "settled CleaningUp r" for r
    unfolding cleaning_complete_def Let_def
    by (intro cleaning_rules triple_bind [OF verdict] drop_finalizer_logs)
      (use assms that in \<open>auto simp: settled_def\<close>)
  have attempt: "logs (allowed A d) (cleaning_try rc run)"
    unfolding cleaning_try_def by (intro cleaning_rules complete) (use assms in \<open>auto simp: settled_def\<close>)
  show ?thesis
    unfolding reconcile_cleaning_up_def cleaning_overdue_def Let_def
    by (intro cleaning_rules attempt) (use assms in \<open>auto simp: settled_def\<close>)
qed

lemma abort_logs:
  assumes "patch_keeps_phase (rc_kube rc)" and "\<not> is_terminal (phase_of run)" and "Aborted \<in> A"
    and "phase_of run \<noteq> NoPhase \<Longrightarrow> phase_of run \<noteq> Pending \<Longrightarrow> CleaningUp \<in> A"
  shows "logs (allowed A d) (reconcile_abort rc run)"
  unfolding reconcile_abort_def Let_def
  by (rule triple_bind [OF triple_condition [OF settled_nonterminal [OF refl assms(2)]]],
      intro triple_patch_transition pass_rules)
    (use assms in \<open>auto simp: settled_nonterminal\<close>)

lemma deleted_logs:
  assumes "\<not> is_terminal (phase_of run)"
  shows "logs (allowed A d) (reconcile_deleted rc run)"
  unfolding reconcile_deleted_def by (intro pass_rules) (use assms in auto)

lemma phase_logs:
  assumes "patch_keeps_phase (rc_kube rc)" and "\<not> ctl_abort (sp_control (cr_spec run)) \<or> phase_of run = CleaningUp"
  shows "logs (allowed (successors (phase_of run)) (may_inject run)) (reconcile_phase rc run)"
  unfolding reconcile_phase_def
  by (intro pass_rules pending_logs [of run "phase_of run"] injecting_logs observing_logs cleaning_logs)
    (use assms in \<open>auto simp: successors_def phase_step_iff may_inject_def\<close>)

lemma pass_logs:
  assumes "patch_keeps_phase (rc_kube rc)"
  shows "logs (allowed (successors (phase_of run)) (may_inject run)) (reconcile_run rc run)"
  unfolding reconcile_run_def
  by (intro pass_rules deleted_logs abort_logs phase_logs)
    (use assms in \<open>auto simp: successors_def phase_step_iff\<close>)

subsection \<open>Injection comes after the checks\<close>

lemma no_disruption: "logs (allowed A False) m \<Longrightarrow> run_state m s = (x, s') \<Longrightarrow> emits (\<lambda>c. \<not> disruptive c) s s'"
  using allowed_disruptive by (blast dest: tripleD intro: emits_mono)

lemma resolved_checked:
  assumes "patch_keeps_phase (rc_kube rc)" and "phase_of run = Injecting"
    and "run_state (injecting_resolved rc base run t) s = (x, s')"
  shows "emits (\<lambda>c. \<not> disruptive c) s s' \<or>
    (\<exists>r s3 s4. same_object run r \<and> run_safety_checks rc r t s3 = (None, s4))"
proof -
  let ?A = "{Injecting, Observing, Failed, Completed}"
  obtain run1 s1 where c: "set_condition (rc_kube rc) run TargetResolved CTrue ''TargetResolved''
      ''Target successfully resolved'' s = (run1, s1)" (is "?c = _") by (cases ?c)
  define s2 where "s2 = emit (Event ''Normal'' ''TargetResolved'' (''Target resolved: '' @ rt_logicalName t)) s1"
  obtain e s3 where e: "run_safety_checks rc run1 t s2 = (e, s3)" (is "?e = _") by (cases ?e)
  have same: "same_object run run1" using set_condition_keeps [OF c] by simp
  show ?thesis
  proof (cases e)
    case None
    with e same show ?thesis by blast
  next
    case (Some err)
    with assms(3) c e have rest: "run_state (injecting_unsafe rc base run1 err) s3 = (x, s')"
      by (simp add: injecting_resolved_def run_state_bind condition_set_def log_call_def s2_def)
    have "logs (allowed ?A False) (injecting_unsafe rc base run1 err)"
      unfolding injecting_unsafe_def Let_def by (intro pass_rules) (use assms(1) in auto)
    from no_disruption [OF this rest] have "emits (\<lambda>c. \<not> disruptive c) s3 s'" .
    moreover have "emits (\<lambda>c. \<not> disruptive c) s s2"
      using set_condition_silent [OF c] by (simp add: s2_def emits_emit emits_silent)
    ultimately show ?thesis
      using safety_silent [OF e] by (blast intro: emits_trans silent_then_emits)
  qed
qed

lemma injection_checked:
  assumes "patch_keeps_phase (rc_kube rc)" and "run_state (reconcile_run rc run) s = (x, s')"
  shows "emits (\<lambda>c. \<not> disruptive c) s s' \<or> (may_inject run \<and> checks_passed rc run)"
proof (cases "may_inject run \<and> \<not> (cr_deletionTimestamp run \<noteq> None \<and>
    k_contains_finalizer (rc_kube rc) (cr_finalizers run) chaos_run_finalizer)")
  case False
  have "logs (allowed (successors (phase_of run)) False) (reconcile_run rc run)"
  proof (cases "may_inject run")
    case True
    with False have "reconcile_run rc run = reconcile_deleted rc run"
      by (simp add: reconcile_run_def may_inject_def)
    with True show ?thesis by (simp add: deleted_logs may_inject_def)
  next
    case False
    with pass_logs [OF assms(1), of run] show ?thesis by simp
  qed
  from no_disruption [OF this assms(2)] show ?thesis by blast
next
  case True
  then have inj: "phase_of run = Injecting" "reconcile_run rc run = reconcile_injecting rc run"
    by (auto simp: reconcile_run_def reconcile_phase_def may_inject_def)
  obtain r s1 where r: "resolve_target rc run s = (r, s1)" (is "?r = _") by (cases ?r)
  have run: "run_state (case r of Inl e \<Rightarrow> injecting_unresolved rc run e
      | Inr t \<Rightarrow> injecting_resolved rc run run t) s1 = (x, s')"
    using assms(2) True r inj(2) by (simp add: reconcile_injecting_def run_state_bind may_inject_def)
  show ?thesis
  proof (cases r)
    case (Inl e)
    have "logs (allowed {Failed} False) (injecting_unresolved rc run e)"
      unfolding injecting_unresolved_def Let_def by (intro pass_rules) (use assms(1) in auto)
    from no_disruption [OF this] run Inl have "emits (\<lambda>c. \<not> disruptive c) s1 s'" by simp
    with resolve_silent [OF r] show ?thesis by (blast intro: silent_then_emits)
  next
    case (Inr t)
    with run have "run_state (injecting_resolved rc run run t) s1 = (x, s')" by simp
    from resolved_checked [OF assms(1) inj(1) this] show ?thesis
      using resolve_silent [OF r] r Inr True unfolding checks_passed_def
      by (blast intro: silent_then_emits)
  qed
qed

end

end
