(* ===== verification/Pass_Contents.thy ===== *)
theory Pass_Contents
  imports Lifecycle
begin

section \<open>What the patches of a pass carry\<close>

text \<open>
  A second reading of the handlers in the logic of \<open>Call_Logic\<close>: the predicate on a logged call looks
  at the run a status patch sends. \<open>same_but_conditions\<close> and \<open>ended_as\<close> describe what the helpers
  of \<^verbatim>\<open>phases.go\<close> change; the rules for them are collected in \<open>carry_rules\<close>. The last sections
  turn this into what an observing and a cleaning pass may report.
\<close>

subsection \<open>What the status patches of a pass carry\<close>

definition patches_only :: "(chaos_run \<Rightarrow> bool) \<Rightarrow> call \<Rightarrow> bool" where
  "patches_only G c \<longleftrightarrow> (\<forall>r ok. c = StatusPatch r ok \<longrightarrow> G r)"

lemma patches_only_simps [simp]:
  "patches_only G (StatusPatch r ok) \<longleftrightarrow> G r"
  "patches_only G (ObjectPatch r ok)" "patches_only G (Event x y z)" "patches_only G (RunsTotalInc x y z)"
  "patches_only G (RunDurationObserve x y t)" "patches_only G (InjectionsTotalInc x)"
  "patches_only G AbortRequestsInc" "patches_only G RecoveryObservedInc"
  by (simp_all add: patches_only_def)

lemma harmless_patches: "\<not> is_write_of_run c \<Longrightarrow> patches_only G c"
  by (cases c) (simp_all add: patches_only_def)

lemma disruptive_patches: "disruptive c \<Longrightarrow> patches_only G c"
  by (cases c) (simp_all add: patches_only_def)

lemma patch_status_carries:
  assumes "G run" and "\<And>r. logs (patches_only G) (rest r)"
  shows "logs (patches_only G) (patch_status k base run rest)"
proof -
  have "logs (patches_only G) (State (status_patch k base run))"
    by (rule triple_State) (auto dest!: status_patch_calls simp: emits_def assms(1))
  then show ?thesis
    unfolding patch_status_def
    by (rule triple_bind, intro triple_sum) (auto intro!: triple_return assms(2))
qed

lemma patch_object_carries:
  assumes "\<And>r. logs (patches_only G) (rest r)"
  shows "logs (patches_only G) (patch_object k base run rest)"
proof -
  have "logs (patches_only G) (State (object_patch k base run))"
    by (rule triple_State) (auto dest!: object_patch_calls simp: emits_def)
  then show ?thesis
    unfolding patch_object_def
    by (rule triple_bind, intro triple_sum) (auto intro!: triple_return assms)
qed

lemma finish_carries: "logs (patches_only G) (finish_run rc run)"
proof -
  have duration: "logs (patches_only G) (case st_startedAt (cr_status run) of
      None \<Rightarrow> State_Monad.return ()
    | Some t0 \<Rightarrow> State_Monad.bind (read_clock (rc_kube rc))
        (\<lambda>t. log_call (RunDurationObserve sc v (time_sub t t0))))" for sc v
    by (intro triple_rules) simp_all
  show ?thesis
    unfolding finish_run_def Let_def
    by (intro triple_rules triple_bind [OF duration]) simp_all
qed

lemma drop_finalizer_carries: "logs (patches_only G) (drop_finalizer rc run)"
proof -
  have "logs (patches_only G) (State (read_ext (k_get_run (rc_kube rc) ns n)))" for ns n
    by (rule triple_silent) (rule read_ext_silent)
  then show ?thesis
    unfolding drop_finalizer_def Let_def
    by (intro triple_rules patch_object_carries triple_bind [of _ "\<lambda>_. True"]) auto
qed

text \<open>What the phase helpers write, as values.\<close>

definition same_but_conditions :: "chaos_run \<Rightarrow> chaos_run \<Rightarrow> bool" where
  "same_but_conditions r r' \<longleftrightarrow> same_object r r' \<and>
     (let st = cr_status r; st' = cr_status r' in
      st_phase st' = st_phase st \<and> st_verdict st' = st_verdict st \<and> st_message st' = st_message st \<and>
      st_observation st' = st_observation st \<and> st_selectedPods st' = st_selectedPods st \<and>
      st_injectedPods st' = st_injectedPods st \<and> st_replacementObserved st' = st_replacementObserved st \<and>
      st_networkPolicies st' = st_networkPolicies st \<and> st_tcInjections st' = st_tcInjections st \<and>
      st_stressInjections st' = st_stressInjections st \<and> st_startedAt st' = st_startedAt st \<and>
      st_observingStartedAt st' = st_observingStartedAt st \<and> st_endedAt st' = st_endedAt st)"

lemmas same_but_conditionsD = iffD1 [OF same_but_conditions_def, unfolded Let_def]

lemma set_condition_carries:
  assumes "set_condition k run ct st a b s = (r, s')"
  shows "same_but_conditions run r"
proof -
  obtain t s1 where n: "now k s = (t, s1)" by (cases "now k s")
  have "r = upd_status (st_conditions_update (\<lambda>cs. k_set_condition k cs
      \<lparr>c_type = ct, c_status = st, c_reason = a, c_message = b, c_time = t\<rparr>)) run"
    using assms n by (simp add: set_condition_def)
  then show ?thesis by (simp add: same_but_conditions_def same_object_def)
qed

lemma condition_carries:
  "triple P (same_but_conditions run) (condition_set k ct st a b run)"
  unfolding condition_set_def
  by (rule triple_State) (blast intro: emits_silent set_condition_silent set_condition_carries)

definition ended_as :: "run_phase \<Rightarrow> run_verdict \<Rightarrow> string \<Rightarrow> chaos_run \<Rightarrow> chaos_run \<Rightarrow> bool" where
  "ended_as p v msg r r' \<longleftrightarrow> same_object r r' \<and>
     (let st = cr_status r; st' = cr_status r' in
      st_phase st' = p \<and> st_verdict st' = v \<and> st_message st' = msg \<and> st_endedAt st' \<noteq> None \<and>
      st_startedAt st' = st_startedAt st \<and> st_observingStartedAt st' = st_observingStartedAt st \<and>
      st_conditions st' = st_conditions st \<and> st_observation st' = st_observation st \<and>
      st_selectedPods st' = st_selectedPods st \<and> st_injectedPods st' = st_injectedPods st \<and>
      st_networkPolicies st' = st_networkPolicies st \<and> st_tcInjections st' = st_tcInjections st \<and>
      st_stressInjections st' = st_stressInjections st)"

lemma finalized_carries: "triple P (ended_as Completed v msg run) (finalized_run k v msg run)"
  unfolding finalized_run_def
  by (rule triple_State) (auto simp: finalize_run_def ended_as_def same_object_def emits_silent
      split: prod.splits dest!: now_silent)

lemma failed_carries: "triple P (ended_as Failed VFailed msg run) (failed_run k msg run)"
  unfolding failed_run_def
  by (rule triple_State) (auto simp: fail_run_def ended_as_def same_object_def emits_silent
      split: prod.splits dest!: now_silent)

lemma aborted_carries: "triple P (ended_as Aborted VInconclusive msg run) (aborted_run k msg run)"
  unfolding aborted_run_def
  by (rule triple_State) (auto simp: abort_run_def ended_as_def same_object_def emits_silent
      split: prod.splits dest!: now_silent)

lemmas carry_rules = triple_return triple_if triple_option triple_sum triple_prod bind_clock bind_log last_log
  triple_bind [OF condition_carries] triple_bind [OF finalized_carries] triple_bind [OF failed_carries]
  triple_bind [OF aborted_carries] triple_bind [OF finish_carries] patch_status_carries patch_object_carries
  drop_finalizer_carries

text \<open>When an observing pass may say that the run passed.\<close>

definition passed_earned :: "chaos_run \<Rightarrow> chaos_run \<Rightarrow> bool" where
  "passed_earned run r \<longleftrightarrow>
     (st_verdict (cr_status r) = VPassed \<longrightarrow> st_verdict (cr_status run) = VPassed \<or> recovery_seen (cr_status r) \<or>
        (scenario_of run = NetworkPartition \<and> st_replacementObserved (cr_status run)))"

lemma recovery_seen_record [simp]: "recovery_seen (cr_status (record_recovery run at secs))"
  by (auto simp: record_recovery_def recovery_seen_def Let_def split: option.splits)

lemma record_verdict [simp]:
  "st_verdict (cr_status (record_recovery run at secs)) = st_verdict (cr_status run)"
  "st_verdict (cr_status (record_observation run res)) = st_verdict (cr_status run)"
  by (simp_all add: record_recovery_def record_observation_def Let_def)

lemma recovery_seen_conditions:
  assumes "same_but_conditions (record_recovery r at secs) r'"
  shows "recovery_seen (cr_status r')"
proof -
  have "st_observation (cr_status r') = st_observation (cr_status (record_recovery r at secs))"
    using assms by (simp add: same_but_conditions_def Let_def)
  then show ?thesis using recovery_seen_record [of r at secs] by (simp add: recovery_seen_def)
qed

lemma recovery_seen_transition [simp]:
  "recovery_seen (cr_status (transition_phase r p m)) = recovery_seen (cr_status r)"
  by (simp add: transition_phase_def recovery_seen_def)

lemma recovery_seen_ended:
  "ended_as p v msg r r' \<Longrightarrow> recovery_seen (cr_status r') = recovery_seen (cr_status r)"
  by (simp add: ended_as_def Let_def recovery_seen_def)

lemma passed_earned_seen: "recovery_seen (cr_status r) \<Longrightarrow> passed_earned run r"
  by (simp add: passed_earned_def)

lemma timeout_verdict_passed:
  "fst (timeout_verdict sc st d) = VPassed \<Longrightarrow> sc \<noteq> ResourceExhaustion \<Longrightarrow> recovery_seen st"
  by (simp add: timeout_verdict_def Let_def split: if_splits)

context operator_parts begin

lemma observing_earned:
  "logs (patches_only (passed_earned run)) (observing_within rc run)"
  "o_enabled (sp_observe (cr_spec run)) \<Longrightarrow> scenario_of run \<noteq> ResourceExhaustion \<Longrightarrow>
   logs (patches_only (passed_earned run)) (reconcile_observing rc run)"
proof -
  have part: "logs (patches_only (passed_earned run)) (observing_partition rc run d t0)"
    if "scenario_of run = NetworkPartition" for d t0
    unfolding observing_partition_def Let_def
    by (intro carry_rules) (use that in \<open>simp_all add: passed_earned_def transition_phase_def\<close>)
  have secs: "logs P (case anchor of None \<Rightarrow> State_Monad.return None
      | Some t0 \<Rightarrow> State_Monad.bind (read_clock (rc_kube rc))
          (\<lambda>t. State_Monad.return (Some (whole_seconds (time_sub t t0)))))" for P anchor
    by (intro carry_rules) simp_all
  have recovered: "logs (patches_only (passed_earned run)) (observing_recovered rc run r anchor)" for r anchor
    unfolding observing_recovered_def Let_def
    by (intro carry_rules triple_bind [OF secs])
      (simp_all add: passed_earned_seen recovery_seen_conditions recovery_seen_ended)
  have poll: "logs (patches_only (passed_earned run)) (observing_poll rc run)"
    unfolding observing_poll_def Let_def
    by (intro carry_rules bind_resolve bind_observe recovered) (simp_all add: passed_earned_def)
  show within: "logs (patches_only (passed_earned run)) (observing_within rc run)"
    unfolding observing_within_def
    by (intro carry_rules poll part) (auto simp: partition_window_def split: if_splits)
  show "logs (patches_only (passed_earned run)) (reconcile_observing rc run)"
    if "o_enabled (sp_observe (cr_spec run))" and "scenario_of run \<noteq> ResourceExhaustion"
  proof -
    have late: "logs (patches_only (passed_earned run)) (observing_timeout rc run)"
      unfolding observing_timeout_def Let_def
      by (intro carry_rules)
        (auto simp: passed_earned_def ended_as_def Let_def transition_phase_def recovery_seen_def
          dest: timeout_verdict_passed [OF _ that(2), unfolded recovery_seen_def])
    show ?thesis
      unfolding reconcile_observing_def by (intro carry_rules late within) (use that in simp_all)
  qed
qed

end

subsection \<open>The end of cleaning up\<close>

text \<open>
  What is documented of \<^verbatim>\<open>meta.SetStatusCondition\<close>: it touches the condition of its type only, and it adds
  one only when there is none of that type.
\<close>

definition conditions_keyed :: "'w kube \<Rightarrow> bool" where
  "conditions_keyed k \<longleftrightarrow> (\<forall>cs c.
     (\<forall>ct. string_of_cond ct \<noteq> cond_key c \<longrightarrow> has_condition_true (k_set_condition k cs c) ct = has_condition_true cs ct) \<and>
     (distinct (map cond_key cs) \<longrightarrow> distinct (map cond_key (k_set_condition k cs c))))"

definition abort_requested :: "chaos_run \<Rightarrow> bool" where
  "abort_requested run \<longleftrightarrow> has_condition_true (st_conditions (cr_status run)) AbortRequested"

text \<open>
  A patch of a cleaning pass that is not over its deadline keeps the run in CleaningUp, or ends it with
  nothing left over: as aborted when the abort was recorded, and else as completed with the pending
  verdict, or Passed when there is none.
\<close>

definition cleaned_up :: "chaos_run \<Rightarrow> chaos_run \<Rightarrow> bool" where
  "cleaned_up run r \<longleftrightarrow> phase_of r = CleaningUp \<or>
     (leftovers (cr_status r) = 0 \<and>
        (if abort_requested run then phase_of r = Aborted \<and> st_verdict (cr_status r) = VInconclusive
         else phase_of r = Completed \<and> st_verdict (cr_status r) =
           (if st_verdict (cr_status run) = NoVerdict then VPassed else st_verdict (cr_status run))))"

lemma condition_keeps_abort:
  assumes "conditions_keyed k" and "string_of_cond ct \<noteq> string_of_cond AbortRequested"
  shows "triple P (\<lambda>r. same_but_conditions run r \<and> abort_requested r = abort_requested run)
    (condition_set k ct st a b run)"
  unfolding condition_set_def
proof (rule triple_State)
  fix s r s'
  assume c: "set_condition k run ct st a b s = (r, s')"
  have "abort_requested r = abort_requested run"
    using c assms by (auto simp: set_condition_def abort_requested_def conditions_keyed_def cond_key_def split: prod.splits)
  then show "emits P s s' \<and> same_but_conditions run r \<and> abort_requested r = abort_requested run"
    using set_condition_carries [OF c] set_condition_silent [OF c] by (simp add: emits_silent)
qed

lemma same_but_conditions_leftovers:
  "same_but_conditions r r' \<Longrightarrow> leftovers (cr_status r') = leftovers (cr_status r)"
  by (simp add: same_but_conditions_def Let_def leftovers_def)

lemma ended_as_leftovers: "ended_as p v m r r' \<Longrightarrow> leftovers (cr_status r') = leftovers (cr_status r)"
  by (simp add: ended_as_def Let_def leftovers_def)

lemma driver_frame_verdict:
  assumes "driver_frame r r'"
  shows "st_verdict (cr_status r') = st_verdict (cr_status r)" "abort_requested r' = abort_requested r"
  using assms by (auto simp: driver_frame_def abort_requested_def)

lemma cleaned_up_ended:
  assumes "driver_frame run r" and "leftovers (cr_status r) = 0"
    and "same_but_conditions r r1 \<and> abort_requested r1 = abort_requested r"
    and "ended_as (if abort_requested r1 then Aborted else Completed)
      (if abort_requested r1 then VInconclusive else cleaned_verdict (st_verdict (cr_status r1))) m r1 r2"
  shows "cleaned_up run r2"
proof -
  have "leftovers (cr_status r2) = 0"
    using assms(2,3) ended_as_leftovers [OF assms(4)] same_but_conditions_leftovers [of r r1] by simp
  moreover have "st_verdict (cr_status r1) = st_verdict (cr_status run)" "abort_requested r1 = abort_requested run"
    using assms(3) driver_frame_verdict [OF assms(1)] by (simp_all add: same_but_conditions_def Let_def)
  ultimately show ?thesis
    using assms(4) by (simp add: cleaned_up_def ended_as_def cleaned_verdict_def Let_def split: if_splits)
qed

context operator_parts begin

lemma cleanup_carries:
  "triple (patches_only G) (\<lambda>(e, r). driver_frame run r) (lift_run (cleanup_driver rc) run)"
  unfolding lift_run_def
  by (rule triple_State)
    (auto split: prod.splits dest!: cleanup_effect intro: emits_mono harmless_patches)

lemma cleaning_cleaned_up:
  assumes "conditions_keyed (rc_kube rc)" and "phase_of run = CleaningUp"
  shows "logs (patches_only (cleaned_up run)) (cleaning_try rc run)"
proof -
  have "string_of_cond NetworkChaosCleanedUp \<noteq> string_of_cond AbortRequested" by (simp add: string_of_cond_def)
  note cond = condition_keeps_abort [OF assms(1) this]
  have complete: "logs (patches_only (cleaned_up run)) (cleaning_complete rc run r)"
    if r: "driver_frame run r" "leftovers (cr_status r) = 0" for r
  proof -
    have verdict: "triple Q (\<lambda>r2. ended_as (if abort_requested r1 then Aborted else Completed)
        (if abort_requested r1 then VInconclusive else v) (if abort_requested r1 then m else m') r1 r2)
        (if has_condition_true (st_conditions (cr_status r1)) AbortRequested
         then aborted_run (rc_kube rc) m r1 else finalized_run (rc_kube rc) v m' r1)" for Q r1 v m m'
      by (simp add: abort_requested_def aborted_carries finalized_carries)
    show ?thesis
      unfolding cleaning_complete_def Let_def
      by (intro carry_rules triple_bind [OF cond] triple_bind [OF verdict])
        (simp_all add: cleaned_up_ended [OF r])
  qed
  show ?thesis
    unfolding cleaning_try_def
    by (intro carry_rules triple_bind [OF cleanup_carries] complete)
      (use assms(2) in \<open>auto simp: cleaned_up_def is_cleanup_complete_iff dest: driver_frame_phase\<close>)
qed

end

subsection \<open>Aborts, deletions and whole passes\<close>

context operator_parts begin

lemma abort_earned: "logs (patches_only (passed_earned run)) (reconcile_abort rc run)"
proof -
  have "passed_earned run r" if "same_but_conditions run r1 \<and> r = transition_phase r1 p m" for r1 r p m
    using that by (simp add: passed_earned_def same_but_conditions_def transition_phase_def Let_def)
  then show ?thesis
    unfolding reconcile_abort_def Let_def
    by (intro carry_rules) (simp_all, simp add: passed_earned_def ended_as_def Let_def)
qed

lemma deleted_patches: "logs (patches_only G) (reconcile_deleted rc run)"
  unfolding reconcile_deleted_def
  by (intro carry_rules triple_bind [OF cleanup_carries]) simp_all

lemma observing_pass_earned:
  assumes "phase_of run = Observing" and "o_enabled (sp_observe (cr_spec run))"
    and "scenario_of run \<noteq> ResourceExhaustion"
  shows "logs (patches_only (passed_earned run)) (reconcile_run rc run)"
  unfolding reconcile_run_def reconcile_phase_def
  by (intro carry_rules deleted_patches abort_earned observing_earned) (use assms in auto)

end

subsection \<open>When a pass asks to be run again\<close>

text \<open>A pass that ends without an error and without a requeue is not run again by itself.\<close>

definition not_rescheduled :: "outcome \<Rightarrow> bool" where
  "not_rescheduled x \<longleftrightarrow> (\<forall>b d. x = Returned b d \<longrightarrow> \<not> b \<and> d = 0)"

text \<open>The server answers a patch with the object as stored: its spec is the user's, without defaults.\<close>

definition patch_answers_spec :: "'w kube \<Rightarrow> chaos_run_spec \<Rightarrow> bool" where
  "patch_answers_spec k sp \<longleftrightarrow>
     (\<forall>base r w r' w'. k_status_patch k base r w = (Inr r', w') \<longrightarrow> cr_spec r' = sp)"

lemma not_rescheduled_simps [simp]:
  "not_rescheduled finished" "not_rescheduled (Errored e)" "not_rescheduled (Panicked m)"
  "not_rescheduled (Returned b d) \<longleftrightarrow> \<not> b \<and> d = 0"
  by (auto simp: not_rescheduled_def)

text \<open>A property of the result of a handler, from whatever state it starts.\<close>

definition returns :: "('a \<Rightarrow> bool) \<Rightarrow> ('w sys, 'a) state \<Rightarrow> bool" where
  "returns Q m \<longleftrightarrow> (\<forall>s. Q (fst (run_state m s)))"

lemma returns_return: "Q a \<Longrightarrow> returns Q (State_Monad.return a)"
  by (simp add: returns_def)

lemma returns_bind: "(\<And>a. returns Q (f a)) \<Longrightarrow> returns Q (State_Monad.bind m f)"
  by (auto simp: returns_def run_state_bind split: prod.splits)

lemma returns_patch_status:
  assumes "patch_answers_spec k sp" and "\<And>e. Q (Errored (ApiFailed e))"
    and "\<And>r. cr_spec r = sp \<Longrightarrow> returns Q (rest r)"
  shows "returns Q (patch_status k base run rest)"
  unfolding returns_def
proof
  fix s
  obtain x s1 where x: "status_patch k base run s = (x, s1)" (is "?x = _") by (cases ?x)
  show "Q (fst (run_state (patch_status k base run rest) s))"
  proof (cases x)
    case (Inl e)
    with x assms(2) show ?thesis by (simp add: patch_status_def run_state_bind)
  next
    case (Inr r)
    with x obtain w w' where "k_status_patch k base run w = (Inr r, w')"
      by (auto simp: status_patch_def write_ext_def split: prod.splits)
    with assms(1) have "cr_spec r = sp" unfolding patch_answers_spec_def by blast
    with assms(3) x Inr show ?thesis by (simp add: patch_status_def run_state_bind returns_def)
  qed
qed

lemma returns_if: "(b \<Longrightarrow> returns Q m) \<Longrightarrow> (\<not> b \<Longrightarrow> returns Q n) \<Longrightarrow> returns Q (if b then m else n)"
  by simp

lemma returns_option:
  "(x = None \<Longrightarrow> returns Q m) \<Longrightarrow> (\<And>y. x = Some y \<Longrightarrow> returns Q (f y)) \<Longrightarrow>
   returns Q (case x of None \<Rightarrow> m | Some y \<Rightarrow> f y)"
  by (cases x) simp_all

lemma returns_sum:
  "(\<And>e. x = Inl e \<Longrightarrow> returns Q (f e)) \<Longrightarrow> (\<And>y. x = Inr y \<Longrightarrow> returns Q (g y)) \<Longrightarrow>
   returns Q (case x of Inl e \<Rightarrow> f e | Inr y \<Rightarrow> g y)"
  by (cases x) simp_all

lemma returns_prod: "(\<And>a b. x = (a, b) \<Longrightarrow> returns Q (f a b)) \<Longrightarrow> returns Q (case x of (a, b) \<Rightarrow> f a b)"
  by (cases x) simp

lemmas returns_rules = returns_return returns_if returns_option returns_sum returns_prod

lemma drop_finalizer_returns: "returns not_rescheduled (drop_finalizer rc run)"
  unfolding drop_finalizer_def patch_object_def Let_def
  by (intro returns_rules returns_bind) simp_all

lemma cleaning_not_rescheduled:
  assumes "patch_answers_spec (rc_kube rc) sp" and "o_pollInterval (sp_observe sp) = 0"
  shows "returns not_rescheduled (reconcile_cleaning_up rc run)"
proof -
  note patch = returns_patch_status [OF assms(1), of not_rescheduled, simplified]
  have complete: "returns not_rescheduled (cleaning_complete rc run r)" for r
    unfolding cleaning_complete_def Let_def
    by (intro returns_bind patch drop_finalizer_returns)
  have attempt: "returns not_rescheduled (cleaning_try rc run)"
    unfolding cleaning_try_def
    by (intro returns_bind returns_prod returns_if patch complete returns_return) (simp add: assms(2))
  show ?thesis
    unfolding reconcile_cleaning_up_def cleaning_overdue_def Let_def
    by (intro returns_option returns_bind returns_if patch attempt returns_return) simp_all
qed

end
