(* ===== verification/Resolvers.thy ===== *)
theory Resolvers
  imports Demo_World
begin

section \<open>Target resolvers\<close>

text \<open>
  \<^verbatim>\<open>internal/podutil/podutil.go\<close> and the three resolvers under \<^verbatim>\<open>internal/resolver\<close>. Each
  lists the pods of the namespace and sorts the eligible ones of its target into TaskManagers and
  JobManagers.
\<close>

subsection \<open>Pods\<close>

definition is_pod_eligible :: "pod \<Rightarrow> bool" where
  "is_pod_eligible p =
     (if p_deletionTimestamp p \<noteq> None then False
      else p_phase p = PodRunning \<or> p_phase p = PodPending)"

definition role_keys :: "string list" where
  "role_keys = [''component'', ''app.kubernetes.io/component'', ''flink.apache.org/component'', ''vvp.io/component'']"

fun first_label :: "string list \<Rightarrow> string_map \<Rightarrow> string" where
  "first_label [] labels = ''''"
| "first_label (key # keys) labels =
     (case map_of labels key of Some v \<Rightarrow> v | None \<Rightarrow> first_label keys labels)"

definition component_role :: "string_map \<Rightarrow> string" where
  "component_role labels = first_label role_keys labels"

lemma component_role_first: "component_role labels = (case List.map_filter (map_of labels)
    [''component'', ''app.kubernetes.io/component'', ''flink.apache.org/component'', ''vvp.io/component'']
    of [] \<Rightarrow> '''' | v # vs \<Rightarrow> v)"
  by (simp add: component_role_def role_keys_def map_filter_simps split: option.splits)

subsection \<open>FlinkDeployment\<close>

definition matches_deployment :: "string_map \<Rightarrow> string \<Rightarrow> bool" where
  "matches_deployment labels name \<longleftrightarrow>
     map_get labels ''app'' = name \<or> map_get labels ''app.kubernetes.io/name'' = name"

definition fd_is_session :: "flink_deployment \<Rightarrow> bool" where
  "fd_is_session fd =
     (case fd_executionTarget fd of
        NestedError e \<Rightarrow> False
      | NestedAbsent \<Rightarrow> False
      | NestedFound t \<Rightarrow> contains (to_lower t) ''session'')"

fun fd_classify :: "string \<Rightarrow> pod list \<Rightarrow> string list \<Rightarrow> string list \<Rightarrow> string list \<times> string list" where
  "fd_classify name [] tms jms = (tms, jms)"
| "fd_classify name (p # ps) tms jms =
     (if \<not> is_pod_eligible p then fd_classify name ps tms jms
      else if \<not> matches_deployment (p_labels p) name then fd_classify name ps tms jms
      else if component_role (p_labels p) = ''taskmanager'' then fd_classify name ps (tms @ [p_name p]) jms
      else if component_role (p_labels p) = ''jobmanager'' then fd_classify name ps tms (jms @ [p_name p])
      else fd_classify name ps tms jms)"

definition fd_discover_pods ::
  "'w kube \<Rightarrow> string \<Rightarrow> string \<Rightarrow> 'w sys \<Rightarrow> (resolve_error + (string list \<times> string list)) \<times> 'w sys" where
  "fd_discover_pods k name ns s =
     (case read_ext (k_list_pods k ns) s of
        (Inl e, s1) \<Rightarrow> (Inl (ListingPods ns e), s1)
      | (Inr ps, s1) \<Rightarrow> (Inr (fd_classify name ps [] []), s1))"

definition fetch_flink_deployment ::
  "'w kube \<Rightarrow> string \<Rightarrow> string \<Rightarrow> 'w sys \<Rightarrow> (resolve_error + flink_deployment) \<times> 'w sys" where
  "fetch_flink_deployment k name ns s =
     (case read_ext (k_get_flink_deployment k ns name) s of
        (Inl (NotFound m), s1) \<Rightarrow> (Inl (DeploymentNotFound name ns), s1)
      | (Inl e, s1) \<Rightarrow> (Inl (DeploymentFetch name ns e), s1)
      | (Inr fd, s1) \<Rightarrow> (Inr fd, s1))"

definition fd_resolve ::
  "'w kube \<Rightarrow> chaos_run \<Rightarrow> 'w sys \<Rightarrow> (resolve_error + resolved_target) \<times> 'w sys" where
  "fd_resolve k run s =
     (let target = sp_target (cr_spec run); name = t_name target; ns = cr_namespace run in
      if t_type target \<noteq> FlinkDeployment
      then (Inl (WrongTargetType FlinkDeployment (t_type target)), s)
      else case fetch_flink_deployment k name ns s of
        (Inl e, s1) \<Rightarrow> (Inl e, s1)
      | (Inr fd, s1) \<Rightarrow>
          (case fd_discover_pods k name ns s1 of
             (Inl e, s2) \<Rightarrow> (Inl e, s2)
           | (Inr (tms, jms), s2) \<Rightarrow>
               (if length tms = 0 then (Inl (NoTaskManagers FlinkDeployment name), s2)
                else (Inr \<lparr>rt_platform = ''flink-operator'', rt_namespace = ns, rt_logicalName = name,
                   rt_tmPods = tms, rt_jmPods = jms, rt_sharedCluster = fd_is_session fd\<rparr>, s2))))"

subsection \<open>VervericaDeployment\<close>

definition matches_target :: "string_map \<Rightarrow> string \<Rightarrow> string \<Rightarrow> string \<Rightarrow> bool" where
  "matches_target labels did dname vns =
     (if did \<noteq> '''' then
        map_get labels ''deploymentId'' = did \<or>
        map_get labels ''flink.apache.org/deployment-id'' = did \<or>
        map_get labels ''vvp.io/deployment-id'' = did
      else if \<not> (map_get labels ''deploymentName'' = dname \<or>
                 map_get labels ''flink.apache.org/deployment-name'' = dname \<or>
                 map_get labels ''vvp.io/deployment-name'' = dname) then False
      else if vns = '''' then True
      else map_get labels ''vvpNamespace'' = vns \<or>
           map_get labels ''flink.apache.org/namespace'' = vns \<or>
           map_get labels ''vvp.io/namespace'' = vns)"

definition vvp_is_session :: "string_map \<Rightarrow> bool" where
  "vvp_is_session labels \<longleftrightarrow>
     map_get labels ''flink.apache.org/cluster-mode'' = ''session'' \<or>
     map_get labels ''vvp.io/cluster-mode'' = ''session''"

fun vvp_classify ::
  "string \<Rightarrow> string \<Rightarrow> string \<Rightarrow> pod list \<Rightarrow> string list \<Rightarrow> string list \<Rightarrow> bool \<Rightarrow>
   string list \<times> string list \<times> bool" where
  "vvp_classify did dname vns [] tms jms shared = (tms, jms, shared)"
| "vvp_classify did dname vns (p # ps) tms jms shared =
     (if \<not> is_pod_eligible p then vvp_classify did dname vns ps tms jms shared
      else if \<not> matches_target (p_labels p) did dname vns then vvp_classify did dname vns ps tms jms shared
      else
        (let shared' = (if vvp_is_session (p_labels p) then True else shared) in
         if component_role (p_labels p) = ''taskmanager''
         then vvp_classify did dname vns ps (tms @ [p_name p]) jms shared'
         else if component_role (p_labels p) = ''jobmanager''
         then vvp_classify did dname vns ps tms (jms @ [p_name p]) shared'
         else vvp_classify did dname vns ps tms jms shared'))"

definition vvp_discover_pods ::
  "'w kube \<Rightarrow> string \<Rightarrow> string \<Rightarrow> string \<Rightarrow> string \<Rightarrow> 'w sys \<Rightarrow>
   (resolve_error + (string list \<times> string list \<times> bool)) \<times> 'w sys" where
  "vvp_discover_pods k ns did dname vns s =
     (case read_ext (k_list_pods k ns) s of
        (Inl e, s1) \<Rightarrow> (Inl (ListingPods ns e), s1)
      | (Inr ps, s1) \<Rightarrow> (Inr (vvp_classify did dname vns ps [] [] False), s1))"

definition vvp_resolve ::
  "'w kube \<Rightarrow> chaos_run \<Rightarrow> 'w sys \<Rightarrow> (resolve_error + resolved_target) \<times> 'w sys" where
  "vvp_resolve k run s =
     (let target = sp_target (cr_spec run); did = t_deploymentID target; dname = t_deploymentName target in
      if t_type target \<noteq> VervericaDeployment
      then (Inl (WrongTargetType VervericaDeployment (t_type target)), s)
      else if did = '''' \<and> dname = '''' then (Inl IdOrNameMissing, s)
      else
        let logicalName = (if did = '''' then dname else did) in
        case vvp_discover_pods k (cr_namespace run) did dname (t_vvpNamespace target) s of
          (Inl e, s1) \<Rightarrow> (Inl e, s1)
        | (Inr (tms, jms, shared), s1) \<Rightarrow>
            (if length tms = 0 then (Inl (NoTaskManagers VervericaDeployment logicalName), s1)
             else (Inr \<lparr>rt_platform = ''ververica'', rt_namespace = cr_namespace run,
                rt_logicalName = logicalName, rt_tmPods = tms, rt_jmPods = jms,
                rt_sharedCluster = shared\<rparr>, s1)))"

subsection \<open>PodSelector\<close>

fun ps_classify :: "pod list \<Rightarrow> string list \<Rightarrow> string list \<Rightarrow> string list \<times> string list" where
  "ps_classify [] tms jms = (tms, jms)"
| "ps_classify (p # ps) tms jms =
     (if \<not> is_pod_eligible p then ps_classify ps tms jms
      else if component_role (p_labels p) = ''jobmanager'' then ps_classify ps tms (jms @ [p_name p])
      else ps_classify ps (tms @ [p_name p]) jms)"

definition ps_discover_pods ::
  "'w kube \<Rightarrow> string \<Rightarrow> label_selector \<Rightarrow> 'w sys \<Rightarrow> (resolve_error + (string list \<times> string list)) \<times> 'w sys" where
  "ps_discover_pods k ns sel s =
     (case read_ext (k_list_pods_matching k ns sel) s of
        (Inl e, s1) \<Rightarrow> (Inl (ListingPods ns e), s1)
      | (Inr ps, s1) \<Rightarrow> (Inr (ps_classify ps [] []), s1))"

definition ps_resolve ::
  "'w kube \<Rightarrow> chaos_run \<Rightarrow> 'w sys \<Rightarrow> (resolve_error + resolved_target) \<times> 'w sys" where
  "ps_resolve k run s =
     (let target = sp_target (cr_spec run) in
      if t_type target \<noteq> PodSelector
      then (Inl (WrongTargetType PodSelector (t_type target)), s)
      else case t_selector target of
        None \<Rightarrow> (Inl SelectorMissing, s)
      | Some sel \<Rightarrow>
          (case k_selector_error k sel of
             Some e \<Rightarrow> (Inl (SelectorInvalid e), s)
           | None \<Rightarrow>
               (case ps_discover_pods k (cr_namespace run) sel s of
                  (Inl e, s1) \<Rightarrow> (Inl e, s1)
                | (Inr (tms, jms), s1) \<Rightarrow>
                    (if length tms = 0 \<and> length jms = 0 then (Inl (NoPodsMatched (cr_namespace run)), s1)
                     else (Inr \<lparr>rt_platform = ''generic'', rt_namespace = cr_namespace run,
                        rt_logicalName = ''pod-selector'', rt_tmPods = tms, rt_jmPods = jms,
                        rt_sharedCluster = False\<rparr>, s1)))))"

subsection \<open>The loops compute filters\<close>

definition names_with :: "(pod \<Rightarrow> bool) \<Rightarrow> pod list \<Rightarrow> string list" where
  "names_with P ps = map p_name (filter P ps)"

lemma names_with_simps [simp]:
  "names_with P [] = []"
  "names_with P (p # ps) = (if P p then [p_name p] else []) @ names_with P ps"
  by (simp_all add: names_with_def)

lemma set_names_with: "set (names_with P ps) = p_name ` {p \<in> set ps. P p}"
  by (auto simp: names_with_def)

definition fd_member :: "string \<Rightarrow> string \<Rightarrow> pod \<Rightarrow> bool" where
  "fd_member name role p \<longleftrightarrow>
     is_pod_eligible p \<and> matches_deployment (p_labels p) name \<and> component_role (p_labels p) = role"

definition vvp_member :: "string \<Rightarrow> string \<Rightarrow> string \<Rightarrow> string \<Rightarrow> pod \<Rightarrow> bool" where
  "vvp_member did dname vns role p \<longleftrightarrow>
     is_pod_eligible p \<and> matches_target (p_labels p) did dname vns \<and> component_role (p_labels p) = role"

lemma fd_classify_filters:
  "fd_classify name ps tms jms =
     (tms @ names_with (fd_member name ''taskmanager'') ps, jms @ names_with (fd_member name ''jobmanager'') ps)"
  by (induction name ps tms jms rule: fd_classify.induct) (auto simp: fd_member_def)

lemma vvp_classify_filters:
  "vvp_classify did dname vns ps tms jms shared =
     (tms @ names_with (vvp_member did dname vns ''taskmanager'') ps,
      jms @ names_with (vvp_member did dname vns ''jobmanager'') ps,
      shared \<or> (\<exists>p \<in> set ps. is_pod_eligible p \<and> matches_target (p_labels p) did dname vns \<and>
        vvp_is_session (p_labels p)))"
  by (induction did dname vns ps tms jms shared rule: vvp_classify.induct)
    (auto simp: vvp_member_def Let_def)

lemma ps_classify_filters:
  "ps_classify ps tms jms =
     (tms @ names_with (\<lambda>p. is_pod_eligible p \<and> component_role (p_labels p) \<noteq> ''jobmanager'') ps,
      jms @ names_with (\<lambda>p. is_pod_eligible p \<and> component_role (p_labels p) = ''jobmanager'') ps)"
  by (induction ps tms jms rule: ps_classify.induct) auto

subsection \<open>What a resolved target holds\<close>

text \<open>The target was read off one listing of the namespace.\<close>

definition listed :: "'w kube \<Rightarrow> string \<Rightarrow> pod list \<Rightarrow> bool" where
  "listed k ns ps \<longleftrightarrow> (\<exists>w w'. k_list_pods k ns w = (Inr ps, w'))"

definition listed_matching :: "'w kube \<Rightarrow> string \<Rightarrow> label_selector \<Rightarrow> pod list \<Rightarrow> bool" where
  "listed_matching k ns sel ps \<longleftrightarrow> (\<exists>w w'. k_list_pods_matching k ns sel w = (Inr ps, w'))"

lemma read_listed: "read_ext (k_list_pods k ns) s = (Inr ps, s') \<Longrightarrow> listed k ns ps"
  by (auto simp: read_ext_def listed_def split: prod.splits)

lemma read_listed_matching:
  "read_ext (k_list_pods_matching k ns sel) s = (Inr ps, s') \<Longrightarrow> listed_matching k ns sel ps"
  by (auto simp: read_ext_def listed_matching_def split: prod.splits)

lemma fd_resolve_Inr:
  assumes "fd_resolve k run s = (Inr t, s')"
  shows "\<exists>ps. listed k (cr_namespace run) ps \<and>
     rt_tmPods t = names_with (fd_member (t_name (sp_target (cr_spec run))) ''taskmanager'') ps \<and>
     rt_jmPods t = names_with (fd_member (t_name (sp_target (cr_spec run))) ''jobmanager'') ps \<and>
     rt_tmPods t \<noteq> [] \<and> rt_namespace t = cr_namespace run"
  using assms
  by (auto simp: fd_resolve_def Let_def fd_discover_pods_def fd_classify_filters
      split: if_splits sum.splits prod.splits dest!: read_listed)

lemma vvp_resolve_Inr:
  assumes "vvp_resolve k run s = (Inr t, s')"
  shows "\<exists>ps. listed k (cr_namespace run) ps \<and>
     (let tg = sp_target (cr_spec run);
          member = vvp_member (t_deploymentID tg) (t_deploymentName tg) (t_vvpNamespace tg)
      in rt_tmPods t = names_with (member ''taskmanager'') ps \<and>
         rt_jmPods t = names_with (member ''jobmanager'') ps) \<and>
     rt_tmPods t \<noteq> [] \<and> rt_namespace t = cr_namespace run"
  using assms
  by (auto simp: vvp_resolve_def Let_def vvp_discover_pods_def vvp_classify_filters
      split: if_splits sum.splits prod.splits dest!: read_listed)

lemma ps_resolve_Inr:
  assumes "ps_resolve k run s = (Inr t, s')"
  shows "\<exists>sel ps. t_selector (sp_target (cr_spec run)) = Some sel \<and> listed_matching k (cr_namespace run) sel ps \<and>
     rt_tmPods t = names_with (\<lambda>p. is_pod_eligible p \<and> component_role (p_labels p) \<noteq> ''jobmanager'') ps \<and>
     rt_jmPods t = names_with (\<lambda>p. is_pod_eligible p \<and> component_role (p_labels p) = ''jobmanager'') ps \<and>
     (rt_tmPods t \<noteq> [] \<or> rt_jmPods t \<noteq> []) \<and> rt_namespace t = cr_namespace run"
  using assms
  by (auto simp: ps_resolve_def Let_def ps_discover_pods_def ps_classify_filters
      split: if_splits sum.splits prod.splits option.splits dest!: read_listed_matching)

lemma fd_resolve_silent: "fd_resolve k run s = (r, s') \<Longrightarrow> silent s s'"
  by (auto simp: fd_resolve_def Let_def fd_discover_pods_def fetch_flink_deployment_def
      split: if_splits sum.splits prod.splits api_error.splits dest!: read_ext_silent)

lemma vvp_resolve_silent: "vvp_resolve k run s = (r, s') \<Longrightarrow> silent s s'"
  by (auto simp: vvp_resolve_def Let_def vvp_discover_pods_def
      split: if_splits sum.splits prod.splits dest!: read_ext_silent)

lemma ps_resolve_silent: "ps_resolve k run s = (r, s') \<Longrightarrow> silent s s'"
  by (auto simp: ps_resolve_def Let_def ps_discover_pods_def
      split: if_splits sum.splits prod.splits option.splits dest!: read_ext_silent)

interpretation flink_deployments: target_resolver "fd_resolve k" for k
  by unfold_locales (auto dest: fd_resolve_silent fd_resolve_Inr)

interpretation ververica: target_resolver "vvp_resolve k" for k
  by unfold_locales (auto dest: vvp_resolve_silent vvp_resolve_Inr)

interpretation pod_selector: target_resolver "ps_resolve k" for k
  by unfold_locales (auto dest: ps_resolve_silent ps_resolve_Inr)

subsection \<open>Properties\<close>

text \<open>
  C38. The FlinkDeployment resolver answers with exactly the pods of one listing of the run's
  namespace that are not terminating, are Running or Pending, carry the deployment's name under one
  of the two label keys and have the role taskmanager (or jobmanager), which is the value of the first of
  four label keys that the pod has, at least one of them a TaskManager; no pod is in both lists when pod names are unique.
\<close>

theorem flink_target_members:
  assumes "fd_resolve k run s = (Inr t, s')"
  shows "\<exists>ps. listed k (cr_namespace run) ps \<and> rt_tmPods t \<noteq> [] \<and>
    (let live = {p \<in> set ps. p_deletionTimestamp p = None \<and> p_phase p \<in> {PodRunning, PodPending} \<and>
           t_name (sp_target (cr_spec run)) \<in> {map_get (p_labels p) ''app'', map_get (p_labels p) ''app.kubernetes.io/name''}};
         role = (\<lambda>p. case List.map_filter (map_of (p_labels p)) [''component'', ''app.kubernetes.io/component'',
           ''flink.apache.org/component'', ''vvp.io/component''] of [] \<Rightarrow> '''' | v # vs \<Rightarrow> v)
     in set (rt_tmPods t) = p_name ` {p \<in> live. role p = ''taskmanager''} \<and>
        set (rt_jmPods t) = p_name ` {p \<in> live. role p = ''jobmanager''}) \<and>
    (distinct (map p_name ps) \<longrightarrow> set (rt_tmPods t) \<inter> set (rt_jmPods t) = {})"
proof -
  from fd_resolve_Inr [OF assms] obtain ps where ps: "listed k (cr_namespace run) ps"
    "rt_tmPods t = names_with (fd_member (t_name (sp_target (cr_spec run))) ''taskmanager'') ps"
    "rt_jmPods t = names_with (fd_member (t_name (sp_target (cr_spec run))) ''jobmanager'') ps" "rt_tmPods t \<noteq> []"
    by blast
  define live where "live = {p \<in> set ps. p_deletionTimestamp p = None \<and> p_phase p \<in> {PodRunning, PodPending} \<and>
    t_name (sp_target (cr_spec run)) \<in> {map_get (p_labels p) ''app'', map_get (p_labels p) ''app.kubernetes.io/name''}}"
  have mem: "{p \<in> set ps. fd_member (t_name (sp_target (cr_spec run))) role p} =
      {p \<in> live. component_role (p_labels p) = role}" for role
    unfolding live_def fd_member_def is_pod_eligible_def matches_deployment_def by auto
  have tm: "set (rt_tmPods t) = p_name ` {p \<in> live. component_role (p_labels p) = ''taskmanager''}"
    and jm: "set (rt_jmPods t) = p_name ` {p \<in> live. component_role (p_labels p) = ''jobmanager''}"
    unfolding ps(2,3) set_names_with mem by simp_all
  have "set (rt_tmPods t) \<inter> set (rt_jmPods t) = {}" if "distinct (map p_name ps)"
  proof -
    have "inj_on p_name (set ps)" using that by (simp add: distinct_map)
    moreover have "live \<subseteq> set ps" unfolding live_def by blast
    ultimately show ?thesis unfolding tm jm by (auto dest: inj_onD)
  qed
  with ps(1,4) tm jm show ?thesis
    unfolding Let_def component_role_first [symmetric] by (intro exI [of _ ps]) (unfold live_def [symmetric], blast)
qed

theorem flink_target_members_witness:
  "\<exists>ps. listed demo_kube ''flink'' ps \<and>
     set (rt_tmPods demo_target) \<inter> set (rt_jmPods demo_target) = {} \<and> ps = w_pods (ext (demo_sys (demo_run Injecting)))"
proof -
  obtain r s' where r: "fd_resolve demo_kube (demo_run Injecting) (demo_sys (demo_run Injecting)) = (r, s')" (is "?r = _")
    by (cases ?r)
  have "fst ?r = Inr demo_target" by code_simp
  with r have r0: "?r = (Inr demo_target, s')" by simp
  from flink_target_members [OF r0] have "rt_tmPods demo_target \<noteq> []" by blast
  moreover have "listed demo_kube ''flink'' (w_pods (ext (demo_sys (demo_run Injecting))))"
    by (auto simp: listed_def demo_kube_def intro: exI [of _ "ext (demo_sys (demo_run Injecting))"])
  moreover have "set (rt_tmPods demo_target) \<inter> set (rt_jmPods demo_target) = {}"
    by (simp add: demo_target_def)
  ultimately show ?thesis by blast
qed

text \<open>
  The VervericaDeployment resolver answers with exactly the eligible pods of one listing that
  match the deployment, by its id when one is given and else by name and namespace, sorted by role;
  the target is shared when one of the matching pods says so.
\<close>

theorem ververica_target_members:
  assumes "vvp_resolve k run s = (Inr t, s')"
  shows "\<exists>ps. listed k (cr_namespace run) ps \<and> rt_tmPods t \<noteq> [] \<and>
    (let tg = sp_target (cr_spec run);
         mine = {p \<in> set ps. is_pod_eligible p \<and>
           matches_target (p_labels p) (t_deploymentID tg) (t_deploymentName tg) (t_vvpNamespace tg)}
     in set (rt_tmPods t) = p_name ` {p \<in> mine. component_role (p_labels p) = ''taskmanager''} \<and>
        set (rt_jmPods t) = p_name ` {p \<in> mine. component_role (p_labels p) = ''jobmanager''} \<and>
        (rt_sharedCluster t \<longleftrightarrow> (\<exists>p \<in> mine. vvp_is_session (p_labels p))))"
proof -
  from assms obtain ps s1 where l: "read_ext (k_list_pods k (cr_namespace run)) s = (Inr ps, s1)"
    and t: "t = \<lparr>rt_platform = ''ververica'', rt_namespace = cr_namespace run,
      rt_logicalName = rt_logicalName t, rt_tmPods = rt_tmPods t, rt_jmPods = rt_jmPods t,
      rt_sharedCluster = rt_sharedCluster t\<rparr>"
    and c: "vvp_classify (t_deploymentID (sp_target (cr_spec run))) (t_deploymentName (sp_target (cr_spec run)))
      (t_vvpNamespace (sp_target (cr_spec run))) ps [] [] False = (rt_tmPods t, rt_jmPods t, rt_sharedCluster t)"
    and ne: "rt_tmPods t \<noteq> []"
    by (auto simp: vvp_resolve_def Let_def vvp_discover_pods_def split: if_splits sum.splits prod.splits)
  define mine where "mine = {p \<in> set ps. is_pod_eligible p \<and>
    matches_target (p_labels p) (t_deploymentID (sp_target (cr_spec run)))
      (t_deploymentName (sp_target (cr_spec run))) (t_vvpNamespace (sp_target (cr_spec run)))}"
  have mem: "{p \<in> set ps. vvp_member (t_deploymentID (sp_target (cr_spec run)))
      (t_deploymentName (sp_target (cr_spec run))) (t_vvpNamespace (sp_target (cr_spec run))) role p} =
      {p \<in> mine. component_role (p_labels p) = role}" for role
    unfolding mine_def vvp_member_def by auto
  from c have lists:
    "rt_tmPods t = names_with (vvp_member (t_deploymentID (sp_target (cr_spec run)))
      (t_deploymentName (sp_target (cr_spec run))) (t_vvpNamespace (sp_target (cr_spec run))) ''taskmanager'') ps"
    "rt_jmPods t = names_with (vvp_member (t_deploymentID (sp_target (cr_spec run)))
      (t_deploymentName (sp_target (cr_spec run))) (t_vvpNamespace (sp_target (cr_spec run))) ''jobmanager'') ps"
    and sh: "rt_sharedCluster t \<longleftrightarrow> (\<exists>p \<in> mine. vvp_is_session (p_labels p))"
    unfolding vvp_classify_filters mine_def by auto
  have tm: "set (rt_tmPods t) = p_name ` {p \<in> mine. component_role (p_labels p) = ''taskmanager''}"
    and jm: "set (rt_jmPods t) = p_name ` {p \<in> mine. component_role (p_labels p) = ''jobmanager''}"
    unfolding lists set_names_with mem by simp_all
  with read_listed [OF l] ne sh show ?thesis
    by (intro exI [of _ ps]) (simp only: Let_def mine_def [symmetric] simp_thms)
qed

definition demo_vvp_run :: chaos_run where
  "demo_vvp_run = (demo_run Injecting)\<lparr>cr_spec := demo_spec\<lparr>sp_target := \<lparr>t_type = VervericaDeployment,
     t_name = '''', t_deploymentID = ''d-1'', t_deploymentName = '''', t_vvpNamespace = '''', t_selector = None\<rparr>\<rparr>\<rparr>"

definition demo_vvp_sys :: "world sys" where
  "demo_vvp_sys = (demo_sys demo_vvp_run)\<lparr>ext := (ext (demo_sys demo_vvp_run))\<lparr>w_pods :=
     [(demo_pod ''tm-0'' ''taskmanager'')\<lparr>p_labels :=
        [(''component'', ''taskmanager''), (''deploymentId'', ''d-1''), (''vvp.io/cluster-mode'', ''session'')]\<rparr>]\<rparr>\<rparr>"

theorem ververica_target_members_witness:
  "\<exists>t s'. vvp_resolve demo_kube demo_vvp_run demo_vvp_sys = (Inr t, s') \<and> rt_tmPods t \<noteq> []"
proof -
  obtain r s' where r: "vvp_resolve demo_kube demo_vvp_run demo_vvp_sys = (r, s')" (is "?r = _") by (cases ?r)
  have "case fst ?r of Inr _ \<Rightarrow> True | Inl _ \<Rightarrow> False" by code_simp
  with r obtain t where "?r = (Inr t, s')" by (cases r) auto
  from ververica_target_members [OF this] this show ?thesis by blast
qed

text \<open>
  The PodSelector resolver answers with exactly the eligible pods the selector matches: those
  with the role jobmanager as JobManagers and every other pod, labelled or not, as a TaskManager.
\<close>

theorem selector_target_members:
  assumes "ps_resolve k run s = (Inr t, s')"
  shows "\<exists>sel ps. t_selector (sp_target (cr_spec run)) = Some sel \<and> listed_matching k (cr_namespace run) sel ps \<and>
    set (rt_tmPods t) \<union> set (rt_jmPods t) = p_name ` {p \<in> set ps. is_pod_eligible p} \<and>
    set (rt_jmPods t) = p_name ` {p \<in> set ps. is_pod_eligible p \<and> component_role (p_labels p) = ''jobmanager''} \<and>
    set (rt_tmPods t) \<union> set (rt_jmPods t) \<noteq> {}"
proof -
  from ps_resolve_Inr [OF assms] obtain sel ps where sel: "t_selector (sp_target (cr_spec run)) = Some sel"
    "listed_matching k (cr_namespace run) sel ps" and ne: "rt_tmPods t \<noteq> [] \<or> rt_jmPods t \<noteq> []"
    and lists: "rt_tmPods t = names_with (\<lambda>p. is_pod_eligible p \<and> component_role (p_labels p) \<noteq> ''jobmanager'') ps"
    "rt_jmPods t = names_with (\<lambda>p. is_pod_eligible p \<and> component_role (p_labels p) = ''jobmanager'') ps"
    by blast
  have jm: "set (rt_jmPods t) = p_name ` {p \<in> set ps. is_pod_eligible p \<and> component_role (p_labels p) = ''jobmanager''}"
    unfolding lists(2) set_names_with by simp
  have all: "set (rt_tmPods t) \<union> set (rt_jmPods t) = p_name ` {p \<in> set ps. is_pod_eligible p}"
    unfolding jm lists(1) set_names_with by (auto simp: image_iff)
  have "set (rt_tmPods t) \<union> set (rt_jmPods t) \<noteq> {}" using ne by auto
  with sel all jm show ?thesis by blast
qed

definition demo_selector_run :: chaos_run where
  "demo_selector_run = (demo_run Injecting)\<lparr>cr_spec := demo_spec\<lparr>sp_target := \<lparr>t_type = PodSelector,
     t_name = '''', t_deploymentID = '''', t_deploymentName = '''', t_vvpNamespace = '''',
     t_selector = Some \<lparr>matchLabels = [(''app'', ''orders'')], matchExpressions = []\<rparr>\<rparr>\<rparr>\<rparr>"

theorem selector_target_members_witness:
  "\<exists>t s'. ps_resolve demo_kube demo_selector_run (demo_sys demo_selector_run) = (Inr t, s') \<and>
     set (rt_tmPods t) \<union> set (rt_jmPods t) \<noteq> {}"
proof -
  obtain r s' where r: "ps_resolve demo_kube demo_selector_run (demo_sys demo_selector_run) = (r, s')" (is "?r = _")
    by (cases ?r)
  have "case fst ?r of Inr _ \<Rightarrow> True | Inl _ \<Rightarrow> False" by code_simp
  with r obtain t where "?r = (Inr t, s')" by (cases r) auto
  from selector_target_members [OF this] this show ?thesis by blast
qed

end
