(* ===== verification/Pod_Kill.thy ===== *)
theory Pod_Kill
  imports Demo_World "HOL-Library.Multiset"
begin

section \<open>The TaskManagerPodKill driver\<close>

text \<open>
  \<^verbatim>\<open>internal/scenario/tmpodkill/driver.go\<close>. The selection function is a field of the driver;
  \<open>random_select\<close> is the one \<^verbatim>\<open>New\<close> installs, with the library's shuffle as a parameter.
\<close>

type_synonym 'w selector = "string list \<Rightarrow> int \<Rightarrow> 'w sys \<Rightarrow> string list \<times> 'w sys"

definition explicit_select :: "string list \<Rightarrow> string list \<Rightarrow> driver_error + string list" where
  "explicit_select requested available =
     (let unknown = filter (\<lambda>p. p \<notin> set available) requested
      in if 0 < length unknown then Inl (UnknownPods unknown) else Inr requested)"

text \<open>\<^verbatim>\<open>shuffled[:count]\<close>; a negative bound panics in Go and is excluded by the caller's \<^verbatim>\<open>count < 1\<close> guard.\<close>

definition random_select :: "'w kube \<Rightarrow> 'w selector" where
  "random_select k pods cnt s =
     (if int (length pods) \<le> cnt then (pods, s)
      else (case read_ext (k_shuffle k pods) s of (shuffled, s1) \<Rightarrow> (take (nat cnt) shuffled, s1)))"

definition select_pods ::
  "'w selector \<Rightarrow> chaos_run \<Rightarrow> resolved_target \<Rightarrow> 'w sys \<Rightarrow> (driver_error + string list) \<times> 'w sys" where
  "select_pods selectFn run t s =
     (let sel = s_selection (sp_scenario (cr_spec run)) in
      if sel_mode sel = ExplicitMode then (explicit_select (sel_podNames sel) (rt_tmPods t), s)
      else
        (let cnt = (if sel_count sel < 1 then 1 else sel_count sel) in
         case selectFn (rt_tmPods t) cnt s of (ps, s1) \<Rightarrow> (Inr ps, s1)))"

text \<open>The loop of \<^verbatim>\<open>deletePods\<close>, with the names deleted so far.\<close>

fun delete_pods ::
  "'w kube \<Rightarrow> chaos_run \<Rightarrow> string list \<Rightarrow> string list \<Rightarrow> 'w sys \<Rightarrow>
   (string list \<times> driver_error option) \<times> 'w sys" where
  "delete_pods k run injected [] s = ((injected, None), s)"
| "delete_pods k run injected (p # ps) s =
     (case delete_pod k (cr_namespace run) p
             (act_gracePeriodSeconds (s_action (sp_scenario (cr_spec run)))) s of
        (None, s1) \<Rightarrow> delete_pods k run (injected @ [p]) ps s1
      | (Some (NotFound e), s1) \<Rightarrow> delete_pods k run (injected @ [p]) ps s1
      | (Some e, s1) \<Rightarrow> ((injected, Some (DeletingPod p e)), s1))"

definition pod_kill_inject ::
  "'w kube \<Rightarrow> 'w selector \<Rightarrow> chaos_run \<Rightarrow> resolved_target option \<Rightarrow> 'w sys \<Rightarrow>
   driver_result \<times> chaos_run \<times> 'w sys" where
  "pod_kill_inject k selectFn run target s =
     (case target of
        None \<Rightarrow> (DriverError NilTarget None, run, s)
      | Some t \<Rightarrow>
          if scenario_of run \<noteq> TaskManagerPodKill
          then (DriverError (WrongScenario TaskManagerPodKill (scenario_of run)) None, run, s)
          else (case select_pods selectFn run t s of
                  (Inl e, s1) \<Rightarrow> (DriverError e None, run, s1)
                | (Inr selected, s1) \<Rightarrow>
                    (case delete_pods k run [] selected s1 of
                       ((injected, Some e), s2) \<Rightarrow>
                         (DriverError e (Some \<lparr>ir_selected = selected, ir_injected = injected\<rparr>), run, s2)
                     | ((injected, None), s2) \<Rightarrow>
                         (DriverOk \<lparr>ir_selected = selected, ir_injected = injected\<rparr>, run, s2))))"

definition pod_kill_driver ::
  "'w kube \<Rightarrow> chaos_run \<Rightarrow> resolved_target \<Rightarrow> 'w sys \<Rightarrow> driver_result \<times> chaos_run \<times> 'w sys" where
  "pod_kill_driver k run t s = pod_kill_inject k (random_select k) run (Some t) s"

subsection \<open>Selection\<close>

lemma explicit_select_Inr:
  "explicit_select req av = Inr ps \<longleftrightarrow> ps = req \<and> set req \<subseteq> set av"
  by (auto simp: explicit_select_def Let_def filter_empty_conv)

lemma explicit_select_Inl:
  "explicit_select req av = Inl e \<longleftrightarrow> e = UnknownPods (filter (\<lambda>p. p \<notin> set av) req) \<and> \<not> set req \<subseteq> set av"
  by (auto simp: explicit_select_def Let_def filter_empty_conv)

text \<open>What is assumed of the library's shuffle: it permutes.\<close>

definition shuffle_permutes :: "'w kube \<Rightarrow> bool" where
  "shuffle_permutes k \<longleftrightarrow> (\<forall>ps w ps' w'. k_shuffle k ps w = (ps', w') \<longrightarrow> mset ps' = mset ps)"

lemma random_select_silent: "random_select k ps n s = (qs, s') \<Longrightarrow> silent s s'"
  by (auto simp: random_select_def split: if_splits prod.splits dest: read_ext_silent)

lemma random_select_spec:
  assumes "shuffle_permutes k" and "random_select k ps n s = (qs, s')" and "0 \<le> n"
  shows "mset qs \<subseteq># mset ps \<and> length qs = min (length ps) (nat n)"
proof (cases "int (length ps) \<le> n")
  case True
  with assms show ?thesis by (auto simp: random_select_def)
next
  case False
  with assms(2) obtain sh where sh: "fst (k_shuffle k ps (ext s)) = sh" and qs: "qs = take (nat n) sh"
    by (auto simp: random_select_def read_ext_def split: prod.splits)
  have perm: "mset sh = mset ps"
    using assms(1) sh unfolding shuffle_permutes_def by (metis prod.collapse)
  have "mset qs \<subseteq># mset sh"
    unfolding qs by (metis append_take_drop_id mset_append mset_subset_eq_add_left)
  moreover have "length sh = length ps" using perm by (metis size_mset)
  ultimately show ?thesis using perm qs assms(3) False by simp
qed

lemma select_pods_silent:
  "select_pods f run t s = (r, s') \<Longrightarrow> (\<And>ps n s qs s'. f ps n s = (qs, s') \<Longrightarrow> silent s s') \<Longrightarrow> silent s s'"
  by (auto simp: select_pods_def Let_def split: if_splits prod.splits)

subsection \<open>Deletion\<close>

definition own_delete :: "call \<Rightarrow> bool" where
  "own_delete c \<longleftrightarrow> (case c of DeletePod _ _ _ _ \<Rightarrow> True | _ \<Rightarrow> False)"

lemma own_delete_simps [simp]: "own_delete (DeletePod a b c d)"
  by (simp add: own_delete_def)

text \<open>
  One delete call per pod, in order, on the run's namespace with the run's grace period, and
  the reported pods are the prefix of the selection before the first failure. \<open>oks\<close> are the
  outcomes the log records.
\<close>

definition delete_calls :: "chaos_run \<Rightarrow> string list \<Rightarrow> bool list \<Rightarrow> call list" where
  "delete_calls run ps oks = map2 (\<lambda>p ok. DeletePod (cr_namespace run) p
     (act_gracePeriodSeconds (s_action (sp_scenario (cr_spec run)))) ok) ps oks"

lemma delete_calls_simps [simp]:
  "delete_calls run [] oks = []"
  "delete_calls run (p # ps) (b # bs) = DeletePod (cr_namespace run) p
     (act_gracePeriodSeconds (s_action (sp_scenario (cr_spec run)))) b # delete_calls run ps bs"
  by (simp_all add: delete_calls_def)

lemma length_delete_calls [simp]: "length (delete_calls run ps oks) = min (length ps) (length oks)"
  by (simp add: delete_calls_def)

lemma delete_calls_own: "c \<in> set (delete_calls run ps oks) \<Longrightarrow> own_delete c"
  by (auto simp: delete_calls_def)

definition deletes_prefix ::
  "chaos_run \<Rightarrow> string list \<Rightarrow> string list \<Rightarrow> driver_error option \<Rightarrow> 'w sys \<Rightarrow> 'w sys \<Rightarrow> bool" where
  "deletes_prefix run ps gone err s s' \<longleftrightarrow>
     (case err of
        None \<Rightarrow> gone = ps \<and> (\<exists>oks. length oks = length ps \<and> calls s' = calls s @ delete_calls run ps oks)
      | Some e \<Rightarrow> \<exists>p rest ae oks. ps = gone @ p # rest \<and> e = DeletingPod p ae \<and>
          (\<forall>m. ae \<noteq> NotFound m) \<and> length oks = length gone \<and>
          calls s' = calls s @ delete_calls run (gone @ [p]) (oks @ [False]))"

lemma deletes_prefix_Cons:
  assumes "deletes_prefix run ps gone err s1 s'"
    and "calls s1 = calls s @ delete_calls run [p] [b]"
  shows "deletes_prefix run (p # ps) (p # gone) err s s'"
proof (cases err)
  case None
  with assms obtain oks where "gone = ps" "length oks = length ps"
    "calls s' = calls s1 @ delete_calls run ps oks"
    by (auto simp: deletes_prefix_def)
  with None assms(2) show ?thesis
    by (simp add: deletes_prefix_def) (rule exI [of _ "b # oks"], simp)
next
  case (Some e)
  with assms obtain q rest ae oks where h: "ps = gone @ q # rest" "e = DeletingPod q ae"
    "\<forall>m. ae \<noteq> NotFound m" "length oks = length gone"
    "calls s' = calls s1 @ delete_calls run (gone @ [q]) (oks @ [False])"
    by (auto simp: deletes_prefix_def)
  with Some assms(2) show ?thesis
    unfolding deletes_prefix_def Some option.case
    by (intro exI [of _ q] exI [of _ rest] exI [of _ ae] exI [of _ "b # oks"]) simp
qed

lemma delete_pods_spec:
  "delete_pods k run acc ps s = ((hit, err), s') \<Longrightarrow>
   \<exists>gone. hit = acc @ gone \<and> deletes_prefix run ps gone err s s'"
proof (induction k run acc ps s arbitrary: hit err s' rule: delete_pods.induct)
  case (1 k run injected s)
  then show ?case by (auto simp: deletes_prefix_def)
next
  case (2 k run injected p ps s)
  obtain r s1 where d: "delete_pod k (cr_namespace run) p
      (act_gracePeriodSeconds (s_action (sp_scenario (cr_spec run)))) s = (r, s1)" (is "?d = _")
    by (cases ?d)
  have c: "calls s1 = calls s @ delete_calls run [p] [no_error r]"
    using delete_pod_calls [OF d] by simp
  show ?case
  proof (cases "r = None \<or> (\<exists>m. r = Some (NotFound m))")
    case True
    with 2(3) d have run: "delete_pods k run (injected @ [p]) ps s1 = ((hit, err), s')"
      by auto
    from True obtain gone where "hit = (injected @ [p]) @ gone" "deletes_prefix run ps gone err s1 s'"
    proof (elim disjE exE)
      assume "r = None"
      from 2(1) [OF d [symmetric] this run] that show ?thesis by blast
    next
      fix m assume "r = Some (NotFound m)"
      from 2(2) [OF d [symmetric] this refl run] that show ?thesis by blast
    qed
    with deletes_prefix_Cons [OF _ c] show ?thesis by (intro exI [of _ "p # gone"]) simp
  next
    case False
    then obtain e where e: "r = Some e" "\<forall>m. e \<noteq> NotFound m" by (cases r) auto
    with 2(3) d have "hit = injected" "err = Some (DeletingPod p e)" "s' = s1"
      by (cases e; simp)+
    with e c show ?thesis
      by (intro exI [of _ "[]"]) (auto simp: deletes_prefix_def)
  qed
qed

lemma deletes_prefix_emits: "deletes_prefix run ps gone err s s' \<Longrightarrow> emits own_delete s s'"
  by (auto simp: deletes_prefix_def emits_def dest: delete_calls_own split: option.splits)

lemma delete_pods_length: "deletes_prefix run ps gone err s s' \<Longrightarrow> length (calls s') \<le> length (calls s) + length ps"
  by (auto simp: deletes_prefix_def split: option.splits)

text \<open>The pods a driver reports are selected ones, and on success all of them.\<close>

lemma pod_kill_inject_cases:
  assumes "pod_kill_inject k f run (Some t) s = (r, run', s')"
  shows "run' = run \<and>
    ((\<exists>e. r = DriverError e None \<and> (s' = s \<or> (\<exists>x. select_pods f run t s = (Inl x, s')))) \<or>
     (\<exists>ps gone err s1. scenario_of run = TaskManagerPodKill \<and> select_pods f run t s = (Inr ps, s1) \<and>
        deletes_prefix run ps gone err s1 s' \<and>
        r = (case err of None \<Rightarrow> DriverOk \<lparr>ir_selected = ps, ir_injected = gone\<rparr>
             | Some e \<Rightarrow> DriverError e (Some \<lparr>ir_selected = ps, ir_injected = gone\<rparr>))))"
proof (cases "scenario_of run = TaskManagerPodKill")
  case False
  with assms show ?thesis by (auto simp: pod_kill_inject_def)
next
  case True
  obtain sel s1 where sel: "select_pods f run t s = (sel, s1)" by (cases "select_pods f run t s")
  show ?thesis
  proof (cases sel)
    case (Inl e)
    with assms True sel show ?thesis by (auto simp: pod_kill_inject_def)
  next
    case (Inr ps)
    obtain hit err s2 where d: "delete_pods k run [] ps s1 = ((hit, err), s2)"
      by (cases "delete_pods k run [] ps s1") auto
    from delete_pods_spec [OF d] have "deletes_prefix run ps hit err s1 s2" by auto
    moreover have "run' = run \<and> s' = s2 \<and>
        r = (case err of None \<Rightarrow> DriverOk \<lparr>ir_selected = ps, ir_injected = hit\<rparr>
             | Some e \<Rightarrow> DriverError e (Some \<lparr>ir_selected = ps, ir_injected = hit\<rparr>))"
      using assms True sel Inr d by (cases err) (auto simp: pod_kill_inject_def)
    ultimately show ?thesis using True sel Inr by blast
  qed
qed

lemma random_select_pods_silent: "select_pods (random_select k) run t s = (r, s') \<Longrightarrow> silent s s'"
  by (rule select_pods_silent) (auto dest: random_select_silent)

lemma pod_kill_driver_emits:
  assumes "pod_kill_driver k run t s = (r, run', s')"
  shows "emits own_delete s s' \<and> run' = run"
  using pod_kill_inject_cases [OF assms [unfolded pod_kill_driver_def]]
  by (auto dest!: random_select_pods_silent deletes_prefix_emits
      intro: emits_silent silent_then_emits)

interpretation pod_kill: scenario_driver "pod_kill_driver k" own_delete for k
proof unfold_locales
  show "disruptive c" if "own_delete c" for c
    using that by (cases c) (simp_all add: own_delete_def)
qed (auto dest: pod_kill_driver_emits)

subsection \<open>Which pods are deleted\<close>

fun deleted_pod :: "call \<Rightarrow> string" where
  "deleted_pod (DeletePod ns p g ok) = p"
| "deleted_pod _ = ''''"

lemma map_deleted_pod: "length oks = length ps \<Longrightarrow> map deleted_pod (delete_calls run ps oks) = ps"
  by (induction ps oks rule: list_induct2') auto

lemma select_pods_bound:
  assumes "shuffle_permutes k" and "select_pods (random_select k) run t s = (Inr ps, s1)"
  shows "set ps \<subseteq> set (rt_tmPods t) \<and>
    length ps = (let sel = s_selection (sp_scenario (cr_spec run)) in
      if sel_mode sel = ExplicitMode then length (sel_podNames sel)
      else min (length (rt_tmPods t)) (nat (max 1 (sel_count sel))))"
proof (cases "sel_mode (s_selection (sp_scenario (cr_spec run))) = ExplicitMode")
  case True
  with assms(2) show ?thesis
    by (auto simp: select_pods_def explicit_select_def Let_def filter_empty_conv split: if_splits)
next
  case False
  let ?n = "max 1 (sel_count (s_selection (sp_scenario (cr_spec run))))"
  have n: "(if sel_count (s_selection (sp_scenario (cr_spec run))) < 1 then 1
      else sel_count (s_selection (sp_scenario (cr_spec run)))) = ?n" by auto
  from assms(2) False have "random_select k (rt_tmPods t) ?n s = (ps, s1)"
    by (auto simp: select_pods_def Let_def n split: prod.splits)
  from random_select_spec [OF assms(1) this] have "mset ps \<subseteq># mset (rt_tmPods t)"
    "length ps = min (length (rt_tmPods t)) (nat ?n)" by simp_all
  with False set_mset_mono [of "mset ps" "mset (rt_tmPods t)"] show ?thesis by (simp add: Let_def)
qed

lemma deletes_prefix_new:
  assumes "deletes_prefix run ps gone err s s'" and "calls s' = calls s @ new"
  shows "\<exists>qs oks. new = delete_calls run qs oks \<and> length oks = length qs \<and> set qs \<subseteq> set ps \<and>
    length qs \<le> length ps \<and> (err = None \<longrightarrow> qs = ps \<and> gone = ps)"
proof (cases err)
  case None
  with assms show ?thesis by (auto simp: deletes_prefix_def)
next
  case (Some e)
  with assms obtain p rest oks where h: "ps = gone @ p # rest" "length oks = length gone"
    "new = delete_calls run (gone @ [p]) (oks @ [False])"
    by (auto simp: deletes_prefix_def)
  then show ?thesis using Some by (intro exI [of _ "gone @ [p]"] exI [of _ "oks @ [False]"]) auto
qed

lemma pod_kill_new_calls:
  assumes "shuffle_permutes k" and "pod_kill_driver k run t s = (r, run', s')"
    and "calls s' = calls s @ new"
  obtains qs oks where "new = delete_calls run qs oks" "length oks = length qs" "set qs \<subseteq> set (rt_tmPods t)"
    "length qs \<le> (let sel = s_selection (sp_scenario (cr_spec run)) in
      if sel_mode sel = ExplicitMode then length (sel_podNames sel)
      else min (length (rt_tmPods t)) (nat (max 1 (sel_count sel))))"
    "\<forall>ir. r = DriverOk ir \<longrightarrow> ir_injected ir = qs \<and> ir_selected ir = qs"
proof -
  from pod_kill_inject_cases [OF assms(2) [unfolded pod_kill_driver_def]]
  consider e where "r = DriverError e None" "silent s s'"
    | ps gone err s1 where "select_pods (random_select k) run t s = (Inr ps, s1)"
        "deletes_prefix run ps gone err s1 s'"
        "r = (case err of None \<Rightarrow> DriverOk \<lparr>ir_selected = ps, ir_injected = gone\<rparr>
             | Some e \<Rightarrow> DriverError e (Some \<lparr>ir_selected = ps, ir_injected = gone\<rparr>))"
    by (auto dest: random_select_pods_silent)
  then show ?thesis
  proof cases
    case 1
    with assms(3) show ?thesis by (intro that [of "[]" "[]"]) (simp_all add: delete_calls_def)
  next
    case (2 ps gone err s1)
    have "calls s' = calls s1 @ new" using random_select_pods_silent [OF 2(1)] assms(3) by simp
    from deletes_prefix_new [OF 2(2) this] obtain qs oks where q: "new = delete_calls run qs oks"
      "length oks = length qs" "set qs \<subseteq> set ps" "length qs \<le> length ps" "err = None \<longrightarrow> qs = ps \<and> gone = ps"
      by blast
    note sel = select_pods_bound [OF assms(1) 2(1)]
    from q sel 2(3) show ?thesis
      by (intro that [of qs oks]) (auto simp: Let_def split: option.splits)
  qed
qed

text \<open>
  C27. The pod kill driver deletes only TaskManager pods of the resolved target, in the namespace
  of the run and with its grace period, one call each and no more than the selection allows; on
  success the pods it reports as injected are the deleted ones, in order.
\<close>

theorem pod_kill_deletes_selection:
  assumes "shuffle_permutes k" and "pod_kill_driver k run t s = (r, run', s')"
    and "calls s' = calls s @ new"
  shows "set (map deleted_pod new) \<subseteq> set (rt_tmPods t) \<and>
    (\<forall>c \<in> set new. \<exists>ok. c = DeletePod (cr_namespace run) (deleted_pod c)
       (act_gracePeriodSeconds (s_action (sp_scenario (cr_spec run)))) ok) \<and>
    length new \<le> (let sel = s_selection (sp_scenario (cr_spec run)) in
      if sel_mode sel = ExplicitMode then length (sel_podNames sel)
      else min (length (rt_tmPods t)) (nat (max 1 (sel_count sel)))) \<and>
    (\<forall>ir. r = DriverOk ir \<longrightarrow> ir_injected ir = map deleted_pod new \<and> ir_selected ir = map deleted_pod new)"
proof -
  from pod_kill_new_calls [OF assms] obtain qs oks where q: "new = delete_calls run qs oks"
    "length oks = length qs" "set qs \<subseteq> set (rt_tmPods t)"
    "length qs \<le> (let sel = s_selection (sp_scenario (cr_spec run)) in
      if sel_mode sel = ExplicitMode then length (sel_podNames sel)
      else min (length (rt_tmPods t)) (nat (max 1 (sel_count sel))))"
    "\<forall>ir. r = DriverOk ir \<longrightarrow> ir_injected ir = qs \<and> ir_selected ir = qs" .
  have each: "\<exists>ok. c = DeletePod (cr_namespace run) (deleted_pod c)
     (act_gracePeriodSeconds (s_action (sp_scenario (cr_spec run)))) ok" if "c \<in> set new" for c
    using that unfolding q(1) delete_calls_def by (auto dest!: set_zip_rightD elim!: in_set_zipE)
  have "length new = length qs" using q(1,2) by (simp add: delete_calls_def)
  with q each show ?thesis by (simp add: map_deleted_pod)
qed

theorem pod_kill_deletes_selection_witness:
  "set (map deleted_pod [DeletePod ''flink'' ''tm-1'' (Some 0) True]) \<subseteq> set (rt_tmPods demo_target)"
proof -
  have p: "shuffle_permutes demo_kube" by (simp add: shuffle_permutes_def demo_kube_def)
  obtain r run' s' where d: "pod_kill_driver demo_kube (demo_run Injecting) demo_target (demo_sys (demo_run Injecting)) = (r, run', s')"
    (is "?d = _") by (cases ?d)
  have "calls (snd (snd ?d)) = [DeletePod ''flink'' ''tm-1'' (Some 0) True]" by code_simp
  with d have "calls s' = calls (demo_sys (demo_run Injecting)) @ [DeletePod ''flink'' ''tm-1'' (Some 0) True]"
    by (simp add: demo_sys_def)
  from pod_kill_deletes_selection [OF p d this] show ?thesis by blast
qed

end
