(* ===== verification/Net_Policy.thy ===== *)
theory Net_Policy
  imports Demo_World Validation
begin

section \<open>NetworkPolicy builder and the NetworkPartition driver\<close>

subsection \<open>The builder\<close>

text \<open>
  \<^verbatim>\<open>internal/netchaos/policy/builder.go\<close>. In Go the empty and the absent rule list differ
  only in their JSON; both mean that no rule allows anything.
\<close>

record policy_spec =
  ps_name :: string
  ps_namespace :: string
  ps_chaosRunName :: string
  ps_sourceLabels :: string_map
  ps_destLabels :: "string_map option"
  ps_destCIDR :: string
  ps_direction :: string
  ps_port :: int

definition run_name_label :: string where "run_name_label = ''chaos.flink.io/run-name''"
definition managed_by_label :: string where "managed_by_label = ''chaos.flink.io/managed-by''"

definition build_ports :: "int \<Rightarrow> int list" where
  "build_ports port = (if port = 0 then [] else [port])"

definition build_policy :: "policy_spec \<Rightarrow> network_policy" where
  "build_policy s =
     (let base = \<lparr>np_name = ps_name s, np_namespace = ps_namespace s,
            np_labels = [(run_name_label, ps_chaosRunName s), (managed_by_label, ''flink-chaos-operator'')],
            np_podSelector = ps_sourceLabels s, np_policyTypes = [], np_ingress = [], np_egress = []\<rparr>;
          allowExcept = \<lparr>pr_ports = build_ports (ps_port s),
            pr_peers = [\<lparr>ib_cidr = ''0.0.0.0/0'', ib_except = [ps_destCIDR s]\<rparr>]\<rparr>
      in if ps_destCIDR s \<noteq> '''' then
           (if ps_direction s = ''Ingress''
            then base\<lparr>np_policyTypes := [PolicyIngress], np_ingress := []\<rparr>
            else if ps_direction s = ''Both''
            then base\<lparr>np_policyTypes := [PolicyIngress, PolicyEgress], np_ingress := [], np_egress := [allowExcept]\<rparr>
            else base\<lparr>np_policyTypes := [PolicyEgress], np_egress := [allowExcept]\<rparr>)
         else
           (if ps_direction s = ''Egress''
            then base\<lparr>np_policyTypes := [PolicyEgress], np_egress := []\<rparr>
            else if ps_direction s = ''Ingress''
            then base\<lparr>np_policyTypes := [PolicyIngress], np_ingress := []\<rparr>
            else base\<lparr>np_policyTypes := [PolicyIngress, PolicyEgress], np_ingress := [], np_egress := []\<rparr>))"

definition policy_names :: "string \<Rightarrow> string \<times> string" where
  "policy_names run = (run @ ''-netpol-ingress'', run @ ''-netpol-egress'')"

subsection \<open>What a policy allows\<close>

text \<open>
  The documented meaning of a NetworkPolicy on a pod it selects: a direction named in the policy
  types is denied except for what a rule allows; a direction not named is untouched. Membership
  of an address in a CIDR block is a parameter.
\<close>

definition peer_matches :: "(string \<Rightarrow> string \<Rightarrow> bool) \<Rightarrow> ip_block \<Rightarrow> string \<Rightarrow> bool" where
  "peer_matches inb b ip \<longleftrightarrow> inb ip (ib_cidr b) \<and> (\<forall>x \<in> set (ib_except b). \<not> inb ip x)"

definition rule_allows :: "(string \<Rightarrow> string \<Rightarrow> bool) \<Rightarrow> policy_rule \<Rightarrow> string \<Rightarrow> int \<Rightarrow> bool" where
  "rule_allows inb r ip port \<longleftrightarrow>
     (pr_ports r = [] \<or> port \<in> set (pr_ports r)) \<and>
     (pr_peers r = [] \<or> (\<exists>b \<in> set (pr_peers r). peer_matches inb b ip))"

definition allows_egress :: "(string \<Rightarrow> string \<Rightarrow> bool) \<Rightarrow> network_policy \<Rightarrow> string \<Rightarrow> int \<Rightarrow> bool" where
  "allows_egress inb np ip port \<longleftrightarrow>
     PolicyEgress \<notin> set (np_policyTypes np) \<or> (\<exists>r \<in> set (np_egress np). rule_allows inb r ip port)"

definition allows_ingress :: "(string \<Rightarrow> string \<Rightarrow> bool) \<Rightarrow> network_policy \<Rightarrow> string \<Rightarrow> int \<Rightarrow> bool" where
  "allows_ingress inb np ip port \<longleftrightarrow>
     PolicyIngress \<notin> set (np_policyTypes np) \<or> (\<exists>r \<in> set (np_ingress np). rule_allows inb r ip port)"

lemmas policy_semantics = allows_egress_def allows_ingress_def rule_allows_def peer_matches_def

lemma build_policy_meta [simp]:
  "np_name (build_policy s) = ps_name s"
  "np_namespace (build_policy s) = ps_namespace s"
  "np_podSelector (build_policy s) = ps_sourceLabels s"
  "np_labels (build_policy s) =
     [(run_name_label, ps_chaosRunName s), (managed_by_label, ''flink-chaos-operator'')]"
  by (simp_all add: build_policy_def Let_def)

lemma build_label_policy:
  assumes "ps_destCIDR s = ''''"
  shows "allows_ingress inb (build_policy s) ip port \<longleftrightarrow> ps_direction s = ''Egress''"
    and "allows_egress inb (build_policy s) ip port \<longleftrightarrow> ps_direction s = ''Ingress''"
  using assms by (auto simp: build_policy_def Let_def policy_semantics)

lemma build_cidr_policy:
  assumes "ps_destCIDR s \<noteq> ''''" and "inb ip ''0.0.0.0/0''"
  shows "allows_ingress inb (build_policy s) ip port \<longleftrightarrow>
           ps_direction s \<noteq> ''Ingress'' \<and> ps_direction s \<noteq> ''Both''"
    and "allows_egress inb (build_policy s) ip port \<longleftrightarrow>
           ps_direction s = ''Ingress'' \<or>
           ((ps_port s = 0 \<or> port = ps_port s) \<and> \<not> inb ip (ps_destCIDR s))"
  using assms by (auto simp: build_policy_def Let_def policy_semantics build_ports_def)

subsection \<open>The driver\<close>

text \<open>\<^verbatim>\<open>internal/scenario/networkpartition/driver.go\<close>.\<close>

definition tm_labels :: string_map where "tm_labels = [(''component'', ''taskmanager'')]"
definition jm_labels :: string_map where "jm_labels = [(''component'', ''jobmanager'')]"

definition resolve_partition_peers ::
  "network_chaos_spec \<Rightarrow> driver_error + (string_map \<times> string_map option \<times> string)" where
  "resolve_partition_peers n =
     (case n_target n of
        TMtoTM \<Rightarrow> Inr (tm_labels, Some tm_labels, '''')
      | TMtoJM \<Rightarrow> Inr (tm_labels, Some jm_labels, '''')
      | TMtoCheckpoint \<Rightarrow>
          (case n_externalEndpoint n of
             None \<Rightarrow> Inl (PeerCidrRequired (n_target n))
           | Some x \<Rightarrow> if x_cidr x = '''' then Inl (PeerCidrRequired (n_target n))
                       else Inr (tm_labels, None, x_cidr x))
      | TMtoExternal \<Rightarrow>
          (case n_externalEndpoint n of
             None \<Rightarrow> Inl (PeerCidrRequired (n_target n))
           | Some x \<Rightarrow> if x_cidr x = '''' then Inl (PeerCidrRequired (n_target n))
                       else Inr (tm_labels, None, x_cidr x))
      | t \<Rightarrow> Inl (UnsupportedNetTarget t))"

definition policies_to_create :: "net_direction \<Rightarrow> string \<Rightarrow> string \<Rightarrow> (string \<times> string) list" where
  "policies_to_create d ingressName egressName =
     (case d of
        Ingress \<Rightarrow> [(ingressName, ''Ingress'')]
      | Egress \<Rightarrow> [(egressName, ''Egress'')]
      | _ \<Rightarrow> [(ingressName, ''Ingress''), (egressName, ''Egress'')])"

fun create_policies ::
  "'w kube \<Rightarrow> policy_spec \<Rightarrow> string list \<Rightarrow> (string \<times> string) list \<Rightarrow> 'w sys \<Rightarrow>
   (string list \<times> driver_error option) \<times> 'w sys" where
  "create_policies k base created [] s = ((created, None), s)"
| "create_policies k base created ((name, dir) # es) s =
     (case create_policy k (build_policy (base\<lparr>ps_name := name, ps_direction := dir\<rparr>)) s of
        (None, s1) \<Rightarrow> create_policies k base (created @ [name]) es s1
      | (Some (AlreadyExists m), s1) \<Rightarrow> create_policies k base (created @ [name]) es s1
      | (Some e, s1) \<Rightarrow> ((created, Some (CreatingPolicy name e)), s1))"

definition partition_base_spec ::
  "chaos_run \<Rightarrow> network_chaos_spec \<Rightarrow> string_map \<Rightarrow> string_map option \<Rightarrow> string \<Rightarrow> policy_spec" where
  "partition_base_spec run n src dest cidr =
     \<lparr>ps_name = '''', ps_namespace = cr_namespace run, ps_chaosRunName = cr_name run,
      ps_sourceLabels = (case dest of None \<Rightarrow> src | Some d \<Rightarrow> d), ps_destLabels = dest,
      ps_destCIDR = cidr, ps_direction = string_of_direction (n_direction n),
      ps_port = (case n_externalEndpoint n of None \<Rightarrow> 0 | Some x \<Rightarrow> x_port x)\<rparr>"

definition partition_inject ::
  "'w kube \<Rightarrow> chaos_run \<Rightarrow> resolved_target \<Rightarrow> 'w sys \<Rightarrow> driver_result \<times> chaos_run \<times> 'w sys" where
  "partition_inject k run t s =
     (if scenario_of run \<noteq> NetworkPartition
      then (DriverError (WrongScenario NetworkPartition (scenario_of run)) None, run, s)
      else case s_network (sp_scenario (cr_spec run)) of
        None \<Rightarrow> (DriverError PartitionSpecRequired None, run, s)
      | Some n \<Rightarrow>
          (case resolve_partition_peers n of
             Inl e \<Rightarrow> (DriverError e None, run, s)
           | Inr (src, dest, cidr) \<Rightarrow>
               (case create_policies k (partition_base_spec run n src dest cidr) []
                       (policies_to_create (n_direction n) (fst (policy_names (cr_name run)))
                          (snd (policy_names (cr_name run)))) s of
                  ((created, Some e), s1) \<Rightarrow> (DriverError e None, run, s1)
                | ((created, None), s1) \<Rightarrow>
                    (DriverOk \<lparr>ir_selected = rt_tmPods t, ir_injected = rt_tmPods t\<rparr>,
                     upd_status (\<lambda>st. st\<lparr>st_networkPolicies := st_networkPolicies st @ created,
                       st_selectedPods := rt_tmPods t\<rparr>) run, s1))))"

fun delete_policies ::
  "'w kube \<Rightarrow> network_policy list \<Rightarrow> 'w sys \<Rightarrow> driver_error option \<times> 'w sys" where
  "delete_policies k [] s = (None, s)"
| "delete_policies k (np # nps) s =
     (case delete_policy k (np_namespace np) (np_name np) s of
        (None, s1) \<Rightarrow> delete_policies k nps s1
      | (Some (NotFound m), s1) \<Rightarrow> delete_policies k nps s1
      | (Some e, s1) \<Rightarrow> (Some (DeletingPolicy (np_name np) e), s1))"

definition partition_cleanup ::
  "'w kube \<Rightarrow> chaos_run \<Rightarrow> 'w sys \<Rightarrow> driver_error option \<times> chaos_run \<times> 'w sys" where
  "partition_cleanup k run s =
     (case read_ext (k_list_policies k (cr_namespace run) [(run_name_label, cr_name run)]) s of
        (Inl e, s1) \<Rightarrow> (Some (ListingPolicies (cr_name run) e), run, s1)
      | (Inr items, s1) \<Rightarrow>
          (case delete_policies k items s1 of
             (Some e, s2) \<Rightarrow> (Some e, run, s2)
           | (None, s2) \<Rightarrow> (None, upd_status (\<lambda>st. st\<lparr>st_networkPolicies := []\<rparr>) run, s2)))"

subsection \<open>Which calls the driver makes\<close>

definition own_policy :: "call \<Rightarrow> bool" where
  "own_policy c \<longleftrightarrow> (case c of CreatePolicy _ _ \<Rightarrow> True | _ \<Rightarrow> False)"

definition undo_policy :: "call \<Rightarrow> bool" where
  "undo_policy c \<longleftrightarrow> (case c of DeletePolicy _ _ _ \<Rightarrow> True | _ \<Rightarrow> False)"

text \<open>Every policy the loop asks for is built from the base spec, so it carries the run's label.\<close>

definition of_spec :: "policy_spec \<Rightarrow> call \<Rightarrow> bool" where
  "of_spec base c \<longleftrightarrow> (\<exists>name dir ok. c = CreatePolicy (build_policy (base\<lparr>ps_name := name, ps_direction := dir\<rparr>)) ok)"

lemma create_policies_emits:
  "create_policies k base acc es s = ((created, err), s') \<Longrightarrow> emits (of_spec base) s s'"
proof (induction k base acc es s arbitrary: created err s' rule: create_policies.induct)
  case (2 k base acc name dir es s)
  obtain r s1 where c: "create_policy k (build_policy (base\<lparr>ps_name := name, ps_direction := dir\<rparr>)) s = (r, s1)"
    (is "?c = _") by (cases ?c)
  have one: "emits (of_spec base) s s1"
    using create_policy_calls [OF c] by (auto simp: emits_def of_spec_def)
  consider "r = None" | m where "r = Some (AlreadyExists m)" | e where "r = Some e" "\<forall>m. e \<noteq> AlreadyExists m"
    by (cases r) auto
  then show ?case
  proof cases
    case 1
    with 2(3) c have "create_policies k base (acc @ [name]) es s1 = ((created, err), s')" by simp
    from emits_trans [OF one 2(1) [OF c [symmetric] 1 this]] show ?thesis .
  next
    case (2 m)
    with "2.prems" c have "create_policies k base (acc @ [name]) es s1 = ((created, err), s')" by simp
    from emits_trans [OF one "2.IH"(2) [OF c [symmetric] 2 refl this]] show ?thesis .
  next
    case (3 e)
    with 2(3) c have "s' = s1" by (cases e) simp_all
    with one show ?thesis by simp
  qed
qed simp

text \<open>All the policies of the list are created, or already there, when the loop returns no error.\<close>

lemma create_policies_ok:
  "create_policies k base acc es s = ((created, None), s') \<Longrightarrow> created = acc @ map fst es"
proof (induction k base acc es s arbitrary: created s' rule: create_policies.induct)
  case (2 k base acc name dir es s)
  then show ?case
    by (auto split: prod.splits option.splits api_error.splits)
qed simp

lemma partition_inject_cases:
  assumes "partition_inject k run t s = (r, run', s')"
  shows "(\<exists>e. r = DriverError e None \<and> run' = run) \<or>
         (\<exists>created. r = DriverOk \<lparr>ir_selected = rt_tmPods t, ir_injected = rt_tmPods t\<rparr> \<and>
            run' = upd_status (\<lambda>st. st\<lparr>st_networkPolicies := st_networkPolicies st @ created,
                       st_selectedPods := rt_tmPods t\<rparr>) run)"
  using assms
  by (auto simp: partition_inject_def split: if_splits option.splits sum.splits prod.splits)

text \<open>A policy of this run: in its namespace, and under the two labels cleanup and the API look for.\<close>

definition creates_for :: "chaos_run \<Rightarrow> call \<Rightarrow> bool" where
  "creates_for run c \<longleftrightarrow> (\<exists>np ok. c = CreatePolicy np ok \<and> np_namespace np = cr_namespace run \<and>
     np_labels np = [(run_name_label, cr_name run), (managed_by_label, ''flink-chaos-operator'')])"

lemma create_policies_creates_for:
  assumes "create_policies k (partition_base_spec run n src dest cidr) [] es s = ((c, e), s1)"
  shows "emits (creates_for run) s s1"
  using create_policies_emits [OF assms]
  by (rule emits_mono) (auto simp: of_spec_def partition_base_spec_def creates_for_def)

lemma partition_inject_emits:
  "partition_inject k run t s = (r, run', s') \<Longrightarrow> emits (creates_for run) s s'"
  by (auto simp: partition_inject_def split: if_splits option.splits sum.splits prod.splits
      intro: create_policies_creates_for)

lemma delete_policies_emits:
  "delete_policies k nps s = (e, s') \<Longrightarrow> emits undo_policy s s'"
proof (induction k nps s arbitrary: e s' rule: delete_policies.induct)
  case (2 k np nps s)
  obtain r s1 where d: "delete_policy k (np_namespace np) (np_name np) s = (r, s1)" (is "?d = _")
    by (cases ?d)
  have one: "emits undo_policy s s1"
    using delete_policy_calls [OF d] by (auto simp: emits_def undo_policy_def)
  consider "r = None" | m where "r = Some (NotFound m)" | x where "r = Some x" "\<forall>m. x \<noteq> NotFound m"
    by (cases r) auto
  then show ?case
  proof cases
    case 1
    with 2(3) d have "delete_policies k nps s1 = (e, s')" by simp
    from emits_trans [OF one 2(1) [OF d [symmetric] 1 this]] show ?thesis .
  next
    case (2 m)
    with "2.prems" d have "delete_policies k nps s1 = (e, s')" by simp
    from emits_trans [OF one "2.IH"(2) [OF d [symmetric] 2 refl this]] show ?thesis .
  next
    case (3 x)
    with 2(3) d have "s' = s1" by (cases x) simp_all
    with one show ?thesis by simp
  qed
qed simp

lemma partition_cleanup_emits:
  "partition_cleanup k run s = (e, run', s') \<Longrightarrow> emits undo_policy s s'"
  by (auto simp: partition_cleanup_def split: prod.splits sum.splits option.splits
      dest!: read_ext_silent delete_policies_emits intro: emits_silent silent_then_emits)

lemma partition_cleanup_result:
  "partition_cleanup k run s = (e, run', s') \<Longrightarrow>
   run' = (if e = None then upd_status (\<lambda>st. st\<lparr>st_networkPolicies := []\<rparr>) run else run)"
  by (auto simp: partition_cleanup_def split: prod.splits sum.splits option.splits)

lemma driver_frame_policies: "driver_frame run (upd_status (\<lambda>st. st\<lparr>st_networkPolicies := nps\<rparr>) run)"
  unfolding driver_frame_def
  by (intro conjI exI [of _ "st_selectedPods (cr_status run)"] exI [of _ nps]
      exI [of _ "st_tcInjections (cr_status run)"] exI [of _ "st_stressInjections (cr_status run)"]) simp_all

lemma driver_frame_policies_selected:
  "driver_frame run (upd_status (\<lambda>st. st\<lparr>st_networkPolicies := f st, st_selectedPods := sel\<rparr>) run)"
  unfolding driver_frame_def
  by (intro conjI exI [of _ sel] exI [of _ "f (cr_status run)"]
      exI [of _ "st_tcInjections (cr_status run)"] exI [of _ "st_stressInjections (cr_status run)"]) simp_all

interpretation partition: cleanable_driver "partition_inject k" own_policy "partition_cleanup k" undo_policy for k
proof unfold_locales
  show "disruptive c" if "own_policy c" for c
    using that by (cases c) (simp_all add: own_policy_def)
  show "emits own_policy s s'" if "partition_inject k run t s = (r, run', s')" for run t s r run' s'
    using partition_inject_emits [OF that] by (rule emits_mono) (auto simp: own_policy_def creates_for_def)
  show "driver_frame run run'" if "partition_inject k run t s = (r, run', s')" for run t s r run' s'
    using partition_inject_cases [OF that] by (auto intro: driver_frame_policies_selected)
  show "\<not> disruptive c \<and> \<not> is_write_of_run c \<and> metric_of c = None" if "undo_policy c" for c
    using that by (cases c) (simp_all add: undo_policy_def)
  show "emits undo_policy s s'" if "partition_cleanup k run s = (e, run', s')" for run s e run' s'
    using that by (rule partition_cleanup_emits)
  show "driver_frame run run'" if "partition_cleanup k run s = (e, run', s')" for run s e run' s'
    using partition_cleanup_result [OF that] by (simp add: driver_frame_policies)
  show "leftovers (cr_status run') \<le> leftovers (cr_status run)"
    if "partition_cleanup k run s = (e, run', s')" for run s e run' s'
    using partition_cleanup_result [OF that] by (simp add: leftovers_def)
qed

subsection \<open>Properties\<close>

text \<open>
  A policy for a peer given by labels denies every direction it names, whatever the address
  and port, and leaves the other direction alone.
\<close>

theorem label_policy_blocks:
  assumes "ps_destCIDR s = ''''"
  shows "(allows_ingress inb (build_policy s) ip port \<longleftrightarrow> ps_direction s = ''Egress'') \<and>
    (allows_egress inb (build_policy s) ip port \<longleftrightarrow> ps_direction s = ''Ingress'')"
  using build_label_policy [OF assms] by blast

definition demo_policy_spec :: "string \<Rightarrow> string \<Rightarrow> int \<Rightarrow> policy_spec" where
  "demo_policy_spec dir cidr port = \<lparr>ps_name = ''p'', ps_namespace = ''flink'', ps_chaosRunName = ''r'',
     ps_sourceLabels = tm_labels, ps_destLabels = None, ps_destCIDR = cidr, ps_direction = dir, ps_port = port\<rparr>"

theorem label_policy_blocks_witness:
  "\<not> allows_ingress (\<lambda>_ _. True) (build_policy (demo_policy_spec ''Ingress'' '''' 0)) ''10.0.0.1'' 6123 \<and>
   allows_egress (\<lambda>_ _. True) (build_policy (demo_policy_spec ''Ingress'' '''' 0)) ''10.0.0.1'' 6123"
  using label_policy_blocks [of "demo_policy_spec ''Ingress'' '''' 0" "\<lambda>_ _. True" "''10.0.0.1''" 6123]
  by (simp add: demo_policy_spec_def)

text \<open>
  A policy for a peer given by a CIDR blocks egress to the block, but more than that: with a
  port it lets egress through on that port only, to addresses outside the block, and in the
  directions Ingress and Both it denies every ingress, from whatever address.
\<close>

theorem cidr_policy_effect:
  assumes "ps_destCIDR s \<noteq> ''''" and "inb ip ''0.0.0.0/0''"
  shows "(allows_ingress inb (build_policy s) ip port \<longleftrightarrow>
           ps_direction s \<noteq> ''Ingress'' \<and> ps_direction s \<noteq> ''Both'') \<and>
    (allows_egress inb (build_policy s) ip port \<longleftrightarrow>
           ps_direction s = ''Ingress'' \<or>
           ((ps_port s = 0 \<or> port = ps_port s) \<and> \<not> inb ip (ps_destCIDR s)))"
  using build_cidr_policy [of s inb ip, OF assms] by blast

text \<open>Membership in \<^verbatim>\<open>10.0.0.0/8\<close> by the first octet, enough for the witness.\<close>

definition demo_in_block :: "string \<Rightarrow> string \<Rightarrow> bool" where
  "demo_in_block ip block \<longleftrightarrow> block = ''0.0.0.0/0'' \<or> (block = ''10.0.0.0/8'' \<and> has_prefix ip ''10.'')"

theorem cidr_policy_effect_witness:
  "\<not> allows_ingress demo_in_block (build_policy (demo_policy_spec ''Both'' ''10.0.0.0/8'' 443)) ''192.168.0.7'' 6123 \<and>
   \<not> allows_egress demo_in_block (build_policy (demo_policy_spec ''Both'' ''10.0.0.0/8'' 443)) ''192.168.0.7'' 6123"
proof -
  have s: "ps_destCIDR (demo_policy_spec ''Both'' ''10.0.0.0/8'' 443) \<noteq> ''''"
    and b: "demo_in_block ''192.168.0.7'' ''0.0.0.0/0''"
    by (simp_all add: demo_policy_spec_def demo_in_block_def)
  from cidr_policy_effect [of _ demo_in_block, OF s b, of 6123] show ?thesis by (simp add: demo_policy_spec_def)
qed

definition role_policy :: "chaos_run \<Rightarrow> call \<Rightarrow> bool" where
  "role_policy run c \<longleftrightarrow> creates_for run c \<and>
     (\<forall>np ok. c = CreatePolicy np ok \<longrightarrow> np_podSelector np \<in> {tm_labels, jm_labels})"

lemma create_policies_role:
  assumes "create_policies k (partition_base_spec run n src dest cidr) [] es s = ((c, e), s1)"
    and "resolve_partition_peers n = Inr (src, dest, cidr)"
  shows "emits (role_policy run) s s1"
proof -
  have "(case dest of None \<Rightarrow> src | Some d \<Rightarrow> d) \<in> {tm_labels, jm_labels}"
    using assms(2) by (auto simp: resolve_partition_peers_def split: network_target.splits option.splits if_splits)
  then show ?thesis
    using create_policies_emits [OF assms(1)]
    by (auto elim!: emits_mono simp: of_spec_def role_policy_def creates_for_def partition_base_spec_def)
qed

lemma partition_inject_role:
  "partition_inject k run t s = (r, run', s') \<Longrightarrow> emits (role_policy run) s s'"
  by (auto simp: partition_inject_def split: if_splits option.splits sum.splits prod.splits
      intro: create_policies_role)

text \<open>
  Every policy a partition creates is in the run's namespace, carries the run's label, and
  selects pods by the component label alone: all TaskManagers (or JobManagers) of the namespace,
  whichever deployment the run targets.
\<close>

theorem partition_policy_scope:
  assumes "partition_inject k run t s = (r, run', s')" and "calls s' = calls s @ new"
    and "CreatePolicy np ok \<in> set new"
  shows "np_namespace np = cr_namespace run \<and> map_of (np_labels np) run_name_label = Some (cr_name run) \<and>
    np_podSelector np \<in> {tm_labels, jm_labels}"
proof -
  have "role_policy run (CreatePolicy np ok)"
    using partition_inject_role [OF assms(1)] assms(2,3) by (auto simp: emits_def)
  then show ?thesis by (auto simp: role_policy_def creates_for_def)
qed

definition demo_partition :: chaos_run where
  "demo_partition = with_network NetworkPartition (demo_network\<lparr>n_target := TMtoJM, n_direction := Both,
     n_externalEndpoint := None, n_latency := None\<rparr>) (demo_run Injecting)"

theorem partition_policy_scope_witness:
  "\<exists>np. CreatePolicy np True \<in> set (calls (snd (snd (partition_inject demo_kube demo_partition demo_target
       (demo_sys demo_partition))))) \<and> np_podSelector np \<in> {tm_labels, jm_labels}"
proof -
  let ?np = "build_policy ((partition_base_spec demo_partition (the (s_network (sp_scenario (cr_spec demo_partition))))
      tm_labels (Some jm_labels) '''')\<lparr>ps_name := ''kill-one-netpol-ingress'', ps_direction := ''Ingress''\<rparr>)"
  obtain r run' s' where d: "partition_inject demo_kube demo_partition demo_target (demo_sys demo_partition) = (r, run', s')"
    (is "?d = _") by (cases ?d)
  have "CreatePolicy ?np True \<in> set (calls (snd (snd ?d)))" by code_simp
  with d have c: "CreatePolicy ?np True \<in> set (calls s')" by simp
  have new: "calls s' = calls (demo_sys demo_partition) @ calls s'" by (simp add: demo_sys_def)
  from partition_policy_scope [OF d new c] c d show ?thesis by auto
qed

text \<open>
  A partition whose second policy fails leaves the first one behind: the run validates, its
  ingress policy is created, and the driver returns an error with nothing recorded to clean up.
\<close>

theorem partition_partial_failure_leaks:
  "\<exists>(k :: world kube) e run' s' np. validate demo_partition = [] \<and>
     partition_inject k demo_partition demo_target (demo_sys demo_partition) = (DriverError e None, run', s') \<and>
     CreatePolicy np True \<in> set (calls s') \<and> np \<in> set (w_policies (ext s')) \<and> leftovers (cr_status run') = 0"
proof -
  define k where "k = demo_kube\<lparr>k_create_policy := \<lambda>np w.
    if np_name np = ''kill-one-netpol-egress'' then (Some (OtherApi ''quota exceeded''), w)
    else k_create_policy demo_kube np w\<rparr>"
  let ?np = "build_policy ((partition_base_spec demo_partition (the (s_network (sp_scenario (cr_spec demo_partition))))
      tm_labels (Some jm_labels) '''')\<lparr>ps_name := ''kill-one-netpol-ingress'', ps_direction := ''Ingress''\<rparr>)"
  let ?d = "partition_inject k demo_partition demo_target (demo_sys demo_partition)"
  have v: "validate demo_partition = []" by code_simp
  have r: "fst ?d = DriverError (CreatingPolicy ''kill-one-netpol-egress'' (OtherApi ''quota exceeded'')) None"
    unfolding k_def by code_simp
  have l: "leftovers (cr_status (fst (snd ?d))) = 0" unfolding k_def by code_simp
  have c: "CreatePolicy ?np True \<in> set (calls (snd (snd ?d)))" "?np \<in> set (w_policies (ext (snd (snd ?d))))"
    unfolding k_def by code_simp+
  from v r l c show ?thesis by (metis prod.collapse)
qed

subsection \<open>Cleanup empties the store of the run's policies\<close>

text \<open>
  The policies a client stores, as an abstraction \<open>pols\<close> of its world: a listing answers with the
  matching ones, a deletion that succeeds or finds nothing leaves none under its name, and any
  other error changes nothing.
\<close>

definition policy_store :: "'w kube \<Rightarrow> ('w \<Rightarrow> network_policy list) \<Rightarrow> bool" where
  "policy_store k pols \<longleftrightarrow>
     (\<forall>ns want w r w'. k_list_policies k ns want w = (r, w') \<longrightarrow> pols w' = pols w \<and>
        (\<forall>items. r = Inr items \<longrightarrow> items = filter (\<lambda>np. np_namespace np = ns \<and>
           (\<forall>(key, v) \<in> set want. map_of (np_labels np) key = Some v)) (pols w))) \<and>
     (\<forall>ns n w r w'. k_delete_policy k ns n w = (r, w') \<longrightarrow>
        pols w' = (if r = None \<or> (\<exists>m. r = Some (NotFound m))
                   then filter (\<lambda>np. \<not> (np_namespace np = ns \<and> np_name np = n)) (pols w) else pols w))"

definition of_run :: "chaos_run \<Rightarrow> network_policy \<Rightarrow> bool" where
  "of_run run np \<longleftrightarrow> np_namespace np = cr_namespace run \<and> map_of (np_labels np) run_name_label = Some (cr_name run)"

definition policy_key :: "network_policy \<Rightarrow> string \<times> string" where
  "policy_key np = (np_namespace np, np_name np)"

lemma delete_policy_store:
  assumes "policy_store k pols" and "delete_policy k ns n s = (r, s1)"
  shows "pols (ext s1) = (if r = None \<or> (\<exists>m. r = Some (NotFound m))
    then filter (\<lambda>np. \<not> (np_namespace np = ns \<and> np_name np = n)) (pols (ext s)) else pols (ext s))"
proof -
  from assms(2) have "k_delete_policy k ns n (ext s) = (r, ext s1)"
    by (auto simp: delete_policy_def write_ext_def split: prod.splits)
  with assms(1) show ?thesis unfolding policy_store_def by blast
qed

lemma delete_policies_store:
  assumes "policy_store k pols"
  shows "delete_policies k nps s = (None, s') \<Longrightarrow>
    pols (ext s') = filter (\<lambda>np. policy_key np \<notin> policy_key ` set nps) (pols (ext s))"
proof (induction nps arbitrary: s)
  case (Cons np nps)
  obtain r s1 where d: "delete_policy k (np_namespace np) (np_name np) s = (r, s1)" (is "?d = _")
    by (cases ?d)
  with Cons.prems have r: "r = None \<or> (\<exists>m. r = Some (NotFound m))"
    by (auto split: option.splits api_error.splits)
  with Cons.prems d have rest: "delete_policies k nps s1 = (None, s')" by auto
  have "pols (ext s1) = filter (\<lambda>q. policy_key q \<noteq> policy_key np) (pols (ext s))"
    using delete_policy_store [OF assms d] r by (auto simp: policy_key_def intro: filter_cong)
  with Cons.IH [OF rest] show ?case by (auto intro: filter_cong)
qed simp

text \<open>
  C28. Cleanup of a partition that returns no error leaves no policy of the run in the store,
  touches none of the others, and clears the names recorded in the status.
\<close>

theorem partition_cleanup_complete:
  assumes "policy_store k pols" and "partition_cleanup k run s = (None, run', s')"
    and "distinct (map policy_key (pols (ext s)))"
  shows "pols (ext s') = filter (\<lambda>np. \<not> of_run run np) (pols (ext s)) \<and>
    st_networkPolicies (cr_status run') = []"
proof -
  let ?sel = "[(run_name_label, cr_name run)]"
  obtain l s1 where l: "read_ext (k_list_policies k (cr_namespace run) ?sel) s = (l, s1)" (is "?l = _")
    by (cases ?l)
  with assms(2) obtain items where items: "l = Inr items" and del: "delete_policies k items s1 = (None, s')"
    and run': "st_networkPolicies (cr_status run') = []"
    by (auto simp: partition_cleanup_def split: sum.splits option.splits prod.splits)
  have "k_list_policies k (cr_namespace run) ?sel (ext s) = (Inr items, ext s1)"
    using l items by (auto simp: read_ext_def split: prod.splits)
  with assms(1) have same: "pols (ext s1) = pols (ext s)" and it: "items = filter (of_run run) (pols (ext s))"
    unfolding policy_store_def of_run_def [abs_def] by fastforce+
  have key: "policy_key np \<in> policy_key ` set items \<longleftrightarrow> of_run run np" if "np \<in> set (pols (ext s))" for np
    using that assms(3) unfolding it by (auto simp: distinct_map inj_on_def)
  have "filter (\<lambda>np. policy_key np \<notin> policy_key ` set items) (pols (ext s)) =
      filter (\<lambda>np. \<not> of_run run np) (pols (ext s))"
    by (rule filter_cong) (simp_all add: key)
  with delete_policies_store [OF assms(1) del] same run' show ?thesis by simp
qed

lemma demo_policy_store: "policy_store demo_kube w_policies"
  by (auto simp: policy_store_def demo_kube_def has_labels_def list_all_iff list_ex_iff split: if_splits
      intro!: filter_True [symmetric])

theorem partition_cleanup_complete_witness:
  "w_policies (ext (snd (snd (partition_cleanup demo_kube demo_partition
     (snd (snd (partition_inject demo_kube demo_partition demo_target (demo_sys demo_partition)))))))) = []"
proof -
  let ?s = "snd (snd (partition_inject demo_kube demo_partition demo_target (demo_sys demo_partition)))"
  obtain e run' s' where c: "partition_cleanup demo_kube demo_partition ?s = (e, run', s')" (is "?c = _")
    by (cases ?c)
  have "fst ?c = None" by code_simp
  with c have c0: "partition_cleanup demo_kube demo_partition ?s = (None, run', s')" by simp
  have d: "distinct (map policy_key (w_policies (ext ?s)))" by code_simp
  have "filter (\<lambda>np. \<not> of_run demo_partition np) (w_policies (ext ?s)) = []" by code_simp
  with partition_cleanup_complete [OF demo_policy_store c0 d] c show ?thesis by simp
qed

end
