(* ===== verification/Ephemeral.thy ===== *)
theory Ephemeral
  imports Demo_World
begin

section \<open>Ephemeral containers: names, states, and the loops that add and retire them\<close>

subsection \<open>Names and states\<close>

text \<open>\<^verbatim>\<open>internal/ephemeral/ephemeral.go\<close>.\<close>

definition max_len :: int where "max_len = 63"

definition container_name :: "string \<Rightarrow> string \<Rightarrow> int \<Rightarrow> string" where
  "container_name prefix runName index =
     (let suffix = ''-'' @ fmt_d index;
          maxName = max 0 (max_len - int (length prefix) - int (length suffix));
          truncated = (if 20 < length runName then take 20 runName else runName);
          truncated = (if maxName < int (length truncated) then take (nat maxName) truncated else truncated);
          name = prefix @ truncated @ suffix
      in if max_len < int (length name) then take (nat max_len) name else name)"

fun find_container_state :: "eph_container_status list \<Rightarrow> string \<Rightarrow> eph_container_status option" where
  "find_container_state [] n = None"
| "find_container_state (s # ss) n = (if es_name s = n then Some s else find_container_state ss n)"

lemma length_container_name: "length (container_name prefix run i) \<le> 63"
proof -
  have "length (if 63 < int (length n) then take (nat 63) n else n) \<le> 63" for n :: string
    by auto
  then show ?thesis unfolding container_name_def Let_def max_len_def .
qed

lemma length_nat_digits: "n < 10 ^ k \<Longrightarrow> 0 < k \<Longrightarrow> length (nat_digits n) \<le> k"
proof (induction k arbitrary: n)
  case (Suc k)
  show ?case
  proof (cases "n < 10")
    case True
    then show ?thesis by (simp add: nat_digits.simps [of n])
  next
    case False
    then have "0 < k" using Suc.prems(1) by (cases k) simp_all
    moreover have "n div 10 < 10 ^ k" using Suc.prems(1) by (simp add: less_mult_imp_div_less mult.commute)
    ultimately show ?thesis using Suc.IH [of "n div 10"] False by (simp add: nat_digits.simps [of n])
  qed
qed simp

lemma length_index_suffix:
  assumes "0 \<le> i" and "i < 10 ^ 19"
  shows "length (fmt_d i) \<le> 19"
proof -
  have "nat i < 10 ^ 19" using assms by (simp add: nat_less_iff)
  from length_nat_digits [OF this] show ?thesis by (simp add: fmt_d_nonneg assms(1))
qed

text \<open>With a short prefix no index up to 19 digits is cut off, so the name keeps it.\<close>

lemma container_name_untruncated:
  assumes "length prefix \<le> 23" and "0 \<le> i" and "i < 10 ^ 19"
  shows "container_name prefix run i = prefix @ take 20 run @ ''-'' @ fmt_d i"
proof -
  have d: "length (fmt_d i) \<le> 19" using assms(2,3) by (rule length_index_suffix)
  have t: "(if 20 < length run then take 20 run else run) = take 20 run" by simp
  show ?thesis
    using d assms(1) unfolding container_name_def Let_def max_len_def t by auto
qed

lemma container_name_inject:
  assumes "length prefix \<le> 23" and "0 \<le> i" "i < 10 ^ 19" "0 \<le> j" "j < 10 ^ 19"
    and "container_name prefix run i = container_name prefix run j"
  shows "i = j"
  using assms by (auto simp: container_name_untruncated dest: fmt_d_inject_nonneg [rotated 2])

subsection \<open>The injection loop\<close>

text \<open>
  The loop over the pods that the NetworkChaos and the ResourceExhaustion driver share: build the
  container (which may panic), read the pod, append the container, write the pod back, record
  the injection with the time. It stops at the first failure and keeps what it has recorded.
\<close>

datatype inject_stop = StopPanic string | StopError driver_error

fun inject_containers ::
  "'w kube \<Rightarrow> string \<Rightarrow> (int \<Rightarrow> string + eph_container) \<Rightarrow> int \<Rightarrow> string list \<Rightarrow>
   container_record list \<Rightarrow> string list \<Rightarrow> 'w sys \<Rightarrow>
   (inject_stop option \<times> container_record list \<times> string list) \<times> 'w sys" where
  "inject_containers k ns mk i [] recs injected s = ((None, recs, injected), s)"
| "inject_containers k ns mk i (p # ps) recs injected s =
     (case mk i of
        Inl msg \<Rightarrow> ((Some (StopPanic msg), recs, injected), s)
      | Inr c \<Rightarrow>
          (case get_pod k ns p s of
             (Inl e, s1) \<Rightarrow> ((Some (StopError (FetchingPod p e)), recs, injected), s1)
           | (Inr pod, s1) \<Rightarrow>
               (case update_ephemeral k ns p (pod\<lparr>p_ephContainers := p_ephContainers pod @ [c]\<rparr>) s1 of
                  (Some e, s2) \<Rightarrow> ((Some (StopError (InjectingContainer p e)), recs, injected), s2)
                | (None, s2) \<Rightarrow>
                    (case now k s2 of (t, s3) \<Rightarrow>
                       inject_containers k ns mk (i + 1) ps
                         (recs @ [\<lparr>er_podName = p, er_containerName = ec_name c, er_injectedAt = Some t,
                                   er_cleanedUp = False\<rparr>])
                         (injected @ [p]) s3))))"

text \<open>What the loop has injected, as the driver reports it.\<close>

definition inject_outcome :: "inject_stop option \<Rightarrow> string list \<Rightarrow> string list \<Rightarrow> driver_result" where
  "inject_outcome stop selected injected =
     (case stop of
        None \<Rightarrow> DriverOk \<lparr>ir_selected = selected, ir_injected = injected\<rparr>
      | Some (StopPanic msg) \<Rightarrow> DriverPanic msg
      | Some (StopError e) \<Rightarrow> DriverError e (Some \<lparr>ir_selected = selected, ir_injected = injected\<rparr>))"

definition adds_container :: "call \<Rightarrow> bool" where
  "adds_container c \<longleftrightarrow> (case c of UpdateEphemeral _ _ _ _ \<Rightarrow> True | _ \<Rightarrow> False)"

text \<open>
  The loop writes to the given namespace, only to pods of its list, and what it reports as injected
  is exactly what it recorded: the first pods of the list, in order, one record each.
\<close>

definition adds_to :: "string \<Rightarrow> string set \<Rightarrow> call \<Rightarrow> bool" where
  "adds_to ns A c \<longleftrightarrow> (\<exists>p cs ok. c = UpdateEphemeral ns p cs ok \<and> p \<in> A)"

lemma adds_to_adds_container: "adds_to ns A c \<Longrightarrow> adds_container c"
  by (auto simp: adds_to_def adds_container_def)

lemma inject_containers_emits:
  "inject_containers k ns mk i ps recs hit s = (r, s') \<Longrightarrow> set ps \<subseteq> A \<Longrightarrow>
   emits (adds_to ns A) s s'"
proof (induction k ns mk i ps recs hit s rule: inject_containers.induct)
  case (2 k ns mk i p ps recs hit s)
  note IH = this(1) and run = this(2) and sub = this(3)
  show ?case
  proof (cases "mk i")
    case (Inl msg)
    with run show ?thesis by simp
  next
    case (Inr c)
    obtain g s1 where g: "get_pod k ns p s = (g, s1)" (is "?g = _") by (cases ?g)
    show ?thesis
    proof (cases g)
      case (Inl e)
      with run g Inr get_pod_silent [OF g] show ?thesis by (auto intro: emits_silent)
    next
      case (Inr pod)
      obtain u s2 where u: "update_ephemeral k ns p (pod\<lparr>p_ephContainers := p_ephContainers pod @ [c]\<rparr>) s1 = (u, s2)"
        (is "?u = _") by (cases ?u)
      have one: "emits (adds_to ns A) s s2"
        using get_pod_silent [OF g] update_ephemeral_calls [OF u] sub by (auto simp: emits_def adds_to_def)
      show ?thesis
      proof (cases u)
        case (Some e)
        with run g Inr \<open>mk i = Inr c\<close> u one show ?thesis by simp
      next
        case None
        obtain t s3 where t: "now k s2 = (t, s3)" (is "?t = _") by (cases ?t)
        from run g Inr \<open>mk i = Inr c\<close> u None t have rest:
          "inject_containers k ns mk (i + 1) ps
             (recs @ [\<lparr>er_podName = p, er_containerName = ec_name c, er_injectedAt = Some t, er_cleanedUp = False\<rparr>])
             (hit @ [p]) s3 = (r, s')" by simp
        have "emits (adds_to ns A) s3 s'"
          using IH [OF \<open>mk i = Inr c\<close> g [symmetric] Inr u [symmetric] None t [symmetric] rest] sub by simp
        then show ?thesis
          using emits_trans [OF emits_then_silent [OF one now_silent [OF t]]] by blast
      qed
    qed
  qed
qed simp

lemma inject_containers_recorded:
  "inject_containers k ns mk i ps recs hit s = ((stop, recs', hit'), s') \<Longrightarrow>
   \<exists>new. recs' = recs @ new \<and> hit' = hit @ map er_podName new \<and>
     map er_podName new = take (length new) ps \<and> (stop = None \<longrightarrow> length new = length ps) \<and>
     (\<forall>m < length new. \<exists>c. mk (i + int m) = Inr c \<and> er_containerName (new ! m) = ec_name c) \<and>
     (\<forall>r \<in> set new. \<not> er_cleanedUp r)"
proof (induction k ns mk i ps recs hit s arbitrary: stop recs' hit' s' rule: inject_containers.induct)
  case (2 k ns mk i p ps recs hit s)
  show ?case
  proof (cases "stop \<noteq> None \<and> recs' = recs \<and> hit' = hit")
    case True
    then show ?thesis by (intro exI [of _ "[]"]) simp
  next
    case False
    then obtain c pod s1 s2 t s3 where mk: "mk i = Inr c" and g: "get_pod k ns p s = (Inr pod, s1)"
      and u: "update_ephemeral k ns p (pod\<lparr>p_ephContainers := p_ephContainers pod @ [c]\<rparr>) s1 = (None, s2)"
      and t: "now k s2 = (t, s3)"
      and rest: "inject_containers k ns mk (i + 1) ps
             (recs @ [\<lparr>er_podName = p, er_containerName = ec_name c, er_injectedAt = Some t, er_cleanedUp = False\<rparr>])
             (hit @ [p]) s3 = ((stop, recs', hit'), s')"
      using "2.prems" by (auto split: sum.splits prod.splits option.splits)
    from "2.IH" [OF mk g [symmetric] refl u [symmetric] refl t [symmetric] rest]
    obtain new where new: "recs' = (recs @ [\<lparr>er_podName = p, er_containerName = ec_name c, er_injectedAt = Some t, er_cleanedUp = False\<rparr>]) @ new"
      "hit' = (hit @ [p]) @ map er_podName new" "map er_podName new = take (length new) ps"
      "stop = None \<longrightarrow> length new = length ps"
      "\<forall>m < length new. \<exists>c. mk (i + 1 + int m) = Inr c \<and> er_containerName (new ! m) = ec_name c"
      "\<forall>r \<in> set new. \<not> er_cleanedUp r" by blast
    show ?thesis
      by (rule exI [of _ "\<lparr>er_podName = p, er_containerName = ec_name c, er_injectedAt = Some t, er_cleanedUp = False\<rparr> # new"])
        (use new mk in \<open>auto simp: less_Suc_eq_0_disj algebra_simps\<close>)
  qed
qed simp

subsection \<open>The cleanup loop\<close>

text \<open>
  One record of the cleanup loop: it is retired when its pod is gone, when its container has
  terminated, or when the configured duration has passed since the injection.
\<close>

definition retire_record ::
  "'w kube \<Rightarrow> string \<Rightarrow> int \<Rightarrow> container_record \<Rightarrow> 'w sys \<Rightarrow> driver_error option \<times> container_record \<times> 'w sys" where
  "retire_record k ns duration rec s =
     (if er_cleanedUp rec then (None, rec, s)
      else case get_pod k ns (er_podName rec) s of
        (Inl (NotFound m), s1) \<Rightarrow> (None, rec\<lparr>er_cleanedUp := True\<rparr>, s1)
      | (Inl e, s1) \<Rightarrow> (Some (FetchingPodInCleanup (er_podName rec) e), rec, s1)
      | (Inr pod, s1) \<Rightarrow>
          (if (case find_container_state (p_ephStatuses pod) (er_containerName rec) of
                 None \<Rightarrow> False | Some st \<Rightarrow> es_terminated st)
           then (None, rec\<lparr>er_cleanedUp := True\<rparr>, s1)
           else case er_injectedAt rec of
             None \<Rightarrow> (None, rec, s1)
           | Some at \<Rightarrow>
               (case now k s1 of (t, s2) \<Rightarrow>
                  (if duration \<le> time_sub t at then (None, rec\<lparr>er_cleanedUp := True\<rparr>, s2)
                   else (None, rec, s2)))))"

fun retire_records ::
  "'w kube \<Rightarrow> string \<Rightarrow> int \<Rightarrow> container_record list \<Rightarrow> 'w sys \<Rightarrow>
   driver_error option \<times> container_record list \<times> 'w sys" where
  "retire_records k ns duration [] s = (None, [], s)"
| "retire_records k ns duration (r # rs) s =
     (case retire_record k ns duration r s of
        (Some e, r1, s1) \<Rightarrow> (Some e, r1 # rs, s1)
      | (None, r1, s1) \<Rightarrow>
          (case retire_records k ns duration rs s1 of (e, rs1, s2) \<Rightarrow> (e, r1 # rs1, s2)))"

text \<open>A record only ever goes from live to clean and keeps everything else.\<close>

definition retired_from :: "container_record \<Rightarrow> container_record \<Rightarrow> bool" where
  "retired_from r r' \<longleftrightarrow> r' = r \<or> r' = r\<lparr>er_cleanedUp := True\<rparr>"

lemma retire_record_result:
  "retire_record k ns d r s = (e, r', s') \<Longrightarrow> retired_from r r' \<and> silent s s'"
  by (auto simp: retire_record_def retired_from_def
      split: if_splits prod.splits sum.splits api_error.splits option.splits
      dest!: get_pod_silent now_silent)

lemma retire_records_result:
  "retire_records k ns d rs s = (e, rs', s') \<Longrightarrow> list_all2 retired_from rs rs' \<and> silent s s'"
proof (induction rs arbitrary: s e rs' s')
  case (Cons r rs)
  have same: "list_all2 retired_from rs rs" by (rule list_all2_refl) (simp add: retired_from_def)
  obtain e1 r1 s1 where one: "retire_record k ns d r s = (e1, r1, s1)" (is "?x = _") by (cases ?x)
  show ?case
  proof (cases e1)
    case None
    obtain e2 rs2 s2 where two: "retire_records k ns d rs s1 = (e2, rs2, s2)" (is "?y = _") by (cases ?y)
    from Cons.prems one two None have "rs' = r1 # rs2" "s' = s2" by simp_all
    then show ?thesis using Cons.IH [OF two] retire_record_result [OF one] by simp
  next
    case (Some x)
    with Cons.prems one have "rs' = r1 # rs" "s' = s1" by simp_all
    then show ?thesis using retire_record_result [OF one] same by simp
  qed
qed simp

lemma retired_leftovers:
  "list_all2 retired_from rs rs' \<Longrightarrow>
   length (filter (\<lambda>r. \<not> er_cleanedUp r) rs') \<le> length (filter (\<lambda>r. \<not> er_cleanedUp r) rs)"
  by (induction rs rs' rule: list_all2_induct) (auto simp: retired_from_def)

text \<open>A record that is due: nothing keeps it live but the clock, and its time has passed.\<close>

lemma retire_record_due:
  assumes "retire_record k ns d r s = (None, r', s')" and "\<not> er_cleanedUp r"
    and "er_injectedAt r = Some at" and "\<And>w. d \<le> time_sub (fst (k_now k w)) at"
  shows "er_cleanedUp r'"
proof -
  have "d \<le> time_sub t at" if "now k s1 = (t, s2)" for s1 t s2
    using that assms(4) [of "ext s1"] by (auto simp: now_def read_ext_def split: prod.splits)
  then show ?thesis
    using assms(1-3)
    by (auto simp: retire_record_def split: if_splits prod.splits sum.splits api_error.splits option.splits)
qed

lemma retire_records_due:
  assumes "retire_records k ns d rs s = (None, rs', s')"
    and "\<And>r. r \<in> set rs \<Longrightarrow> er_cleanedUp r \<or>
          (\<exists>at. er_injectedAt r = Some at \<and> (\<forall>w. d \<le> time_sub (fst (k_now k w)) at))"
  shows "\<forall>r \<in> set rs'. er_cleanedUp r"
  using assms
proof (induction rs arbitrary: s rs' s')
  case (Cons r rs)
  obtain r1 s1 rs2 where one: "retire_record k ns d r s = (None, r1, s1)"
    and two: "retire_records k ns d rs s1 = (None, rs2, s')" and rs': "rs' = r1 # rs2"
    using Cons.prems(1) by (auto split: prod.splits option.splits)
  have "er_cleanedUp r1"
  proof (cases "er_cleanedUp r")
    case True
    with one show ?thesis by (simp add: retire_record_def)
  next
    case False
    with Cons.prems(2) [of r] obtain at where "er_injectedAt r = Some at" "\<And>w. d \<le> time_sub (fst (k_now k w)) at"
      by auto
    from retire_record_due [OF one False this] show ?thesis .
  qed
  with Cons.IH [OF two] Cons.prems(2) rs' show ?case by simp
qed simp

subsection \<open>No record is retired early\<close>

text \<open>The worlds a cleanup passes through: each comes from the one before by a look at a pod or the clock.\<close>

inductive looks :: "'w kube \<Rightarrow> string \<Rightarrow> 'w \<Rightarrow> 'w \<Rightarrow> bool" for k ns w where
  look_none: "looks k ns w w"
| look_pod: "looks k ns w w1 \<Longrightarrow> looks k ns w (snd (k_get_pod k ns n w1))"
| look_clock: "looks k ns w w1 \<Longrightarrow> looks k ns w (snd (k_now k w1))"

lemma looks_trans: "looks k ns w1 w2 \<Longrightarrow> looks k ns w w1 \<Longrightarrow> looks k ns w w2"
  by (induction rule: looks.induct) (auto intro: looks.intros)

text \<open>
  When a record may be retired by what is seen from a world: its pod is gone, its container has ended,
  or, by the clock read after the pod, its time is over.
\<close>

definition may_retire :: "'w kube \<Rightarrow> string \<Rightarrow> int \<Rightarrow> container_record \<Rightarrow> 'w \<Rightarrow> bool" where
  "may_retire k ns duration r w \<longleftrightarrow>
     (\<exists>m. fst (k_get_pod k ns (er_podName r) w) = Inl (NotFound m)) \<or>
     (\<exists>pod w1. k_get_pod k ns (er_podName r) w = (Inr pod, w1) \<and>
        ((\<exists>st. find_container_state (p_ephStatuses pod) (er_containerName r) = Some st \<and> es_terminated st) \<or>
         (\<exists>at. er_injectedAt r = Some at \<and> duration \<le> time_sub (fst (k_now k w1)) at)))"

definition retires_soundly :: "'w kube \<Rightarrow> string \<Rightarrow> int \<Rightarrow> 'w \<Rightarrow> container_record \<Rightarrow> container_record \<Rightarrow> bool" where
  "retires_soundly k ns d w r r' \<longleftrightarrow> retired_from r r' \<and>
     (\<not> er_cleanedUp r \<and> er_cleanedUp r' \<longrightarrow> (\<exists>w1. looks k ns w w1 \<and> may_retire k ns d r w1))"

lemma get_pod_world: "get_pod k ns n s = (r, s') \<Longrightarrow> k_get_pod k ns n (ext s) = (r, ext s')"
  by (auto simp: get_pod_def read_ext_def split: prod.splits)

lemma now_world: "now k s = (t, s') \<Longrightarrow> k_now k (ext s) = (t, ext s')"
  by (auto simp: now_def read_ext_def split: prod.splits)

lemma retire_record_sound:
  assumes "retire_record k ns d r s = (e, r', s')"
  shows "retires_soundly k ns d (ext s) r r'" and "looks k ns (ext s) (ext s')"
proof -
  obtain g s1 where g: "get_pod k ns (er_podName r) s = (g, s1)" (is "?g = _") by (cases ?g)
  obtain t s2 where t: "now k s1 = (t, s2)" (is "?t = _") by (cases ?t)
  have "may_retire k ns d r (ext s)" if "\<not> er_cleanedUp r" "er_cleanedUp r'"
    using assms that get_pod_world [OF g] now_world [OF t]
    by (auto simp: retire_record_def g t may_retire_def split: if_splits sum.splits api_error.splits option.splits)
  with retire_record_result [OF assms] show "retires_soundly k ns d (ext s) r r'"
    by (auto simp: retires_soundly_def intro: look_none)
  have s1: "looks k ns (ext s) (ext s1)"
    using look_pod [OF look_none, where n = "er_podName r" and w = "ext s"] get_pod_world [OF g] by (metis snd_conv)
  then have "looks k ns (ext s) (ext s2)"
    using look_clock [OF s1] now_world [OF t] by (metis snd_conv)
  with s1 show "looks k ns (ext s) (ext s')"
    using assms by (auto simp: retire_record_def g t intro: look_none split: if_splits sum.splits api_error.splits option.splits)
qed

lemma retires_soundly_earlier:
  "retires_soundly k ns d w1 r r' \<Longrightarrow> looks k ns w w1 \<Longrightarrow> retires_soundly k ns d w r r'"
  by (auto simp: retires_soundly_def intro: looks_trans)

lemma retire_records_sound:
  "retire_records k ns d rs s = (e, rs', s') \<Longrightarrow> list_all2 (retires_soundly k ns d (ext s)) rs rs'"
proof (induction rs arbitrary: s e rs' s')
  case (Cons r rs)
  obtain e1 r1 s1 where one: "retire_record k ns d r s = (e1, r1, s1)" (is "?x = _") by (cases ?x)
  note head = retire_record_sound [OF one]
  show ?case
  proof (cases e1)
    case None
    obtain e2 rs2 s2 where two: "retire_records k ns d rs s1 = (e2, rs2, s2)" (is "?y = _") by (cases ?y)
    from Cons.prems one two None have "rs' = r1 # rs2" by simp
    moreover have "list_all2 (retires_soundly k ns d (ext s)) rs rs2"
      by (rule list_all2_mono [OF Cons.IH [OF two]]) (rule retires_soundly_earlier [OF _ head(2)])
    ultimately show ?thesis using head(1) by simp
  next
    case (Some x)
    with Cons.prems one have "rs' = r1 # rs" by simp
    with head(1) show ?thesis by (auto simp: retires_soundly_def retired_from_def list_all2_refl)
  qed
qed simp

subsection \<open>Properties\<close>

text \<open>
  A container name is at most 63 bytes, and for a prefix of at most 23 bytes two indices of up
  to 19 digits give the same name only when they are equal.
\<close>

theorem container_names_distinct:
  assumes "length prefix \<le> 23" and "0 \<le> i" "i < 10 ^ 19" "0 \<le> j" "j < 10 ^ 19"
  shows "length (container_name prefix run i) \<le> 63 \<and>
    (container_name prefix run i = container_name prefix run j \<longleftrightarrow> i = j)"
  using length_container_name container_name_inject [OF assms] by blast

theorem container_names_distinct_witness:
  "container_name ''fchaos-tc-'' ''kill-one'' 1 \<noteq> container_name ''fchaos-tc-'' ''kill-one'' 2"
  using container_names_distinct [of "''fchaos-tc-''" 1 2 "''kill-one''"] by simp

text \<open>The name keeps a dot of the run's name, although a container name is a DNS label.\<close>

lemma container_name_keeps_dots:
  assumes "length prefix \<le> 23" and "0 \<le> i" "i < 10 ^ 19" and "CHR ''.'' \<in> set (take 20 run)"
  shows "CHR ''.'' \<in> set (container_name prefix run i)"
  using assms by (simp add: container_name_untruncated)

end
