(* ===== verification/Tc_Builder.thy ===== *)
theory Tc_Builder
  imports Validation
begin

section \<open>tc command lines and the injection script\<close>

text \<open>
  \<^verbatim>\<open>internal/netchaos/tc/builder.go\<close>. \<^verbatim>\<open>strings.Builder\<close> is concatenation and a panic is
  the left of a sum.
\<close>

subsection \<open>The shell allowlist\<close>

definition shell_safe_char :: "char \<Rightarrow> bool" where
  "shell_safe_char c =
     (let n = of_char c :: nat in
      (97 \<le> n \<and> n \<le> 122) \<or> (65 \<le> n \<and> n \<le> 90) \<or> (48 \<le> n \<and> n \<le> 57) \<or>
      c = CHR ''.'' \<or> c = CHR '':'' \<or> c = CHR ''/'' \<or> c = CHR ''%'' \<or> c = CHR '' '' \<or> c = CHR ''-'')"

definition shell_safe_re :: "string \<Rightarrow> bool" where
  "shell_safe_re s \<longleftrightarrow> s \<noteq> [] \<and> list_all shell_safe_char s"

definition validate_shell_safe :: "string \<Rightarrow> string option" where
  "validate_shell_safe s =
     (if s = '''' then None
      else if \<not> shell_safe_re s
      then Some (''value '' @ fmt_q s @ '' contains characters unsafe for shell interpolation'')
      else None)"

lemma validate_shell_safe_None: "validate_shell_safe s = None \<longleftrightarrow> list_all shell_safe_char s"
  by (auto simp: validate_shell_safe_def shell_safe_re_def)

subsection \<open>Rules and argument lists\<close>

record tc_rule =
  tr_interface :: string
  tr_latency :: int
  tr_jitter :: int
  tr_lossPct :: int
  tr_bandwidth :: string
  tr_peerCIDR :: string

definition format_duration :: "int \<Rightarrow> string" where
  "format_duration d =
     (if go_mod d second = 0 then fmt_d (whole_seconds d) @ ''s''
      else if go_mod d millisecond = 0 then fmt_d (go_div d millisecond) @ ''ms''
      else fmt_d (go_div d microsecond) @ ''us'')"

definition add_args :: "tc_rule \<Rightarrow> string list" where
  "add_args r =
     (if tr_bandwidth r \<noteq> '''' then
        [''tc'', ''qdisc'', ''add'', ''dev'', tr_interface r, ''root'', ''tbf'',
         ''rate'', tr_bandwidth r, ''burst'', ''32kbit'', ''latency'', ''400ms'']
      else
        [''tc'', ''qdisc'', ''add'', ''dev'', tr_interface r, ''root'', ''netem''] @
        (if 0 < tr_latency r
         then [''delay'', format_duration (tr_latency r)] @
              (if 0 < tr_jitter r then [format_duration (tr_jitter r)] else [])
         else []) @
        (if 0 < tr_lossPct r then [''loss'', fmt_d (tr_lossPct r) @ ''%''] else []))"

definition filter_args :: "tc_rule \<Rightarrow> string \<Rightarrow> string list option" where
  "filter_args r handle =
     (if tr_peerCIDR r = '''' then None
      else Some [''tc'', ''filter'', ''add'', ''dev'', tr_interface r, ''parent'', handle,
        ''protocol'', ''ip'', ''u32'', ''match'', ''ip'', ''dst'', tr_peerCIDR r, ''flowid'', handle])"

definition del_args :: "string \<Rightarrow> string list" where
  "del_args iface = [''tc'', ''qdisc'', ''del'', ''dev'', iface, ''root'']"

definition sleep_seconds :: "int \<Rightarrow> int" where
  "sleep_seconds d = (let s = whole_seconds d in if s < 1 then 1 else s)"

subsection \<open>The script\<close>

definition script_head :: "tc_rule \<Rightarrow> string" where
  "script_head r =
     ''#!/bin/sh'' @ newline @
     ''set -e'' @ newline @
     ''_cleanup() {'' @ newline @
     ''  tc qdisc del dev '' @ tr_interface r @ '' root 2>/dev/null || true'' @ newline @
     ''}'' @ newline @
     ''trap '' @ [char_of (39::nat)] @ ''_cleanup'' @ [char_of (39::nat)] @ '' TERM INT'' @ newline"

definition script_rules :: "tc_rule \<Rightarrow> string" where
  "script_rules r =
     join '' '' (add_args r) @ newline @
     (if tr_bandwidth r = '''' \<and> tr_peerCIDR r \<noteq> '''' then
        (case filter_args r ''1:'' of None \<Rightarrow> '''' | Some f \<Rightarrow> join '' '' f @ newline)
      else '''')"

definition script_tail :: "int \<Rightarrow> string" where
  "script_tail duration =
     ''sleep '' @ fmt_d (sleep_seconds duration) @ '' &'' @ newline @
     ''SLEEP_PID=$!'' @ newline @
     ''wait $SLEEP_PID'' @ newline @
     ''_cleanup'' @ newline"

fun first_unsafe :: "string list \<Rightarrow> string option" where
  "first_unsafe [] = None"
| "first_unsafe (v # vs) = (case validate_shell_safe v of Some e \<Rightarrow> Some e | None \<Rightarrow> first_unsafe vs)"

definition entrypoint_script :: "tc_rule \<Rightarrow> int \<Rightarrow> string + string" where
  "entrypoint_script r duration =
     (case first_unsafe [tr_interface r, tr_bandwidth r, tr_peerCIDR r] of
        Some e \<Rightarrow> Inl (''tc.EntrypointScript: '' @ e)
      | None \<Rightarrow> Inr (script_head r @ script_rules r @ script_tail duration))"

definition shell_safe :: "string \<Rightarrow> bool" where
  "shell_safe s \<longleftrightarrow> list_all shell_safe_char s"

lemma shell_safe_append: "shell_safe (s @ t) \<longleftrightarrow> shell_safe s \<and> shell_safe t"
  by (simp add: shell_safe_def)

lemma entrypoint_script_Inr:
  "entrypoint_script r d = Inr sc \<longleftrightarrow>
     shell_safe (tr_interface r) \<and> shell_safe (tr_bandwidth r) \<and>
     shell_safe (tr_peerCIDR r) \<and> sc = script_head r @ script_rules r @ script_tail d"
  by (auto simp: entrypoint_script_def shell_safe_def validate_shell_safe_None [symmetric] split: option.splits)

subsection \<open>The generated commands contain allowlisted characters only\<close>

lemma fmt_d_shell_safe: "shell_safe (fmt_d i)"
  using nat_digits_decimal [of _ "nat i"] nat_digits_decimal [of _ "nat (- i)"]
  by (auto simp: fmt_d_def shell_safe_def list_all_iff shell_safe_char_def Let_def)

lemma safe_literals:
  "shell_safe ''tc''" "shell_safe ''qdisc''" "shell_safe ''add''"
  "shell_safe ''dev''" "shell_safe ''root''" "shell_safe ''tbf''"
  "shell_safe ''netem''" "shell_safe ''rate''" "shell_safe ''burst''"
  "shell_safe ''32kbit''" "shell_safe ''latency''" "shell_safe ''400ms''"
  "shell_safe ''delay''" "shell_safe ''loss''" "shell_safe ''%''"
  "shell_safe ''filter''" "shell_safe ''parent''" "shell_safe ''1:''"
  "shell_safe ''protocol''" "shell_safe ''ip''" "shell_safe ''u32''"
  "shell_safe ''match''" "shell_safe ''dst''" "shell_safe ''flowid''"
  "shell_safe ''s''" "shell_safe ''ms''" "shell_safe ''us''"
  "shell_safe '' ''"
  by code_simp+

lemma format_duration_shell_safe: "shell_safe (format_duration d)"
  unfolding format_duration_def
  by (simp only: shell_safe_append fmt_d_shell_safe safe_literals if_split simp_thms)

lemma join_shell_safe:
  assumes "list_all shell_safe xs"
  shows "shell_safe (join '' '' xs)"
proof -
  have "set '' '' \<subseteq> {c. shell_safe_char c}" using safe_literals(28) by (simp only: shell_safe_def list_all_iff) blast
  with set_join [of "'' ''" xs] assms show ?thesis by (auto simp: shell_safe_def list_all_iff)
qed

lemma add_args_shell_safe:
  assumes "shell_safe (tr_interface r)" "shell_safe (tr_bandwidth r)"
  shows "list_all shell_safe (add_args r)"
  unfolding add_args_def
  by (simp only: list_all_append shell_safe_append list.pred_inject safe_literals fmt_d_shell_safe format_duration_shell_safe
      assms if_split simp_thms)

lemma filter_args_shell_safe:
  assumes "shell_safe (tr_interface r)" "shell_safe (tr_peerCIDR r)"
    and "filter_args r ''1:'' = Some f"
  shows "list_all shell_safe f"
proof -
  have f: "f = [''tc'', ''filter'', ''add'', ''dev'', tr_interface r, ''parent'', ''1:'',
        ''protocol'', ''ip'', ''u32'', ''match'', ''ip'', ''dst'', tr_peerCIDR r, ''flowid'', ''1:'']"
    using assms(3) unfolding filter_args_def by (metis option.discI option.inject)
  show ?thesis
    unfolding f by (simp only: list.pred_inject safe_literals assms simp_thms)
qed

subsection \<open>Formatting a duration\<close>

text \<open>How \<^verbatim>\<open>tc\<close> reads the units the formatter writes.\<close>

definition unit_nanos :: "string \<Rightarrow> int option" where
  "unit_nanos u =
     (if u = ''s'' then Some second else if u = ''ms'' then Some millisecond
      else if u = ''us'' then Some microsecond else None)"

definition decimal_int :: "string \<Rightarrow> int" where
  "decimal_int ds = foldl (\<lambda>v c. 10 * v + (int (of_char c) - 48)) 0 ds"

definition parse_tc_duration :: "string \<Rightarrow> int option" where
  "parse_tc_duration s =
     map_option (\<lambda>n. decimal_int (takeWhile is_digit s) * n) (unit_nanos (dropWhile is_digit s))"

lemma decimal_int_snoc: "decimal_int (ds @ [c]) = 10 * decimal_int ds + (int (of_char c) - 48)"
  by (simp add: decimal_int_def)

lemma decimal_int_nat_digits: "decimal_int (nat_digits n) = int n"
proof (induction n rule: nat_digits.induct)
  case (1 n)
  have m: "of_char (digit_char (n mod 10)) = (48::nat) + n mod 10" by (simp add: of_char_digit)
  show ?case
  proof (cases "n < 10")
    case True
    then show ?thesis
      by (simp add: nat_digits.simps [of n] decimal_int_def of_char_digit)
  next
    case False
    have "int n = 10 * int (n div 10) + int (n mod 10)" by presburger
    with False 1 m show ?thesis
      by (simp add: nat_digits.simps [of n] decimal_int_snoc)
  qed
qed

lemma nat_digits_is_digit: "list_all is_digit (nat_digits n)"
  by (auto simp: list_all_iff is_digit_def Let_def dest: nat_digits_decimal)

lemma takeWhile_digits: "\<not> is_digit u \<Longrightarrow> takeWhile is_digit (nat_digits n @ u # us) = nat_digits n"
  and dropWhile_digits: "\<not> is_digit u \<Longrightarrow> dropWhile is_digit (nat_digits n @ u # us) = u # us"
  using nat_digits_is_digit [of n] by (simp_all add: list_all_iff)

lemma unit_not_digit: "\<not> is_digit (CHR ''s'')" "\<not> is_digit (CHR ''m'')" "\<not> is_digit (CHR ''u'')"
  by code_simp+

lemma parse_tc_duration_digits:
  assumes "0 \<le> v" and "\<not> is_digit u"
  shows "parse_tc_duration (fmt_d v @ u # us) = map_option (\<lambda>n. v * n) (unit_nanos (u # us))"
  using assms
  by (simp add: parse_tc_duration_def fmt_d_nonneg takeWhile_digits dropWhile_digits decimal_int_nat_digits)

lemma format_duration_value:
  assumes "0 \<le> d"
  shows "parse_tc_duration (format_duration d) = Some (d - d mod microsecond)"
proof -
  have digits: "parse_tc_duration (fmt_d (d div n) @ u # us) = Some (d - d mod n)"
    if "0 < n" "\<not> is_digit u" "unit_nanos (u # us) = Some n" for n u us
    using that assms
    by (simp add: parse_tc_duration_digits pos_imp_zdiv_nonneg_iff minus_mod_eq_div_mult)
  have units: "unit_nanos ''s'' = Some second" "unit_nanos ''ms'' = Some millisecond"
    "unit_nanos ''us'' = Some microsecond"
    by (simp_all add: unit_nanos_def)
  have pos: "0 < second" "0 < millisecond" "0 < microsecond"
    by (simp_all add: second_def millisecond_def microsecond_def)
  have fine: "d mod microsecond = 0" if "d mod second = 0 \<or> d mod millisecond = 0"
  proof -
    have "microsecond dvd second" "microsecond dvd millisecond"
      by (simp_all add: second_def millisecond_def microsecond_def)
    with that show ?thesis by (auto simp: mod_eq_0_iff_dvd intro: dvd_trans)
  qed
  show ?thesis
    unfolding format_duration_def whole_seconds_def
      go_mod_nonneg [OF assms pos(1)] go_mod_nonneg [OF assms pos(2)]
      go_div_nonneg [OF assms pos(1)] go_div_nonneg [OF assms pos(2)] go_div_nonneg [OF assms pos(3)]
    using digits [OF pos(1) unit_not_digit(1) units(1)] digits [OF pos(2) unit_not_digit(2) units(2)]
      digits [OF pos(3) unit_not_digit(3) units(3)] fine
    by (cases "d mod second = 0"; cases "d mod millisecond = 0") (simp_all only: if_True if_False simp_thms)
qed

subsection \<open>Properties\<close>

text \<open>
  A tc duration that is printed reads back as the duration rounded down to a microsecond, so
  exactly when it has no finer part.
\<close>

theorem tc_duration_round_trip:
  assumes "0 \<le> d"
  shows "parse_tc_duration (format_duration d) = Some (d - d mod microsecond) \<and>
    (parse_tc_duration (format_duration d) = Some d \<longleftrightarrow> d mod microsecond = 0)"
  using format_duration_value [OF assms] by simp

theorem tc_duration_round_trip_witness:
  "parse_tc_duration (format_duration 1500000) = Some 1500000 \<and>
   parse_tc_duration (format_duration 1500) = Some 1000"
  using tc_duration_round_trip [of 1500000] tc_duration_round_trip [of 1500] by (simp add: microsecond_def)

text \<open>
  C31. When the injection script is built, the commands it runs are made of allowlisted characters
  only, so that no user value can start another command or leave its line.
\<close>

theorem script_commands_safe:
  assumes "entrypoint_script r d = Inr script"
  shows "script = script_head r @ script_rules r @ script_tail d \<and> shell_safe (tr_interface r) \<and>
    shell_safe (join '' '' (add_args r)) \<and>
    (\<forall>f. filter_args r ''1:'' = Some f \<longrightarrow> shell_safe (join '' '' f))"
proof -
  from assms have safe: "shell_safe (tr_interface r)" "shell_safe (tr_bandwidth r)" "shell_safe (tr_peerCIDR r)"
    and sc: "script = script_head r @ script_rules r @ script_tail d"
    by (simp_all add: entrypoint_script_Inr)
  show ?thesis
    using sc safe(1) join_shell_safe [OF add_args_shell_safe [OF safe(1,2)]]
      join_shell_safe [OF filter_args_shell_safe [OF safe(1,3)]] by blast
qed

definition demo_rule :: tc_rule where
  "demo_rule = \<lparr>tr_interface = ''eth0'', tr_latency = 100000000, tr_jitter = 0, tr_lossPct = 5,
     tr_bandwidth = '''', tr_peerCIDR = ''10.0.0.0/8''\<rparr>"

theorem script_commands_safe_witness:
  "shell_safe (join '' '' (add_args demo_rule))"
proof -
  obtain sc where "entrypoint_script demo_rule 1000000000 = Inr sc"
  proof -
    have "case entrypoint_script demo_rule 1000000000 of Inl _ \<Rightarrow> False | Inr _ \<Rightarrow> True"
      by code_simp
    then show ?thesis using that by (auto split: sum.splits)
  qed
  from script_commands_safe [OF this] show ?thesis by blast
qed

end
