(* ===== verification/Net_Chaos.thy ===== *)
theory Net_Chaos
  imports Ephemeral Tc_Builder Demo_World
begin

section \<open>The NetworkChaos driver\<close>

text \<open>
  \<^verbatim>\<open>internal/scenario/networkchaos/driver.go\<close>. The image of the tool container is a field of
  the driver; the loops are those of theory Ephemeral.
\<close>

definition chaos_default_duration :: int where "chaos_default_duration = 60 * second"

definition build_rule :: "network_chaos_spec \<Rightarrow> tc_rule" where
  "build_rule n =
     \<lparr>tr_interface = ''eth0'',
      tr_latency = (case n_latency n of None \<Rightarrow> 0 | Some l \<Rightarrow> l),
      tr_jitter = (case n_jitter n of None \<Rightarrow> 0 | Some j \<Rightarrow> j),
      tr_lossPct = (case n_loss n of None \<Rightarrow> 0 | Some l \<Rightarrow> l),
      tr_bandwidth = (if n_bandwidth n \<noteq> '''' then n_bandwidth n else ''''),
      tr_peerCIDR = (case n_externalEndpoint n of
         None \<Rightarrow> '''' | Some x \<Rightarrow> if x_cidr x \<noteq> '''' then x_cidr x else '''')\<rparr>"

definition chaos_duration :: "network_chaos_spec option \<Rightarrow> int" where
  "chaos_duration n =
     (case n of
        None \<Rightarrow> chaos_default_duration
      | Some n' \<Rightarrow> (case n_duration n' of
          None \<Rightarrow> chaos_default_duration
        | Some d \<Rightarrow> if 0 < d then d else chaos_default_duration))"

definition tc_container :: "string \<Rightarrow> chaos_run \<Rightarrow> network_chaos_spec \<Rightarrow> int \<Rightarrow> string + eph_container" where
  "tc_container img run n i =
     (case entrypoint_script (build_rule n) (chaos_duration (Some n)) of
        Inl msg \<Rightarrow> Inl msg
      | Inr script \<Rightarrow> Inr \<lparr>ec_name = container_name ''fchaos-tc-'' (cr_name run) i, ec_image = img,
          ec_command = [''/bin/sh'', ''-c'', script], ec_capabilities = [''NET_ADMIN'']\<rparr>)"

definition chaos_inject ::
  "'w kube \<Rightarrow> string \<Rightarrow> chaos_run \<Rightarrow> resolved_target \<Rightarrow> 'w sys \<Rightarrow> driver_result \<times> chaos_run \<times> 'w sys" where
  "chaos_inject k img run t s =
     (if scenario_of run \<noteq> NetworkChaos
      then (DriverError (WrongScenario NetworkChaos (scenario_of run)) None, run, s)
      else case s_network (sp_scenario (cr_spec run)) of
        None \<Rightarrow> (DriverError ChaosSpecRequired None, run, s)
      | Some n \<Rightarrow>
          (if 0 < length (st_tcInjections (cr_status run))
           then (DriverOk \<lparr>ir_selected = rt_tmPods t,
                   ir_injected = map er_podName (st_tcInjections (cr_status run))\<rparr>, run, s)
           else
             (case inject_containers k (cr_namespace run) (tc_container img run n) 0 (rt_tmPods t)
                     (st_tcInjections (cr_status run)) [] s of
                ((stop, recs, injected), s1) \<Rightarrow>
                  (inject_outcome stop (rt_tmPods t) injected,
                   upd_status (\<lambda>st. st\<lparr>st_tcInjections := recs\<rparr>) run, s1))))"

definition chaos_cleanup ::
  "'w kube \<Rightarrow> chaos_run \<Rightarrow> 'w sys \<Rightarrow> driver_error option \<times> chaos_run \<times> 'w sys" where
  "chaos_cleanup k run s =
     (case retire_records k (cr_namespace run) (chaos_duration (s_network (sp_scenario (cr_spec run))))
             (st_tcInjections (cr_status run)) s of
        (e, recs, s1) \<Rightarrow> (e, upd_status (\<lambda>st. st\<lparr>st_tcInjections := recs\<rparr>) run, s1))"

subsection \<open>The driver meets its contract\<close>

lemma driver_frame_tc: "driver_frame run (upd_status (\<lambda>st. st\<lparr>st_tcInjections := recs\<rparr>) run)"
  unfolding driver_frame_def
  by (intro conjI exI [of _ "st_selectedPods (cr_status run)"] exI [of _ "st_networkPolicies (cr_status run)"]
      exI [of _ recs] exI [of _ "st_stressInjections (cr_status run)"]) simp_all

lemma chaos_inject_emits:
  "chaos_inject k img run t s = (r, run', s') \<Longrightarrow>
   emits (adds_to (cr_namespace run) (set (rt_tmPods t))) s s'"
  by (auto simp: chaos_inject_def split: if_splits option.splits prod.splits
      intro: inject_containers_emits [OF _ subset_refl])

lemma chaos_inject_frame:
  "chaos_inject k img run t s = (r, run', s') \<Longrightarrow> driver_frame run run'"
  by (auto simp: chaos_inject_def split: if_splits option.splits prod.splits intro: driver_frame_tc)

text \<open>
  A first injection: the recorded pods are the first pods of the target, in order, with one
  container each under the name of its index, all still to be cleaned; without error they are
  all the pods of the target.
\<close>

lemma chaos_inject_records:
  assumes "chaos_inject k img run t s = (r, run', s')" and "scenario_of run = NetworkChaos"
    and "s_network (sp_scenario (cr_spec run)) = Some n" and "st_tcInjections (cr_status run) = []"
  shows "let recs = st_tcInjections (cr_status run') in
    map er_podName recs = take (length recs) (rt_tmPods t) \<and>
    map er_containerName recs = map (\<lambda>m. container_name ''fchaos-tc-'' (cr_name run) (int m)) [0..<length recs] \<and>
    (\<forall>x \<in> set recs. \<not> er_cleanedUp x) \<and>
    (\<forall>ir. r = DriverOk ir \<longrightarrow> map er_podName recs = rt_tmPods t \<and> ir_injected ir = rt_tmPods t)"
proof -
  obtain stop recs injected s1 where loop: "inject_containers k (cr_namespace run) (tc_container img run n) 0
      (rt_tmPods t) [] [] s = ((stop, recs, injected), s1)" (is "?l = _") by (cases ?l) auto
  from assms loop have r: "r = inject_outcome stop (rt_tmPods t) injected"
    and run': "st_tcInjections (cr_status run') = recs" by (auto simp: chaos_inject_def)
  from inject_containers_recorded [OF loop] have inv:
    "injected = map er_podName recs" "map er_podName recs = take (length recs) (rt_tmPods t)"
    "stop = None \<Longrightarrow> length recs = length (rt_tmPods t)"
    "\<forall>m < length recs. \<exists>c. tc_container img run n (int m) = Inr c \<and> er_containerName (recs ! m) = ec_name c"
    "\<forall>x \<in> set recs. \<not> er_cleanedUp x" by auto
  have "er_containerName (recs ! m) = container_name ''fchaos-tc-'' (cr_name run) (int m)" if "m < length recs" for m
  proof -
    from inv(4) that obtain c where "tc_container img run n (int m) = Inr c" "er_containerName (recs ! m) = ec_name c"
      by blast
    then show ?thesis by (auto simp: tc_container_def split: sum.splits)
  qed
  then have "map er_containerName recs = map (\<lambda>m. container_name ''fchaos-tc-'' (cr_name run) (int m)) [0..<length recs]"
    by (intro nth_equalityI) simp_all
  moreover have "map er_podName recs = rt_tmPods t \<and> ir_injected ir = rt_tmPods t" if "r = DriverOk ir" for ir
    using that r inv(1-3) by (auto simp: inject_outcome_def split: option.splits inject_stop.splits)
  ultimately show ?thesis
    unfolding Let_def run' using inv(2,5) by blast
qed

lemma chaos_cleanup_result:
  assumes "chaos_cleanup k run s = (e, run', s')"
  shows "\<exists>recs. list_all2 retired_from (st_tcInjections (cr_status run)) recs \<and>
           run' = upd_status (\<lambda>st. st\<lparr>st_tcInjections := recs\<rparr>) run \<and> silent s s'"
proof -
  obtain e1 recs s1 where loop: "retire_records k (cr_namespace run)
      (chaos_duration (s_network (sp_scenario (cr_spec run)))) (st_tcInjections (cr_status run)) s = (e1, recs, s1)"
    (is "?l = _") by (cases ?l) auto
  with assms have "run' = upd_status (\<lambda>st. st\<lparr>st_tcInjections := recs\<rparr>) run" "s' = s1"
    by (simp_all add: chaos_cleanup_def)
  with retire_records_result [OF loop] show ?thesis by blast
qed

interpretation net_chaos: cleanable_driver "chaos_inject k img" adds_container "chaos_cleanup k" "\<lambda>_. False"
  for k img
proof unfold_locales
  show "disruptive c" if "adds_container c" for c
    using that by (cases c) (simp_all add: adds_container_def)
  show "emits adds_container s s'" if "chaos_inject k img run t s = (r, run', s')" for run t s r run' s'
    using chaos_inject_emits [OF that] by (rule emits_mono) (rule adds_to_adds_container)
  show "driver_frame run run'" if "chaos_inject k img run t s = (r, run', s')" for run t s r run' s'
    using that by (rule chaos_inject_frame)
  show "emits (\<lambda>_. False) s s'" if "chaos_cleanup k run s = (e, run', s')" for run s e run' s'
    using chaos_cleanup_result [OF that] by (auto intro: emits_silent)
  show "driver_frame run run'" if "chaos_cleanup k run s = (e, run', s')" for run s e run' s'
    using chaos_cleanup_result [OF that] by (auto intro: driver_frame_tc)
  show "leftovers (cr_status run') \<le> leftovers (cr_status run)"
    if "chaos_cleanup k run s = (e, run', s')" for run s e run' s'
    using chaos_cleanup_result [OF that] retired_leftovers by (fastforce simp: leftovers_def)
qed simp

subsection \<open>When the script is built\<close>

lemma cidr_char_shell_safe: "cidr_char c \<Longrightarrow> shell_safe_char c"
  by (auto simp: cidr_char_def is_digit_def is_hex_def shell_safe_char_def Let_def)

lemma valid_cidr_shell_safe: "valid_cidr s \<Longrightarrow> shell_safe s"
  by (auto simp: shell_safe_def list_all_iff dest!: valid_cidr_chars intro: cidr_char_shell_safe)

lemma lower_letter_shell_safe: "lower_char c = d \<Longrightarrow> 97 \<le> (of_char d :: nat) \<Longrightarrow> (of_char d :: nat) \<le> 122 \<Longrightarrow> shell_safe_char c"
  by (auto simp: lower_char_def shell_safe_char_def Let_def split: if_splits)

lemma to_lower_shell_safe:
  assumes "to_lower u = v" and "list_all (\<lambda>d. 97 \<le> (of_char d :: nat) \<and> (of_char d :: nat) \<le> 122) v"
  shows "shell_safe u"
  using assms lower_letter_shell_safe [OF refl] by (auto simp: shell_safe_def to_lower_def list_all_iff)

text \<open>A valid rate is safe to print into the script, unless it is spelled with the Kelvin sign.\<close>

lemma bandwidth_shell_safe:
  assumes "bandwidth_ok b" and "\<not> contains b kelvin_sign"
  shows "shell_safe b"
proof -
  obtain c cs where b: "b = c # cs" "is_digit c" "bandwidth_unit (dropWhile is_digit cs)"
    using assms(1) by (auto simp: bandwidth_ok_def split: list.splits)
  have digit: "shell_safe_char d" if "is_digit d" for d
    using that by (auto simp: is_digit_def shell_safe_char_def Let_def)
  have no_kelvin: "take 3 (dropWhile is_digit cs) \<noteq> kelvin_sign"
  proof
    assume k: "take 3 (dropWhile is_digit cs) = kelvin_sign"
    have "contains (xs @ ys) kelvin_sign" if "take 3 ys = kelvin_sign" for xs ys
      using that
    proof (induction xs)
      case Nil
      then show ?case by (cases ys) (auto simp: has_prefix_def kelvin_sign_def numeral_2_eq_2)
    qed simp
    from this [OF k, of "c # takeWhile is_digit cs"] assms(2) b(1) show False by simp
  qed
  with b(3) have "to_lower (dropWhile is_digit cs) \<in> {''kbit'', ''mbit'', ''gbit'', ''tbit''}"
    by (simp add: bandwidth_unit_def)
  then have "shell_safe (dropWhile is_digit cs)"
    by (auto intro: to_lower_shell_safe)
  moreover have "shell_safe (c # takeWhile is_digit cs)"
    using b(2) digit by (auto simp: shell_safe_def list_all_iff dest: set_takeWhileD)
  ultimately have "shell_safe ((c # takeWhile is_digit cs) @ dropWhile is_digit cs)"
    by (simp only: shell_safe_append)
  with b(1) show ?thesis by simp
qed

text \<open>
  The panic of the script builder is out of reach for a run that validates, when the target is
  one whose endpoint is checked and the rate has no Kelvin sign.
\<close>

definition endpoint_checked :: "network_chaos_spec \<Rightarrow> bool" where
  "endpoint_checked n \<longleftrightarrow>
     n_target n = TMtoCheckpoint \<or> n_target n = TMtoExternal \<or> n_externalEndpoint n = None"

lemma kelvin_unsafe: "contains b kelvin_sign \<Longrightarrow> \<not> shell_safe b"
proof (induction b)
  case (Cons c b)
  have k: "\<not> shell_safe_char (char_of (226::nat))" by code_simp
  show ?case
  proof (cases "contains b kelvin_sign")
    case True
    with Cons.IH show ?thesis by (simp add: shell_safe_def)
  next
    case False
    with Cons.prems have "has_prefix (c # b) kelvin_sign" by simp
    then have "c = char_of (226::nat)" by (simp add: has_prefix_def kelvin_sign_def)
    with k show ?thesis by (simp add: shell_safe_def)
  qed
qed (simp add: kelvin_sign_def)

lemma validated_rule_safe:
  assumes "validate_network NetworkChaos n = []" and "endpoint_checked n"
    and "\<not> contains (n_bandwidth n) kelvin_sign"
  shows "\<exists>script. entrypoint_script (build_rule n) d = Inr script"
proof -
  have "shell_safe ''eth0''" by code_simp
  moreover have "shell_safe (n_bandwidth n)"
  proof (cases "n_bandwidth n = ''''")
    case True
    then show ?thesis by (simp add: shell_safe_def)
  next
    case False
    with assms(1) have "bandwidth_ok (n_bandwidth n)" by (auto simp: validate_network_def split: if_splits)
    with assms(3) show ?thesis by (rule bandwidth_shell_safe [rotated])
  qed
  moreover have "shell_safe (x_cidr x)" if "n_externalEndpoint n = Some x" for x
    using that assms(1,2)
    by (cases "x_cidr x = ''''")
      (auto simp: validate_network_def validate_endpoint_def endpoint_checked_def shell_safe_def [of "[]"]
        intro: valid_cidr_shell_safe split: if_splits)
  ultimately show ?thesis
    by (auto simp: entrypoint_script_Inr build_rule_def shell_safe_def [of "[]"] split: option.splits)
qed

subsection \<open>Properties\<close>

text \<open>
  C32. For a NetworkChaos spec that validates, and that has no external endpoint or a target for which the
  validator looks at it, the script is built, unless the bandwidth is spelled with the Kelvin sign,
  which the case-insensitive check of the validator takes for a k: then, and only then, the builder
  panics.
\<close>

theorem validated_script_builds:
  assumes "validate_network NetworkChaos n = []" and "endpoint_checked n"
  shows "(contains (n_bandwidth n) kelvin_sign \<longrightarrow> (\<exists>msg. tc_container img run n i = Inl msg)) \<and>
    (\<not> contains (n_bandwidth n) kelvin_sign \<longrightarrow>
       (\<exists>c. tc_container img run n i = Inr c \<and> ec_capabilities c = [''NET_ADMIN''] \<and>
          (\<exists>script. entrypoint_script (build_rule n) (chaos_duration (Some n)) = Inr script \<and>
             ec_command c = [''/bin/sh'', ''-c'', script])))"
proof (intro conjI impI)
  assume "contains (n_bandwidth n) kelvin_sign"
  then have "\<not> shell_safe (n_bandwidth n)" by (rule kelvin_unsafe)
  then have "entrypoint_script (build_rule n) d \<noteq> Inr sc" for d sc
    by (auto simp: entrypoint_script_Inr build_rule_def shell_safe_def [of "[]"])
  then show "\<exists>msg. tc_container img run n i = Inl msg"
    by (cases "entrypoint_script (build_rule n) (chaos_duration (Some n))") (auto simp: tc_container_def)
next
  assume "\<not> contains (n_bandwidth n) kelvin_sign"
  from validated_rule_safe [OF assms this, of "chaos_duration (Some n)"]
  show "\<exists>c. tc_container img run n i = Inr c \<and> ec_capabilities c = [''NET_ADMIN''] \<and>
      (\<exists>script. entrypoint_script (build_rule n) (chaos_duration (Some n)) = Inr script \<and>
         ec_command c = [''/bin/sh'', ''-c'', script])"
    by (auto simp: tc_container_def)
qed

theorem validated_script_builds_witness:
  "(\<exists>c. tc_container ''tc'' (demo_run Injecting) demo_network 0 = Inr c) \<and>
   (\<exists>msg. tc_container ''tc'' (demo_run Injecting) (demo_network\<lparr>n_bandwidth := ''10'' @ kelvin_sign @ ''bit''\<rparr>) 0 = Inl msg)"
proof -
  let ?n = "demo_network\<lparr>n_bandwidth := ''10'' @ kelvin_sign @ ''bit''\<rparr>"
  have v: "validate_network NetworkChaos demo_network = []" "validate_network NetworkChaos ?n = []" by code_simp+
  have e: "endpoint_checked demo_network" "endpoint_checked ?n" by code_simp+
  have k: "\<not> contains (n_bandwidth demo_network) kelvin_sign" "contains (n_bandwidth ?n) kelvin_sign" by code_simp+
  from validated_script_builds [OF v(1) e(1)] validated_script_builds [OF v(2) e(2)] k show ?thesis by blast
qed

text \<open>
  The validator does not look at the endpoint's CIDR for the targets TMtoTM and TMtoJM, but the
  driver puts it into the rule: a spec that validates with such a target and an unsafe CIDR makes
  the driver panic as soon as there is a TaskManager to inject into.
\<close>

theorem unchecked_endpoint_panics:
  assumes "scenario_of run = NetworkChaos" and "s_network (sp_scenario (cr_spec run)) = Some n"
    and "n_externalEndpoint n = Some x" and "\<not> shell_safe (x_cidr x)"
    and "st_tcInjections (cr_status run) = []" and "rt_tmPods t \<noteq> []"
  shows "\<exists>msg run'. chaos_inject k img run t s = (DriverPanic msg, run', s)"
proof -
  from assms(4) have ne: "x_cidr x \<noteq> ''''" by (auto simp: shell_safe_def)
  have "\<exists>msg. tc_container img run n 0 = Inl msg"
  proof (cases "entrypoint_script (build_rule n) (chaos_duration (Some n))")
    case (Inl msg)
    then show ?thesis by (simp add: tc_container_def)
  next
    case (Inr sc)
    then have "shell_safe (tr_peerCIDR (build_rule n))" by (simp add: entrypoint_script_Inr)
    with assms(3,4) ne show ?thesis by (simp add: build_rule_def)
  qed
  then obtain msg where "tc_container img run n 0 = Inl msg" by blast
  moreover obtain p ps where "rt_tmPods t = p # ps" using assms(6) by (cases "rt_tmPods t") auto
  ultimately show ?thesis
    using assms by (simp add: chaos_inject_def inject_outcome_def)
qed

definition demo_unchecked :: chaos_run where
  "demo_unchecked = with_network NetworkChaos (demo_network\<lparr>n_target := TMtoJM,
     n_externalEndpoint := Some \<lparr>x_cidr = ''10.0.0.0/8;id'', x_hostname = '''', x_port = 0\<rparr>\<rparr>) (demo_run Injecting)"

theorem unchecked_endpoint_panics_witness:
  "validate demo_unchecked = [] \<and>
   (\<exists>msg run'. chaos_inject demo_kube ''tc'' demo_unchecked demo_target (demo_sys demo_unchecked) =
      (DriverPanic msg, run', demo_sys demo_unchecked))"
proof -
  have v: "validate demo_unchecked = []" by code_simp
  have sc: "scenario_of demo_unchecked = NetworkChaos" by code_simp
  have unsafe: "\<not> shell_safe ''10.0.0.0/8;id''" by code_simp
  have tcs: "st_tcInjections (cr_status demo_unchecked) = []" and tms: "rt_tmPods demo_target \<noteq> []" by code_simp+
  have n: "s_network (sp_scenario (cr_spec demo_unchecked)) = Some (demo_network\<lparr>n_target := TMtoJM,
      n_externalEndpoint := Some \<lparr>x_cidr = ''10.0.0.0/8;id'', x_hostname = '''', x_port = 0\<rparr>\<rparr>)"
    by (simp add: demo_unchecked_def with_network_def)
  from unchecked_endpoint_panics [OF sc n, of "\<lparr>x_cidr = ''10.0.0.0/8;id'', x_hostname = '''', x_port = 0\<rparr>"
      demo_target demo_kube "''tc''" "demo_sys demo_unchecked"] v unsafe tcs tms
  show ?thesis by simp
qed

text \<open>
  The first injection of NetworkChaos records one container per pod, in the order of the
  target, under the name of its index, still to be cleaned; without error every TaskManager of the
  target is recorded and reported as injected.
\<close>

theorem chaos_injection_recorded:
  assumes "chaos_inject k img run t s = (r, run', s')" and "scenario_of run = NetworkChaos"
    and "s_network (sp_scenario (cr_spec run)) = Some n" and "st_tcInjections (cr_status run) = []"
  shows "let recs = st_tcInjections (cr_status run') in
    map er_podName recs = take (length recs) (rt_tmPods t) \<and>
    map er_containerName recs = map (\<lambda>m. container_name ''fchaos-tc-'' (cr_name run) (int m)) [0..<length recs] \<and>
    (\<forall>x \<in> set recs. \<not> er_cleanedUp x) \<and>
    (\<forall>ir. r = DriverOk ir \<longrightarrow> map er_podName recs = rt_tmPods t \<and> ir_injected ir = rt_tmPods t)"
  using assms by (rule chaos_inject_records)

definition demo_chaos :: chaos_run where
  "demo_chaos = with_network NetworkChaos demo_network (demo_run Injecting)"

theorem chaos_injection_recorded_witness:
  "map er_podName (st_tcInjections (cr_status (fst (snd
     (chaos_inject demo_kube ''tc'' demo_chaos demo_target (demo_sys demo_chaos)))))) = [''tm-0'', ''tm-1'']"
proof -
  let ?d = "chaos_inject demo_kube ''tc'' demo_chaos demo_target (demo_sys demo_chaos)"
  obtain r run' s' where d: "?d = (r, run', s')" by (cases ?d)
  have "case fst ?d of DriverOk _ \<Rightarrow> True | _ \<Rightarrow> False" by code_simp
  with d obtain ir where r: "r = DriverOk ir" by (auto split: driver_result.splits)
  have "scenario_of demo_chaos = NetworkChaos" "s_network (sp_scenario (cr_spec demo_chaos)) = Some demo_network"
    "st_tcInjections (cr_status demo_chaos) = []"
    by (simp_all add: demo_chaos_def with_network_def demo_run_def demo_status_def)
  from chaos_injection_recorded [OF d this] r
  have "map er_podName (st_tcInjections (cr_status run')) = rt_tmPods demo_target" unfolding Let_def by blast
  then show ?thesis by (simp only: d fst_conv snd_conv) (simp add: demo_target_def)
qed

text \<open>
  C29. Cleanup of NetworkChaos never ends an injection early: a record goes from live to clean only
  when, looked at in the course of this very cleanup, its pod is gone, its container has terminated, or
  the clock then says that the duration has passed since the injection: the configured one when it is
  positive, and one minute otherwise.
\<close>

theorem chaos_cleanup_not_early:
  assumes "chaos_cleanup k run s = (e, run', s')"
  shows "list_all2 (\<lambda>r r'. (r' = r \<or> r' = r\<lparr>er_cleanedUp := True\<rparr>) \<and> (\<not> er_cleanedUp r \<and> er_cleanedUp r' \<longrightarrow>
      (\<exists>w. looks k (cr_namespace run) (ext s) w \<and>
         ((\<exists>m. fst (k_get_pod k (cr_namespace run) (er_podName r) w) = Inl (NotFound m)) \<or>
          (\<exists>pod w1. k_get_pod k (cr_namespace run) (er_podName r) w = (Inr pod, w1) \<and>
             ((\<exists>st. find_container_state (p_ephStatuses pod) (er_containerName r) = Some st \<and> es_terminated st) \<or>
              (\<exists>at. er_injectedAt r = Some at \<and>
                 (case s_network (sp_scenario (cr_spec run)) of
                    Some n \<Rightarrow> (case n_duration n of Some d \<Rightarrow> if 0 < d then d else minute | None \<Rightarrow> minute)
                  | None \<Rightarrow> minute) \<le> time_sub (fst (k_now k w1)) at)))))))
    (st_tcInjections (cr_status run)) (st_tcInjections (cr_status run'))"
proof -
  have d: "chaos_duration n = (case n of Some n \<Rightarrow> (case n_duration n of Some d \<Rightarrow> if 0 < d then d else minute | None \<Rightarrow> minute)
      | None \<Rightarrow> minute)" for n
    by (simp add: chaos_duration_def chaos_default_duration_def minute_def second_def split: option.splits)
  have "list_all2 (retires_soundly k (cr_namespace run) (chaos_duration (s_network (sp_scenario (cr_spec run)))) (ext s))
      (st_tcInjections (cr_status run)) (st_tcInjections (cr_status run'))"
    using assms retire_records_sound by (auto simp: chaos_cleanup_def split: prod.splits)
  then show ?thesis
    by (rule list_all2_mono) (unfold retires_soundly_def retired_from_def may_retire_def d)
qed

text \<open>
  Once the duration has passed for every live record by every reading of the clock, a cleanup
  of NetworkChaos that returns no error retires them all.
\<close>

theorem chaos_cleanup_finishes:
  assumes "chaos_cleanup k run s = (None, run', s')"
    and "\<forall>r \<in> set (st_tcInjections (cr_status run)). er_cleanedUp r \<or>
      (\<exists>at. er_injectedAt r = Some at \<and>
        (\<forall>w. chaos_duration (s_network (sp_scenario (cr_spec run))) \<le> time_sub (fst (k_now k w)) at))"
  shows "\<forall>r \<in> set (st_tcInjections (cr_status run')). er_cleanedUp r"
proof -
  obtain recs s1 where l: "retire_records k (cr_namespace run)
      (chaos_duration (s_network (sp_scenario (cr_spec run)))) (st_tcInjections (cr_status run)) s = (None, recs, s1)"
    and "st_tcInjections (cr_status run') = recs"
    using assms(1) by (auto simp: chaos_cleanup_def split: prod.splits)
  with retire_records_due [OF l] assms(2) show ?thesis by blast
qed

definition demo_injected :: chaos_run where
  "demo_injected = demo_chaos\<lparr>cr_status := (demo_status CleaningUp)\<lparr>st_tcInjections :=
     [\<lparr>er_podName = ''tm-0'', er_containerName = ''fchaos-tc-kill-one-0'', er_injectedAt = Some 0,
       er_cleanedUp = False\<rparr>]\<rparr>\<rparr>"

theorem chaos_cleanup_finishes_witness:
  "\<exists>(k :: world kube) run'. fst (snd (chaos_cleanup k demo_injected (demo_sys demo_injected))) = run' \<and>
     st_tcInjections (cr_status run') \<noteq> [] \<and> (\<forall>r \<in> set (st_tcInjections (cr_status run')). er_cleanedUp r)"
proof -
  define k where "k = demo_kube\<lparr>k_now := \<lambda>w. (60000000000, w)\<rparr>"
  let ?c = "chaos_cleanup k demo_injected (demo_sys demo_injected)"
  obtain e run' s' where c: "?c = (e, run', s')" by (cases ?c)
  have "fst ?c = None" "st_tcInjections (cr_status (fst (snd ?c))) \<noteq> []" unfolding k_def by code_simp+
  with c have c0: "?c = (None, run', s')" and ne: "st_tcInjections (cr_status run') \<noteq> []" by simp_all
  have "chaos_duration (s_network (sp_scenario (cr_spec demo_injected))) \<le> time_sub 60000000000 0" by code_simp
  then have "\<forall>r \<in> set (st_tcInjections (cr_status demo_injected)). er_cleanedUp r \<or>
      (\<exists>at. er_injectedAt r = Some at \<and>
        (\<forall>w. chaos_duration (s_network (sp_scenario (cr_spec demo_injected))) \<le> time_sub (fst (k_now k w)) at))"
    by (simp add: demo_injected_def k_def)
  from chaos_cleanup_finishes [OF c0 this] ne c show ?thesis by (intro exI [of _ k] exI [of _ run']) simp
qed

text \<open>A world whose clock advances by a minute with every reading, and whose pods live on.\<close>

definition ticking_kube :: "world kube" where
  "ticking_kube = demo_kube\<lparr>k_get_pod := \<lambda>ns n w. (Inr (demo_pod n ''taskmanager''), w),
     k_now := \<lambda>w. (w_time w, w\<lparr>w_time := w_time w + minute\<rparr>)\<rparr>"

theorem chaos_cleanup_not_early_witness:
  "\<exists>w. looks ticking_kube ''flink'' (ext (demo_sys demo_injected)) w \<and>
     minute \<le> time_sub (fst (k_now ticking_kube w)) 0"
proof -
  let ?c = "chaos_cleanup ticking_kube demo_injected (demo_sys demo_injected)"
  obtain e run' s' where c: "?c = (e, run', s')" by (cases ?c)
  have "map er_cleanedUp (st_tcInjections (cr_status (fst (snd ?c)))) = [True]" by code_simp
  with c have cl: "map er_cleanedUp (st_tcInjections (cr_status run')) = [True]" by simp
  have net: "s_network (sp_scenario (cr_spec demo_injected)) = Some demo_network" "n_duration demo_network = Some minute"
    "cr_namespace demo_injected = ''flink''"
    by code_simp+
  have st: "st_tcInjections (cr_status demo_injected) =
      [\<lparr>er_podName = ''tm-0'', er_containerName = ''fchaos-tc-kill-one-0'', er_injectedAt = Some 0, er_cleanedUp = False\<rparr>]"
    by (simp add: demo_injected_def)
  have pod: "k_get_pod ticking_kube ns n w = (Inr (demo_pod n ''taskmanager''), w)" for ns n w
    by (simp add: ticking_kube_def)
  have none: "p_ephStatuses (demo_pod n ''taskmanager'') = []" for n by (simp add: demo_pod_def)
  have minutes: "0 < minute" by (simp add: minute_def second_def)
  from chaos_cleanup_not_early [OF c] cl show ?thesis
    unfolding st net
    by (auto simp: list_all2_Cons1 pod none net(2) minutes)
qed

end
