(* ===== verification/Res_Exhaust.thy ===== *)
theory Res_Exhaust
  imports Ephemeral
begin

section \<open>The ResourceExhaustion driver\<close>

subsection \<open>stress-ng arguments\<close>

text \<open>
  \<^verbatim>\<open>internal/scenario/resourceexhaustion/stress/builder.go\<close>. \<open>%.0f\<close> of a duration in
  seconds rounds to the nearest integer, ties to the even one; the value is exact where
  \<^verbatim>\<open>float64\<close> holds the seconds, below \<open>2 ^ 23\<close> of them.
\<close>

definition round_half_even :: "int \<Rightarrow> int \<Rightarrow> int" where
  "round_half_even a b =
     (let q = a div b; r = a mod b in
      if 2 * r < b then q else if b < 2 * r then q + 1 else if even q then q else q + 1)"

definition duration_arg :: "resource_exhaustion_spec \<Rightarrow> string" where
  "duration_arg re =
     (case re_duration re of
        None \<Rightarrow> ''60s''
      | Some d \<Rightarrow> (if d < 0 then ''-'' @ fmt_d (round_half_even (- d) second)
                   else fmt_d (round_half_even d second)) @ ''s'')"

definition stress_args :: "resource_exhaustion_spec \<Rightarrow> string list" where
  "stress_args re =
     (case re_mode re of
        CPU \<Rightarrow> [''stress-ng'', ''--cpu'', fmt_d (re_workers re), ''--timeout'', duration_arg re]
      | Memory \<Rightarrow> [''stress-ng'', ''--vm'', fmt_d (re_workers re),
          ''--vm-bytes'', fmt_d (re_memoryPercent re) @ ''%'', ''--timeout'', duration_arg re]
      | OtherExhaustion m \<Rightarrow> [''stress-ng'', ''--cpu'', ''1'', ''--timeout'', duration_arg re])"

subsection \<open>The driver\<close>

text \<open>\<^verbatim>\<open>internal/scenario/resourceexhaustion/driver.go\<close>.\<close>

definition exhaustion_default_duration :: int where "exhaustion_default_duration = 60 * second"

definition exhaustion_duration :: "resource_exhaustion_spec option \<Rightarrow> int" where
  "exhaustion_duration re =
     (case re of
        None \<Rightarrow> exhaustion_default_duration
      | Some re' \<Rightarrow> (case re_duration re' of
          None \<Rightarrow> exhaustion_default_duration
        | Some d \<Rightarrow> if 0 < d then d else exhaustion_default_duration))"

definition stress_container :: "string \<Rightarrow> chaos_run \<Rightarrow> resource_exhaustion_spec \<Rightarrow> int \<Rightarrow> string + eph_container" where
  "stress_container img run re i =
     Inr \<lparr>ec_name = container_name ''fchaos-stress-'' (cr_name run) i, ec_image = img,
          ec_command = stress_args re, ec_capabilities = []\<rparr>"

definition exhaustion_inject ::
  "'w kube \<Rightarrow> string \<Rightarrow> chaos_run \<Rightarrow> resolved_target \<Rightarrow> 'w sys \<Rightarrow> driver_result \<times> chaos_run \<times> 'w sys" where
  "exhaustion_inject k img run t s =
     (if scenario_of run \<noteq> ResourceExhaustion
      then (DriverError (WrongScenario ResourceExhaustion (scenario_of run)) None, run, s)
      else case s_resourceExhaustion (sp_scenario (cr_spec run)) of
        None \<Rightarrow> (DriverError ExhaustionSpecRequired None, run, s)
      | Some re \<Rightarrow>
          (if 0 < length (st_stressInjections (cr_status run))
           then (DriverOk \<lparr>ir_selected = st_selectedPods (cr_status run),
                   ir_injected = map er_podName (st_stressInjections (cr_status run))\<rparr>, run, s)
           else
             let podNames = (if length (st_selectedPods (cr_status run)) = 0 then rt_tmPods t
                             else st_selectedPods (cr_status run)) in
             (case inject_containers k (cr_namespace run) (stress_container img run re) 0 podNames
                     (st_stressInjections (cr_status run)) [] s of
                ((stop, recs, injected), s1) \<Rightarrow>
                  (inject_outcome stop podNames injected,
                   upd_status (\<lambda>st. st\<lparr>st_stressInjections := recs\<rparr>) run, s1))))"

definition exhaustion_cleanup ::
  "'w kube \<Rightarrow> chaos_run \<Rightarrow> 'w sys \<Rightarrow> driver_error option \<times> chaos_run \<times> 'w sys" where
  "exhaustion_cleanup k run s =
     (case retire_records k (cr_namespace run)
             (exhaustion_duration (s_resourceExhaustion (sp_scenario (cr_spec run))))
             (st_stressInjections (cr_status run)) s of
        (e, recs, s1) \<Rightarrow> (e, upd_status (\<lambda>st. st\<lparr>st_stressInjections := recs\<rparr>) run, s1))"

subsection \<open>The driver meets its contract\<close>

lemma driver_frame_stress: "driver_frame run (upd_status (\<lambda>st. st\<lparr>st_stressInjections := recs\<rparr>) run)"
  unfolding driver_frame_def
  by (intro conjI exI [of _ "st_selectedPods (cr_status run)"] exI [of _ "st_networkPolicies (cr_status run)"]
      exI [of _ "st_tcInjections (cr_status run)"] exI [of _ recs]) simp_all

lemma exhaustion_inject_emits:
  "exhaustion_inject k img run t s = (r, run', s') \<Longrightarrow> emits adds_container s s'"
  by (auto simp: exhaustion_inject_def Let_def split: if_splits option.splits prod.splits
      intro: emits_mono [OF inject_containers_emits [OF _ subset_refl] adds_to_adds_container])

lemma exhaustion_inject_frame:
  "exhaustion_inject k img run t s = (r, run', s') \<Longrightarrow> driver_frame run run'"
  by (auto simp: exhaustion_inject_def Let_def split: if_splits option.splits prod.splits
      intro: driver_frame_stress)

lemma exhaustion_cleanup_result:
  assumes "exhaustion_cleanup k run s = (e, run', s')"
  shows "\<exists>recs. list_all2 retired_from (st_stressInjections (cr_status run)) recs \<and>
           run' = upd_status (\<lambda>st. st\<lparr>st_stressInjections := recs\<rparr>) run \<and> silent s s'"
proof -
  obtain e1 recs s1 where loop: "retire_records k (cr_namespace run)
      (exhaustion_duration (s_resourceExhaustion (sp_scenario (cr_spec run))))
      (st_stressInjections (cr_status run)) s = (e1, recs, s1)" (is "?l = _") by (cases ?l) auto
  with assms have "run' = upd_status (\<lambda>st. st\<lparr>st_stressInjections := recs\<rparr>) run" "s' = s1"
    by (simp_all add: exhaustion_cleanup_def)
  with retire_records_result [OF loop] show ?thesis by blast
qed

interpretation exhaustion: cleanable_driver "exhaustion_inject k img" adds_container
  "exhaustion_cleanup k" "\<lambda>_. False" for k img
proof unfold_locales
  show "disruptive c" if "adds_container c" for c
    using that by (cases c) (simp_all add: adds_container_def)
  show "emits adds_container s s'" if "exhaustion_inject k img run t s = (r, run', s')" for run t s r run' s'
    using that by (rule exhaustion_inject_emits)
  show "driver_frame run run'" if "exhaustion_inject k img run t s = (r, run', s')" for run t s r run' s'
    using that by (rule exhaustion_inject_frame)
  show "emits (\<lambda>_. False) s s'" if "exhaustion_cleanup k run s = (e, run', s')" for run s e run' s'
    using exhaustion_cleanup_result [OF that] by (auto intro: emits_silent)
  show "driver_frame run run'" if "exhaustion_cleanup k run s = (e, run', s')" for run s e run' s'
    using exhaustion_cleanup_result [OF that] by (auto intro: driver_frame_stress)
  show "leftovers (cr_status run') \<le> leftovers (cr_status run)"
    if "exhaustion_cleanup k run s = (e, run', s')" for run s e run' s'
    using exhaustion_cleanup_result [OF that] retired_leftovers by (fastforce simp: leftovers_def)
qed simp

subsection \<open>The tool stops within half a second of the configured duration\<close>

lemma round_half_even_near:
  assumes "0 < b"
  shows "2 * \<bar>round_half_even a b * b - a\<bar> \<le> b"
proof -
  have a: "a div b * b = a - a mod b" by (simp add: minus_mod_eq_div_mult)
  have "0 \<le> a mod b" "a mod b < b" using assms by simp_all
  moreover have "(a div b + 1) * b = a - a mod b + b" by (simp add: a distrib_right)
  ultimately show ?thesis unfolding round_half_even_def Let_def using a by auto
qed

subsection \<open>Properties\<close>

text \<open>
  The timeout handed to stress-ng is the configured duration to the nearest second.
\<close>

theorem stress_timeout_near:
  assumes "re_duration re = Some d" and "0 \<le> d"
  shows "\<exists>n. duration_arg re = fmt_d n @ ''s'' \<and> 0 \<le> n \<and> 2 * \<bar>n * second - d\<bar> \<le> second"
proof -
  have "0 < second" by (simp add: second_def)
  moreover from this have "0 \<le> round_half_even d second"
    using assms(2) by (simp add: round_half_even_def Let_def pos_imp_zdiv_nonneg_iff)
  ultimately show ?thesis
    using assms round_half_even_near [of second d]
    by (intro exI [of _ "round_half_even d second"]) (simp add: duration_arg_def)
qed

theorem stress_timeout_near_witness:
  "\<exists>n. duration_arg \<lparr>re_mode = CPU, re_workers = 1, re_memoryPercent = 0, re_duration = Some 1600000000\<rparr> =
     fmt_d n @ ''s'' \<and> 2 * \<bar>n * second - 1600000000\<bar> \<le> second"
  using stress_timeout_near [of "\<lparr>re_mode = CPU, re_workers = 1, re_memoryPercent = 0, re_duration = Some 1600000000\<rparr>"
      1600000000] by auto

text \<open>
  A positive duration of at most half a second is handed over as zero seconds, which stress-ng takes
  as no time limit, while the cleanup counts the container as stopped after that duration.
\<close>

theorem short_stress_unbounded:
  assumes "re_duration re = Some d" and "0 < d" and "2 * d \<le> second"
  shows "duration_arg re = ''0s'' \<and> exhaustion_duration (Some re) = d"
proof -
  have "round_half_even d second = 0"
    using assms(2,3) by (auto simp: round_half_even_def Let_def div_pos_pos_trivial mod_pos_pos_trivial second_def)
  moreover have "fmt_d 0 @ ''s'' = ''0s''" by code_simp
  ultimately show ?thesis using assms by (simp add: duration_arg_def exhaustion_duration_def)
qed

theorem short_stress_unbounded_witness:
  "duration_arg \<lparr>re_mode = CPU, re_workers = 1, re_memoryPercent = 0, re_duration = Some 300000000\<rparr> = ''0s''"
  using short_stress_unbounded [of "\<lparr>re_mode = CPU, re_workers = 1, re_memoryPercent = 0, re_duration = Some 300000000\<rparr>"
      300000000] by (simp add: second_def)

end
