(* ===== verification/Wiring.thy ===== *)
theory Wiring
  imports Pass_Contents Resolvers Pod_Kill Net_Policy Net_Chaos Res_Exhaust
begin

section \<open>The operator as its main function assembles it\<close>

text \<open>
  \<^verbatim>\<open>cmd/controller/main.go\<close>: the resolver and the driver of every type, the safety checker,
  the two observers and the Flink client factory. The tool images come from the environment
  with the defaults of the code. Flags, scheme registration and the manager are not modelled.
\<close>

definition image_or :: "string \<Rightarrow> string \<Rightarrow> string" where
  "image_or env default_image = (if env = '''' then default_image else env)"

definition operator_resolvers ::
  "'w kube \<Rightarrow> target_type \<Rightarrow> (chaos_run \<Rightarrow> 'w sys \<Rightarrow> (resolve_error + resolved_target) \<times> 'w sys) option" where
  "operator_resolvers k tt =
     (case tt of
        FlinkDeployment \<Rightarrow> Some (fd_resolve k)
      | VervericaDeployment \<Rightarrow> Some (vvp_resolve k)
      | PodSelector \<Rightarrow> Some (ps_resolve k)
      | OtherTarget x \<Rightarrow> None)"

definition operator_drivers :: "'w kube \<Rightarrow> string \<Rightarrow> string \<Rightarrow> scenario_type \<Rightarrow> 'w driver option" where
  "operator_drivers k tcImage stressImage sc =
     (case sc of
        TaskManagerPodKill \<Rightarrow> Some \<lparr>dr_inject = pod_kill_driver k, dr_cleanup = None\<rparr>
      | NetworkPartition \<Rightarrow> Some \<lparr>dr_inject = partition_inject k, dr_cleanup = Some (partition_cleanup k)\<rparr>
      | NetworkChaos \<Rightarrow> Some \<lparr>dr_inject = chaos_inject k tcImage, dr_cleanup = Some (chaos_cleanup k)\<rparr>
      | ResourceExhaustion \<Rightarrow>
          Some \<lparr>dr_inject = exhaustion_inject k stressImage, dr_cleanup = Some (exhaustion_cleanup k)\<rparr>
      | _ \<Rightarrow> None)"

definition operator ::
  "'w kube \<Rightarrow> (string \<Rightarrow> 'w flink_client) \<Rightarrow> string \<Rightarrow> string \<Rightarrow> string \<Rightarrow> 'w reconciler" where
  "operator k newClient tcEnv stressEnv lossPointer =
     (let tcImage = image_or tcEnv ''ghcr.io/flink-chaos-operator/tc-tools:latest'';
          stressImage = image_or stressEnv ''ghcr.io/flink-chaos-operator/stress-tools:latest''
      in \<lparr>rc_kube = k, rc_safety = Some (check k), rc_resolvers = operator_resolvers k,
          rc_drivers = Some (operator_drivers k tcImage stressImage),
          rc_observer = Some (operator_observer k newClient),
          rc_factory = Some newClient, rc_httpFactory = newClient, rc_lossPointer = lossPointer\<rparr>)"

lemma operator_simps [simp]:
  "rc_kube (operator k newClient a b c) = k"
  "rc_safety (operator k newClient a b c) = Some (check k)"
  "rc_resolvers (operator k newClient a b c) = operator_resolvers k"
  "rc_observer (operator k newClient a b c) = Some (operator_observer k newClient)"
  by (simp_all add: operator_def Let_def)

lemma operator_drivers_Some:
  assumes "rc_drivers (operator k newClient a b c) = Some m" and "m sc = Some drv"
  shows "(sc = TaskManagerPodKill \<and> drv = \<lparr>dr_inject = pod_kill_driver k, dr_cleanup = None\<rparr>) \<or>
    (sc = NetworkPartition \<and> drv = \<lparr>dr_inject = partition_inject k, dr_cleanup = Some (partition_cleanup k)\<rparr>) \<or>
    (sc = NetworkChaos \<and> (\<exists>i. drv = \<lparr>dr_inject = chaos_inject k i, dr_cleanup = Some (chaos_cleanup k)\<rparr>)) \<or>
    (sc = ResourceExhaustion \<and>
      (\<exists>i. drv = \<lparr>dr_inject = exhaustion_inject k i, dr_cleanup = Some (exhaustion_cleanup k)\<rparr>))"
  using assms by (auto simp: operator_def operator_drivers_def Let_def split: scenario_type.splits)

text \<open>Every part meets its contract: the interpretations of the components, put together.\<close>

interpretation op: operator_parts "operator k newClient tcEnv stressEnv lossPointer"
  for k newClient tcEnv stressEnv lossPointer
proof (rule operator_parts.intro)
  let ?rc = "operator k newClient tcEnv stressEnv lossPointer"
  show "target_resolver f" if "rc_resolvers ?rc tt = Some f" for tt f
    using that
    by (auto simp: operator_resolvers_def split: target_type.splits
        intro: flink_deployments.target_resolver_axioms ververica.target_resolver_axioms
          pod_selector.target_resolver_axioms)
  show "safety_check chk" if "rc_safety ?rc = Some chk" for chk
    using that by (auto intro: safe.safety_check_axioms)
  show "recovery_observer obs" if "rc_observer ?rc = Some obs" for obs
    using that by (auto intro: operator_observers.recovery_observer_axioms)
  show "\<exists>own. scenario_driver (dr_inject drv) own" if "rc_drivers ?rc = Some m" "m sc = Some drv" for m sc drv
    using operator_drivers_Some [OF that]
    by (elim disjE conjE exE; simp; intro exI)
      (rule pod_kill.scenario_driver_axioms partition.scenario_driver_axioms
        net_chaos.scenario_driver_axioms exhaustion.scenario_driver_axioms)+
  show "\<exists>own undo. cleanable_driver (dr_inject drv) own cl undo"
    if "rc_drivers ?rc = Some m" "m sc = Some drv" "dr_cleanup drv = Some cl" for m sc drv cl
  proof -
    have cl: "cl = the (dr_cleanup drv)" "dr_cleanup drv \<noteq> None" using that(3) by simp_all
    from operator_drivers_Some [OF that(1,2)] cl(2) show ?thesis
      unfolding cl(1)
      by (elim disjE conjE exE; simp; intro exI)
        (rule partition.cleanable_driver_axioms net_chaos.cleanable_driver_axioms
          exhaustion.cleanable_driver_axioms)+
  qed
qed

end
