(* ===== verification/Passes.thy ===== *)
theory Passes
  imports Wiring Demo_World
begin

section \<open>Passes of the operator\<close>

text \<open>
  What the theorems on whole passes share: a pass is a fetch followed by the handlers, or nothing;
  and the demonstration operator, run on the world of \<open>Demo_World\<close>, for the witnesses.
\<close>

subsection \<open>The demonstration operator\<close>

definition demo_client :: "string \<Rightarrow> world flink_client" where
  "demo_client e = \<lparr>fc_jobs = (\<lambda>w. (Inr [], w)), fc_task_managers = (\<lambda>w. (Inr 0, w)),
     fc_checkpoints = (\<lambda>w. (Inr None, w))\<rparr>"

definition demo_operator :: "world reconciler" where
  "demo_operator = operator demo_kube demo_client '''' '''' ''0xc000012345''"

definition demo_pass :: "world sys \<Rightarrow> outcome \<times> world sys" where
  "demo_pass s = run_state (reconcile demo_operator ''flink'' ''kill-one'') s"

lemma demo_pass_run: "run_state (reconcile (operator demo_kube demo_client '''' '''' ''0xc000012345'')
    ''flink'' ''kill-one'') s = (fst (demo_pass s), snd (demo_pass s))"
  by (simp add: demo_pass_def demo_operator_def)

lemma demo_new: "calls (snd (demo_pass (demo_sys run))) = calls (demo_sys run) @ calls (snd (demo_pass (demo_sys run)))"
  by (simp add: demo_sys_def)

lemma demo_get:
  "fst (k_get_run demo_kube ''flink'' ''kill-one'' (ext (demo_sys (demo_run p)))) = Inr (demo_run p)"
  by (simp add: demo_kube_def demo_sys_def demo_run_def)

lemma stored_condition_keyed:
  assumes "k_set_condition k = stored_condition"
  shows "conditions_keyed k"
proof -
  have "has_condition_true (stored_condition cs c) ct = has_condition_true cs ct" if "string_of_cond ct \<noteq> cond_key c"
    for cs :: "condition list" and c ct
  proof -
    have "c_type c \<noteq> ct" using that by (auto simp: cond_key_def)
    moreover have "has_condition_true (map (\<lambda>x. if cond_key x = cond_key c then c else x) cs) ct = has_condition_true cs ct"
      using that by (induction cs) (auto simp: cond_key_def)
    ultimately show ?thesis by (induction cs) (auto simp: stored_condition_def)
  qed
  moreover have "distinct (map cond_key (stored_condition cs c))" if "distinct (map cond_key cs)" for cs c
  proof -
    have "map cond_key (map (\<lambda>x. if cond_key x = cond_key c then c else x) cs) = map cond_key cs" by simp
    with that show ?thesis by (auto simp: stored_condition_def simp del: map_map)
  qed
  ultimately show ?thesis using assms by (auto simp: conditions_keyed_def)
qed

lemma demo_conditions: "conditions_keyed demo_kube"
  by (rule stored_condition_keyed) (simp add: demo_kube_def)

lemma demo_keeps: "patch_keeps_phase demo_kube"
  by (simp add: patch_keeps_phase_def demo_kube_def Let_def)

subsection \<open>The fetch at the start of a pass\<close>

lemma reconcile_cases:
  assumes "run_state (reconcile rc ns name) s = (x, s')"
  obtains "silent s s'" "\<forall>run. fst (k_get_run (rc_kube rc) ns name (ext s)) \<noteq> Inr run"
  | run s1 where "fst (k_get_run (rc_kube rc) ns name (ext s)) = Inr run" "silent s s1"
      "run_state (reconcile_run rc (set_defaults run)) s1 = (x, s')"
proof -
  obtain r s1 where g: "read_ext (k_get_run (rc_kube rc) ns name) s = (r, s1)" (is "?g = _") by (cases ?g)
  have r: "fst (k_get_run (rc_kube rc) ns name (ext s)) = r"
    using g by (auto simp: read_ext_def split: prod.splits)
  show ?thesis
  proof (cases r)
    case (Inl e)
    have "s' = s1"
      using assms g Inl by (cases e) (auto simp: reconcile_def run_state_bind)
    with that(1) r Inl read_ext_silent [OF g] show ?thesis by simp
  next
    case (Inr run)
    with assms g have "run_state (reconcile_run rc (set_defaults run)) s1 = (x, s')"
      by (simp add: reconcile_def run_state_bind)
    with that(2) r Inr read_ext_silent [OF g] show ?thesis by blast
  qed
qed

lemma reconcile_fetched:
  assumes "run_state (reconcile rc ns name) s = (x, s')"
    and "fst (k_get_run (rc_kube rc) ns name (ext s)) = Inr run"
  shows "run_state (reconcile_run rc (set_defaults run)) (snd (read_ext (k_get_run (rc_kube rc) ns name) s)) = (x, s')"
proof -
  obtain w where "k_get_run (rc_kube rc) ns name (ext s) = (Inr run, w)"
    using assms(2) by (cases "k_get_run (rc_kube rc) ns name (ext s)") simp
  with assms(1) show ?thesis by (simp add: reconcile_def run_state_bind read_ext_def)
qed

lemma fetch_silent [simp]: "calls (snd (read_ext f s)) = calls s"
  by (cases "read_ext f s") (simp add: read_ext_silent)

lemma set_defaults_keeps [simp]:
  "cr_status (set_defaults run) = cr_status run" "cr_finalizers (set_defaults run) = cr_finalizers run"
  "cr_deletionTimestamp (set_defaults run) = cr_deletionTimestamp run"
  "sp_control (cr_spec (set_defaults run)) = sp_control (cr_spec run)"
  "cr_name (set_defaults run) = cr_name run" "cr_namespace (set_defaults run) = cr_namespace run"
  "scenario_of (set_defaults run) = scenario_of run"
  by (simp_all add: set_defaults_def set_scenario_defaults_def Let_def)

subsection \<open>The runs a pass has sent\<close>

definition sent_runs :: "call list \<Rightarrow> chaos_run list" where
  "sent_runs cs = concat (map (\<lambda>c. case c of StatusPatch r ok \<Rightarrow> [r] | _ \<Rightarrow> []) cs)"

lemma sent_runs_simps [simp]:
  "sent_runs [] = []" "sent_runs (StatusPatch r ok # cs) = r # sent_runs cs"
  "\<not> is_write_of_run c \<Longrightarrow> sent_runs (c # cs) = sent_runs cs"
  "sent_runs (ObjectPatch r ok # cs) = sent_runs cs"
  "sent_runs (cs @ ds) = sent_runs cs @ sent_runs ds"
  by (auto simp: sent_runs_def split: call.splits)

lemma sent_runsD: "r \<in> set (sent_runs cs) \<Longrightarrow> \<exists>ok. StatusPatch r ok \<in> set cs"
  by (force simp: sent_runs_def split: call.splits)

subsection \<open>Aborting\<close>

lemma reconcile_abort_effect:
  assumes "run_state (reconcile_abort rc run) s = (x, s')"
  obtains r ok tl where "calls s' = calls s @ [AbortRequestsInc,
      Event ''Normal'' ''AbortRequested'' ''ChaosRun abort requested by user'', StatusPatch r ok] @ tl"
    "sent_runs tl = []" "\<forall>c \<in> set tl. \<not> disruptive c"
    "phase_of r = (if needs_cleanup (scenario_of run) \<and> phase_of run \<noteq> NoPhase \<and> phase_of run \<noteq> Pending
       then CleaningUp else Aborted)"
    "\<exists>sc. tl = (if ok \<and> phase_of r = Aborted then [RunsTotalInc sc (string_of_phase Aborted) ''''] else [])"
proof -
  let ?k = "rc_kube rc"
  let ?clean = "needs_cleanup (scenario_of run) \<and> phase_of run \<noteq> NoPhase \<and> phase_of run \<noteq> Pending"
  obtain run1 s1 where c: "set_condition ?k run AbortRequested CTrue ''AbortRequested''
      ''User set spec.control.abort=true'' s = (run1, s1)" (is "?c = _") by (cases ?c)
  define s2 where "s2 = emit (Event ''Normal'' ''AbortRequested'' ''ChaosRun abort requested by user'') (emit AbortRequestsInc s1)"
  have s2: "calls s2 = calls s @ [AbortRequestsInc, Event ''Normal'' ''AbortRequested'' ''ChaosRun abort requested by user'']"
    using set_condition_silent [OF c] by (simp add: s2_def emit_def)
  obtain run2 s3 where a: "abort_run ?k run1 ''abort requested via spec.control.abort'' s2 = (run2, s3)" (is "?a = _")
    by (cases ?a)
  show ?thesis
  proof (cases ?clean)
    case True
    obtain p s4 where p: "status_patch ?k run (transition_phase run1 CleaningUp
        ''abort requested, cleaning up network chaos resources'') s2 = (p, s4)" (is "?p = _") by (cases ?p)
    have "s' = s4"
      using assms c True p by (auto simp: reconcile_abort_def Let_def run_state_bind condition_set_def log_call_def
          patch_status_def s2_def split: sum.splits)
    with status_patch_calls [OF p] s2 True show ?thesis
      by (intro that [of "transition_phase run1 CleaningUp ''abort requested, cleaning up network chaos resources''"
          "succeeded p" "[]"]) (auto simp: transition_phase_def)
  next
    case False
    obtain p s4 where p: "status_patch ?k run run2 s3 = (p, s4)" (is "?p = _") by (cases ?p)
    have s': "(s' = s4 \<and> \<not> succeeded p) \<or> (succeeded p \<and>
        (\<exists>r. s' = emit (RunsTotalInc (string_of_scenario (scenario_of r)) (string_of_phase Aborted) '''') s4))"
      using assms c False a p
      by (cases p) (auto simp: reconcile_abort_def Let_def run_state_bind condition_set_def log_call_def aborted_run_def
          patch_status_def s2_def split: sum.splits)
    have s4: "calls s4 = calls s2 @ [StatusPatch run2 (succeeded p)]"
      using status_patch_calls [OF p] abort_run_silent [OF a] by simp
    have ph: "phase_of run2 = Aborted" using abort_run_phase [OF a] .
    from s' show ?thesis
    proof
      assume "s' = s4 \<and> \<not> succeeded p"
      with s4 s2 ph False show ?thesis by (intro that [of run2 "succeeded p" "[]"]) auto
    next
      assume "succeeded p \<and>
        (\<exists>r. s' = emit (RunsTotalInc (string_of_scenario (scenario_of r)) (string_of_phase Aborted) '''') s4)"
      then obtain z where "succeeded p" "calls s' = calls s4 @ [RunsTotalInc z (string_of_phase Aborted) '''']"
        by (auto simp: emit_def)
      with s4 s2 ph False show ?thesis
        by (intro that [of run2 "succeeded p" "[RunsTotalInc z (string_of_phase Aborted) '''']"]) auto
    qed
  qed
qed

lemma aborted_pass:
  assumes "fst (k_get_run k ns name (ext s)) = Inr run" and "ctl_abort (sp_control (cr_spec run))"
    and "\<not> is_terminal (phase_of run)" and "phase_of run \<noteq> CleaningUp"
    and "cr_deletionTimestamp run = None \<or> \<not> k_contains_finalizer k (cr_finalizers run) chaos_run_finalizer"
    and "run_state (reconcile (operator k newClient tcEnv stressEnv lossPointer) ns name) s = (x, s')"
    and "calls s' = calls s @ new"
  shows "(\<forall>c \<in> set new. \<not> disruptive c) \<and> (\<exists>r. sent_runs new = [r] \<and>
    phase_of r = (if scenario_of run \<in> {NetworkPartition, NetworkChaos, ResourceExhaustion} \<and>
      phase_of run \<noteq> NoPhase \<and> phase_of run \<noteq> Pending then CleaningUp else Aborted))"
proof -
  let ?rc = "operator k newClient tcEnv stressEnv lossPointer"
  let ?s = "snd (read_ext (k_get_run k ns name) s)"
  have "reconcile_run ?rc (set_defaults run) = reconcile_abort ?rc (set_defaults run)"
    using assms(2-5) by (auto simp: reconcile_run_def)
  with reconcile_fetched [OF assms(6)] assms(1)
  have "run_state (reconcile_abort ?rc (set_defaults run)) ?s = (x, s')" by simp
  from reconcile_abort_effect [OF this] obtain r ok tl where "calls s' = calls ?s @ [AbortRequestsInc,
      Event ''Normal'' ''AbortRequested'' ''ChaosRun abort requested by user'', StatusPatch r ok] @ tl"
    "sent_runs tl = []" "\<forall>c \<in> set tl. \<not> disruptive c"
    "phase_of r = (if needs_cleanup (scenario_of (set_defaults run)) \<and> phase_of (set_defaults run) \<noteq> NoPhase \<and>
       phase_of (set_defaults run) \<noteq> Pending then CleaningUp else Aborted)" by metis
  with assms(7) show ?thesis by (auto simp: needs_cleanup_def)
qed

text \<open>The next pass over a run with the abort flag, in whatever phase it is.\<close>

lemma logs_sent:
  assumes "logs (allowed A False) m" and "run_state m s = (x, s')" and "calls s' = calls s @ new"
  shows "(\<forall>c \<in> set new. \<not> disruptive c) \<and> (\<forall>r \<in> set (sent_runs new). phase_of r \<in> A)"
proof -
  have "\<forall>c \<in> set new. allowed A False c" using tripleD [OF assms(1,2)] assms(3) by (simp add: emits_def)
  then show ?thesis by (fastforce dest: allowed_disruptive sent_runsD)
qed

lemma stopped_pass:
  assumes "fst (k_get_run k ns name (ext s)) = Inr run" and "ctl_abort (sp_control (cr_spec run))"
    and "run_state (reconcile (operator k newClient tcEnv stressEnv lossPointer) ns name) s = (x, s')"
    and "calls s' = calls s @ new"
  shows "(\<forall>c \<in> set new. \<not> disruptive c) \<and>
    (if is_terminal (phase_of run) then new = []
     else if cr_deletionTimestamp run \<noteq> None \<and> k_contains_finalizer k (cr_finalizers run) chaos_run_finalizer
     then sent_runs new = []
     else if phase_of run = CleaningUp
     then \<forall>r \<in> set (sent_runs new). phase_of r \<in> {CleaningUp, Completed, Aborted, Failed}
     else \<exists>r. sent_runs new = [r] \<and>
       phase_of r = (if scenario_of run \<in> {NetworkPartition, NetworkChaos, ResourceExhaustion} \<and>
         phase_of run \<noteq> NoPhase \<and> phase_of run \<noteq> Pending then CleaningUp else Aborted))"
proof -
  let ?rc = "operator k newClient tcEnv stressEnv lossPointer" and ?run = "set_defaults run"
  have run: "run_state (reconcile_run ?rc ?run) (snd (read_ext (k_get_run k ns name) s)) = (x, s')"
    using reconcile_fetched [OF assms(3)] assms(1) by simp
  consider (ended) "is_terminal (phase_of run)"
    | (deleted) "\<not> is_terminal (phase_of run)"
        "cr_deletionTimestamp run \<noteq> None \<and> k_contains_finalizer k (cr_finalizers run) chaos_run_finalizer"
    | (cleaning) "phase_of run = CleaningUp"
        "\<not> (cr_deletionTimestamp run \<noteq> None \<and> k_contains_finalizer k (cr_finalizers run) chaos_run_finalizer)"
    | (other) "\<not> is_terminal (phase_of run)" "phase_of run \<noteq> CleaningUp"
        "\<not> (cr_deletionTimestamp run \<noteq> None \<and> k_contains_finalizer k (cr_finalizers run) chaos_run_finalizer)"
    by blast
  then show ?thesis
  proof cases
    case ended
    with run assms(4) show ?thesis by (auto simp: reconcile_run_def State_Monad.return_def)
  next
    case deleted
    have "logs (allowed {} False) (reconcile_run ?rc ?run)"
      using deleted by (simp add: reconcile_run_def op.deleted_logs)
    from logs_sent [OF this run] assms(4) deleted show ?thesis by simp
  next
    case cleaning
    have "logs (allowed {CleaningUp, Completed, Aborted, Failed} False) (reconcile_run ?rc ?run)"
      using cleaning by (auto simp: reconcile_run_def reconcile_phase_def op.cleaning_logs)
    from logs_sent [OF this run] assms(4) cleaning show ?thesis by auto
  next
    case other
    with aborted_pass [OF assms(1,2) _ _ _ assms(3,4)] show ?thesis by auto
  qed
qed

subsection \<open>Deleting\<close>

lemma reconcile_deleted_effect:
  assumes "run_state (reconcile_deleted rc run) s = (x, s')" and "cleanup_driver rc run s = (e, run1, s1)"
  shows "if e = None
    then \<exists>r ok. calls s' = calls s1 @ [ObjectPatch r ok] \<and>
      cr_finalizers r = k_remove_finalizer (rc_kube rc) (cr_finalizers run1) chaos_run_finalizer
    else x = requeue_after (5 * second) \<and> s' = s1"
proof (cases e)
  case None
  obtain p s2 where p: "object_patch (rc_kube rc) run1 (run1\<lparr>cr_finalizers :=
      k_remove_finalizer (rc_kube rc) (cr_finalizers run1) chaos_run_finalizer\<rparr>) s1 = (p, s2)" (is "?p = _")
    by (cases ?p)
  have "s' = s2"
    using assms None p
    by (auto simp: reconcile_deleted_def run_state_bind lift_run_def patch_object_def split: sum.splits)
  with object_patch_calls [OF p] None show ?thesis by auto
next
  case (Some err)
  with assms show ?thesis by (simp add: reconcile_deleted_def run_state_bind lift_run_def)
qed

subsection \<open>Pending\<close>

lemma checkpoint_wait_patches: "logs (patches_only (\<lambda>_. True)) (wait_for_stable_checkpoint rc run base)"
proof -
  have stable: "triple P (\<lambda>_. True) (State (is_checkpoint_stable k c n))" for P k c n
    by (rule triple_silent) (rule is_checkpoint_stable_silent)
  have patch: "logs (patches_only (\<lambda>_. True)) (State (status_patch k b r))" for k b r
    by (rule triple_State) (auto dest!: status_patch_calls simp: emits_def)
  show ?thesis
    unfolding wait_for_stable_checkpoint_def Let_def
    by (intro carry_rules triple_bind [OF stable] triple_bind [OF patch]) simp_all
qed

lemma reconcile_pending_effect:
  assumes "run_state (reconcile_pending rc run) s = (x, s')" and "validate run = []"
  obtains r ok tl where "calls s' = calls s @ StatusPatch r ok # tl"
    "st_startedAt (cr_status r) = Some (fst (k_now (rc_kube rc) (ext s)))"
proof -
  let ?k = "rc_kube rc"
  obtain t s1 where t: "now ?k s = (t, s1)" by (cases "now ?k s")
  define r where "r = upd_status (st_startedAt_update (\<lambda>_. Some t)) run"
  obtain p s2 where p: "status_patch ?k run r s1 = (p, s2)" (is "?p = _") by (cases ?p)
  have s2: "calls s2 = calls s @ [StatusPatch r (succeeded p)]"
    using status_patch_calls [OF p] now_silent [OF t] by simp
  have started: "st_startedAt (cr_status r) = Some (fst (k_now ?k (ext s)))"
    using t by (auto simp: r_def now_def read_ext_def split: prod.splits)
  have inject: "logs (patches_only (\<lambda>_. True)) (start_injecting rc r1)" for r1
    unfolding start_injecting_def by (intro carry_rules) simp_all
  have go_on: "logs (patches_only (\<lambda>_. True)) (if fr_requireStableCheckpoint (o_flinkRest (sp_observe (cr_spec r1)))
       then pending_checkpoint_wait rc r1 else start_injecting rc r1)" for r1
    unfolding pending_checkpoint_wait_def
    by (intro carry_rules inject triple_bind [OF checkpoint_wait_patches]) simp_all
  have "emits (patches_only (\<lambda>_. True)) s2 s'"
  proof (cases p)
    case (Inl e)
    with assms t p show ?thesis
      by (simp add: reconcile_pending_def run_state_bind read_clock_def patch_status_def r_def)
  next
    case (Inr r1)
    with assms t p have "run_state (if fr_requireStableCheckpoint (o_flinkRest (sp_observe (cr_spec r1)))
       then pending_checkpoint_wait rc r1 else start_injecting rc r1) s2 = (x, s')"
      by (simp add: reconcile_pending_def run_state_bind read_clock_def patch_status_def r_def)
    from tripleD [OF go_on this] show ?thesis by simp
  qed
  then obtain tl where "calls s' = calls s2 @ tl" by (auto simp: emits_def)
  with s2 started show ?thesis by (intro that [of r "succeeded p" tl]) simp_all
qed

subsection \<open>The life of a run over many passes\<close>

text \<open>
  The phases a run goes through: one pass finds it in the phase the history has reached and patches
  its status successfully; between passes nobody else writes the status.
\<close>

inductive run_history :: "'w reconciler \<Rightarrow> string \<Rightarrow> string \<Rightarrow> run_phase \<Rightarrow> run_phase \<Rightarrow> bool"
  for rc ns name p where
  history_start: "run_history rc ns name p p"
| history_pass: "run_history rc ns name p q \<Longrightarrow>
    fst (k_get_run (rc_kube rc) ns name (ext s)) = Inr run \<Longrightarrow> phase_of run = q \<Longrightarrow>
    run_state (reconcile rc ns name) s = (x, s') \<Longrightarrow> calls s' = calls s @ new \<Longrightarrow>
    StatusPatch r True \<in> set new \<Longrightarrow> run_history rc ns name p (phase_of r)"

lemma phase_steps_rank: "phase_step\<^sup>*\<^sup>* p q \<Longrightarrow> phase_rank p \<le> phase_rank q"
  by (induction rule: rtranclp_induct) (auto dest!: phase_step_rank)

lemma phase_steps_terminal: "phase_step\<^sup>*\<^sup>* p q \<Longrightarrow> is_terminal p \<Longrightarrow> q = p"
  by (induction rule: converse_rtranclp_induct) (auto dest: phase_step_not_from_terminal)

lemma pass_patches:
  assumes "patch_keeps_phase k" and "fst (k_get_run k ns name (ext s)) = Inr run"
    and "run_state (reconcile (operator k newClient tcEnv stressEnv lossPointer) ns name) s = (x, s')"
    and "calls s' = calls s @ new" and "StatusPatch r ok \<in> set new"
  shows "(phase_of r = phase_of run \<or> phase_step (phase_of run) (phase_of r)) \<and> ended_well (cr_status r)"
proof -
  let ?rc = "operator k newClient tcEnv stressEnv lossPointer"
  let ?s = "snd (read_ext (k_get_run k ns name) s)"
  have "run_state (reconcile_run ?rc (set_defaults run)) ?s = (x, s')"
    using reconcile_fetched [OF assms(3)] assms(2) by simp
  with op.pass_logs [of k] assms(1)
  have "emits (allowed (successors (phase_of run)) (may_inject (set_defaults run))) ?s s'"
    by (force dest!: tripleD)
  then have "allowed (successors (phase_of run)) (may_inject (set_defaults run)) (StatusPatch r ok)"
    using assms(4,5) by (auto simp: emits_def)
  then show ?thesis by (auto simp: successors_def)
qed

lemma history_steps:
  assumes "run_history (operator k newClient tcEnv stressEnv lossPointer) ns name p q" and "patch_keeps_phase k"
  shows "phase_step\<^sup>*\<^sup>* p q"
  using assms(1)
proof (induction rule: run_history.induct)
  case (history_pass q s run x s' new r)
  from pass_patches [OF assms(2) _ history_pass.hyps(4-6)] history_pass.hyps(2,3)
  have "phase_of r = q \<or> phase_step q (phase_of r)" by simp
  with history_pass.IH show ?case by (auto intro: rtranclp.rtrancl_into_rtrancl)
qed simp

subsection \<open>Reading a demonstration pass\<close>

lemma sent_witness:
  assumes "y \<in> set (map g (sent_runs cs))"
  obtains r ok where "StatusPatch r ok \<in> set cs" "g r = y"
  using assms sent_runsD by fastforce

lemma demo_fetch:
  "cr_name run = ''kill-one'' \<Longrightarrow> fst (k_get_run demo_kube ns ''kill-one'' (ext (demo_sys run))) = Inr run"
  by (simp add: demo_kube_def demo_sys_def)

end
