(* ===== verification/Deadlines.thy ===== *)
theory Deadlines
  imports Passes
begin

section \<open>Runs whose time is up\<close>

text \<open>
  The timeouts of \<^verbatim>\<open>reconcileObserving\<close> and \<^verbatim>\<open>reconcileCleaningUp\<close>: a pass that finds one of them
  over sends one status, that of the next phase, so that a run past its deadlines is terminal after
  two passes.
\<close>

subsection \<open>Programs that send the status once\<close>

definition quiet :: "call \<Rightarrow> bool" where
  "quiet c \<longleftrightarrow> \<not> disruptive c \<and> \<not> is_write_of_run c"

lemma quiet_simps [simp]:
  "quiet (Event x y z)" "quiet (RunsTotalInc x y z)" "quiet (RunDurationObserve x y t)"
  "quiet AbortRequestsInc" "quiet RecoveryObservedInc" "\<not> quiet (StatusPatch r ok)"
  by (simp_all add: quiet_def)

lemma quiet_sent: "\<forall>c \<in> set cs. quiet c \<Longrightarrow> sent_runs cs = []"
  by (induction cs) (simp_all add: quiet_def)

text \<open>Calls that may also change the object, but not its status.\<close>

definition unsent :: "call \<Rightarrow> bool" where
  "unsent c \<longleftrightarrow> \<not> disruptive c \<and> sent_runs [c] = []"

lemma sent_runs_Cons: "sent_runs (c # cs) = sent_runs [c] @ sent_runs cs"
  by (simp add: sent_runs_def)

lemma unsent_sent: "\<forall>c \<in> set cs. unsent c \<Longrightarrow> sent_runs cs = []"
proof (induction cs)
  case (Cons c cs)
  then show ?case using sent_runs_Cons [of c cs] by (simp add: unsent_def)
qed (simp add: sent_runs_def)

lemma unsent_object [simp]: "unsent (ObjectPatch r ok)"
  by (simp add: unsent_def sent_runs_def)

definition sends_once :: "(chaos_run \<Rightarrow> bool) \<Rightarrow> ('w sys, 'a) state \<Rightarrow> bool" where
  "sends_once P m \<longleftrightarrow> (\<forall>s a s'. run_state m s = (a, s') \<longrightarrow>
     (\<exists>new r. calls s' = calls s @ new \<and> sent_runs new = [r] \<and> P r \<and> (\<forall>c \<in> set new. \<not> disruptive c)))"

lemma sends_bind:
  assumes "triple quiet Q m" and "\<And>a. Q a \<Longrightarrow> sends_once P (f a)"
  shows "sends_once P (State_Monad.bind m f)"
  unfolding sends_once_def
proof (intro allI impI)
  fix s b s'
  assume run: "run_state (State_Monad.bind m f) s = (b, s')"
  obtain a s1 where m: "run_state m s = (a, s1)" by (cases "run_state m s")
  with run have f: "run_state (f a) s1 = (b, s')" by (simp add: run_state_bind)
  from tripleD [OF assms(1) m] obtain one where one: "calls s1 = calls s @ one" "\<forall>c \<in> set one. quiet c"
    and a: "Q a" by (auto simp: emits_def)
  from assms(2) [OF a] f obtain new r where "calls s' = calls s1 @ new" "sent_runs new = [r]" "P r"
    "\<forall>c \<in> set new. \<not> disruptive c" unfolding sends_once_def by blast
  with one quiet_sent [OF one(2)]
  show "\<exists>new r. calls s' = calls s @ new \<and> sent_runs new = [r] \<and> P r \<and> (\<forall>c \<in> set new. \<not> disruptive c)"
    by (intro exI [of _ "one @ new"] exI [of _ r]) (auto simp: quiet_def)
qed

lemma sends_patch:
  assumes "P run" and "\<And>r. logs unsent (rest r)"
  shows "sends_once P (patch_status k base run rest)"
  unfolding sends_once_def
proof (intro allI impI)
  fix s a s'
  assume run: "run_state (patch_status k base run rest) s = (a, s')"
  obtain p s1 where p: "status_patch k base run s = (p, s1)" (is "?p = _") by (cases ?p)
  have "emits unsent s1 s'"
  proof (cases p)
    case (Inl e)
    with run p show ?thesis by (simp add: patch_status_def run_state_bind)
  next
    case (Inr r)
    with run p have "run_state (rest r) s1 = (a, s')" by (simp add: patch_status_def run_state_bind)
    from tripleD [OF assms(2) this] show ?thesis by simp
  qed
  then obtain tl where "calls s' = calls s1 @ tl" and tl: "\<forall>c \<in> set tl. unsent c" by (auto simp: emits_def)
  with status_patch_calls [OF p] unsent_sent [OF tl] assms(1)
  show "\<exists>new r. calls s' = calls s @ new \<and> sent_runs new = [r] \<and> P r \<and> (\<forall>c \<in> set new. \<not> disruptive c)"
    by (intro exI [of _ "StatusPatch run (succeeded p) # tl"] exI [of _ run]) (auto simp: unsent_def)
qed

lemma sends_if:
  "(b \<Longrightarrow> sends_once P m) \<Longrightarrow> (\<not> b \<Longrightarrow> sends_once P n) \<Longrightarrow> sends_once P (if b then m else n)"
  by simp

lemma sends_onceD:
  assumes "sends_once P m" and "run_state m s = (x, s')" and "calls s' = calls s @ new"
  shows "\<exists>r. sent_runs new = [r] \<and> P r \<and> (\<forall>c \<in> set new. \<not> disruptive c)"
  using assms unfolding sends_once_def by fastforce

lemma finish_quiet: "logs quiet (finish_run rc run)"
proof -
  have "logs quiet (case st_startedAt (cr_status run) of
      None \<Rightarrow> State_Monad.return ()
    | Some t0 \<Rightarrow> State_Monad.bind (read_clock (rc_kube rc))
        (\<lambda>t. log_call (RunDurationObserve sc v (time_sub t t0))))" for sc v
    by (intro triple_rules) simp_all
  then show ?thesis
    unfolding finish_run_def Let_def
    by (intro triple_rules triple_bind [of quiet "\<lambda>_. True"]) simp_all
qed

lemmas sends_rules = sends_if sends_bind [OF triple_failed] sends_bind [OF triple_finalized]
  sends_bind [OF finish_quiet] sends_bind [OF triple_log]

subsection \<open>The handlers past their deadlines\<close>

lemma observing_timeout_sends:
  "sends_once (\<lambda>r. phase_of r = (if needs_cleanup (scenario_of run) then CleaningUp else Completed))
    (observing_timeout rc run)"
  unfolding observing_timeout_def Let_def
  by (intro sends_rules sends_patch triple_return) (auto simp: settled_def)

lemma observing_disabled_sends:
  "sends_once (\<lambda>r. phase_of r = (if needs_cleanup (scenario_of run) then CleaningUp else Completed))
    (observing_disabled rc run)"
  unfolding observing_disabled_def Let_def
  by (intro sends_rules sends_patch triple_return) (auto simp: settled_def)

lemma cleaning_overdue_sends: "sends_once (\<lambda>r. phase_of r = Failed) (cleaning_overdue rc run)"
proof -
  have cond: "triple quiet (\<lambda>_. True) (condition_set k ct st a b run)" for k ct st a b
    unfolding condition_set_def by (rule triple_silent) (rule set_condition_silent)
  show ?thesis
    unfolding cleaning_overdue_def Let_def
    by (intro sends_bind [OF cond] sends_rules sends_patch triple_return) (auto simp: settled_def)
qed

text \<open>The time a handler reads first.\<close>

definition pass_clock :: "'w kube \<Rightarrow> string \<Rightarrow> string \<Rightarrow> 'w sys \<Rightarrow> int" where
  "pass_clock k ns name s = fst (k_now k (snd (k_get_run k ns name (ext s))))"

text \<open>The conditions under which the code gives up waiting, for a run with its defaults.\<close>

definition out_of_time :: "chaos_run \<Rightarrow> int \<Rightarrow> bool" where
  "out_of_time run t \<longleftrightarrow>
     (let ob = sp_observe (cr_spec run); st = cr_status run in
      (st_phase st = Observing \<and> (\<not> o_enabled ob \<or>
         (case observe_anchor st of None \<Rightarrow> False | Some t0 \<Rightarrow> o_timeout ob < time_sub t t0))) \<or>
      (st_phase st = CleaningUp \<and>
         (case st_startedAt st of None \<Rightarrow> False | Some t0 \<Rightarrow> t0 + o_timeout ob + cleanup_grace < t)))"

definition next_when_over :: "chaos_run \<Rightarrow> run_phase" where
  "next_when_over run =
     (if phase_of run = CleaningUp then Failed
      else if needs_cleanup (scenario_of run) then CleaningUp else Completed)"

lemma next_when_over_rank: "out_of_time run t \<Longrightarrow> phase_rank (phase_of run) < phase_rank (next_when_over run)"
  by (auto simp: out_of_time_def next_when_over_def Let_def)

lemma read_clock_run: "run_state (read_clock k) s = (fst (k_now k (ext s)), snd (now k s))"
  by (simp add: read_clock_def now_def read_ext_def split: prod.splits)

lemma now_calls [simp]: "calls (snd (now k s)) = calls s"
  by (cases "now k s") (simp add: now_silent)

lemma out_of_time_sends:
  assumes "out_of_time run (fst (k_now (rc_kube rc) (ext s)))"
    and "cr_deletionTimestamp run = None \<or> \<not> k_contains_finalizer (rc_kube rc) (cr_finalizers run) chaos_run_finalizer"
    and "\<not> ctl_abort (sp_control (cr_spec run)) \<or> phase_of run = CleaningUp"
    and "run_state (reconcile_run rc run) s = (x, s')" and "calls s' = calls s @ new"
  shows "\<exists>r. sent_runs new = [r] \<and> phase_of r = next_when_over run \<and> (\<forall>c \<in> set new. \<not> disruptive c)"
proof -
  let ?P = "\<lambda>r. phase_of r = next_when_over run"
  let ?s = "snd (now (rc_kube rc) s)"
  from assms(1) consider (off) "phase_of run = Observing" "\<not> o_enabled (sp_observe (cr_spec run))"
    | (late) t0 where "phase_of run = Observing" "o_enabled (sp_observe (cr_spec run))"
        "observe_anchor (cr_status run) = Some t0"
        "o_timeout (sp_observe (cr_spec run)) < time_sub (fst (k_now (rc_kube rc) (ext s))) t0"
    | (overdue) t0 where "phase_of run = CleaningUp" "st_startedAt (cr_status run) = Some t0"
        "t0 + o_timeout (sp_observe (cr_spec run)) + cleanup_grace < fst (k_now (rc_kube rc) (ext s))"
    by (auto simp: out_of_time_def Let_def split: option.splits)
  then show ?thesis
  proof cases
    case off
    then have "run_state (observing_disabled rc run) s = (x, s')" "sends_once ?P (observing_disabled rc run)"
      using assms(2-4) observing_disabled_sends [of run rc]
      by (auto simp: reconcile_run_def reconcile_phase_def reconcile_observing_def next_when_over_def)
    from sends_onceD [OF this(2,1) assms(5)] show ?thesis .
  next
    case late
    then have "run_state (observing_timeout rc run) ?s = (x, s')" "sends_once ?P (observing_timeout rc run)"
      using assms(2-4) observing_timeout_sends [of run rc]
      by (auto simp: reconcile_run_def reconcile_phase_def reconcile_observing_def next_when_over_def
          run_state_bind read_clock_run)
    from sends_onceD [OF this(2,1)] assms(5) show ?thesis by simp
  next
    case overdue
    then have "run_state (cleaning_overdue rc run) ?s = (x, s')" "sends_once ?P (cleaning_overdue rc run)"
      using assms(2-4) cleaning_overdue_sends [of rc run]
      by (auto simp: reconcile_run_def reconcile_phase_def reconcile_cleaning_up_def next_when_over_def
          run_state_bind read_clock_run)
    from sends_onceD [OF this(2,1)] assms(5) show ?thesis by simp
  qed
qed

lemma overdue_pass:
  assumes "fst (k_get_run k ns name (ext s)) = Inr run"
    and "out_of_time (set_defaults run) (pass_clock k ns name s)"
    and "cr_deletionTimestamp run = None \<or> \<not> k_contains_finalizer k (cr_finalizers run) chaos_run_finalizer"
    and "\<not> ctl_abort (sp_control (cr_spec run)) \<or> phase_of run = CleaningUp"
    and "run_state (reconcile (operator k newClient tcEnv stressEnv lossPointer) ns name) s = (x, s')"
    and "calls s' = calls s @ new"
  shows "\<exists>r. sent_runs new = [r] \<and> phase_of r = next_when_over run \<and> (\<forall>c \<in> set new. \<not> disruptive c)"
proof -
  let ?rc = "operator k newClient tcEnv stressEnv lossPointer"
  let ?s = "snd (read_ext (k_get_run k ns name) s)"
  have run: "run_state (reconcile_run ?rc (set_defaults run)) ?s = (x, s')"
    using reconcile_fetched [OF assms(5)] assms(1) by simp
  have "ext ?s = snd (k_get_run k ns name (ext s))" by (simp add: read_ext_def split: prod.splits)
  with out_of_time_sends [of "set_defaults run" ?rc, OF _ _ _ run] assms(2-4,6)
  show ?thesis by (simp add: pass_clock_def next_when_over_def cong: if_cong)
qed

text \<open>
  A pass over an observing or a cleaning run that is not out of time sends what its handler sends
  within the time, or what an abort or a deletion sends.
\<close>

lemma observing_in_time:
  assumes "\<not> out_of_time run (fst (k_now (rc_kube rc) (ext s)))" and "phase_of run = Observing"
    and "run_state (reconcile_observing rc run) s = (x, s')"
  shows "\<exists>s1. calls s1 = calls s \<and> run_state (observing_within rc run) s1 = (x, s')"
proof (cases "observe_anchor (cr_status run)")
  case None
  with assms show ?thesis
    by (intro exI [of _ s]) (simp add: out_of_time_def Let_def reconcile_observing_def)
next
  case (Some t0)
  with assms show ?thesis
    by (intro exI [of _ "snd (now (rc_kube rc) s)"])
      (simp add: out_of_time_def Let_def reconcile_observing_def run_state_bind read_clock_run)
qed

lemma cleaning_in_time:
  assumes "\<not> out_of_time run (fst (k_now (rc_kube rc) (ext s)))" and "phase_of run = CleaningUp"
    and "run_state (reconcile_cleaning_up rc run) s = (x, s')"
  shows "\<exists>s1. calls s1 = calls s \<and> run_state (cleaning_try rc run) s1 = (x, s')"
proof (cases "st_startedAt (cr_status run)")
  case None
  with assms show ?thesis by (intro exI [of _ s]) (simp add: reconcile_cleaning_up_def)
next
  case (Some t0)
  with assms show ?thesis
    by (intro exI [of _ "snd (now (rc_kube rc) s)"])
      (simp add: out_of_time_def Let_def reconcile_cleaning_up_def run_state_bind read_clock_run)
qed

lemma patch_of_run:
  "logs (patches_only G) m \<Longrightarrow> run_state m s = (x, s') \<Longrightarrow> calls s' = calls s @ new \<Longrightarrow>
   StatusPatch r ok \<in> set new \<Longrightarrow> G r"
  by (drule (1) tripleD) (auto simp: emits_def)

lemma in_time_patches:
  assumes "rc = operator k newClient tcEnv stressEnv lossPointer"
    and "fst (k_get_run k ns name (ext s)) = Inr run" and "\<not> out_of_time (set_defaults run) (pass_clock k ns name s)"
    and "phase_of run = Observing \<and> logs (patches_only G) (observing_within rc (set_defaults run)) \<and>
        logs (patches_only G) (reconcile_abort rc (set_defaults run)) \<or>
      phase_of run = CleaningUp \<and> logs (patches_only G) (cleaning_try rc (set_defaults run))"
    and "run_state (reconcile rc ns name) s = (x, s')" and "calls s' = calls s @ new" and "StatusPatch r ok \<in> set new"
  shows "G r"
proof -
  let ?s = "snd (read_ext (k_get_run k ns name) s)" and ?run = "set_defaults run"
  have k: "rc_kube rc = k" by (simp add: assms(1))
  have run: "run_state (reconcile_run rc ?run) ?s = (x, s')"
    using reconcile_fetched [OF assms(5)] assms(2) by (simp add: k)
  have "ext ?s = snd (k_get_run k ns name (ext s))" by (simp add: read_ext_def split: prod.splits)
  then have t: "\<not> out_of_time ?run (fst (k_now (rc_kube rc) (ext ?s)))" using assms(3) by (simp add: pass_clock_def k)
  consider (deleted) "run_state (reconcile_deleted rc ?run) ?s = (x, s')"
    | (abort) "phase_of run = Observing" "run_state (reconcile_abort rc ?run) ?s = (x, s')"
    | (observing) "phase_of run = Observing" "run_state (reconcile_observing rc ?run) ?s = (x, s')"
    | (cleaning) "phase_of run = CleaningUp" "run_state (reconcile_cleaning_up rc ?run) ?s = (x, s')"
    using run assms(4) by (auto simp: reconcile_run_def reconcile_phase_def split: if_splits)
  then show ?thesis
  proof cases
    case deleted
    have "logs (patches_only G) (reconcile_deleted rc ?run)" unfolding assms(1) by (rule op.deleted_patches)
    from patch_of_run [OF this deleted] assms(6,7) show ?thesis by simp
  next
    case abort
    from patch_of_run [OF _ abort(2)] abort(1) assms(4,6,7) show ?thesis by auto
  next
    case observing
    from observing_in_time [OF t _ observing(2)] observing(1) obtain s1 where
      "calls s1 = calls ?s" "run_state (observing_within rc ?run) s1 = (x, s')" by auto
    with patch_of_run [of G _ s1] observing(1) assms(4,6,7) show ?thesis by auto
  next
    case cleaning
    from cleaning_in_time [OF t _ cleaning(2)] cleaning(1) obtain s1 where
      "calls s1 = calls ?s" "run_state (cleaning_try rc ?run) s1 = (x, s')" by auto
    with patch_of_run [of G _ s1] cleaning(1) assms(4,6,7) show ?thesis by auto
  qed
qed

subsection \<open>The way to the end\<close>

text \<open>
  \<open>overdue_passes rc ns name p n q\<close>: the server accepted the statuses of \<open>n\<close> passes, each of which
  found the run in the phase the one before had sent, out of time, and not being deleted.
\<close>

inductive overdue_passes :: "'w reconciler \<Rightarrow> string \<Rightarrow> string \<Rightarrow> run_phase \<Rightarrow> nat \<Rightarrow> run_phase \<Rightarrow> bool"
  for rc ns name p where
  none_yet: "overdue_passes rc ns name p 0 p"
| one_more: "overdue_passes rc ns name p n q \<Longrightarrow>
    fst (k_get_run (rc_kube rc) ns name (ext s)) = Inr run \<Longrightarrow> phase_of run = q \<Longrightarrow>
    out_of_time (set_defaults run) (pass_clock (rc_kube rc) ns name s) \<Longrightarrow>
    cr_deletionTimestamp run = None \<Longrightarrow> \<not> ctl_abort (sp_control (cr_spec run)) \<or> phase_of run = CleaningUp \<Longrightarrow>
    run_state (reconcile rc ns name) s = (x, s') \<Longrightarrow> calls s' = calls s @ new \<Longrightarrow>
    StatusPatch r True \<in> set new \<Longrightarrow> overdue_passes rc ns name p (Suc n) (phase_of r)"

lemma sent_patch: "StatusPatch r ok \<in> set cs \<Longrightarrow> r \<in> set (sent_runs cs)"
  by (force simp: sent_runs_def)

lemma overdue_passes_rank:
  assumes "overdue_passes (operator k newClient tcEnv stressEnv lossPointer) ns name p n q"
  shows "phase_rank p + n \<le> phase_rank q \<and>
    (0 < n \<longrightarrow> 2 \<le> phase_rank p \<and> (q = CleaningUp \<or> is_terminal q))"
  using assms
proof (induction rule: overdue_passes.induct)
  case (one_more n q s run x s' new r)
  from overdue_pass [of k ns name s run, OF _ _ _ _ one_more.hyps(7,8)] one_more.hyps(2,4-6)
  obtain r1 where r1: "sent_runs new = [r1]" "phase_of r1 = next_when_over run" by auto
  with sent_patch [OF one_more.hyps(9)] have r: "phase_of r = next_when_over run" by simp
  have "phase_rank q < phase_rank (phase_of r)"
    using next_when_over_rank [OF one_more.hyps(4)] one_more.hyps(3) r by (simp add: next_when_over_def cong: if_cong)
  moreover have "2 \<le> phase_rank p"
    using one_more.IH one_more.hyps(1,3,4)
    by (cases "n = 0") (auto simp: out_of_time_def Let_def elim: overdue_passes.cases)
  moreover have "phase_of r = CleaningUp \<or> is_terminal (phase_of r)"
    by (simp add: r next_when_over_def)
  ultimately show ?case using one_more.IH by auto
qed simp

lemma phase_rank_le: "phase_rank p \<le> 4"
  by (cases p) simp_all

lemma terminal_rank: "is_terminal p \<longleftrightarrow> phase_rank p = 4"
  by (cases p) simp_all

subsection \<open>A disruption longer than its deadline\<close>

text \<open>The clean-up of a run one of whose containers cannot be retired yet leaves the run cleaning up.\<close>

lemma still_live:
  assumes "list_all2 (\<lambda>r r'. retired_from r r' \<and> (\<not> er_cleanedUp r \<and> er_cleanedUp r' \<longrightarrow> may r)) rs rs'"
    and "rec \<in> set rs" and "\<not> er_cleanedUp rec" and "\<not> may rec"
  shows "\<exists>r' \<in> set rs'. \<not> er_cleanedUp r'"
proof -
  from assms(2) obtain i where "i < length rs" "rs ! i = rec" by (auto simp: in_set_conv_nth)
  with list_all2_nthD [OF assms(1)] list_all2_lengthD [OF assms(1)] assms(3,4)
  have "i < length rs'" "\<not> er_cleanedUp (rs' ! i)" by auto
  then show ?thesis using nth_mem by blast
qed

lemma cleaning_try_live:
  assumes "\<And>s e run1 s1. cleanup_driver rc run s = (e, run1, s1) \<Longrightarrow>
      emits quiet s s1 \<and> phase_of run1 = phase_of run \<and> \<not> is_cleanup_complete run1"
  shows "sends_once (\<lambda>r. phase_of r = phase_of run) (cleaning_try rc run)"
proof -
  have "triple quiet (\<lambda>(e, run1). phase_of run1 = phase_of run \<and> \<not> is_cleanup_complete run1)
      (lift_run (cleanup_driver rc) run)"
    unfolding lift_run_def by (rule triple_State) (auto split: prod.splits dest!: assms)
  then show ?thesis
    unfolding cleaning_try_def
    by (rule sends_bind) (auto split: prod.splits intro!: sends_patch triple_return)
qed

lemma chaos_cleanup_live:
  assumes "chaos_cleanup k run s = (e, run1, s1)"
    and "rec \<in> set (st_tcInjections (cr_status run))" and "\<not> er_cleanedUp rec"
    and "\<forall>w. \<not> may_retire k (cr_namespace run) (chaos_duration (s_network (sp_scenario (cr_spec run)))) rec w"
  shows "emits quiet s s1 \<and> phase_of run1 = phase_of run \<and> \<not> is_cleanup_complete run1"
proof -
  obtain recs where l: "retire_records k (cr_namespace run)
      (chaos_duration (s_network (sp_scenario (cr_spec run)))) (st_tcInjections (cr_status run)) s = (e, recs, s1)"
    and run1: "run1 = upd_status (\<lambda>st. st\<lparr>st_tcInjections := recs\<rparr>) run"
    using assms(1) by (auto simp: chaos_cleanup_def split: prod.splits)
  have "list_all2 (\<lambda>r r'. retired_from r r' \<and> (\<not> er_cleanedUp r \<and> er_cleanedUp r' \<longrightarrow>
      (\<exists>w. may_retire k (cr_namespace run) (chaos_duration (s_network (sp_scenario (cr_spec run)))) r w)))
      (st_tcInjections (cr_status run)) recs"
    using retire_records_sound [OF l] by (rule list_all2_mono) (auto simp: retires_soundly_def)
  from still_live [OF this assms(2,3)] assms(4)
  have "\<not> is_cleanup_complete run1"
    by (auto simp: run1 is_cleanup_complete_def Let_def list_all_iff)
  with retire_records_result [OF l] run1 show ?thesis by (auto intro: emits_silent)
qed

lemma not_retired_yet:
  assumes "\<forall>w. \<exists>pod. fst (k_get_pod k ns (er_podName rec) w) = Inr pod \<and>
      (\<forall>st. find_container_state (p_ephStatuses pod) (er_containerName rec) = Some st \<longrightarrow> \<not> es_terminated st)"
    and "er_injectedAt rec = Some t1" and "\<forall>w. fst (k_now k w) < t1 + d" and "0 < d"
  shows "\<not> may_retire k ns d rec w"
proof -
  have "\<not> d \<le> time_sub (fst (k_now k w)) t1" for w
    using assms(4) spec [OF assms(3), of w] by (simp add: time_sub_def min_duration_def)
  moreover obtain pod where "fst (k_get_pod k ns (er_podName rec) w) = Inr pod"
    and "\<forall>st. find_container_state (p_ephStatuses pod) (er_containerName rec) = Some st \<longrightarrow> \<not> es_terminated st"
    using assms(1) by blast
  ultimately show ?thesis using assms(2) by (auto simp: may_retire_def)
qed

lemma chaos_duration_pos: "0 < chaos_duration n"
  by (auto simp: chaos_duration_def chaos_default_duration_def second_def split: option.splits)

subsection \<open>Properties\<close>

text \<open>
  A pass that finds the observation of a run over, by its timeout or because it is switched off,
  or finds the deadline of its cleaning up over, disturbs nothing and sends the status exactly once,
  in the next phase: CleaningUp for a scenario that leaves resources and Completed for the others,
  and from CleaningUp always Failed.
\<close>

theorem overdue_run_moves_on:
  assumes "fst (k_get_run k ns name (ext s)) = Inr run"
    and "out_of_time (set_defaults run) (pass_clock k ns name s)"
    and "cr_deletionTimestamp run = None \<or> \<not> k_contains_finalizer k (cr_finalizers run) chaos_run_finalizer"
    and "\<not> ctl_abort (sp_control (cr_spec run)) \<or> phase_of run = CleaningUp"
    and "run_state (reconcile (operator k newClient tcEnv stressEnv lossPointer) ns name) s = (x, s')"
    and "calls s' = calls s @ new"
  shows "\<exists>r. sent_runs new = [r] \<and> (\<forall>c \<in> set new. \<not> disruptive c) \<and>
    phase_of r = (if phase_of run = CleaningUp then Failed
      else if scenario_of run \<in> {NetworkPartition, NetworkChaos, ResourceExhaustion} then CleaningUp else Completed)"
  using overdue_pass [OF assms] by (auto simp: next_when_over_def needs_cleanup_def)

text \<open>A partition under observation since the epoch, and the same run cleaning up since then.\<close>

definition demo_late :: "run_phase \<Rightarrow> chaos_run" where
  "demo_late p = upd_status (\<lambda>st. st\<lparr>st_startedAt := Some 0, st_observingStartedAt := Some 0\<rparr>)
     (with_network NetworkPartition demo_network (demo_run p))"

lemma demo_late_simps [simp]:
  "phase_of (demo_late p) = p" "cr_deletionTimestamp (demo_late p) = None" "cr_finalizers (demo_late p) = []"
  "sp_control (cr_spec (demo_late p)) = \<lparr>ctl_abort = False\<rparr>" "cr_name (demo_late p) = ''kill-one''"
  "scenario_of (demo_late p) = NetworkPartition"
  by (simp_all add: demo_late_def with_network_def demo_run_def demo_status_def demo_spec_def)

lemma demo_late_fetch:
  "fst (k_get_run demo_kube ''flink'' ''kill-one'' (ext (demo_sys (demo_late p)))) = Inr (demo_late p)"
  by (rule demo_fetch) simp

lemma demo_late_over:
  "p = Observing \<or> p = CleaningUp \<Longrightarrow>
   out_of_time (set_defaults (demo_late p)) (pass_clock demo_kube ''flink'' ''kill-one'' (demo_sys (demo_late p)))"
proof (elim disjE)
  show "out_of_time (set_defaults (demo_late p)) (pass_clock demo_kube ''flink'' ''kill-one'' (demo_sys (demo_late p)))"
    if "p = Observing" unfolding that by code_simp
  show "out_of_time (set_defaults (demo_late p)) (pass_clock demo_kube ''flink'' ''kill-one'' (demo_sys (demo_late p)))"
    if "p = CleaningUp" unfolding that by code_simp
qed

theorem overdue_run_moves_on_witness:
  "\<exists>r. sent_runs (calls (snd (demo_pass (demo_sys (demo_late Observing))))) = [r] \<and> phase_of r = CleaningUp"
proof -
  have "\<exists>r. sent_runs (calls (snd (demo_pass (demo_sys (demo_late Observing))))) = [r] \<and>
      (\<forall>c \<in> set (calls (snd (demo_pass (demo_sys (demo_late Observing))))). \<not> disruptive c) \<and> phase_of r = CleaningUp"
    using overdue_run_moves_on [OF demo_late_fetch demo_late_over _ _ demo_pass_run demo_new, of Observing] by simp
  then show ?thesis by blast
qed

text \<open>
  C11. Passes over a run that is out of time come to an end: however many there are whose status the
  server accepts, there are at most two, each raises the rank of the phase, and after one the run is
  cleaning up or terminal, after two terminal.
\<close>

theorem overdue_runs_end:
  assumes "overdue_passes (operator k newClient tcEnv stressEnv lossPointer) ns name p n q"
  shows "n \<le> 2 \<and> phase_rank p + n \<le> phase_rank q \<and> (n = 1 \<longrightarrow> q = CleaningUp \<or> is_terminal q) \<and>
    (n = 2 \<longrightarrow> is_terminal q)"
  using overdue_passes_rank [OF assms] phase_rank_le [of q] by (auto simp: terminal_rank)

lemma demo_late_pass:
  assumes "overdue_passes (operator demo_kube demo_client '''' '''' ''0xc000012345'') ''flink'' ''kill-one'' Observing n p"
    and "p = Observing \<or> p = CleaningUp"
    and "list_ex (\<lambda>c. case c of StatusPatch r ok \<Rightarrow> ok \<and> phase_of r = q | _ \<Rightarrow> False)
      (calls (snd (demo_pass (demo_sys (demo_late p)))))"
  shows "overdue_passes (operator demo_kube demo_client '''' '''' ''0xc000012345'') ''flink'' ''kill-one'' Observing (Suc n) q"
proof -
  let ?cs = "calls (snd (demo_pass (demo_sys (demo_late p))))"
  from assms(3) obtain c where c: "c \<in> set ?cs"
    "case c of StatusPatch r ok \<Rightarrow> ok \<and> phase_of r = q | _ \<Rightarrow> False"
    by (auto simp only: list_ex_iff)
  from c(2) obtain r where "c = StatusPatch r True" and q: "phase_of r = q" by (cases c) simp_all
  with c(1) have r: "StatusPatch r True \<in> set ?cs" by simp
  from overdue_passes.one_more [OF assms(1) _ _ _ _ _ demo_pass_run demo_new r, of "demo_late p"] q
    demo_late_fetch demo_late_over [OF assms(2)]
  show ?thesis by simp
qed

theorem overdue_runs_end_witness:
  "\<exists>q. overdue_passes (operator demo_kube demo_client '''' '''' ''0xc000012345'') ''flink'' ''kill-one'' Observing 2 q \<and>
     is_terminal q"
proof -
  let ?rc = "operator demo_kube demo_client '''' '''' ''0xc000012345''"
  let ?sends = "\<lambda>q. \<lambda>c. case c of StatusPatch r ok \<Rightarrow> ok \<and> phase_of r = q | _ \<Rightarrow> False"
  have "list_ex (?sends CleaningUp) (calls (snd (demo_pass (demo_sys (demo_late Observing)))))" by code_simp
  from demo_late_pass [OF overdue_passes.none_yet _ this]
  have one: "overdue_passes ?rc ''flink'' ''kill-one'' Observing (Suc 0) CleaningUp" by simp
  have "list_ex (?sends Failed) (calls (snd (demo_pass (demo_sys (demo_late CleaningUp)))))" by code_simp
  from demo_late_pass [OF one _ this]
  have two: "overdue_passes ?rc ''flink'' ''kill-one'' Observing 2 Failed" by (simp add: numeral_2_eq_2)
  from overdue_runs_end [OF two] two show ?thesis by blast
qed

text \<open>
  C30. A NetworkChaos run whose containers live beyond its clean-up deadline, that is the observation
  timeout and five minutes after the start, never completes: while a container runs and its
  duration has not passed, each pass over the cleaning run sends the status once and without
  disturbing anything, and leaves it cleaning up or, after the deadline, forces it to Failed. The
  clock may advance by a bounded drift within the pass.
\<close>

theorem long_chaos_never_completes:
  assumes "fst (k_get_run k ns name (ext s)) = Inr run" and "phase_of run = CleaningUp"
    and "scenario_of run = NetworkChaos" and "cr_deletionTimestamp run = None"
    and "st_startedAt (cr_status run) = Some t0"
    and "rec \<in> set (st_tcInjections (cr_status run))" and "\<not> er_cleanedUp rec" and "er_injectedAt rec = Some t1"
    and "\<forall>w. \<exists>pod. fst (k_get_pod k (cr_namespace run) (er_podName rec) w) = Inr pod \<and>
      (\<forall>st. find_container_state (p_ephStatuses pod) (er_containerName rec) = Some st \<longrightarrow> \<not> es_terminated st)"
    and "\<forall>w. t \<le> fst (k_now k w) \<and> fst (k_now k w) \<le> t + drift"
    and "t0 + o_timeout (sp_observe (cr_spec (set_defaults run))) + cleanup_grace + drift
      < t1 + chaos_duration (s_network (sp_scenario (cr_spec (set_defaults run))))"
    and "run_state (reconcile (operator k newClient tcEnv stressEnv lossPointer) ns name) s = (x, s')"
    and "calls s' = calls s @ new"
  shows "\<exists>r. sent_runs new = [r] \<and> (\<forall>c \<in> set new. \<not> disruptive c) \<and>
    phase_of r = (if out_of_time (set_defaults run) (pass_clock k ns name s) then Failed else CleaningUp)"
proof (cases "out_of_time (set_defaults run) (pass_clock k ns name s)")
  case True
  from overdue_pass [OF assms(1) True _ _ assms(12,13)] assms(2,4) True show ?thesis
    by (auto simp: next_when_over_def)
next
  case False
  let ?rc = "operator k newClient tcEnv stressEnv lossPointer" and ?run = "set_defaults run"
  let ?s = "snd (read_ext (k_get_run k ns name) s)"
  have ext: "ext ?s = snd (k_get_run k ns name (ext s))" by (simp add: read_ext_def split: prod.splits)
  have "\<not> t0 + o_timeout (sp_observe (cr_spec ?run)) + cleanup_grace < fst (k_now k (ext ?s))"
    using False assms(2,5) by (simp add: out_of_time_def Let_def pass_clock_def ext)
  moreover have "run_state (reconcile_cleaning_up ?rc ?run) ?s = (x, s')"
    using reconcile_fetched [OF assms(12)] assms(1,2,4) by (simp add: reconcile_run_def reconcile_phase_def)
  ultimately have pass: "run_state (cleaning_try ?rc ?run) (snd (now k ?s)) = (x, s')"
    and t: "fst (k_now k (ext ?s)) \<le> t0 + o_timeout (sp_observe (cr_spec ?run)) + cleanup_grace"
    using assms(5) by (simp_all add: reconcile_cleaning_up_def run_state_bind read_clock_run)
  have "fst (k_now k w) < t1 + chaos_duration (s_network (sp_scenario (cr_spec ?run)))" for w
    using assms(10,11) t spec [OF assms(10), of w] spec [OF assms(10), of "ext ?s"] by linarith
  then have live: "\<forall>w. \<not> may_retire k (cr_namespace ?run) (chaos_duration (s_network (sp_scenario (cr_spec ?run)))) rec w"
    by (intro allI not_retired_yet [OF _ assms(8)]) (use assms(9) in \<open>simp_all add: chaos_duration_pos\<close>)
  have "sends_once (\<lambda>r. phase_of r = phase_of ?run) (cleaning_try ?rc ?run)"
  proof (rule cleaning_try_live)
    fix s e run1 s1
    assume "cleanup_driver ?rc ?run s = (e, run1, s1)"
    then have "chaos_cleanup k ?run s = (e, run1, s1)"
      using assms(3) by (simp add: cleanup_driver_def operator_def operator_drivers_def Let_def)
    from chaos_cleanup_live [OF this _ assms(7) live] assms(6)
    show "emits quiet s s1 \<and> phase_of run1 = phase_of ?run \<and> \<not> is_cleanup_complete run1" by simp
  qed
  from sends_onceD [OF this pass] assms(2,13) False show ?thesis by auto
qed

text \<open>
  A server whose clock stands still, with both pods of the target running and no ephemeral container
  ended, and a disruption of twenty minutes injected with the start of the run.
\<close>

definition still_kube :: "world kube" where
  "still_kube = demo_kube\<lparr>k_now := \<lambda>w. (600000000000, w),
     k_get_pod := \<lambda>ns n w. (Inr (demo_pod n ''taskmanager''), w)\<rparr>"

definition demo_long :: chaos_run where
  "demo_long = upd_status (\<lambda>st. st\<lparr>st_startedAt := Some 0, st_tcInjections :=
     [\<lparr>er_podName = ''tm-0'', er_containerName = ''fchaos-tc-kill-one-0'', er_injectedAt = Some 0,
       er_cleanedUp = False\<rparr>]\<rparr>)
     (with_network NetworkChaos (demo_network\<lparr>n_duration := Some 1200000000000\<rparr>) (demo_run CleaningUp))"

theorem long_chaos_never_completes_witness:
  "map phase_of (sent_runs (calls (snd (run_state (reconcile (operator still_kube demo_client '''' '''' '''')
     ''flink'' ''kill-one'') (demo_sys demo_long))))) = [CleaningUp]"
proof -
  let ?p = "run_state (reconcile (operator still_kube demo_client '''' '''' '''') ''flink'' ''kill-one'') (demo_sys demo_long)"
  have f: "fst (k_get_run still_kube ''flink'' ''kill-one'' (ext (demo_sys demo_long))) = Inr demo_long"
    by (simp add: still_kube_def demo_kube_def demo_sys_def demo_long_def with_network_def demo_run_def)
  have p: "?p = (fst ?p, snd ?p)" by simp
  have n: "calls (snd ?p) = calls (demo_sys demo_long) @ calls (snd ?p)" by (simp add: demo_sys_def)
  have late: "\<not> out_of_time (set_defaults demo_long) (pass_clock still_kube ''flink'' ''kill-one'' (demo_sys demo_long))"
    by code_simp
  have c: "\<forall>w. 600000000000 \<le> fst (k_now still_kube w) \<and> fst (k_now still_kube w) \<le> 600000000000 + (0 :: int)"
    by (simp add: still_kube_def)
  have w: "0 + o_timeout (sp_observe (cr_spec (set_defaults demo_long))) + cleanup_grace + 0
      < 0 + chaos_duration (s_network (sp_scenario (cr_spec (set_defaults demo_long))))" by code_simp
  have "\<exists>r. sent_runs (calls (snd ?p)) = [r] \<and> (\<forall>c \<in> set (calls (snd ?p)). \<not> disruptive c) \<and> phase_of r =
      (if out_of_time (set_defaults demo_long) (pass_clock still_kube ''flink'' ''kill-one'' (demo_sys demo_long))
       then Failed else CleaningUp)"
    by (rule long_chaos_never_completes [OF f _ _ _ _ _ _ _ _ c w p n, of "\<lparr>er_podName = ''tm-0'',
          er_containerName = ''fchaos-tc-kill-one-0'', er_injectedAt = Some 0, er_cleanedUp = False\<rparr>"])
      (simp_all add: demo_long_def with_network_def demo_run_def demo_status_def still_kube_def demo_pod_def)
  with late show ?thesis by auto
qed

end
