(* ===== verification/Metrics.thy ===== *)
theory Metrics
  imports Deadlines
begin

section \<open>The operator's metrics\<close>

text \<open>
  \<^verbatim>\<open>internal/controller/metrics.go\<close>. Each update of a metric is a call in the log of a pass, and
  \<open>metric_of\<close> names the metric with its labels. The comment of \<^verbatim>\<open>fchaos_runs_total\<close> asks for one
  increment per terminal transition; this theory compares the increments of a pass with the terminal
  statuses it sends.
\<close>

subsection \<open>Increments and endings\<close>

definition counts_run :: "call \<Rightarrow> string list option" where
  "counts_run c = (case metric_of c of
     None \<Rightarrow> None
   | Some (metric, labels) \<Rightarrow> if metric = ''fchaos_runs_total'' then Some labels else None)"

definition runs_counted :: "call list \<Rightarrow> string list list" where
  "runs_counted cs = List.map_filter counts_run cs"

definition run_labels :: "chaos_run \<Rightarrow> string list" where
  "run_labels r = [string_of_scenario (scenario_of r), string_of_phase (phase_of r), string_of_verdict (st_verdict (cr_status r))]"

definition endings :: "call list \<Rightarrow> string list list" where
  "endings cs = map run_labels (filter (\<lambda>r. is_terminal (phase_of r)) (sent_runs cs))"

lemma counts_run_simps [simp]:
  "counts_run (RunsTotalInc sc p v) = Some [sc, p, v]"
  "counts_run (StatusPatch r ok) = None" "counts_run (ObjectPatch r ok) = None" "counts_run (Event x y z) = None"
  "counts_run (RunDurationObserve x y t) = None" "counts_run (InjectionsTotalInc x) = None"
  "counts_run AbortRequestsInc = None" "counts_run RecoveryObservedInc = None"
  by (simp_all add: counts_run_def)

lemma metric_None_uncounted: "metric_of c = None \<Longrightarrow> counts_run c = None"
  by (simp add: counts_run_def)

lemma runs_counted_simps [simp]:
  "runs_counted [] = []"
  "runs_counted (c # cs) = (case counts_run c of None \<Rightarrow> runs_counted cs | Some l \<Rightarrow> l # runs_counted cs)"
  "runs_counted (cs @ ds) = runs_counted cs @ runs_counted ds"
  by (simp_all add: runs_counted_def map_filter_def split: option.splits)

lemma endings_append [simp]: "endings (cs @ ds) = endings cs @ endings ds"
  by (simp add: endings_def sent_runs_def)

lemma uncounted_log: "\<forall>c \<in> set cs. counts_run c = None \<Longrightarrow> runs_counted cs = []"
  by (induction cs) simp_all

text \<open>A call that neither counts a run nor ends one.\<close>

definition neutral :: "call \<Rightarrow> bool" where
  "neutral c \<longleftrightarrow> counts_run c = None \<and> (\<forall>r ok. c = StatusPatch r ok \<longrightarrow> \<not> is_terminal (phase_of r))"

lemma neutral_simps [simp]:
  "neutral (StatusPatch r ok) \<longleftrightarrow> \<not> is_terminal (phase_of r)"
  "neutral (ObjectPatch r ok)" "neutral (Event x y z)" "neutral (RunDurationObserve x y t)"
  "neutral (InjectionsTotalInc x)" "neutral AbortRequestsInc" "neutral RecoveryObservedInc"
  by (simp_all add: neutral_def)

lemma neutral_log: "\<forall>c \<in> set cs. neutral c \<Longrightarrow> runs_counted cs = [] \<and> endings cs = []"
proof (induction cs)
  case (Cons c cs)
  then show ?case
    by (cases c) (simp_all add: neutral_def endings_def sent_runs_def)
qed (simp add: endings_def sent_runs_def)

subsection \<open>A ledger of increments and endings\<close>

text \<open>
  \<open>owed D m\<close>: with the increments \<open>D\<close> made before, those that \<open>m\<close> makes are the endings it sends.
\<close>

definition owed :: "string list list \<Rightarrow> ('w sys, 'a) state \<Rightarrow> bool" where
  "owed D m \<longleftrightarrow> (\<forall>s a s'. run_state m s = (a, s') \<longrightarrow>
     (\<exists>new. calls s' = calls s @ new \<and> D @ runs_counted new = endings new))"

lemma owedD:
  assumes "owed D m" and "run_state m s = (a, s')" and "calls s' = calls s @ new"
  shows "D @ runs_counted new = endings new"
  using assms unfolding owed_def by fastforce

lemma owed_bind:
  assumes "triple neutral Q m" and "\<And>a. Q a \<Longrightarrow> owed D (f a)"
  shows "owed D (State_Monad.bind m f)"
  unfolding owed_def
proof (intro allI impI)
  fix s b s'
  assume run: "run_state (State_Monad.bind m f) s = (b, s')"
  obtain a s1 where m: "run_state m s = (a, s1)" by (cases "run_state m s")
  with run have f: "run_state (f a) s1 = (b, s')" by (simp add: run_state_bind)
  from tripleD [OF assms(1) m] obtain one where one: "calls s1 = calls s @ one" "\<forall>c \<in> set one. neutral c"
    and a: "Q a" by (auto simp: emits_def)
  from assms(2) [OF a] f obtain new where "calls s' = calls s1 @ new" "D @ runs_counted new = endings new"
    unfolding owed_def by blast
  with one neutral_log [OF one(2)]
  show "\<exists>new. calls s' = calls s @ new \<and> D @ runs_counted new = endings new"
    by (intro exI [of _ "one @ new"]) simp
qed

lemma neutral_owed: "logs neutral m \<Longrightarrow> owed [] m"
  unfolding owed_def
proof (intro allI impI)
  fix s a s'
  assume "logs neutral m" and "run_state m s = (a, s')"
  then obtain new where "calls s' = calls s @ new" "\<forall>c \<in> set new. neutral c"
    by (auto simp: emits_def dest!: tripleD)
  with neutral_log [of new] show "\<exists>new. calls s' = calls s @ new \<and> [] @ runs_counted new = endings new" by auto
qed

lemma owed_return: "owed [] (State_Monad.return a)"
  by (rule neutral_owed) (rule triple_return, simp)

lemma owed_if: "(b \<Longrightarrow> owed D m) \<Longrightarrow> (\<not> b \<Longrightarrow> owed D n) \<Longrightarrow> owed D (if b then m else n)"
  by simp

lemma owed_option:
  "(x = None \<Longrightarrow> owed D m) \<Longrightarrow> (\<And>y. x = Some y \<Longrightarrow> owed D (f y)) \<Longrightarrow>
   owed D (case x of None \<Rightarrow> m | Some y \<Rightarrow> f y)"
  by (cases x) simp_all

lemma owed_sum:
  "(\<And>e. x = Inl e \<Longrightarrow> owed D (f e)) \<Longrightarrow> (\<And>y. x = Inr y \<Longrightarrow> owed D (g y)) \<Longrightarrow>
   owed D (case x of Inl e \<Rightarrow> f e | Inr y \<Rightarrow> g y)"
  by (cases x) simp_all

lemma owed_prod: "(\<And>a b. x = (a, b) \<Longrightarrow> owed D (f a b)) \<Longrightarrow> owed D (case x of (a, b) \<Rightarrow> f a b)"
  by (cases x) simp

text \<open>A terminal patch settles the increment of \<^verbatim>\<open>finishRun\<close>, any other one changes nothing.\<close>

lemma patch_log:
  assumes "run_state (patch_status k base run rest) s = (a, s')"
  obtains ok s1 where "calls s1 = calls s @ [StatusPatch run ok]"
    "(ok \<and> (\<exists>r. run_state (rest r) s1 = (a, s'))) \<or> s' = s1"
proof -
  obtain p s1 where p: "status_patch k base run s = (p, s1)" (is "?p = _") by (cases ?p)
  show ?thesis
  proof (rule that)
    show "calls s1 = calls s @ [StatusPatch run (succeeded p)]" using status_patch_calls [OF p] .
    show "(succeeded p \<and> (\<exists>r. run_state (rest r) s1 = (a, s'))) \<or> s' = s1"
      using assms p by (cases p) (auto simp: patch_status_def run_state_bind)
  qed
qed

lemma owed_patch_open:
  assumes "\<not> is_terminal (phase_of run)" and "\<And>r. owed [] (rest r)"
  shows "owed [] (patch_status k base run rest)"
  unfolding owed_def
proof (intro allI impI)
  fix s a s'
  assume "run_state (patch_status k base run rest) s = (a, s')"
  then show "\<exists>new. calls s' = calls s @ new \<and> [] @ runs_counted new = endings new"
  proof (rule patch_log)
    fix ok s1
    assume c: "calls s1 = calls s @ [StatusPatch run ok]" and "ok \<and> (\<exists>r. run_state (rest r) s1 = (a, s')) \<or> s' = s1"
    then obtain tl where "calls s' = calls s1 @ tl" "runs_counted tl = endings tl"
      using assms(2) unfolding owed_def by (force simp: endings_def)
    with c assms(1) show ?thesis
      by (intro exI [of _ "StatusPatch run ok # tl"]) (simp add: endings_def)
  qed
qed

lemma owed_patch_ended:
  assumes "is_terminal (phase_of run)" and "\<And>r. logs neutral (rest r)"
  shows "owed [run_labels run] (patch_status k base run rest)"
  unfolding owed_def
proof (intro allI impI)
  fix s a s'
  assume "run_state (patch_status k base run rest) s = (a, s')"
  then show "\<exists>new. calls s' = calls s @ new \<and> [run_labels run] @ runs_counted new = endings new"
  proof (rule patch_log)
    fix ok s1
    assume c: "calls s1 = calls s @ [StatusPatch run ok]" and "ok \<and> (\<exists>r. run_state (rest r) s1 = (a, s')) \<or> s' = s1"
    then have "emits neutral s1 s'" using tripleD [OF assms(2)] by blast
    then obtain tl where "calls s' = calls s1 @ tl" "\<forall>c \<in> set tl. neutral c" by (auto simp: emits_def)
    with c assms(1) neutral_log [of tl] show ?thesis
      by (intro exI [of _ "StatusPatch run ok # tl"]) (simp add: endings_def)
  qed
qed

lemma finish_log:
  assumes "run_state (finish_run rc run) s = (u, s')"
  obtains tl where "calls s' = calls s @ RunsTotalInc (string_of_scenario (scenario_of run))
      (string_of_phase (phase_of run)) (string_of_verdict (st_verdict (cr_status run))) # tl" "\<forall>c \<in> set tl. neutral c"
proof -
  let ?count = "RunsTotalInc (string_of_scenario (scenario_of run)) (string_of_phase (phase_of run))
    (string_of_verdict (st_verdict (cr_status run)))"
  have duration: "logs neutral (case st_startedAt (cr_status run) of
      None \<Rightarrow> State_Monad.return ()
    | Some t0 \<Rightarrow> State_Monad.bind (read_clock (rc_kube rc))
        (\<lambda>t. log_call (RunDurationObserve sc v (time_sub t t0))))" for sc v
    by (intro triple_rules) simp_all
  obtain m where m: "finish_run rc run = State_Monad.bind (log_call ?count) (\<lambda>_. m)" "logs neutral m"
  proof (rule that)
    show "finish_run rc run = State_Monad.bind (log_call ?count) (\<lambda>_. State_Monad.bind (case st_startedAt (cr_status run) of
        None \<Rightarrow> State_Monad.return ()
      | Some t0 \<Rightarrow> State_Monad.bind (read_clock (rc_kube rc)) (\<lambda>t. log_call (RunDurationObserve
          (string_of_scenario (scenario_of run)) (string_of_verdict (st_verdict (cr_status run))) (time_sub t t0))))
      (\<lambda>_. log_call (Event ''Normal'' ''RunFinished'' (''ChaosRun reached terminal phase '' @
        string_of_phase (phase_of run) @ '' with verdict '' @ string_of_verdict (st_verdict (cr_status run))))))"
      by (simp add: finish_run_def Let_def)
  qed (intro triple_bind [OF duration] triple_log, simp)
  with assms have "run_state m (emit ?count s) = (u, s')" by (simp add: run_state_bind log_call_def)
  from tripleD [OF m(2) this] that show ?thesis by (auto simp: emits_def emit_def)
qed

lemma owed_finish:
  assumes "owed [run_labels run] m"
  shows "owed [] (State_Monad.bind (finish_run rc run) (\<lambda>_. m))"
  unfolding owed_def
proof (intro allI impI)
  fix s b s'
  assume run: "run_state (State_Monad.bind (finish_run rc run) (\<lambda>_. m)) s = (b, s')"
  obtain u s1 where f: "run_state (finish_run rc run) s = (u, s1)" by (cases "run_state (finish_run rc run) s")
  with run have m: "run_state m s1 = (b, s')" by (simp add: run_state_bind)
  with assms obtain new where new: "calls s' = calls s1 @ new" "[run_labels run] @ runs_counted new = endings new"
    unfolding owed_def by blast
  from f obtain tl where tl: "calls s1 = calls s @ RunsTotalInc (string_of_scenario (scenario_of run))
      (string_of_phase (phase_of run)) (string_of_verdict (st_verdict (cr_status run))) # tl" "\<forall>c \<in> set tl. neutral c"
    by (rule finish_log)
  let ?one = "RunsTotalInc (string_of_scenario (scenario_of run)) (string_of_phase (phase_of run))
    (string_of_verdict (st_verdict (cr_status run))) # tl"
  have "endings ?one = []" using neutral_log [OF tl(2)] by (simp add: endings_def sent_runs_def)
  with new tl neutral_log [OF tl(2)]
  show "\<exists>new. calls s' = calls s @ new \<and> [] @ runs_counted new = endings new"
    by (intro exI [of _ "?one @ new"]) (simp add: run_labels_def del: endings_append, simp add: endings_append [of ?one, simplified])
qed

lemmas owed_rules = owed_return owed_if owed_option owed_sum owed_prod owed_finish owed_patch_open owed_patch_ended
  owed_bind [OF triple_clock] owed_bind [OF triple_log] owed_bind [OF condition_carries]
  owed_bind [OF finalized_carries] owed_bind [OF failed_carries] owed_bind [OF aborted_carries]

lemma ended_terminal: "ended_as p v m r r' \<Longrightarrow> is_terminal p \<Longrightarrow> is_terminal (phase_of r')"
  by (simp add: ended_as_def Let_def)

lemma neutral_object:
  assumes "\<And>r. logs neutral (rest r)"
  shows "logs neutral (patch_object k base run rest)"
proof -
  have "logs neutral (State (object_patch k base run))"
    by (rule triple_State) (auto dest!: object_patch_calls simp: emits_def)
  then show ?thesis
    unfolding patch_object_def
    by (rule triple_bind, intro triple_sum) (auto intro!: triple_return assms)
qed

lemma drop_finalizer_neutral: "logs neutral (drop_finalizer rc run)"
proof -
  have "logs neutral (State (read_ext (k_get_run (rc_kube rc) ns n)))" for ns n
    by (rule triple_silent) (rule read_ext_silent)
  then show ?thesis
    unfolding drop_finalizer_def Let_def
    by (intro triple_rules neutral_object triple_bind [of _ "\<lambda>_. True"]) auto
qed

subsection \<open>The handlers\<close>

context operator_parts begin

lemma observing_owed:
  assumes "phase_of run = Observing"
  shows "owed [] (reconcile_observing rc run)"
proof -
  have open_run: "\<not> is_terminal (phase_of run)" using assms by simp
  have disabled: "owed [] (observing_disabled rc run)"
    unfolding observing_disabled_def Let_def
    by (intro owed_rules triple_return) (auto dest: ended_terminal)
  have late: "owed [] (observing_timeout rc run)"
    unfolding observing_timeout_def Let_def
    by (intro owed_rules triple_return) (auto dest: ended_terminal)
  have part: "owed [] (observing_partition rc run d t0)" for d t0
    unfolding observing_partition_def Let_def
    by (intro owed_rules triple_return) (use open_run in auto)
  have secs: "logs neutral (case anchor of None \<Rightarrow> State_Monad.return None
      | Some t0 \<Rightarrow> State_Monad.bind (read_clock (rc_kube rc))
          (\<lambda>t. State_Monad.return (Some (whole_seconds (time_sub t t0)))))" for anchor
    by (intro carry_rules) simp_all
  have recovered: "owed [] (observing_recovered rc run r anchor)" for r anchor
    unfolding observing_recovered_def Let_def
    by (intro owed_rules owed_bind [OF secs] triple_return) (auto dest: ended_terminal)
  have poll: "owed [] (observing_poll rc run)"
    unfolding observing_poll_def Let_def
    by (intro owed_rules owed_bind [OF triple_resolve] owed_bind [OF triple_observe] recovered)
      (use assms in \<open>simp_all add: record_observation_def Let_def\<close>)
  have within: "owed [] (observing_within rc run)"
    unfolding observing_within_def by (intro owed_rules poll part)
  show ?thesis
    unfolding reconcile_observing_def by (intro owed_rules disabled late within)
qed

lemma cleanup_neutral: "triple neutral (\<lambda>(e, r). driver_frame run r) (lift_run (cleanup_driver rc) run)"
proof -
  have "neutral c" if "\<not> is_write_of_run c" "metric_of c = None" for c
    using that by (cases c) (simp_all add: neutral_def counts_run_def)
  then show ?thesis
    unfolding lift_run_def
    by (intro triple_State) (auto split: prod.splits dest!: cleanup_effect elim!: emits_mono)
qed

lemma cleaning_owed:
  assumes "phase_of run = CleaningUp"
  shows "owed [] (reconcile_cleaning_up rc run)"
proof -
  have verdict: "triple neutral (\<lambda>r2. is_terminal (phase_of r2))
      (if has_condition_true (st_conditions (cr_status r1)) AbortRequested
       then aborted_run (rc_kube rc) m r1 else finalized_run (rc_kube rc) v m' r1)" for r1 m v m'
    by (simp, intro conjI impI triple_weaken [OF aborted_carries] triple_weaken [OF finalized_carries])
      (auto dest: ended_terminal)
  have complete: "owed [] (cleaning_complete rc run r)" for r
    unfolding cleaning_complete_def Let_def
    by (intro owed_rules owed_bind [OF verdict] drop_finalizer_neutral) simp_all
  have attempt: "owed [] (cleaning_try rc run)"
    unfolding cleaning_try_def
    by (intro owed_rules owed_bind [OF cleanup_neutral] complete) (use assms in \<open>auto dest: driver_frame_phase\<close>)
  show ?thesis
    unfolding reconcile_cleaning_up_def cleaning_overdue_def Let_def
    by (intro owed_rules attempt triple_return) (auto dest: ended_terminal)
qed

text \<open>Before observation no handler counts anything, whatever it sends.\<close>

lemma patch_uncounted:
  assumes "\<And>r. logs (\<lambda>c. counts_run c = None) (rest r)"
  shows "logs (\<lambda>c. counts_run c = None) (patch_status k base run rest)"
    and "logs (\<lambda>c. counts_run c = None) (patch_object k base run rest)"
proof -
  have "logs (\<lambda>c. counts_run c = None) (State (status_patch k base run))"
    by (rule triple_State) (auto dest!: status_patch_calls simp: emits_def)
  then show "logs (\<lambda>c. counts_run c = None) (patch_status k base run rest)"
    unfolding patch_status_def
    by (rule triple_bind, intro triple_sum) (auto intro!: triple_return assms)
  have "logs (\<lambda>c. counts_run c = None) (State (object_patch k base run))"
    by (rule triple_State) (auto dest!: object_patch_calls simp: emits_def)
  then show "logs (\<lambda>c. counts_run c = None) (patch_object k base run rest)"
    unfolding patch_object_def
    by (rule triple_bind, intro triple_sum) (auto intro!: triple_return assms)
qed

lemma inject_uncounted:
  "logs (\<lambda>c. counts_run c = None) (lift_run (inject_chaos rc t) run)"
  unfolding lift_run_def
  by (rule triple_State)
    (auto split: prod.splits dest!: inject_effect elim!: emits_mono intro: metric_None_uncounted disruptive_no_metric)

lemma triple_driver_result:
  "(\<And>msg. triple P Q (f msg)) \<Longrightarrow> (\<And>e u. triple P Q (g e u)) \<Longrightarrow> (\<And>res. triple P Q (h res)) \<Longrightarrow>
   triple P Q (case r of DriverPanic msg \<Rightarrow> f msg | DriverError e u \<Rightarrow> g e u | DriverOk res \<Rightarrow> h res)"
  by (cases r) simp_all

lemmas uncounted_rules = triple_driver_result triple_return triple_if triple_option triple_sum triple_prod bind_clock bind_log last_log
  triple_bind [OF condition_carries] triple_bind [OF finalized_carries] triple_bind [OF failed_carries] patch_uncounted
  bind_resolve bind_safety triple_bind [OF inject_uncounted] triple_bind [OF triple_stable]

lemma wait_uncounted: "logs (\<lambda>c. counts_run c = None) (wait_for_stable_checkpoint rc run base)"
proof -
  have "logs (\<lambda>c. counts_run c = None) (State (status_patch k b r))" for k b r
    by (rule triple_State) (auto dest!: status_patch_calls simp: emits_def)
  then show ?thesis
    unfolding wait_for_stable_checkpoint_def Let_def
    by (intro uncounted_rules triple_bind [of _ "\<lambda>_. True" "State (status_patch _ _ _)"]) simp_all
qed

lemma pending_uncounted: "logs (\<lambda>c. counts_run c = None) (reconcile_pending rc run)"
  unfolding reconcile_pending_def pending_invalid_def pending_checkpoint_wait_def start_injecting_def Let_def
  by (intro uncounted_rules triple_bind [OF wait_uncounted]) simp_all

lemma injecting_uncounted: "logs (\<lambda>c. counts_run c = None) (reconcile_injecting rc run)"
  unfolding reconcile_injecting_def transition_to_observing_def injecting_unresolved_def injecting_resolved_def
    injecting_unsafe_def injecting_checked_def injecting_dry_run_def injecting_inject_def injecting_failed_def
    injecting_done_def injecting_add_finalizer_def Let_def
  by (intro uncounted_rules) simp_all

lemma deleted_neutral: "logs neutral (reconcile_deleted rc run)"
  unfolding reconcile_deleted_def
  by (intro triple_return triple_if triple_prod triple_bind [OF cleanup_neutral] neutral_object) simp_all

lemma pass_tally:
  assumes "\<not> ctl_abort (sp_control (cr_spec run)) \<or> phase_of run = CleaningUp"
    and "run_state (reconcile_run rc run) s = (x, s')" and "calls s' = calls s @ new"
  shows "runs_counted new = (if phase_of run \<in> {Observing, CleaningUp} then endings new else [])"
proof -
  have late: "owed [] (reconcile_run rc run)" if "phase_of run \<in> {Observing, CleaningUp}"
    unfolding reconcile_run_def reconcile_phase_def
    by (intro owed_rules neutral_owed [OF deleted_neutral] observing_owed cleaning_owed) (use assms(1) that in auto)
  have early: "logs (\<lambda>c. counts_run c = None) (reconcile_run rc run)" if "phase_of run \<notin> {Observing, CleaningUp}"
    unfolding reconcile_run_def reconcile_phase_def
    by (intro uncounted_rules pending_uncounted injecting_uncounted triple_weaken [OF deleted_neutral])
      (use assms(1) that in \<open>auto simp: neutral_def\<close>)
  show ?thesis
  proof (cases "phase_of run \<in> {Observing, CleaningUp}")
    case True
    with owedD [OF late assms(2,3)] show ?thesis by simp
  next
    case False
    with tripleD [OF early assms(2)] assms(3) show ?thesis by (auto simp: emits_def intro: uncounted_log)
  qed
qed

end

text \<open>An abort counts by itself, after the server has accepted the status, and with no verdict.\<close>

definition accepted_end :: "call \<Rightarrow> bool" where
  "accepted_end c = (case c of StatusPatch r ok \<Rightarrow> ok \<and> is_terminal (phase_of r) | _ \<Rightarrow> False)"

lemma neutral_not_end: "neutral c \<Longrightarrow> \<not> accepted_end c"
  by (cases c) (simp_all add: accepted_end_def)

lemma abort_tally:
  assumes "ctl_abort (sp_control (cr_spec run))" and "phase_of run \<noteq> CleaningUp"
    and "run_state (reconcile_run (operator k newClient tcEnv stressEnv lossPointer) run) s = (x, s')"
    and "calls s' = calls s @ new"
  shows "\<exists>scs. length scs = length (filter accepted_end new) \<and> runs_counted new = map (\<lambda>sc. [sc, ''Aborted'', '''']) scs"
proof -
  let ?rc = "operator k newClient tcEnv stressEnv lossPointer"
  consider "run_state (State_Monad.return finished) s = (x, s')" | "run_state (reconcile_deleted ?rc run) s = (x, s')"
    | "run_state (reconcile_abort ?rc run) s = (x, s')"
    using assms(1-3) by (auto simp: reconcile_run_def split: if_splits)
  then show ?thesis
  proof cases
    case 1
    with assms(4) show ?thesis by (simp add: State_Monad.return_def)
  next
    case 2
    from tripleD [OF op.deleted_neutral 2] assms(4) have new: "\<forall>c \<in> set new. neutral c" by (auto simp: emits_def)
    then have "filter accepted_end new = []" by (auto simp: filter_empty_conv neutral_not_end)
    with neutral_log [OF new] show ?thesis by simp
  next
    case 3
    from reconcile_abort_effect [OF 3] obtain r ok tl sc where "calls s' = calls s @ [AbortRequestsInc,
        Event ''Normal'' ''AbortRequested'' ''ChaosRun abort requested by user'', StatusPatch r ok] @ tl"
      "phase_of r \<in> {CleaningUp, Aborted}"
      "tl = (if ok \<and> phase_of r = Aborted then [RunsTotalInc sc (string_of_phase Aborted) ''''] else [])"
      by (metis insertCI)
    with assms(4) show ?thesis
      by (intro exI [of _ "if ok \<and> phase_of r = Aborted then [sc] else []"]) (auto simp: accepted_end_def string_of_phase_def)
  qed
qed

subsection \<open>Properties\<close>

text \<open>
  C12. What a pass adds to the counter fchaos_runs_total. Over a run under observation or cleaning up it is one
  increment for every terminal status the pass sends, with that status's labels, whether the server accepts it
  or not. Over a run that is not yet observed it is none, although the pass may well end the run. And over an
  aborted run that is not cleaning up, in whatever phase, it is one for every terminal status that the server
  accepted, as Aborted and with an empty verdict, although the status says Inconclusive.
\<close>

theorem endings_counted:
  assumes "fst (k_get_run k ns name (ext s)) = Inr run"
    and "run_state (reconcile (operator k newClient tcEnv stressEnv lossPointer) ns name) s = (x, s')"
    and "calls s' = calls s @ new"
  shows "if ctl_abort (sp_control (cr_spec run)) \<and> phase_of run \<noteq> CleaningUp
    then \<exists>scs. runs_counted new = map (\<lambda>sc. [sc, ''Aborted'', '''']) scs \<and>
      length scs = length (filter (\<lambda>c. case c of StatusPatch r ok \<Rightarrow> ok \<and> is_terminal (phase_of r) | _ \<Rightarrow> False) new)
    else runs_counted new = (if phase_of run \<in> {Observing, CleaningUp}
      then map (\<lambda>r. [string_of_scenario (scenario_of r), string_of_phase (phase_of r), string_of_verdict (st_verdict (cr_status r))])
        (filter (\<lambda>r. is_terminal (phase_of r)) (sent_runs new))
      else [])"
proof -
  have "runs_counted new = (if phase_of run \<in> {Observing, CleaningUp} then endings new else [])"
    if "\<not> ctl_abort (sp_control (cr_spec run)) \<or> phase_of run = CleaningUp"
    using op.pass_tally [OF _ reconcile_fetched [OF assms(2)], of run new] that assms(1,3) by simp
  moreover have "\<exists>scs. length scs = length (filter accepted_end new) \<and>
      runs_counted new = map (\<lambda>sc. [sc, ''Aborted'', '''']) scs"
    if "ctl_abort (sp_control (cr_spec run))" "phase_of run \<noteq> CleaningUp"
    using abort_tally [OF _ _ reconcile_fetched [OF assms(2), simplified], of run new] that assms(1,3) by simp
  ultimately show ?thesis
    by (auto simp: endings_def run_labels_def [abs_def] accepted_end_def [abs_def])
qed

definition demo_invalid :: chaos_run where
  "demo_invalid = (demo_run Pending)\<lparr>cr_spec := demo_spec\<lparr>sp_target := (sp_target demo_spec)\<lparr>t_name := ''''\<rparr>\<rparr>\<rparr>"

definition demo_stopped :: chaos_run where
  "demo_stopped = (demo_run Injecting)\<lparr>cr_spec := demo_spec\<lparr>sp_control := \<lparr>ctl_abort = True\<rparr>\<rparr>\<rparr>"

theorem endings_counted_witness:
  "endings (calls (snd (demo_pass (demo_sys demo_invalid)))) = [[''TaskManagerPodKill'', ''Failed'', ''Failed'']] \<and>
   runs_counted (calls (snd (demo_pass (demo_sys demo_invalid)))) = [] \<and>
   endings (calls (snd (demo_pass (demo_sys demo_stopped)))) = [[''TaskManagerPodKill'', ''Aborted'', ''Inconclusive'']] \<and>
   (\<exists>sc. runs_counted (calls (snd (demo_pass (demo_sys demo_stopped)))) = [[sc, ''Aborted'', '''']])"
proof -
  have f: "fst (k_get_run demo_kube ''flink'' ''kill-one'' (ext (demo_sys demo_invalid))) = Inr demo_invalid"
    by (rule demo_fetch) (simp add: demo_invalid_def demo_run_def)
  have "runs_counted (calls (snd (demo_pass (demo_sys demo_invalid)))) = []"
    using endings_counted [OF f demo_pass_run demo_new]
    by (simp add: demo_invalid_def demo_run_def demo_status_def demo_spec_def)
  moreover have g: "fst (k_get_run demo_kube ''flink'' ''kill-one'' (ext (demo_sys demo_stopped))) = Inr demo_stopped"
    by (rule demo_fetch) (simp add: demo_stopped_def demo_run_def)
  have "ctl_abort (sp_control (cr_spec demo_stopped)) \<and> phase_of demo_stopped \<noteq> CleaningUp"
    by (simp add: demo_stopped_def demo_run_def demo_status_def)
  with endings_counted [OF g demo_pass_run demo_new] obtain scs where
    scs: "runs_counted (calls (snd (demo_pass (demo_sys demo_stopped)))) = map (\<lambda>sc. [sc, ''Aborted'', '''']) scs"
    "length scs = length (filter (\<lambda>c. case c of StatusPatch r ok \<Rightarrow> ok \<and> is_terminal (phase_of r) | _ \<Rightarrow> False)
      (calls (snd (demo_pass (demo_sys demo_stopped)))))"
    by auto
  moreover have "length (filter (\<lambda>c. case c of StatusPatch r ok \<Rightarrow> ok \<and> is_terminal (phase_of r) | _ \<Rightarrow> False)
      (calls (snd (demo_pass (demo_sys demo_stopped))))) = 1" by code_simp
  ultimately have "\<exists>sc. runs_counted (calls (snd (demo_pass (demo_sys demo_stopped)))) = [[sc, ''Aborted'', '''']]"
    by (cases scs) auto
  moreover have "endings (calls (snd (demo_pass (demo_sys demo_stopped)))) = [[''TaskManagerPodKill'', ''Aborted'', ''Inconclusive'']]"
    "endings (calls (snd (demo_pass (demo_sys demo_invalid)))) = [[''TaskManagerPodKill'', ''Failed'', ''Failed'']]"
    by code_simp+
  moreover note \<open>runs_counted (calls (snd (demo_pass (demo_sys demo_invalid)))) = []\<close>
  ultimately show ?thesis by blast
qed

end
