(* ===== verification/Go_Text.thy ===== *)
theory Go_Text
  imports Prelude
begin

section \<open>Text functions of the Go library\<close>

text \<open>
  What the command line, the API server and the Flink client use of \<^verbatim>\<open>strings\<close> and \<^verbatim>\<open>time\<close>, on strings
  of bytes in UTF-8: case folding, trimming, splitting, and the layout \<^verbatim>\<open>time.RFC3339\<close>.
\<close>

lemma find_Some_member: "find P xs = Some v \<Longrightarrow> v \<in> set xs \<and> P v"
  by (auto simp: find_Some_iff)

subsection \<open>Case folding\<close>

text \<open>
  Besides the letters of ASCII, \<^verbatim>\<open>strings.ToLower\<close> maps the Kelvin sign to \<^verbatim>\<open>k\<close> and the dotted
  capital I to \<^verbatim>\<open>i\<close>; \<^verbatim>\<open>strings.EqualFold\<close> identifies the Kelvin sign with \<^verbatim>\<open>k\<close> and the long s
  with \<^verbatim>\<open>s\<close>. Other letters beyond ASCII never become equal to one of ASCII, and are left as they
  are (they reach only the text of an error).
\<close>

definition is_kelvin :: "char \<Rightarrow> char \<Rightarrow> char \<Rightarrow> bool" where
  "is_kelvin a b c \<longleftrightarrow> (of_char a :: nat) = 226 \<and> (of_char b :: nat) = 132 \<and> (of_char c :: nat) = 170"

definition is_dotted_i :: "char \<Rightarrow> char \<Rightarrow> bool" where
  "is_dotted_i a b \<longleftrightarrow> (of_char a :: nat) = 196 \<and> (of_char b :: nat) = 176"

definition is_long_s :: "char \<Rightarrow> char \<Rightarrow> bool" where
  "is_long_s a b \<longleftrightarrow> (of_char a :: nat) = 197 \<and> (of_char b :: nat) = 191"

fun go_to_lower :: "string \<Rightarrow> string" where
  "go_to_lower (a # b # c # s) =
     (if is_kelvin a b c then CHR ''k'' # go_to_lower s
      else if is_dotted_i a b then CHR ''i'' # go_to_lower (c # s)
      else lower_char a # go_to_lower (b # c # s))"
| "go_to_lower [a, b] = (if is_dotted_i a b then ''i'' else [lower_char a, lower_char b])"
| "go_to_lower s = map lower_char s"

fun fold_case :: "string \<Rightarrow> string" where
  "fold_case (a # b # c # s) =
     (if is_kelvin a b c then CHR ''k'' # fold_case s
      else if is_long_s a b then CHR ''s'' # fold_case (c # s)
      else lower_char a # fold_case (b # c # s))"
| "fold_case [a, b] = (if is_long_s a b then ''s'' else [lower_char a, lower_char b])"
| "fold_case s = map lower_char s"

text \<open>On strings of ASCII both are the lower case of ASCII.\<close>

definition is_ascii :: "string \<Rightarrow> bool" where
  "is_ascii s \<longleftrightarrow> list_all (\<lambda>c. (of_char c :: nat) < 128) s"

lemma ascii_folds:
  assumes "is_ascii s"
  shows "go_to_lower s = to_lower s" "fold_case s = to_lower s"
  using assms
  by (induction s rule: fold_case.induct)
    (auto simp: is_ascii_def to_lower_def is_kelvin_def is_dotted_i_def is_long_s_def)

definition equal_fold :: "string \<Rightarrow> string \<Rightarrow> bool" where
  "equal_fold s t \<longleftrightarrow> fold_case s = fold_case t"

subsection \<open>Trimming and splitting\<close>

text \<open>The number of bytes of a white space character at the start, as \<^verbatim>\<open>unicode.IsSpace\<close> has them;
  \<open>0\<close> when the string does not start with one.\<close>

fun space_len :: "nat list \<Rightarrow> nat" where
  "space_len [] = 0"
| "space_len (a # bs) =
     (if a = 32 \<or> 9 \<le> a \<and> a \<le> 13 then 1
      else case bs of
        [] \<Rightarrow> 0
      | b # cs \<Rightarrow>
          if a = 194 \<and> (b = 133 \<or> b = 160) then 2
          else (case cs of
            [] \<Rightarrow> 0
          | c # _ \<Rightarrow>
              if a = 225 \<and> b = 154 \<and> c = 128 \<or>
                 a = 226 \<and> b = 128 \<and> (128 \<le> c \<and> c \<le> 138 \<or> c = 168 \<or> c = 169 \<or> c = 175) \<or>
                 a = 226 \<and> b = 129 \<and> c = 159 \<or> a = 227 \<and> b = 128 \<and> c = 128
              then 3 else 0))"

lemma space_len_le: "space_len s \<le> length s"
  by (cases s) (auto split: list.split)

definition bytes :: "string \<Rightarrow> nat list" where
  "bytes s = map of_char s"

function trim_left :: "string \<Rightarrow> string" where
  "trim_left s = (if space_len (bytes s) = 0 then s else trim_left (drop (space_len (bytes s)) s))"
  by pat_completeness auto

termination
proof (relation "measure length")
  fix s :: string
  assume "space_len (bytes s) \<noteq> 0"
  then show "(drop (space_len (bytes s)) s, s) \<in> measure length"
    using space_len_le [of "bytes s"] by (cases s) (auto simp: bytes_def)
qed simp

text \<open>A white space character at the end, on the reversed string; its last byte decides its length.\<close>

definition last_space_len :: "string \<Rightarrow> nat" where
  "last_space_len s =
     (let n = length s in
      if 1 \<le> n \<and> space_len (bytes (drop (n - 1) s)) = 1 then 1
      else if 2 \<le> n \<and> space_len (bytes (drop (n - 2) s)) = 2 then 2
      else if 3 \<le> n \<and> space_len (bytes (drop (n - 3) s)) = 3 then 3 else 0)"

lemma last_space_len_le: "last_space_len s \<le> length s"
  by (simp add: last_space_len_def Let_def)

function trim_right :: "string \<Rightarrow> string" where
  "trim_right s =
     (if last_space_len s = 0 then s else trim_right (take (length s - last_space_len s) s))"
  by pat_completeness auto

termination
proof (relation "measure length")
  fix s :: string
  assume "last_space_len s \<noteq> 0"
  then show "(take (length s - last_space_len s) s, s) \<in> measure length"
    using last_space_len_le [of s] by simp
qed simp

declare trim_left.simps [simp del] trim_right.simps [simp del]

definition trim_space :: "string \<Rightarrow> string" where
  "trim_space s = trim_right (trim_left s)"

fun split_lines :: "string \<Rightarrow> string list" where
  "split_lines [] = ['''']"
| "split_lines (c # s) =
     (if c = char_of (10::nat) then '''' # split_lines s
      else (case split_lines s of l # ls \<Rightarrow> (c # l) # ls | [] \<Rightarrow> [[c]]))"

text \<open>\<^verbatim>\<open>strings.SplitN(s, sep, 2)\<close> when it gives two parts.\<close>

fun split_once :: "string \<Rightarrow> string \<Rightarrow> (string \<times> string) option" where
  "split_once sep [] = (if sep = [] then Some ('''', '''') else None)"
| "split_once sep (c # s) =
     (if has_prefix (c # s) sep then Some ('''', drop (length sep) (c # s))
      else map_option (\<lambda>(a, b). (c # a, b)) (split_once sep s))"

lemma split_once_append: "split_once sep s = Some (a, b) \<Longrightarrow> s = a @ sep @ b"
proof (induction s arbitrary: a)
  case (Cons c s)
  show ?case
  proof (cases "has_prefix (c # s) sep")
    case True
    with Cons.prems have "a = []" "b = drop (length sep) (c # s)" "take (length sep) (c # s) = sep"
      by (simp_all add: has_prefix_def)
    then show ?thesis using append_take_drop_id [of "length sep" "c # s"] by simp
  next
    case False
    with Cons show ?thesis by auto
  qed
qed (simp split: if_splits)

subsection \<open>RFC 3339\<close>

text \<open>The civil date of a day counted from 1 January 1970, in the proleptic Gregorian calendar; years
  are counted in eras of 400 from 1 March of year 0.\<close>

definition civil_of_days :: "int \<Rightarrow> int \<times> int \<times> int" where
  "civil_of_days days =
     (let z = days + 719468; era = z div 146097; doe = z mod 146097;
          yoe = (doe - doe div 1460 + doe div 36524 - doe div 146096) div 365;
          doy = doe - (365 * yoe + yoe div 4 - yoe div 100);
          mp = (5 * doy + 2) div 153;
          d = doy - (153 * mp + 2) div 5 + 1;
          m = (if mp < 10 then mp + 3 else mp - 9);
          y = yoe + era * 400
      in (if m \<le> 2 then y + 1 else y, m, d))"

definition pad :: "nat \<Rightarrow> int \<Rightarrow> string" where
  "pad n i = (let s = nat_digits (nat i) in replicate (n - length s) (CHR ''0'') @ s)"

definition rfc3339_text :: "int \<Rightarrow> string" where
  "rfc3339_text t =
     (let secs = t div second; (y, m, d) = civil_of_days (secs div 86400); r = secs mod 86400
      in (if y < 0 then ''-'' @ pad 4 (- y) else pad 4 y) @ ''-'' @ pad 2 m @ ''-'' @ pad 2 d @ ''T'' @
         pad 2 (r div 3600) @ '':'' @ pad 2 (r mod 3600 div 60) @ '':'' @ pad 2 (r mod 60) @ ''Z'')"

lemma rfc3339_samples:
  "rfc3339_text 0 = ''1970-01-01T00:00:00Z''"
  "rfc3339_text (1709210096 * second) = ''2024-02-29T12:34:56Z''"
  by code_simp+

end
