(* ===== verification/Json.thy ===== *)
theory Json
  imports Go_Text Tc_Builder
begin

section \<open>JSON as the Go decoder reads it\<close>

text \<open>
  What \<^verbatim>\<open>json.Decoder.Decode\<close> makes of a JSON value for the Go types the Flink client decodes
  into. A number keeps its literal. The text of a type error is shortened. A key that occurs twice in
  an object with two objects as values is not merged: the last value counts.
\<close>

datatype json = JNull | JBool bool | JNumber string | JString string
  | JArray "json list" | JObject "(string \<times> json) list"

type_synonym 'a decoder = "json \<Rightarrow> string + 'a"

definition type_error :: string where
  "type_error = ''json: cannot unmarshal value into Go value''"

text \<open>A key belongs to a field when they are equal up to case; \<^verbatim>\<open>null\<close> leaves a field as it is, so that
  an absent field reads as \<^verbatim>\<open>null\<close>.\<close>

definition json_field :: "(string \<times> json) list \<Rightarrow> string \<Rightarrow> json" where
  "json_field kvs name =
     (case find (\<lambda>(k, v). equal_fold k name \<and> v \<noteq> JNull) (rev kvs) of Some (_, v) \<Rightarrow> v | None \<Rightarrow> JNull)"

fun dec_object :: "((string \<Rightarrow> json) \<Rightarrow> string + 'a) \<Rightarrow> 'a decoder" where
  "dec_object f JNull = f (\<lambda>_. JNull)"
| "dec_object f (JObject kvs) = f (json_field kvs)"
| "dec_object f _ = Inl type_error"

fun dec_string :: "string decoder" where
  "dec_string JNull = Inr ''''"
| "dec_string (JString s) = Inr s"
| "dec_string _ = Inl type_error"

text \<open>\<^verbatim>\<open>strconv.ParseInt\<close> in base 10 for 64 bits on a JSON number, which has no plus sign.\<close>

definition parse_int64 :: "string \<Rightarrow> int option" where
  "parse_int64 s =
     (let neg = has_prefix s ''-''; ds = (if neg then drop 1 s else s);
          i = (if neg then - decimal_int ds else decimal_int ds)
      in if ds \<noteq> [] \<and> list_all is_digit ds \<and> in_i64 i then Some i else None)"

fun dec_int :: "int decoder" where
  "dec_int JNull = Inr 0"
| "dec_int (JNumber l) = (case parse_int64 l of Some i \<Rightarrow> Inr i | None \<Rightarrow> Inl type_error)"
| "dec_int _ = Inl type_error"

fun dec_all :: "'a decoder \<Rightarrow> json list \<Rightarrow> string + 'a list" where
  "dec_all f [] = Inr []"
| "dec_all f (x # xs) =
     (case f x of
        Inl e \<Rightarrow> Inl e
      | Inr y \<Rightarrow> (case dec_all f xs of Inl e \<Rightarrow> Inl e | Inr ys \<Rightarrow> Inr (y # ys)))"

fun dec_list :: "'a decoder \<Rightarrow> 'a list decoder" where
  "dec_list f JNull = Inr []"
| "dec_list f (JArray xs) = dec_all f xs"
| "dec_list f _ = Inl type_error"

definition dec_pointer :: "'a decoder \<Rightarrow> 'a option decoder" where
  "dec_pointer f v = (if v = JNull then Inr None else map_sum id Some (f v))"

definition bind_dec :: "string + 'a \<Rightarrow> ('a \<Rightarrow> string + 'b) \<Rightarrow> string + 'b" where
  "bind_dec r f = (case r of Inl e \<Rightarrow> Inl e | Inr x \<Rightarrow> f x)"

lemma bind_dec_simps [simp]: "bind_dec (Inl e) f = Inl e" "bind_dec (Inr x) f = f x"
  by (simp_all add: bind_dec_def)

lemma dec_all_map: "(\<And>x. x \<in> set xs \<Longrightarrow> f (g x) = Inr x) \<Longrightarrow> dec_all f (map g xs) = Inr xs"
  by (induction xs) auto

lemma dec_all_length: "dec_all f xs = Inr ys \<Longrightarrow> length ys = length xs"
  by (induction xs arbitrary: ys) (auto split: sum.splits)

text \<open>A number printed in decimal is read back.\<close>

lemma digits_no_minus: "\<not> has_prefix (nat_digits n) ''-''"
proof -
  have "\<not> is_digit (CHR ''-'')" by code_simp
  then show ?thesis using nat_digits_is_digit [of n] by (cases "nat_digits n") (auto simp: has_prefix_def)
qed

lemma parse_int64_fmt_d: "in_i64 i \<Longrightarrow> parse_int64 (fmt_d i) = Some i"
  using digits_no_minus [of "nat i"] nat_digits_is_digit [of "nat i"] nat_digits_is_digit [of "nat (- i)"]
  by (cases "i < 0") (simp_all add: parse_int64_def fmt_d_def Let_def has_prefix_def decimal_int_nat_digits)

end
