(* ===== verification/Run_Store.thy ===== *)
theory Run_Store
  imports Phases Validation
begin

section \<open>ChaosRun objects as the user's tools see them\<close>

text \<open>
  The UI's API server (\<^verbatim>\<open>internal/apiserver\<close>) and the kubectl plugin (\<^verbatim>\<open>cmd/kubectl-fchaos\<close>)
  create, read, change and delete ChaosRun objects through a client of their own; here it is the
  record \<open>run_store\<close>, whose functions answer as the Kubernetes client does. The zero values of Go
  and the conversions of plain strings to the API's string types are shared by both.
\<close>

record 'w run_store =
  rs_create :: "string option \<Rightarrow> chaos_run \<Rightarrow> 'w \<Rightarrow> (api_error + chaos_run) \<times> 'w"
    \<comment> \<open>with the prefix of a generated name, if any; answers with the object as created\<close>
  rs_get :: "string \<Rightarrow> string \<Rightarrow> 'w \<Rightarrow> (api_error + chaos_run) \<times> 'w"
  rs_list :: "string \<Rightarrow> 'w \<Rightarrow> (api_error + chaos_run list) \<times> 'w"
  rs_update :: "chaos_run \<Rightarrow> 'w \<Rightarrow> api_error option \<times> 'w"
  rs_patch :: "chaos_run \<Rightarrow> chaos_run \<Rightarrow> 'w \<Rightarrow> api_error option \<times> 'w"
  rs_delete :: "chaos_run \<Rightarrow> 'w \<Rightarrow> api_error option \<times> 'w"

subsection \<open>Conversions\<close>

definition mode_of_string :: "string \<Rightarrow> selection_mode" where
  "mode_of_string s =
     (if s = '''' then NoMode else if s = ''Random'' then RandomMode
      else if s = ''Explicit'' then ExplicitMode else OtherMode s)"

definition net_target_of_string :: "string \<Rightarrow> network_target" where
  "net_target_of_string s =
     (if s = '''' then NoNetTarget else if s = ''TMtoTM'' then TMtoTM else if s = ''TMtoJM'' then TMtoJM
      else if s = ''TMtoCheckpoint'' then TMtoCheckpoint else if s = ''TMtoExternal'' then TMtoExternal
      else OtherNetTarget s)"

definition direction_of_string :: "string \<Rightarrow> net_direction" where
  "direction_of_string s =
     (if s = '''' then NoDirection else if s = ''Ingress'' then Ingress else if s = ''Egress'' then Egress
      else if s = ''Both'' then Both else OtherDirection s)"

definition exhaustion_of_string :: "string \<Rightarrow> exhaustion_mode" where
  "exhaustion_of_string s =
     (if s = ''CPU'' then CPU else if s = ''Memory'' then Memory else OtherExhaustion s)"

lemma string_conversions [simp]:
  "string_of_mode (mode_of_string s) = s"
  "string_of_net_target (net_target_of_string s) = s"
  "string_of_direction (direction_of_string s) = s"
  "string_of_exhaustion (exhaustion_of_string s) = s"
  by (simp_all add: mode_of_string_def string_of_mode_def net_target_of_string_def string_of_net_target_def
      direction_of_string_def string_of_direction_def exhaustion_of_string_def string_of_exhaustion_def)

lemma net_target_empty_iff [simp]: "net_target_of_string s = NoNetTarget \<longleftrightarrow> s = ''''"
  by (simp add: net_target_of_string_def)

subsection \<open>Zero values\<close>

definition zero_target :: target_spec where
  "zero_target = \<lparr>t_type = OtherTarget '''', t_name = '''', t_deploymentID = '''', t_deploymentName = '''',
     t_vvpNamespace = '''', t_selector = None\<rparr>"

definition zero_scenario :: scenario_spec where
  "zero_scenario = \<lparr>s_type = NoScenario,
     s_selection = \<lparr>sel_mode = NoMode, sel_count = 0, sel_podNames = []\<rparr>,
     s_action = \<lparr>act_type = NoAction, act_gracePeriodSeconds = None\<rparr>,
     s_network = None, s_resourceExhaustion = None\<rparr>"

definition zero_network :: network_chaos_spec where
  "zero_network = \<lparr>n_target = NoNetTarget, n_direction = NoDirection, n_externalEndpoint = None,
     n_latency = None, n_jitter = None, n_loss = None, n_bandwidth = '''', n_duration = None\<rparr>"

definition zero_observe :: observe_spec where
  "zero_observe = \<lparr>o_enabled = False, o_timeout = 0, o_pollInterval = 0,
     o_flinkRest = \<lparr>fr_enabled = False, fr_endpoint = '''', fr_requireStableCheckpoint = False,
       fr_stableWindowSeconds = 0, fr_waitTimeout = None\<rparr>\<rparr>"

definition zero_safety :: safety_spec where
  "zero_safety = \<lparr>sf_dryRun = False, sf_maxConcurrentRuns = 0, sf_minTaskManagers = None,
     sf_allowSharedCluster = False, sf_maxNetworkDuration = None, sf_allowCheckpointStorage = False,
     sf_maxExhaustionDuration = None\<rparr>"

definition zero_status :: chaos_run_status where
  "zero_status = \<lparr>st_phase = NoPhase, st_verdict = NoVerdict, st_message = '''', st_startedAt = None,
     st_observingStartedAt = None, st_endedAt = None, st_selectedPods = [], st_injectedPods = [],
     st_replacementObserved = False, st_targetSummary = None, st_observation = None,
     st_networkPolicies = [], st_tcInjections = [], st_stressInjections = [], st_dryRunPreview = '''',
     st_conditions = []\<rparr>"

text \<open>A new object with the parts of the spec the tools set.\<close>

definition new_run ::
  "string \<Rightarrow> string \<Rightarrow> target_spec \<Rightarrow> scenario_spec \<Rightarrow> observe_spec \<Rightarrow> safety_spec \<Rightarrow> chaos_run" where
  "new_run name ns target scenario observe safety =
     \<lparr>cr_name = name, cr_namespace = ns, cr_deletionTimestamp = None, cr_finalizers = [],
      cr_spec = \<lparr>sp_target = target, sp_scenario = scenario, sp_observe = observe, sp_safety = safety,
        sp_control = \<lparr>ctl_abort = False\<rparr>\<rparr>,
      cr_status = zero_status\<rparr>"

lemma new_run_simps [simp]:
  "cr_name (new_run n ns t sc ob sf) = n" "cr_namespace (new_run n ns t sc ob sf) = ns"
  "sp_target (cr_spec (new_run n ns t sc ob sf)) = t" "sp_scenario (cr_spec (new_run n ns t sc ob sf)) = sc"
  "sp_observe (cr_spec (new_run n ns t sc ob sf)) = ob" "sp_safety (cr_spec (new_run n ns t sc ob sf)) = sf"
  "cr_status (new_run n ns t sc ob sf) = zero_status"
  by (simp_all add: new_run_def)

lemma validate_set_defaults:
  "validate (set_defaults run) =
     validate_target_spec (sp_target (cr_spec run)) @
     validate_scenario_spec (set_scenario_defaults (sp_scenario (cr_spec run))) @
     validate_observe_spec (set_observe_defaults (sp_observe (cr_spec run)))"
  by (simp add: validate_def set_defaults_def)

text \<open>An observation spec that sets the timeout only: the default poll interval of 5 s decides.\<close>

lemma validate_observe_timeout_only:
  "validate_observe_spec (set_observe_defaults (zero_observe\<lparr>o_enabled := e, o_timeout := t\<rparr>)) = [] \<longleftrightarrow>
   t \<le> 0 \<or> 5 * second \<le> t"
  by (auto simp: validate_observe_spec_def set_observe_defaults_def zero_observe_def default_flink_rest_def Let_def
      minute_def second_def)

lemma validate_observe_zero [simp]: "validate_observe_spec (set_observe_defaults zero_observe) = []"
  by (simp add: validate_observe_spec_def set_observe_defaults_def zero_observe_def default_flink_rest_def Let_def
      minute_def second_def)

end
