(* ===== verification/Wire.thy ===== *)
theory Wire
  imports Json Run_Store
begin

section \<open>ChaosRun objects on the wire\<close>

text \<open>
  The JSON that the Kubernetes clients send and receive for the structs of
  \<^verbatim>\<open>api/v1alpha1/chaosrun_types.go\<close>, field by field as the struct tags say: a field marked
  \<^verbatim>\<open>omitempty\<close> is left out when it is an empty string, list or map, a zero, false or a nil pointer; a
  struct is always written. The decoder of the Kubernetes libraries takes a key only for the field
  that has exactly that name, and ignores the keys it does not know.
\<close>

subsection \<open>Instants and durations\<close>

text \<open>
  \<^verbatim>\<open>metav1.Time\<close> and \<^verbatim>\<open>metav1.Duration\<close> are strings on the wire; their code is not under \<^verbatim>\<open>src\<close>.
  What is documented of them: an instant is written in whole seconds, a duration exactly.
\<close>

record codec =
  tm_text :: "int \<Rightarrow> string"
  tm_parse :: "string \<Rightarrow> int option"
  du_text :: "int \<Rightarrow> string"
  du_parse :: "string \<Rightarrow> int option"

definition whole :: "int \<Rightarrow> int" where
  "whole t = t div second * second"

definition codec_ok :: "codec \<Rightarrow> bool" where
  "codec_ok c \<longleftrightarrow> (\<forall>t. in_i64 t \<longrightarrow> tm_parse c (tm_text c t) = Some (whole t)) \<and>
     (\<forall>d. in_i64 d \<longrightarrow> du_parse c (du_text c d) = Some d)"

lemma whole_le: "whole t \<le> t"
  by (simp add: whole_def second_def)

lemma whole_whole [simp]: "whole (whole t) = whole t"
  by (simp add: whole_def second_def)

subsection \<open>Structs\<close>

text \<open>A struct is a list of its fields in order, \<open>None\<close> where the field is left out.\<close>

definition present :: "(string \<times> json option) list \<Rightarrow> (string \<times> json) list" where
  "present fs = List.map_filter (\<lambda>(k, v). map_option (Pair k) v) fs"

definition struct_json :: "(string \<times> json option) list \<Rightarrow> json" where
  "struct_json fs = JObject (present fs)"

definition str_val :: "string \<Rightarrow> json option" where
  "str_val s = (if s = '''' then None else Some (JString s))"

definition int_val :: "int \<Rightarrow> json option" where
  "int_val i = (if i = 0 then None else Some (JNumber (fmt_d i)))"

definition bool_val :: "bool \<Rightarrow> json option" where
  "bool_val b = (if b then Some (JBool True) else None)"

definition list_val :: "('a \<Rightarrow> json) \<Rightarrow> 'a list \<Rightarrow> json option" where
  "list_val f xs = (if xs = [] then None else Some (JArray (map f xs)))"

definition int_json :: "int \<Rightarrow> json" where "int_json i = JNumber (fmt_d i)"

definition time_json :: "codec \<Rightarrow> int \<Rightarrow> json" where "time_json c t = JString (tm_text c t)"

definition duration_json :: "codec \<Rightarrow> int \<Rightarrow> json" where "duration_json c d = JString (du_text c d)"

definition value_of :: "json option \<Rightarrow> json" where
  "value_of v = (case v of None \<Rightarrow> JNull | Some x \<Rightarrow> x)"

text \<open>Of the values of a key the last one that is not \<^verbatim>\<open>null\<close>.\<close>

fun wire_field :: "(string \<times> json) list \<Rightarrow> string \<Rightarrow> json" where
  "wire_field [] n = JNull"
| "wire_field ((k, v) # kvs) n =
     (if wire_field kvs n \<noteq> JNull then wire_field kvs n else if k = n then v else JNull)"

fun dec_struct :: "((string \<Rightarrow> json) \<Rightarrow> string + 'a) \<Rightarrow> 'a decoder" where
  "dec_struct f JNull = f (\<lambda>_. JNull)"
| "dec_struct f (JObject kvs) = f (wire_field kvs)"
| "dec_struct f _ = Inl type_error"

fun dec_bool :: "bool decoder" where
  "dec_bool JNull = Inr False"
| "dec_bool (JBool b) = Inr b"
| "dec_bool _ = Inl type_error"

definition dec_int32 :: "int decoder" where
  "dec_int32 v = bind_dec (dec_int v) (\<lambda>i. if in_i32 i then Inr i else Inl type_error)"

definition dec_with :: "(string \<Rightarrow> int option) \<Rightarrow> int decoder" where
  "dec_with p v = bind_dec (dec_string v) (\<lambda>s. case p s of Some i \<Rightarrow> Inr i | None \<Rightarrow> Inl type_error)"

fun dec_entries :: "(string \<times> json) list \<Rightarrow> string + string_map" where
  "dec_entries [] = Inr []"
| "dec_entries ((k, v) # kvs) = bind_dec (dec_string v) (\<lambda>s. bind_dec (dec_entries kvs) (\<lambda>m. Inr ((k, s) # m)))"

fun dec_map :: "string_map decoder" where
  "dec_map JNull = Inr []"
| "dec_map (JObject kvs) = dec_entries kvs"
| "dec_map _ = Inl type_error"

definition map_val :: "string_map \<Rightarrow> json option" where
  \<comment> \<open>the entries in the order of the list that stands for the map; an object has no order\<close>
  "map_val m = (if m = [] then None else Some (JObject (map (\<lambda>(k, v). (k, JString v)) m)))"

subsection \<open>Reading back what was written\<close>

lemma present_simps [simp]:
  "present [] = []" "present ((k, v) # fs) = (case v of None \<Rightarrow> present fs | Some x \<Rightarrow> (k, x) # present fs)"
  by (simp_all add: present_def map_filter_simps split: option.splits)

lemma value_of_simps [simp]: "value_of None = JNull" "value_of (Some x) = x"
  by (simp_all add: value_of_def)

lemma wire_field_present:
  "distinct (map fst fs) \<Longrightarrow>
   wire_field (present fs) n = (case map_of fs n of Some v \<Rightarrow> value_of v | None \<Rightarrow> JNull)"
proof (induction fs)
  case (Cons f fs)
  obtain k v where f: "f = (k, v)" by (cases f)
  have "map_of fs n = None" if "k = n" using Cons.prems that f by (simp add: map_of_eq_None_iff image_image)
  with Cons f show ?case by (cases v) auto
qed simp

lemma dec_struct_json:
  "distinct (map fst fs) \<Longrightarrow>
   dec_struct f (struct_json fs) = f (\<lambda>n. case map_of fs n of Some v \<Rightarrow> value_of v | None \<Rightarrow> JNull)"
proof -
  assume "distinct (map fst fs)"
  then have "wire_field (present fs) = (\<lambda>n. case map_of fs n of Some v \<Rightarrow> value_of v | None \<Rightarrow> JNull)"
    by (intro ext wire_field_present)
  then show ?thesis by (simp add: struct_json_def)
qed

lemma struct_json_not_null [simp]: "struct_json fs \<noteq> JNull"
  by (simp add: struct_json_def)

lemma dec_str_val [simp]: "dec_string (value_of (str_val s)) = Inr s"
  by (simp add: str_val_def)

lemma dec_int_json [simp]: "in_i64 i \<Longrightarrow> dec_int (int_json i) = Inr i"
  by (simp add: int_json_def parse_int64_fmt_d)

lemma in_i32_i64: "in_i32 i \<Longrightarrow> in_i64 i"
  by (simp add: in_i32_def in_i64_def)

lemma dec_int32_json [simp]: "in_i32 i \<Longrightarrow> dec_int32 (int_json i) = Inr i"
  by (simp add: dec_int32_def in_i32_i64)

lemma dec_int32_null [simp]: "dec_int32 JNull = Inr 0"
  by (simp add: dec_int32_def in_i32_def)

lemma dec_int_val [simp]: "in_i64 i \<Longrightarrow> dec_int (value_of (int_val i)) = Inr i"
  by (simp add: int_val_def parse_int64_fmt_d)

lemma dec_int32_val [simp]: "in_i32 i \<Longrightarrow> dec_int32 (value_of (int_val i)) = Inr i"
  by (simp add: dec_int32_def in_i32_i64)

lemma dec_bool_val [simp]: "dec_bool (value_of (bool_val b)) = Inr b"
  by (simp add: bool_val_def)

lemma dec_list_val:
  "(\<And>x. x \<in> set xs \<Longrightarrow> f (g x) = Inr (h x)) \<Longrightarrow> dec_list f (value_of (list_val g xs)) = Inr (map h xs)"
proof -
  assume "\<And>x. x \<in> set xs \<Longrightarrow> f (g x) = Inr (h x)"
  then have "dec_all f (map g xs) = Inr (map h xs)" by (induction xs) auto
  then show ?thesis by (simp add: list_val_def)
qed

lemma dec_strings [simp]: "dec_list dec_string (value_of (list_val JString xs)) = Inr xs"
  using dec_list_val [of xs dec_string JString id] by simp

lemma dec_pointer_val:
  "(\<And>y. x = Some y \<Longrightarrow> g y \<noteq> JNull \<and> f (g y) = Inr (h y)) \<Longrightarrow>
   dec_pointer f (value_of (map_option g x)) = Inr (map_option h x)"
  by (cases x) (simp_all add: dec_pointer_def)

lemma dec_map_val [simp]: "dec_map (value_of (map_val m)) = Inr m"
proof -
  have "dec_entries (map (\<lambda>(k, v). (k, JString v)) m) = Inr m" by (induction m) auto
  then show ?thesis by (simp add: map_val_def)
qed

lemma text_json_not_null [simp]: "time_json c t \<noteq> JNull" "duration_json c d \<noteq> JNull" "int_json i \<noteq> JNull"
  by (simp_all add: time_json_def duration_json_def int_json_def)

lemma dec_time [simp]: "codec_ok c \<Longrightarrow> in_i64 t \<Longrightarrow> dec_with (tm_parse c) (time_json c t) = Inr (whole t)"
  by (simp add: codec_ok_def dec_with_def time_json_def)

lemma dec_duration [simp]: "codec_ok c \<Longrightarrow> in_i64 d \<Longrightarrow> dec_with (du_parse c) (duration_json c d) = Inr d"
  by (simp add: codec_ok_def dec_with_def duration_json_def)

end
