(* ===== verification/Wire_Run.thy ===== *)
theory Wire_Run
  imports Wire
begin

section \<open>The JSON of a ChaosRun's spec and status\<close>

text \<open>
  \<open>x_json\<close> writes and \<open>dec_x\<close> reads the struct \<open>x\<close> of \<^verbatim>\<open>chaosrun_types.go\<close>. A value is \<open>x_wf\<close> when
  it is one that Go can hold: integers of their width, and strings that are a constant of their type
  as that constant.
\<close>

subsection \<open>The string types\<close>

definition target_type_of_string :: "string \<Rightarrow> target_type" where
  "target_type_of_string s =
     (if s = ''FlinkDeployment'' then FlinkDeployment else if s = ''VervericaDeployment'' then VervericaDeployment
      else if s = ''PodSelector'' then PodSelector else OtherTarget s)"

definition string_of_action :: "action_type \<Rightarrow> string" where
  "string_of_action a = (case a of NoAction \<Rightarrow> '''' | DeletePodAction \<Rightarrow> ''DeletePod'' | OtherAction s \<Rightarrow> s)"

definition action_of_string :: "string \<Rightarrow> action_type" where
  "action_of_string s =
     (if s = '''' then NoAction else if s = ''DeletePod'' then DeletePodAction else OtherAction s)"

definition phase_of_string :: "string \<Rightarrow> run_phase" where
  "phase_of_string s =
     (if s = '''' then NoPhase else if s = ''Pending'' then Pending else if s = ''Injecting'' then Injecting
      else if s = ''Observing'' then Observing else if s = ''CleaningUp'' then CleaningUp
      else if s = ''Completed'' then Completed else if s = ''Aborted'' then Aborted
      else if s = ''Failed'' then Failed else OtherPhase s)"

definition verdict_of_string :: "string \<Rightarrow> run_verdict" where
  "verdict_of_string s =
     (if s = '''' then NoVerdict else if s = ''Passed'' then VPassed else if s = ''Failed'' then VFailed
      else if s = ''Inconclusive'' then VInconclusive else OtherVerdict s)"

definition cond_of_string :: "string \<Rightarrow> cond_type" where
  "cond_of_string s =
     (if s = ''TargetResolved'' then TargetResolved else if s = ''SafetyChecksPassed'' then SafetyChecksPassed
      else if s = ''InjectionStarted'' then InjectionStarted else if s = ''InjectionCompleted'' then InjectionCompleted
      else if s = ''RecoveryObserved'' then RecoveryObserved else if s = ''AbortRequested'' then AbortRequested
      else if s = ''RunFailed'' then RunFailed else if s = ''NetworkChaosInjected'' then NetworkChaosInjected
      else if s = ''NetworkChaosCleanedUp'' then NetworkChaosCleanedUp else OtherCond s)"

definition string_of_cond_status :: "cond_status \<Rightarrow> string" where
  "string_of_cond_status s = (case s of CTrue \<Rightarrow> ''True'' | CFalse \<Rightarrow> ''False'' | CUnknown x \<Rightarrow> x)"

definition cond_status_of_string :: "string \<Rightarrow> cond_status" where
  "cond_status_of_string s = (if s = ''True'' then CTrue else if s = ''False'' then CFalse else CUnknown s)"

subsection \<open>The spec\<close>

definition requirement_json :: "selector_req \<Rightarrow> json" where
  "requirement_json r = struct_json
     [(''key'', Some (JString (sr_key r))), (''operator'', Some (JString (sr_operator r))),
      (''values'', list_val JString (sr_values r))]"

definition selector_json :: "label_selector \<Rightarrow> json" where
  "selector_json s = struct_json
     [(''matchLabels'', map_val (matchLabels s)),
      (''matchExpressions'', list_val requirement_json (matchExpressions s))]"

definition target_json :: "target_spec \<Rightarrow> json" where
  "target_json t = struct_json
     [(''type'', Some (JString (string_of_target_type (t_type t)))), (''name'', str_val (t_name t)),
      (''deploymentId'', str_val (t_deploymentID t)), (''deploymentName'', str_val (t_deploymentName t)),
      (''vvpNamespace'', str_val (t_vvpNamespace t)), (''selector'', map_option selector_json (t_selector t))]"

definition selection_json :: "selection_spec \<Rightarrow> json" where
  "selection_json s = struct_json
     [(''mode'', str_val (string_of_mode (sel_mode s))), (''count'', int_val (sel_count s)),
      (''podNames'', list_val JString (sel_podNames s))]"

definition action_json :: "action_spec \<Rightarrow> json" where
  "action_json a = struct_json
     [(''type'', str_val (string_of_action (act_type a))),
      (''gracePeriodSeconds'', map_option int_json (act_gracePeriodSeconds a))]"

definition endpoint_json :: "external_target \<Rightarrow> json" where
  "endpoint_json x = struct_json
     [(''cidr'', str_val (x_cidr x)), (''hostname'', str_val (x_hostname x)), (''port'', int_val (x_port x))]"

definition network_json :: "codec \<Rightarrow> network_chaos_spec \<Rightarrow> json" where
  "network_json c n = struct_json
     [(''target'', Some (JString (string_of_net_target (n_target n)))),
      (''direction'', str_val (string_of_direction (n_direction n))),
      (''externalEndpoint'', map_option endpoint_json (n_externalEndpoint n)),
      (''latency'', map_option (duration_json c) (n_latency n)), (''jitter'', map_option (duration_json c) (n_jitter n)),
      (''loss'', map_option int_json (n_loss n)), (''bandwidth'', str_val (n_bandwidth n)),
      (''duration'', map_option (duration_json c) (n_duration n))]"

definition exhaustion_json :: "codec \<Rightarrow> resource_exhaustion_spec \<Rightarrow> json" where
  "exhaustion_json c re = struct_json
     [(''mode'', Some (JString (string_of_exhaustion (re_mode re)))), (''workers'', int_val (re_workers re)),
      (''memoryPercent'', int_val (re_memoryPercent re)),
      (''duration'', map_option (duration_json c) (re_duration re))]"

definition scenario_json :: "codec \<Rightarrow> scenario_spec \<Rightarrow> json" where
  "scenario_json c s = struct_json
     [(''type'', Some (JString (string_of_scenario (s_type s)))), (''selection'', Some (selection_json (s_selection s))),
      (''action'', Some (action_json (s_action s))), (''network'', map_option (network_json c) (s_network s)),
      (''resourceExhaustion'', map_option (exhaustion_json c) (s_resourceExhaustion s))]"

definition flink_rest_json :: "codec \<Rightarrow> flink_rest_observe \<Rightarrow> json" where
  "flink_rest_json c f = struct_json
     [(''enabled'', bool_val (fr_enabled f)), (''endpoint'', str_val (fr_endpoint f)),
      (''requireStableCheckpointBeforeInject'', bool_val (fr_requireStableCheckpoint f)),
      (''checkpointStableWindowSeconds'', int_val (fr_stableWindowSeconds f)),
      (''checkpointWaitTimeout'', map_option (duration_json c) (fr_waitTimeout f))]"

definition observe_json :: "codec \<Rightarrow> observe_spec \<Rightarrow> json" where
  "observe_json c ob = struct_json
     [(''enabled'', bool_val (o_enabled ob)), (''timeout'', Some (duration_json c (o_timeout ob))),
      (''pollInterval'', Some (duration_json c (o_pollInterval ob))),
      (''flinkRest'', Some (flink_rest_json c (o_flinkRest ob)))]"

definition safety_json :: "codec \<Rightarrow> safety_spec \<Rightarrow> json" where
  "safety_json c sf = struct_json
     [(''dryRun'', bool_val (sf_dryRun sf)), (''maxConcurrentRunsPerTarget'', int_val (sf_maxConcurrentRuns sf)),
      (''minTaskManagersRemaining'', map_option int_json (sf_minTaskManagers sf)),
      (''allowSharedClusterImpact'', bool_val (sf_allowSharedCluster sf)),
      (''maxNetworkChaosDuration'', map_option (duration_json c) (sf_maxNetworkDuration sf)),
      (''allowCheckpointStorageChaos'', bool_val (sf_allowCheckpointStorage sf)),
      (''maxResourceExhaustionDuration'', map_option (duration_json c) (sf_maxExhaustionDuration sf))]"

definition control_json :: "control_spec \<Rightarrow> json" where
  "control_json ct = struct_json [(''abort'', bool_val (ctl_abort ct))]"

definition spec_json :: "codec \<Rightarrow> chaos_run_spec \<Rightarrow> json" where
  "spec_json c sp = struct_json
     [(''target'', Some (target_json (sp_target sp))), (''scenario'', Some (scenario_json c (sp_scenario sp))),
      (''observe'', Some (observe_json c (sp_observe sp))), (''safety'', Some (safety_json c (sp_safety sp))),
      (''control'', Some (control_json (sp_control sp)))]"

subsection \<open>The status\<close>

definition summary_json :: "target_summary \<Rightarrow> json" where
  "summary_json t = struct_json [(''type'', Some (JString (sum_type t))), (''name'', Some (JString (sum_name t)))]"

definition observation_json :: "codec \<Rightarrow> observation_status \<Rightarrow> json" where
  "observation_json c ob = struct_json
     [(''jobStateBefore'', str_val (ob_jobStateBefore ob)), (''jobStateAfter'', str_val (ob_jobStateAfter ob)),
      (''taskManagerCountBefore'', int_val (ob_tmCountBefore ob)), (''taskManagerCountAfter'', int_val (ob_tmCountAfter ob)),
      (''recoveryObservedAt'', map_option (time_json c) (ob_recoveryObservedAt ob)),
      (''recoveryTimeSeconds'', map_option int_json (ob_recoveryTimeSeconds ob))]"

definition record_json :: "codec \<Rightarrow> container_record \<Rightarrow> json" where
  "record_json c r = struct_json
     [(''podName'', Some (JString (er_podName r))), (''containerName'', Some (JString (er_containerName r))),
      (''injectedAt'', map_option (time_json c) (er_injectedAt r)), (''cleanedUp'', bool_val (er_cleanedUp r))]"

text \<open>\<^verbatim>\<open>metav1.Condition\<close>, of which the operator does not set \<^verbatim>\<open>observedGeneration\<close>.\<close>

definition condition_json :: "codec \<Rightarrow> condition \<Rightarrow> json" where
  "condition_json c cd = struct_json
     [(''type'', Some (JString (string_of_cond (c_type cd)))),
      (''status'', Some (JString (string_of_cond_status (c_status cd)))),
      (''lastTransitionTime'', Some (time_json c (c_time cd))), (''reason'', Some (JString (c_reason cd))),
      (''message'', Some (JString (c_message cd)))]"

definition status_json :: "codec \<Rightarrow> chaos_run_status \<Rightarrow> json" where
  "status_json c st = struct_json
     [(''phase'', str_val (string_of_phase (st_phase st))), (''verdict'', str_val (string_of_verdict (st_verdict st))),
      (''message'', str_val (st_message st)), (''startedAt'', map_option (time_json c) (st_startedAt st)),
      (''observingStartedAt'', map_option (time_json c) (st_observingStartedAt st)),
      (''endedAt'', map_option (time_json c) (st_endedAt st)),
      (''selectedPods'', list_val JString (st_selectedPods st)), (''injectedPods'', list_val JString (st_injectedPods st)),
      (''replacementObserved'', bool_val (st_replacementObserved st)),
      (''targetSummary'', map_option summary_json (st_targetSummary st)),
      (''observation'', map_option (observation_json c) (st_observation st)),
      (''networkPolicies'', list_val JString (st_networkPolicies st)),
      (''ephemeralContainerInjections'', list_val (record_json c) (st_tcInjections st)),
      (''resourceExhaustionInjections'', list_val (record_json c) (st_stressInjections st)),
      (''dryRunPreview'', str_val (st_dryRunPreview st)),
      (''conditions'', list_val (condition_json c) (st_conditions st))]"

subsection \<open>The decoders\<close>

text \<open>A duration that is not a pointer stays zero when its key is missing.\<close>

definition dec_zero :: "int decoder \<Rightarrow> int decoder" where
  "dec_zero f v = (if v = JNull then Inr 0 else f v)"

definition dec_requirement :: "selector_req decoder" where
  "dec_requirement = dec_struct (\<lambda>f. bind_dec (dec_string (f ''key'')) (\<lambda>k.
     bind_dec (dec_string (f ''operator'')) (\<lambda>oper. bind_dec (dec_list dec_string (f ''values'')) (\<lambda>vs.
     Inr \<lparr>sr_key = k, sr_operator = oper, sr_values = vs\<rparr>))))"

definition dec_selector :: "label_selector decoder" where
  "dec_selector = dec_struct (\<lambda>f. bind_dec (dec_map (f ''matchLabels'')) (\<lambda>m.
     bind_dec (dec_list dec_requirement (f ''matchExpressions'')) (\<lambda>es.
     Inr \<lparr>matchLabels = m, matchExpressions = es\<rparr>)))"

definition dec_target :: "target_spec decoder" where
  "dec_target = dec_struct (\<lambda>f. bind_dec (dec_string (f ''type'')) (\<lambda>ty.
     bind_dec (dec_string (f ''name'')) (\<lambda>n. bind_dec (dec_string (f ''deploymentId'')) (\<lambda>i.
     bind_dec (dec_string (f ''deploymentName'')) (\<lambda>d. bind_dec (dec_string (f ''vvpNamespace'')) (\<lambda>v.
     bind_dec (dec_pointer dec_selector (f ''selector'')) (\<lambda>sel.
     Inr \<lparr>t_type = target_type_of_string ty, t_name = n, t_deploymentID = i, t_deploymentName = d, t_vvpNamespace = v,
       t_selector = sel\<rparr>)))))))"

definition dec_selection :: "selection_spec decoder" where
  "dec_selection = dec_struct (\<lambda>f. bind_dec (dec_string (f ''mode'')) (\<lambda>m.
     bind_dec (dec_int32 (f ''count'')) (\<lambda>n. bind_dec (dec_list dec_string (f ''podNames'')) (\<lambda>ps.
     Inr \<lparr>sel_mode = mode_of_string m, sel_count = n, sel_podNames = ps\<rparr>))))"

definition dec_action :: "action_spec decoder" where
  "dec_action = dec_struct (\<lambda>f. bind_dec (dec_string (f ''type'')) (\<lambda>ty.
     bind_dec (dec_pointer dec_int (f ''gracePeriodSeconds'')) (\<lambda>g.
     Inr \<lparr>act_type = action_of_string ty, act_gracePeriodSeconds = g\<rparr>)))"

definition dec_endpoint :: "external_target decoder" where
  "dec_endpoint = dec_struct (\<lambda>f. bind_dec (dec_string (f ''cidr'')) (\<lambda>ci.
     bind_dec (dec_string (f ''hostname'')) (\<lambda>h. bind_dec (dec_int32 (f ''port'')) (\<lambda>p.
     Inr \<lparr>x_cidr = ci, x_hostname = h, x_port = p\<rparr>))))"

definition dec_network :: "codec \<Rightarrow> network_chaos_spec decoder" where
  "dec_network c = dec_struct (\<lambda>f. bind_dec (dec_string (f ''target'')) (\<lambda>t.
     bind_dec (dec_string (f ''direction'')) (\<lambda>d. bind_dec (dec_pointer dec_endpoint (f ''externalEndpoint'')) (\<lambda>x.
     bind_dec (dec_pointer (dec_with (du_parse c)) (f ''latency'')) (\<lambda>l.
     bind_dec (dec_pointer (dec_with (du_parse c)) (f ''jitter'')) (\<lambda>j.
     bind_dec (dec_pointer dec_int32 (f ''loss'')) (\<lambda>lo. bind_dec (dec_string (f ''bandwidth'')) (\<lambda>bw.
     bind_dec (dec_pointer (dec_with (du_parse c)) (f ''duration'')) (\<lambda>du.
     Inr \<lparr>n_target = net_target_of_string t, n_direction = direction_of_string d, n_externalEndpoint = x, n_latency = l,
       n_jitter = j, n_loss = lo, n_bandwidth = bw, n_duration = du\<rparr>)))))))))"

definition dec_exhaustion :: "codec \<Rightarrow> resource_exhaustion_spec decoder" where
  "dec_exhaustion c = dec_struct (\<lambda>f. bind_dec (dec_string (f ''mode'')) (\<lambda>m.
     bind_dec (dec_int32 (f ''workers'')) (\<lambda>w. bind_dec (dec_int32 (f ''memoryPercent'')) (\<lambda>p.
     bind_dec (dec_pointer (dec_with (du_parse c)) (f ''duration'')) (\<lambda>d.
     Inr \<lparr>re_mode = exhaustion_of_string m, re_workers = w, re_memoryPercent = p, re_duration = d\<rparr>)))))"

definition dec_scenario :: "codec \<Rightarrow> scenario_spec decoder" where
  "dec_scenario c = dec_struct (\<lambda>f. bind_dec (dec_string (f ''type'')) (\<lambda>ty.
     bind_dec (dec_selection (f ''selection'')) (\<lambda>sel. bind_dec (dec_action (f ''action'')) (\<lambda>a.
     bind_dec (dec_pointer (dec_network c) (f ''network'')) (\<lambda>n.
     bind_dec (dec_pointer (dec_exhaustion c) (f ''resourceExhaustion'')) (\<lambda>re.
     Inr \<lparr>s_type = scenario_of_string ty, s_selection = sel, s_action = a, s_network = n, s_resourceExhaustion = re\<rparr>))))))"

definition dec_flink_rest :: "codec \<Rightarrow> flink_rest_observe decoder" where
  "dec_flink_rest c = dec_struct (\<lambda>f. bind_dec (dec_bool (f ''enabled'')) (\<lambda>e.
     bind_dec (dec_string (f ''endpoint'')) (\<lambda>u. bind_dec (dec_bool (f ''requireStableCheckpointBeforeInject'')) (\<lambda>st.
     bind_dec (dec_int32 (f ''checkpointStableWindowSeconds'')) (\<lambda>w.
     bind_dec (dec_pointer (dec_with (du_parse c)) (f ''checkpointWaitTimeout'')) (\<lambda>t.
     Inr \<lparr>fr_enabled = e, fr_endpoint = u, fr_requireStableCheckpoint = st, fr_stableWindowSeconds = w,
       fr_waitTimeout = t\<rparr>))))))"

definition dec_observe :: "codec \<Rightarrow> observe_spec decoder" where
  "dec_observe c = dec_struct (\<lambda>f. bind_dec (dec_bool (f ''enabled'')) (\<lambda>e.
     bind_dec (dec_zero (dec_with (du_parse c)) (f ''timeout'')) (\<lambda>t.
     bind_dec (dec_zero (dec_with (du_parse c)) (f ''pollInterval'')) (\<lambda>p.
     bind_dec (dec_flink_rest c (f ''flinkRest'')) (\<lambda>fr.
     Inr \<lparr>o_enabled = e, o_timeout = t, o_pollInterval = p, o_flinkRest = fr\<rparr>)))))"

definition dec_safety :: "codec \<Rightarrow> safety_spec decoder" where
  "dec_safety c = dec_struct (\<lambda>f. bind_dec (dec_bool (f ''dryRun'')) (\<lambda>d.
     bind_dec (dec_int (f ''maxConcurrentRunsPerTarget'')) (\<lambda>n.
     bind_dec (dec_pointer dec_int32 (f ''minTaskManagersRemaining'')) (\<lambda>m.
     bind_dec (dec_bool (f ''allowSharedClusterImpact'')) (\<lambda>sh.
     bind_dec (dec_pointer (dec_with (du_parse c)) (f ''maxNetworkChaosDuration'')) (\<lambda>nd.
     bind_dec (dec_bool (f ''allowCheckpointStorageChaos'')) (\<lambda>cs.
     bind_dec (dec_pointer (dec_with (du_parse c)) (f ''maxResourceExhaustionDuration'')) (\<lambda>xd.
     Inr \<lparr>sf_dryRun = d, sf_maxConcurrentRuns = n, sf_minTaskManagers = m, sf_allowSharedCluster = sh,
       sf_maxNetworkDuration = nd, sf_allowCheckpointStorage = cs, sf_maxExhaustionDuration = xd\<rparr>))))))))"

definition dec_control :: "control_spec decoder" where
  "dec_control = dec_struct (\<lambda>f. bind_dec (dec_bool (f ''abort'')) (\<lambda>a. Inr \<lparr>ctl_abort = a\<rparr>))"

definition dec_spec :: "codec \<Rightarrow> chaos_run_spec decoder" where
  "dec_spec c = dec_struct (\<lambda>f. bind_dec (dec_target (f ''target'')) (\<lambda>t.
     bind_dec (dec_scenario c (f ''scenario'')) (\<lambda>s. bind_dec (dec_observe c (f ''observe'')) (\<lambda>ob.
     bind_dec (dec_safety c (f ''safety'')) (\<lambda>sf. bind_dec (dec_control (f ''control'')) (\<lambda>ct.
     Inr \<lparr>sp_target = t, sp_scenario = s, sp_observe = ob, sp_safety = sf, sp_control = ct\<rparr>))))))"

definition dec_summary :: "target_summary decoder" where
  "dec_summary = dec_struct (\<lambda>f. bind_dec (dec_string (f ''type'')) (\<lambda>t.
     bind_dec (dec_string (f ''name'')) (\<lambda>n. Inr \<lparr>sum_type = t, sum_name = n\<rparr>)))"

definition dec_observation :: "codec \<Rightarrow> observation_status decoder" where
  "dec_observation c = dec_struct (\<lambda>f. bind_dec (dec_string (f ''jobStateBefore'')) (\<lambda>jb.
     bind_dec (dec_string (f ''jobStateAfter'')) (\<lambda>ja. bind_dec (dec_int (f ''taskManagerCountBefore'')) (\<lambda>tb.
     bind_dec (dec_int (f ''taskManagerCountAfter'')) (\<lambda>ta.
     bind_dec (dec_pointer (dec_with (tm_parse c)) (f ''recoveryObservedAt'')) (\<lambda>at.
     bind_dec (dec_pointer dec_int (f ''recoveryTimeSeconds'')) (\<lambda>secs.
     Inr \<lparr>ob_jobStateBefore = jb, ob_jobStateAfter = ja, ob_tmCountBefore = tb, ob_tmCountAfter = ta,
       ob_recoveryObservedAt = at, ob_recoveryTimeSeconds = secs\<rparr>)))))))"

definition dec_record :: "codec \<Rightarrow> container_record decoder" where
  "dec_record c = dec_struct (\<lambda>f. bind_dec (dec_string (f ''podName'')) (\<lambda>p.
     bind_dec (dec_string (f ''containerName'')) (\<lambda>n.
     bind_dec (dec_pointer (dec_with (tm_parse c)) (f ''injectedAt'')) (\<lambda>at.
     bind_dec (dec_bool (f ''cleanedUp'')) (\<lambda>cl.
     Inr \<lparr>er_podName = p, er_containerName = n, er_injectedAt = at, er_cleanedUp = cl\<rparr>)))))"

definition dec_condition :: "codec \<Rightarrow> condition decoder" where
  "dec_condition c = dec_struct (\<lambda>f. bind_dec (dec_string (f ''type'')) (\<lambda>ty.
     bind_dec (dec_string (f ''status'')) (\<lambda>st. bind_dec (dec_with (tm_parse c) (f ''lastTransitionTime'')) (\<lambda>t.
     bind_dec (dec_string (f ''reason'')) (\<lambda>r. bind_dec (dec_string (f ''message'')) (\<lambda>m.
     Inr \<lparr>c_type = cond_of_string ty, c_status = cond_status_of_string st, c_reason = r, c_message = m, c_time = t\<rparr>))))))"

definition dec_status :: "codec \<Rightarrow> chaos_run_status decoder" where
  "dec_status c = dec_struct (\<lambda>f. bind_dec (dec_string (f ''phase'')) (\<lambda>p.
     bind_dec (dec_string (f ''verdict'')) (\<lambda>v. bind_dec (dec_string (f ''message'')) (\<lambda>m.
     bind_dec (dec_pointer (dec_with (tm_parse c)) (f ''startedAt'')) (\<lambda>t1.
     bind_dec (dec_pointer (dec_with (tm_parse c)) (f ''observingStartedAt'')) (\<lambda>t2.
     bind_dec (dec_pointer (dec_with (tm_parse c)) (f ''endedAt'')) (\<lambda>t3.
     bind_dec (dec_list dec_string (f ''selectedPods'')) (\<lambda>sel.
     bind_dec (dec_list dec_string (f ''injectedPods'')) (\<lambda>inj. bind_dec (dec_bool (f ''replacementObserved'')) (\<lambda>rep.
     bind_dec (dec_pointer dec_summary (f ''targetSummary'')) (\<lambda>sm.
     bind_dec (dec_pointer (dec_observation c) (f ''observation'')) (\<lambda>ob.
     bind_dec (dec_list dec_string (f ''networkPolicies'')) (\<lambda>np.
     bind_dec (dec_list (dec_record c) (f ''ephemeralContainerInjections'')) (\<lambda>tc.
     bind_dec (dec_list (dec_record c) (f ''resourceExhaustionInjections'')) (\<lambda>sx.
     bind_dec (dec_string (f ''dryRunPreview'')) (\<lambda>dr. bind_dec (dec_list (dec_condition c) (f ''conditions'')) (\<lambda>cs.
     Inr \<lparr>st_phase = phase_of_string p, st_verdict = verdict_of_string v, st_message = m, st_startedAt = t1,
       st_observingStartedAt = t2, st_endedAt = t3, st_selectedPods = sel, st_injectedPods = inj, st_replacementObserved = rep,
       st_targetSummary = sm, st_observation = ob, st_networkPolicies = np, st_tcInjections = tc, st_stressInjections = sx,
       st_dryRunPreview = dr, st_conditions = cs\<rparr>)))))))))))))))))"

end
