(* ===== verification/Schemas.thy ===== *)
theory Schemas
  imports Wire_Run
begin

section \<open>The schemas of the ChaosRun resource\<close>

text \<open>
  The Kubernetes API server stores of an object what the structural schema of its resource names, and
  admits it when the rest meets the schema. There are three schemas of a ChaosRun: the one that
  controller-gen makes of the markers in \<^verbatim>\<open>api/v1alpha1/chaosrun_types.go\<close>; the file that is checked in
  as its output, \<^verbatim>\<open>config/crd/bases\<close>, which an older version of the types left behind; and the one that
  the Helm chart installs, \<^verbatim>\<open>templates/crd.yaml\<close>. The conditions are a list that is a map by type,
  whose keys must differ. For the items of that list the first schema takes over the limits
  that the markers of \<^verbatim>\<open>metav1.Condition\<close> are documented to set; the two files have none. Integer formats are left out, since the values come
  from Go integers of that width, and so is the format \<^verbatim>\<open>date-time\<close>.
\<close>

datatype crd = GeneratedCrd | BasesCrd | ChartCrd

subsection \<open>Patterns\<close>

text \<open>Anchored regular expressions over bytes, matched by derivatives.\<close>

datatype rexp = NothingR | EmptyR | CharsR string | AltR rexp rexp | SeqR rexp rexp | StarR rexp

primrec nullable :: "rexp \<Rightarrow> bool" where
  "nullable NothingR = False"
| "nullable EmptyR = True"
| "nullable (CharsR cs) = False"
| "nullable (AltR r1 r2) = (nullable r1 \<or> nullable r2)"
| "nullable (SeqR r1 r2) = (nullable r1 \<and> nullable r2)"
| "nullable (StarR r) = True"

primrec derivative :: "char \<Rightarrow> rexp \<Rightarrow> rexp" where
  "derivative c NothingR = NothingR"
| "derivative c EmptyR = NothingR"
| "derivative c (CharsR cs) = (if c \<in> set cs then EmptyR else NothingR)"
| "derivative c (AltR r1 r2) = AltR (derivative c r1) (derivative c r2)"
| "derivative c (SeqR r1 r2) =
     (if nullable r1 then AltR (SeqR (derivative c r1) r2) (derivative c r2) else SeqR (derivative c r1) r2)"
| "derivative c (StarR r) = SeqR (derivative c r) (StarR r)"

definition matches :: "rexp \<Rightarrow> string \<Rightarrow> bool" where
  "matches r s = nullable (fold derivative s r)"

text \<open>The length of a text in characters: its bytes without the continuation bytes of UTF-8.\<close>

definition rune_count :: "string \<Rightarrow> nat" where
  "rune_count s = length (filter (\<lambda>c. of_char c < (128 :: nat) \<or> 192 \<le> (of_char c :: nat)) s)"

subsection \<open>Structural schemas\<close>

datatype schema =
    StringS "string list"  \<comment> \<open>the values of \<^verbatim>\<open>enum\<close>, empty when there is none\<close>
  | TextS nat nat "rexp option"  \<comment> \<open>\<^verbatim>\<open>minLength\<close>, \<^verbatim>\<open>maxLength\<close> and \<^verbatim>\<open>pattern\<close>\<close>
  | IntS "int option" "int option"  \<comment> \<open>\<^verbatim>\<open>minimum\<close> and \<^verbatim>\<open>maximum\<close>\<close>
  | BoolS
  | ArrayS schema
  | ListMapS "string list" schema  \<comment> \<open>\<^verbatim>\<open>x-kubernetes-list-type: map\<close> with its \<^verbatim>\<open>list-map-keys\<close>\<close>
  | MapS schema  \<comment> \<open>\<^verbatim>\<open>additionalProperties\<close>\<close>
  | ObjectS "(string \<times> schema) list" "string list"  \<comment> \<open>\<^verbatim>\<open>properties\<close> and \<^verbatim>\<open>required\<close>\<close>

definition within :: "int option \<Rightarrow> int option \<Rightarrow> int \<Rightarrow> bool" where
  "within lo hi i \<longleftrightarrow> (case lo of None \<Rightarrow> True | Some l \<Rightarrow> l \<le> i) \<and> (case hi of None \<Rightarrow> True | Some h \<Rightarrow> i \<le> h)"

text \<open>The key of an item of a list of that type, which must be unique in the list.\<close>

definition item_key :: "string list \<Rightarrow> json \<Rightarrow> json option list" where
  "item_key ks j = (case j of JObject kvs \<Rightarrow> map (map_of kvs) ks | _ \<Rightarrow> [])"

primrec admits :: "json \<Rightarrow> schema \<Rightarrow> bool" where
  "admits JNull s = False"
| "admits (JBool b) s = (s = BoolS)"
| "admits (JNumber l) s =
     (case s of IntS lo hi \<Rightarrow> (case parse_int64 l of None \<Rightarrow> False | Some i \<Rightarrow> within lo hi i) | _ \<Rightarrow> False)"
| "admits (JString x) s = (case s of
        StringS enum \<Rightarrow> enum = [] \<or> x \<in> set enum
      | TextS lo hi p \<Rightarrow> lo \<le> rune_count x \<and> rune_count x \<le> hi \<and> (case p of None \<Rightarrow> True | Some r \<Rightarrow> matches r x)
      | _ \<Rightarrow> False)"
| "admits (JArray xs) s =
     (case s of
        ArrayS t \<Rightarrow> list_all (\<lambda>ok. ok t) (map admits xs)
      | ListMapS ks t \<Rightarrow> list_all (\<lambda>ok. ok t) (map admits xs) \<and> distinct (map (item_key ks) xs)
      | _ \<Rightarrow> False)"
| "admits (JObject kvs) s =
     (case s of
        ObjectS ps req \<Rightarrow> list_all (\<lambda>r. r \<in> fst ` set kvs) req \<and>
          list_all (\<lambda>(k, ok). case map_of ps k of None \<Rightarrow> True | Some t \<Rightarrow> ok t) (map (map_prod id admits) kvs)
      | MapS t \<Rightarrow> list_all (\<lambda>(k, ok). ok t) (map (map_prod id admits) kvs)
      | _ \<Rightarrow> False)"

text \<open>Pruning: the keys that the schema does not name are dropped, at every level.\<close>

primrec prune :: "json \<Rightarrow> schema \<Rightarrow> json" where
  "prune JNull s = JNull"
| "prune (JBool b) s = JBool b"
| "prune (JNumber l) s = JNumber l"
| "prune (JString x) s = JString x"
| "prune (JArray xs) s = JArray
     (case s of ArrayS t \<Rightarrow> map (\<lambda>f. f t) (map prune xs) | ListMapS ks t \<Rightarrow> map (\<lambda>f. f t) (map prune xs) | _ \<Rightarrow> xs)"
| "prune (JObject kvs) s = JObject
     (case s of
        ObjectS ps req \<Rightarrow> List.map_filter (\<lambda>(k, f). map_option (\<lambda>t. (k, f t)) (map_of ps k)) (map (map_prod id prune) kvs)
      | MapS t \<Rightarrow> map (\<lambda>(k, f). (k, f t)) (map (map_prod id prune) kvs)
      | _ \<Rightarrow> kvs)"

subsection \<open>The parts the schemas share\<close>

definition strings_schema :: schema where "strings_schema = ArrayS (StringS [])"

definition selector_schema :: schema where
  "selector_schema = ObjectS
     [(''matchExpressions'', ArrayS (ObjectS [(''key'', StringS []), (''operator'', StringS []), (''values'', strings_schema)]
         [''key'', ''operator''])),
      (''matchLabels'', MapS (StringS []))] []"

definition target_schema :: schema where
  "target_schema = ObjectS
     [(''deploymentId'', StringS []), (''deploymentName'', StringS []), (''name'', StringS []),
      (''selector'', selector_schema), (''type'', StringS [''FlinkDeployment'', ''VervericaDeployment'', ''PodSelector'']),
      (''vvpNamespace'', StringS [])] [''type'']"

definition selection_schema :: schema where
  "selection_schema = ObjectS
     [(''count'', IntS (Some 1) None), (''mode'', StringS [''Random'', ''Explicit'']), (''podNames'', strings_schema)] []"

definition network_schema :: "schema \<Rightarrow> schema" where
  "network_schema port = ObjectS
     [(''bandwidth'', StringS []), (''direction'', StringS [''Ingress'', ''Egress'', ''Both'']), (''duration'', StringS []),
      (''externalEndpoint'', ObjectS [(''cidr'', StringS []), (''hostname'', StringS []), (''port'', port)] []),
      (''jitter'', StringS []), (''latency'', StringS []), (''loss'', IntS (Some 0) (Some 100)),
      (''target'', StringS [''TMtoTM'', ''TMtoJM'', ''TMtoCheckpoint'', ''TMtoExternal''])] [''target'']"

definition exhaustion_schema :: schema where
  "exhaustion_schema = ObjectS
     [(''duration'', StringS []), (''memoryPercent'', IntS (Some 1) (Some 100)), (''mode'', StringS [''CPU'', ''Memory'']),
      (''workers'', IntS (Some 1) None)] [''mode'']"

definition scenario_schema :: "schema \<Rightarrow> schema \<Rightarrow> schema" where
  "scenario_schema action port = ObjectS
     [(''action'', action), (''network'', network_schema port), (''resourceExhaustion'', exhaustion_schema),
      (''selection'', selection_schema),
      (''type'', StringS [''TaskManagerPodKill'', ''NetworkPartition'', ''NetworkChaos'', ''ResourceExhaustion''])] [''type'']"

definition observe_schema :: "schema \<Rightarrow> schema" where
  "observe_schema flinkRest = ObjectS
     [(''enabled'', BoolS), (''flinkRest'', flinkRest), (''pollInterval'', StringS []), (''timeout'', StringS [])] []"

definition spec_schema_of :: "schema \<Rightarrow> schema \<Rightarrow> schema \<Rightarrow> schema \<Rightarrow> schema" where
  "spec_schema_of action port flinkRest safety = ObjectS
     [(''control'', ObjectS [(''abort'', BoolS)] []), (''observe'', observe_schema flinkRest), (''safety'', safety),
      (''scenario'', scenario_schema action port), (''target'', target_schema)] [''scenario'', ''target'']"

definition condition_schema :: schema where
  "condition_schema = ObjectS
     [(''lastTransitionTime'', StringS []), (''message'', StringS []), (''observedGeneration'', IntS None None),
      (''reason'', StringS []), (''status'', StringS []), (''type'', StringS [])]
     [''lastTransitionTime'', ''message'', ''reason'', ''status'', ''type'']"

definition summary_schema :: schema where
  "summary_schema = ObjectS [(''name'', StringS []), (''type'', StringS [])] [''name'', ''type'']"

definition verdict_schema :: schema where "verdict_schema = StringS [''Passed'', ''Failed'', ''Inconclusive'']"

subsection \<open>Generated from the markers\<close>

text \<open>
  The markers of \<^verbatim>\<open>metav1.Condition\<close> limit its texts, and controller-gen writes the limits out:
  a reason is an identifier, a type a label key, the status one of three words.
\<close>

definition lower_chars :: string where "lower_chars = ''abcdefghijklmnopqrstuvwxyz''"
definition upper_chars :: string where "upper_chars = ''ABCDEFGHIJKLMNOPQRSTUVWXYZ''"
definition digit_chars :: string where "digit_chars = ''0123456789''"

definition optional_r :: "rexp \<Rightarrow> rexp" where "optional_r r = AltR EmptyR r"

text \<open>\<^verbatim>\<open>^[A-Za-z]([A-Za-z0-9_,:]*[A-Za-z0-9_])?$\<close>\<close>

definition reason_pattern :: rexp where
  "reason_pattern =
     (let word = lower_chars @ upper_chars @ digit_chars
      in SeqR (CharsR (lower_chars @ upper_chars))
           (optional_r (SeqR (StarR (CharsR (word @ ''_,:''))) (CharsR (word @ ''_'')))))"

text \<open>
  \<^verbatim>\<open>^([a-z0-9]([-a-z0-9]*[a-z0-9])?(\.[a-z0-9]([-a-z0-9]*[a-z0-9])?)*/)?(([A-Za-z0-9][-A-Za-z0-9_.]*)?[A-Za-z0-9])$\<close>
\<close>

definition type_pattern :: rexp where
  "type_pattern =
     (let low = lower_chars @ digit_chars; word = lower_chars @ upper_chars @ digit_chars;
          dns = SeqR (CharsR low) (optional_r (SeqR (StarR (CharsR (''-'' @ low))) (CharsR low)))
      in SeqR (optional_r (SeqR dns (SeqR (StarR (SeqR (CharsR ''.'') dns)) (CharsR ''/''))))
           (SeqR (optional_r (SeqR (CharsR word) (StarR (CharsR (word @ ''-_.''))))) (CharsR word)))"

definition generated_condition_schema :: schema where
  "generated_condition_schema = ObjectS
     [(''lastTransitionTime'', StringS []), (''message'', TextS 0 32768 None), (''observedGeneration'', IntS (Some 0) None),
      (''reason'', TextS 1 1024 (Some reason_pattern)), (''status'', StringS [''True'', ''False'', ''Unknown'']),
      (''type'', TextS 0 316 (Some type_pattern))]
     [''lastTransitionTime'', ''message'', ''reason'', ''status'', ''type'']"

definition generated_spec_schema :: schema where
  "generated_spec_schema = spec_schema_of
     (ObjectS [(''type'', StringS [''DeletePod'']), (''gracePeriodSeconds'', IntS (Some 0) None)] [])
     (IntS (Some 1) (Some 65535))
     (ObjectS [(''enabled'', BoolS), (''endpoint'', StringS []), (''requireStableCheckpointBeforeInject'', BoolS),
        (''checkpointStableWindowSeconds'', IntS (Some 1) None), (''checkpointWaitTimeout'', StringS [])] [])
     (ObjectS [(''dryRun'', BoolS), (''maxConcurrentRunsPerTarget'', IntS (Some 1) None),
        (''minTaskManagersRemaining'', IntS (Some 0) None), (''allowSharedClusterImpact'', BoolS),
        (''maxNetworkChaosDuration'', StringS []), (''allowCheckpointStorageChaos'', BoolS),
        (''maxResourceExhaustionDuration'', StringS [])] [])"

definition generated_record_schema :: schema where
  "generated_record_schema = ObjectS
     [(''podName'', StringS []), (''containerName'', StringS []), (''injectedAt'', StringS []), (''cleanedUp'', BoolS)]
     [''podName'', ''containerName'']"

definition generated_observation_schema :: schema where
  "generated_observation_schema = ObjectS
     [(''jobStateBefore'', StringS []), (''jobStateAfter'', StringS []), (''taskManagerCountBefore'', IntS None None),
      (''taskManagerCountAfter'', IntS None None), (''recoveryObservedAt'', StringS []),
      (''recoveryTimeSeconds'', IntS None None)] []"

definition generated_status_schema :: schema where
  "generated_status_schema = ObjectS
     [(''phase'', StringS [''Pending'', ''Injecting'', ''Observing'', ''CleaningUp'', ''Completed'', ''Aborted'', ''Failed'']),
      (''verdict'', verdict_schema), (''message'', StringS []), (''startedAt'', StringS []), (''observingStartedAt'', StringS []),
      (''endedAt'', StringS []), (''selectedPods'', strings_schema), (''injectedPods'', strings_schema),
      (''replacementObserved'', BoolS), (''targetSummary'', summary_schema),
      (''observation'', generated_observation_schema),
      (''networkPolicies'', strings_schema), (''ephemeralContainerInjections'', ArrayS generated_record_schema),
      (''resourceExhaustionInjections'', ArrayS generated_record_schema), (''dryRunPreview'', StringS []),
      (''conditions'', ListMapS [''type''] generated_condition_schema)] []"

subsection \<open>Checked in under \<^verbatim>\<open>config/crd/bases\<close>\<close>

definition bases_spec_schema :: schema where
  "bases_spec_schema = spec_schema_of
     (ObjectS [(''gracePeriodSeconds'', IntS (Some 0) None), (''type'', StringS [''DeletePod'', ''''])] [])
     (IntS None None)
     (ObjectS [(''enabled'', BoolS), (''endpoint'', StringS [])] [])
     (ObjectS [(''allowSharedClusterImpact'', BoolS), (''dryRun'', BoolS), (''maxConcurrentRunsPerTarget'', IntS (Some 1) None),
        (''minTaskManagersRemaining'', IntS (Some 0) None)] [])"

definition bases_observation_schema :: schema where
  "bases_observation_schema = ObjectS
     [(''jobStateAfter'', StringS []), (''jobStateBefore'', StringS []), (''recoveryObservedAt'', StringS []),
      (''recoveryTimeSeconds'', IntS None None), (''taskManagerCountAfter'', IntS None None),
      (''taskManagerCountBefore'', IntS None None)] []"

definition bases_status_schema :: schema where
  "bases_status_schema = ObjectS
     [(''conditions'', ListMapS [''type''] condition_schema), (''endedAt'', StringS []), (''injectedPods'', strings_schema),
      (''message'', StringS []),
      (''observation'', bases_observation_schema),
      (''phase'', StringS [''Pending'', ''Injecting'', ''Observing'', ''CleaningUp'', ''Completed'', ''Aborted'', ''Failed'']),
      (''replacementObserved'', BoolS), (''selectedPods'', strings_schema), (''observingStartedAt'', StringS []),
      (''startedAt'', StringS []), (''targetSummary'', summary_schema), (''verdict'', verdict_schema)] []"

subsection \<open>Installed by the chart\<close>

definition chart_spec_schema :: schema where
  "chart_spec_schema = spec_schema_of
     (ObjectS [(''gracePeriodSeconds'', IntS (Some 0) None), (''type'', StringS [''DeletePod''])] [''type''])
     (IntS (Some 1) (Some 65535))
     (ObjectS [(''checkpointStableWindowSeconds'', IntS (Some 1) None), (''checkpointWaitTimeout'', StringS []),
        (''enabled'', BoolS), (''endpoint'', StringS []), (''requireStableCheckpointBeforeInject'', BoolS)] [])
     (ObjectS [(''allowCheckpointStorageChaos'', BoolS), (''allowSharedClusterImpact'', BoolS), (''dryRun'', BoolS),
        (''maxConcurrentRunsPerTarget'', IntS (Some 1) None), (''maxNetworkChaosDuration'', StringS []),
        (''maxResourceExhaustionDuration'', StringS []), (''minTaskManagersRemaining'', IntS (Some 0) None)] [])"

definition chart_record_schema :: schema where
  "chart_record_schema = ObjectS
     [(''containerName'', StringS []), (''injectedAt'', StringS []), (''podName'', StringS [])] [''containerName'', ''podName'']"

definition chart_observation_schema :: schema where
  "chart_observation_schema = ObjectS
     [(''jobStateAfter'', StringS []), (''jobStateBefore'', StringS []), (''recoveryObservedAt'', StringS []),
      (''taskManagerCountAfter'', IntS None None), (''taskManagerCountBefore'', IntS None None)] []"

definition chart_status_schema :: schema where
  "chart_status_schema = ObjectS
     [(''conditions'', ListMapS [''type''] condition_schema), (''endedAt'', StringS []),
      (''ephemeralContainerInjections'', ArrayS chart_record_schema), (''injectedPods'', strings_schema), (''message'', StringS []),
      (''observation'', chart_observation_schema),
      (''observingStartedAt'', StringS []),
      (''phase'', StringS [''Pending'', ''Validating'', ''Injecting'', ''Observing'', ''CleaningUp'', ''Completed'', ''Aborted'',
         ''Failed'']),
      (''replacementObserved'', BoolS), (''resourceExhaustionInjections'', ArrayS chart_record_schema),
      (''selectedPods'', strings_schema), (''startedAt'', StringS []), (''targetSummary'', summary_schema),
      (''verdict'', verdict_schema)] []"

definition spec_schema :: "crd \<Rightarrow> schema" where
  "spec_schema crd = (case crd of GeneratedCrd \<Rightarrow> generated_spec_schema | BasesCrd \<Rightarrow> bases_spec_schema
     | ChartCrd \<Rightarrow> chart_spec_schema)"

subsection \<open>Defaults\<close>

text \<open>
  The markers give two fields of a network a default, which the server fills in where an object has
  the struct without the field; the two files have none. A default is a path and a value.
\<close>

fun fill_default :: "string list \<Rightarrow> json \<Rightarrow> json \<Rightarrow> json" where
  "fill_default [k] v (JObject kvs) = JObject (if k \<in> fst ` set kvs then kvs else kvs @ [(k, v)])"
| "fill_default (k # k2 # ks) v (JObject kvs) =
     JObject (map (\<lambda>(n, j). (n, if n = k then fill_default (k2 # ks) v j else j)) kvs)"
| "fill_default _ v j = j"

definition spec_defaults :: "crd \<Rightarrow> (string list \<times> json) list" where
  "spec_defaults crd = (case crd of
     GeneratedCrd \<Rightarrow> [([''scenario'', ''network'', ''target''], JString ''TMtoJM''),
       ([''scenario'', ''network'', ''direction''], JString ''Both'')]
   | _ \<Rightarrow> [])"

definition stored_spec :: "crd \<Rightarrow> json \<Rightarrow> json" where
  "stored_spec crd j = fold (\<lambda>(path, v). fill_default path v) (spec_defaults crd) (prune j (spec_schema crd))"

definition status_schema :: "crd \<Rightarrow> schema" where
  "status_schema crd = (case crd of GeneratedCrd \<Rightarrow> generated_status_schema | BasesCrd \<Rightarrow> bases_status_schema
     | ChartCrd \<Rightarrow> chart_status_schema)"

end
