(* ===== verification/Stored_Form.thy ===== *)
theory Stored_Form
  imports Schemas
begin

section \<open>What the server keeps of a ChaosRun\<close>

text \<open>
  The way of a spec or a status through the API server: the client writes it as JSON, the server
  prunes the JSON by the schema of the resource and fills in its defaults, and a client reads the result. \<open>kept_spec\<close> and
  \<open>kept_status\<close> say in terms of the Go values what comes back.
\<close>

subsection \<open>In terms of the Go values\<close>

definition kept_record :: "crd \<Rightarrow> container_record \<Rightarrow> container_record" where
  "kept_record crd r = r\<lparr>er_injectedAt := map_option whole (er_injectedAt r),
     er_cleanedUp := er_cleanedUp r \<and> crd = GeneratedCrd\<rparr>"

definition kept_observation :: "crd \<Rightarrow> observation_status \<Rightarrow> observation_status" where
  "kept_observation crd ob = ob\<lparr>ob_recoveryObservedAt := map_option whole (ob_recoveryObservedAt ob),
     ob_recoveryTimeSeconds := (if crd = ChartCrd then None else ob_recoveryTimeSeconds ob)\<rparr>"

definition kept_status :: "crd \<Rightarrow> chaos_run_status \<Rightarrow> chaos_run_status" where
  "kept_status crd st = st\<lparr>
     st_startedAt := map_option whole (st_startedAt st),
     st_observingStartedAt := map_option whole (st_observingStartedAt st),
     st_endedAt := map_option whole (st_endedAt st),
     st_observation := map_option (kept_observation crd) (st_observation st),
     st_networkPolicies := (if crd = GeneratedCrd then st_networkPolicies st else []),
     st_tcInjections := (if crd = BasesCrd then [] else map (kept_record crd) (st_tcInjections st)),
     st_stressInjections := (if crd = BasesCrd then [] else map (kept_record crd) (st_stressInjections st)),
     st_dryRunPreview := (if crd = GeneratedCrd then st_dryRunPreview st else ''''),
     st_conditions := map (c_time_update whole) (st_conditions st)\<rparr>"

definition filled_network :: "network_chaos_spec \<Rightarrow> network_chaos_spec" where
  "filled_network n = (if n_direction n = NoDirection then n\<lparr>n_direction := Both\<rparr> else n)"

definition kept_spec :: "crd \<Rightarrow> chaos_run_spec \<Rightarrow> chaos_run_spec" where
  "kept_spec crd sp =
     (if crd = BasesCrd then
        sp\<lparr>sp_observe := (sp_observe sp)\<lparr>o_flinkRest := (o_flinkRest (sp_observe sp))\<lparr>
               fr_requireStableCheckpoint := False, fr_stableWindowSeconds := 0, fr_waitTimeout := None\<rparr>\<rparr>,
           sp_safety := (sp_safety sp)\<lparr>sf_maxNetworkDuration := None, sf_allowCheckpointStorage := False,
               sf_maxExhaustionDuration := None\<rparr>\<rparr>
      else if crd = GeneratedCrd then
        sp\<lparr>sp_scenario := (sp_scenario sp)\<lparr>s_network := map_option filled_network (s_network (sp_scenario sp))\<rparr>\<rparr>
      else sp)"

lemma kept_status_simps [simp]:
  "st_phase (kept_status crd st) = st_phase st"
  "st_verdict (kept_status crd st) = st_verdict st"
  "st_message (kept_status crd st) = st_message st"
  "st_startedAt (kept_status crd st) = map_option whole (st_startedAt st)"
  "st_observingStartedAt (kept_status crd st) = map_option whole (st_observingStartedAt st)"
  "st_injectedPods (kept_status crd st) = st_injectedPods st"
  by (simp_all add: kept_status_def)

subsection \<open>Values of Go\<close>

definition opt_all :: "('a \<Rightarrow> bool) \<Rightarrow> 'a option \<Rightarrow> bool" where
  "opt_all P x = (case x of None \<Rightarrow> True | Some y \<Rightarrow> P y)"

lemma opt_all_simps [simp]: "opt_all P None" "opt_all P (Some x) = P x"
  by (simp_all add: opt_all_def)

definition record_wf :: "container_record \<Rightarrow> bool" where
  "record_wf r \<longleftrightarrow> opt_all in_i64 (er_injectedAt r)"

definition observation_wf :: "observation_status \<Rightarrow> bool" where
  "observation_wf ob \<longleftrightarrow> in_i64 (ob_tmCountBefore ob) \<and> in_i64 (ob_tmCountAfter ob) \<and>
     opt_all in_i64 (ob_recoveryObservedAt ob) \<and> opt_all in_i64 (ob_recoveryTimeSeconds ob)"

definition condition_wf :: "condition \<Rightarrow> bool" where
  "condition_wf cd \<longleftrightarrow> in_i64 (c_time cd) \<and> cond_of_string (string_of_cond (c_type cd)) = c_type cd \<and>
     cond_status_of_string (string_of_cond_status (c_status cd)) = c_status cd"

definition status_wf :: "chaos_run_status \<Rightarrow> bool" where
  "status_wf st \<longleftrightarrow> phase_of_string (string_of_phase (st_phase st)) = st_phase st \<and>
     verdict_of_string (string_of_verdict (st_verdict st)) = st_verdict st \<and>
     opt_all in_i64 (st_startedAt st) \<and> opt_all in_i64 (st_observingStartedAt st) \<and> opt_all in_i64 (st_endedAt st) \<and>
     opt_all observation_wf (st_observation st) \<and> list_all record_wf (st_tcInjections st) \<and>
     list_all record_wf (st_stressInjections st) \<and> list_all condition_wf (st_conditions st)"

definition network_wf :: "network_chaos_spec \<Rightarrow> bool" where
  "network_wf n \<longleftrightarrow> net_target_of_string (string_of_net_target (n_target n)) = n_target n \<and>
     direction_of_string (string_of_direction (n_direction n)) = n_direction n \<and>
     opt_all (\<lambda>x. in_i32 (x_port x)) (n_externalEndpoint n) \<and> opt_all in_i64 (n_latency n) \<and>
     opt_all in_i64 (n_jitter n) \<and> opt_all in_i32 (n_loss n) \<and> opt_all in_i64 (n_duration n)"

definition exhaustion_wf :: "resource_exhaustion_spec \<Rightarrow> bool" where
  "exhaustion_wf re \<longleftrightarrow> exhaustion_of_string (string_of_exhaustion (re_mode re)) = re_mode re \<and>
     in_i32 (re_workers re) \<and> in_i32 (re_memoryPercent re) \<and> opt_all in_i64 (re_duration re)"

definition scenario_spec_wf :: "scenario_spec \<Rightarrow> bool" where
  "scenario_spec_wf s \<longleftrightarrow> scenario_wf (s_type s) \<and>
     mode_of_string (string_of_mode (sel_mode (s_selection s))) = sel_mode (s_selection s) \<and>
     in_i32 (sel_count (s_selection s)) \<and>
     action_of_string (string_of_action (act_type (s_action s))) = act_type (s_action s) \<and>
     opt_all in_i64 (act_gracePeriodSeconds (s_action s)) \<and> opt_all network_wf (s_network s) \<and>
     opt_all exhaustion_wf (s_resourceExhaustion s)"

definition observe_wf :: "observe_spec \<Rightarrow> bool" where
  "observe_wf ob \<longleftrightarrow> in_i64 (o_timeout ob) \<and> in_i64 (o_pollInterval ob) \<and>
     in_i32 (fr_stableWindowSeconds (o_flinkRest ob)) \<and> opt_all in_i64 (fr_waitTimeout (o_flinkRest ob))"

definition safety_wf :: "safety_spec \<Rightarrow> bool" where
  "safety_wf sf \<longleftrightarrow> in_i64 (sf_maxConcurrentRuns sf) \<and> opt_all in_i32 (sf_minTaskManagers sf) \<and>
     opt_all in_i64 (sf_maxNetworkDuration sf) \<and> opt_all in_i64 (sf_maxExhaustionDuration sf)"

definition spec_wf :: "chaos_run_spec \<Rightarrow> bool" where
  "spec_wf sp \<longleftrightarrow> target_type_of_string (string_of_target_type (t_type (sp_target sp))) = t_type (sp_target sp) \<and>
     scenario_spec_wf (sp_scenario sp) \<and> observe_wf (sp_observe sp) \<and> safety_wf (sp_safety sp)"

subsection \<open>Pruning a struct\<close>

definition prune_fields :: "(string \<times> schema) list \<Rightarrow> (string \<times> json option) list \<Rightarrow> (string \<times> json option) list" where
  "prune_fields ps fs =
     List.map_filter (\<lambda>(k, v). map_option (\<lambda>s. (k, map_option (\<lambda>x. prune x s) v)) (map_of ps k)) fs"

lemma prune_fields_simps [simp]:
  "prune_fields ps [] = []"
  "prune_fields ps ((k, v) # fs) = (case map_of ps k of None \<Rightarrow> prune_fields ps fs
     | Some s \<Rightarrow> (k, map_option (\<lambda>x. prune x s) v) # prune_fields ps fs)"
  by (simp_all add: prune_fields_def map_filter_simps split: option.splits)

lemma prune_struct [simp]: "prune (struct_json fs) (ObjectS ps req) = struct_json (prune_fields ps fs)"
proof -
  have "List.map_filter (\<lambda>(k, f). map_option (\<lambda>t. (k, f t)) (map_of ps k)) (map (map_prod id prune) (present fs)) =
      present (prune_fields ps fs)"
    by (induction fs) (auto simp: map_filter_simps split: option.splits)
  then show ?thesis by (simp add: struct_json_def)
qed

lemma prune_values [simp]:
  "map_option (\<lambda>x. prune x s) (str_val x) = str_val x" "map_option (\<lambda>x. prune x s) (int_val i) = int_val i"
  "map_option (\<lambda>x. prune x s) (bool_val b) = bool_val b"
  "map_option (\<lambda>x. prune x (ArrayS s)) (list_val f xs) = list_val (\<lambda>x. prune (f x) s) xs"
  "map_option (\<lambda>x. prune x (ListMapS ks s)) (list_val f xs) = list_val (\<lambda>x. prune (f x) s) xs"
  "prune (time_json c t) s = time_json c t" "prune (duration_json c t) s = duration_json c t"
  "prune (int_json i) s = int_json i"
  by (simp_all add: str_val_def int_val_def bool_val_def list_val_def time_json_def duration_json_def int_json_def comp_def)

lemma prune_map_val [simp]: "map_option (\<lambda>x. prune x (MapS (StringS []))) (map_val m) = map_val m"
  by (simp add: map_val_def case_prod_unfold comp_def)

lemma map_option_map_option [simp]: "map_option f (map_option g x) = map_option (\<lambda>y. f (g y)) x"
  by (simp add: option.map_comp comp_def)

lemmas struct_defs = requirement_json_def selector_json_def target_json_def selection_json_def action_json_def endpoint_json_def
  network_json_def exhaustion_json_def scenario_json_def flink_rest_json_def observe_json_def safety_json_def
  control_json_def spec_json_def summary_json_def observation_json_def record_json_def condition_json_def status_json_def

subsection \<open>The status\<close>

lemma dec_summary_json: "dec_summary (prune (summary_json t) summary_schema) = Inr t"
  by (simp add: summary_json_def summary_schema_def dec_summary_def dec_struct_json)

lemma dec_condition_json:
  assumes "codec_ok c" and "condition_wf cd" and "t \<in> {condition_schema, generated_condition_schema}"
  shows "dec_condition c (prune (condition_json c cd) t) = Inr (c_time_update whole cd)"
  using assms
  by (auto simp: condition_json_def condition_schema_def generated_condition_schema_def dec_condition_def dec_struct_json
      condition_wf_def)

lemma dec_pointers [simp]:
  "codec_ok c \<Longrightarrow> opt_all in_i64 x \<Longrightarrow>
   dec_pointer (dec_with (tm_parse c)) (value_of (map_option (time_json c) x)) = Inr (map_option whole x)"
  "codec_ok c \<Longrightarrow> opt_all in_i64 x \<Longrightarrow>
   dec_pointer (dec_with (du_parse c)) (value_of (map_option (duration_json c) x)) = Inr x"
  "opt_all in_i64 x \<Longrightarrow> dec_pointer dec_int (value_of (map_option int_json x)) = Inr x"
  "opt_all in_i32 x \<Longrightarrow> dec_pointer dec_int32 (value_of (map_option int_json x)) = Inr x"
  by (cases x; simp add: dec_pointer_def)+

lemma dec_pointer_null [simp]: "dec_pointer f JNull = Inr None"
  by (simp add: dec_pointer_def)

lemma dec_observation_json:
  assumes "codec_ok c" and "observation_wf ob"
  shows "dec_observation c (prune (observation_json c ob) generated_observation_schema) = Inr (kept_observation GeneratedCrd ob)"
    and "dec_observation c (prune (observation_json c ob) bases_observation_schema) = Inr (kept_observation BasesCrd ob)"
    and "dec_observation c (prune (observation_json c ob) chart_observation_schema) = Inr (kept_observation ChartCrd ob)"
  using assms
  by (simp_all add: observation_json_def dec_observation_def dec_struct_json observation_wf_def kept_observation_def
      generated_observation_schema_def bases_observation_schema_def chart_observation_schema_def)

lemma dec_record_json:
  assumes "codec_ok c" and "record_wf r"
  shows "dec_record c (prune (record_json c r) generated_record_schema) = Inr (kept_record GeneratedCrd r)"
    and "dec_record c (prune (record_json c r) chart_record_schema) = Inr (kept_record ChartCrd r)"
  using assms
  by (simp_all add: record_json_def dec_record_def dec_struct_json record_wf_def kept_record_def
      generated_record_schema_def chart_record_schema_def)

lemma dec_list_all:
  "list_all P xs \<Longrightarrow> (\<And>x. P x \<Longrightarrow> f (g x) = Inr (h x)) \<Longrightarrow> dec_list f (value_of (list_val g xs)) = Inr (map h xs)"
  by (rule dec_list_val) (simp add: list_all_iff)

lemma dec_records [simp]:
  assumes "codec_ok c" and "list_all record_wf rs"
  shows "dec_list (dec_record c) (value_of (list_val (\<lambda>r. prune (record_json c r) generated_record_schema) rs)) =
      Inr (map (kept_record GeneratedCrd) rs)"
    and "dec_list (dec_record c) (value_of (list_val (\<lambda>r. prune (record_json c r) chart_record_schema) rs)) =
      Inr (map (kept_record ChartCrd) rs)"
  by (rule dec_list_all [OF assms(2)], simp add: dec_record_json assms(1))+

lemma dec_conditions [simp]:
  assumes "codec_ok c" and "list_all condition_wf cs"
  shows "dec_list (dec_condition c) (value_of (list_val (\<lambda>cd. prune (condition_json c cd) condition_schema) cs)) =
      Inr (map (c_time_update whole) cs)"
    and "dec_list (dec_condition c) (value_of (list_val (\<lambda>cd. prune (condition_json c cd) generated_condition_schema) cs)) =
      Inr (map (c_time_update whole) cs)"
  by (rule dec_list_all [OF assms(2)], simp add: dec_condition_json assms(1))+

lemma dec_pointer_struct:
  "(\<And>y. x = Some y \<Longrightarrow> f (g y) = Inr (h y)) \<Longrightarrow> (\<And>y. g y \<noteq> JNull) \<Longrightarrow>
   dec_pointer f (value_of (map_option g x)) = Inr (map_option h x)"
  by (rule dec_pointer_val) simp

lemma prune_not_null [simp]: "prune j s = JNull \<longleftrightarrow> j = JNull"
  by (cases j) simp_all

lemma struct_json_nulls [simp]:
  "observation_json c ob \<noteq> JNull" "summary_json t \<noteq> JNull" "requirement_json r \<noteq> JNull" "selector_json sel \<noteq> JNull"
  "endpoint_json x \<noteq> JNull" "network_json c n \<noteq> JNull" "exhaustion_json c re \<noteq> JNull"
  by (simp_all add: struct_defs)

lemma dec_observations [simp]:
  assumes "codec_ok c" and "opt_all observation_wf x"
  shows "dec_pointer (dec_observation c) (value_of (map_option (\<lambda>ob. prune (observation_json c ob) generated_observation_schema) x)) =
      Inr (map_option (kept_observation GeneratedCrd) x)"
    and "dec_pointer (dec_observation c) (value_of (map_option (\<lambda>ob. prune (observation_json c ob) bases_observation_schema) x)) =
      Inr (map_option (kept_observation BasesCrd) x)"
    and "dec_pointer (dec_observation c) (value_of (map_option (\<lambda>ob. prune (observation_json c ob) chart_observation_schema) x)) =
      Inr (map_option (kept_observation ChartCrd) x)"
  using assms by (cases x; simp add: dec_pointer_def dec_observation_json)+

lemma dec_summaries [simp]:
  "dec_pointer dec_summary (value_of (map_option (\<lambda>t. prune (summary_json t) summary_schema) x)) = Inr x"
  by (cases x) (simp_all add: dec_pointer_def dec_summary_json)

lemma prune_strings [simp]:
  "map_option (\<lambda>x. prune x strings_schema) (list_val JString xs) = list_val JString xs"
  by (simp add: strings_schema_def)

lemma status_trip:
  assumes "codec_ok c" and "status_wf st"
  shows "dec_status c (prune (status_json c st) (status_schema crd)) = Inr (kept_status crd st)"
proof (cases crd)
  case GeneratedCrd
  with assms show ?thesis
    by (simp add: status_json_def dec_status_def dec_struct_json status_schema_def generated_status_schema_def
        verdict_schema_def status_wf_def kept_status_def)
next
  case BasesCrd
  with assms show ?thesis
    by (simp add: status_json_def dec_status_def dec_struct_json status_schema_def bases_status_schema_def
        verdict_schema_def status_wf_def kept_status_def)
next
  case ChartCrd
  with assms show ?thesis
    by (simp add: status_json_def dec_status_def dec_struct_json status_schema_def chart_status_schema_def
        verdict_schema_def status_wf_def kept_status_def)
qed

subsection \<open>The spec\<close>

lemma dec_selector_json: "dec_selector (prune (selector_json sel) selector_schema) = Inr sel"
proof -
  have "dec_requirement (prune (requirement_json r) (ObjectS [(''key'', StringS []), (''operator'', StringS []),
      (''values'', strings_schema)] [''key'', ''operator''])) = Inr r" for r
    by (simp add: requirement_json_def dec_requirement_def dec_struct_json)
  then have "dec_list dec_requirement (value_of (list_val (\<lambda>r. prune (requirement_json r) (ObjectS [(''key'', StringS []),
      (''operator'', StringS []), (''values'', strings_schema)] [''key'', ''operator''])) xs)) = Inr xs" for xs
    using dec_list_val [of xs dec_requirement _ "\<lambda>r. r"] by simp
  then show ?thesis by (simp add: selector_json_def selector_schema_def dec_selector_def dec_struct_json)
qed

lemma dec_target_json:
  assumes "target_type_of_string (string_of_target_type (t_type t)) = t_type t"
  shows "dec_target (prune (target_json t) target_schema) = Inr t"
proof -
  have "dec_pointer dec_selector (value_of (map_option (\<lambda>sel. prune (selector_json sel) selector_schema) x)) = Inr x" for x
    by (cases x) (simp_all add: dec_pointer_def dec_selector_json)
  with assms show ?thesis by (simp add: target_json_def target_schema_def dec_target_def dec_struct_json)
qed

lemma dec_endpoint_json:
  "in_i32 (x_port x) \<Longrightarrow>
   dec_endpoint (prune (endpoint_json x) (ObjectS [(''cidr'', StringS []), (''hostname'', StringS []), (''port'', port)] [])) = Inr x"
  by (simp add: endpoint_json_def dec_endpoint_def dec_struct_json)

lemma dec_network_json:
  assumes "codec_ok c" and "network_wf n"
  shows "dec_network c (prune (network_json c n) (network_schema port)) = Inr n"
proof -
  have "dec_pointer dec_endpoint (value_of (map_option (\<lambda>x. prune (endpoint_json x)
      (ObjectS [(''cidr'', StringS []), (''hostname'', StringS []), (''port'', port)] [])) x)) = Inr x"
    if "opt_all (\<lambda>x. in_i32 (x_port x)) x" for x
    using that by (cases x) (simp_all add: dec_pointer_def dec_endpoint_json)
  with assms show ?thesis by (simp add: network_json_def network_schema_def dec_network_def dec_struct_json network_wf_def)
qed

lemma dec_exhaustion_json:
  "codec_ok c \<Longrightarrow> exhaustion_wf re \<Longrightarrow> dec_exhaustion c (prune (exhaustion_json c re) exhaustion_schema) = Inr re"
  by (simp add: exhaustion_json_def exhaustion_schema_def dec_exhaustion_def dec_struct_json exhaustion_wf_def)

lemma dec_selection_json:
  "mode_of_string (string_of_mode (sel_mode s)) = sel_mode s \<Longrightarrow> in_i32 (sel_count s) \<Longrightarrow>
   dec_selection (prune (selection_json s) selection_schema) = Inr s"
  by (simp add: selection_json_def selection_schema_def dec_selection_def dec_struct_json)

lemma dec_action_json:
  assumes "action_of_string (string_of_action (act_type a)) = act_type a" and "opt_all in_i64 (act_gracePeriodSeconds a)"
    and "map_of ps ''type'' \<noteq> None" and "map_of ps ''gracePeriodSeconds'' \<noteq> None"
  shows "dec_action (prune (action_json a) (ObjectS ps req)) = Inr a"
  using assms by (auto simp: action_json_def dec_action_def dec_struct_json)

lemma dec_scenario_json:
  assumes "codec_ok c" and "scenario_spec_wf s"
    and "map_of ps ''type'' \<noteq> None" and "map_of ps ''gracePeriodSeconds'' \<noteq> None"
  shows "dec_scenario c (prune (scenario_json c s) (scenario_schema (ObjectS ps req) port)) = Inr s"
proof -
  have "dec_pointer (dec_network c) (value_of (map_option (\<lambda>n. prune (network_json c n) (network_schema port)) x)) = Inr x"
    if "opt_all network_wf x" for x
    using that assms(1) by (cases x) (simp_all add: dec_pointer_def dec_network_json)
  moreover have "dec_pointer (dec_exhaustion c) (value_of (map_option (\<lambda>re. prune (exhaustion_json c re) exhaustion_schema) x)) = Inr x"
    if "opt_all exhaustion_wf x" for x
    using that assms(1) by (cases x) (simp_all add: dec_pointer_def dec_exhaustion_json)
  ultimately show ?thesis
    using assms(2-4) dec_action_json [where a = "s_action s" and ps = ps and req = req]
    by (simp add: scenario_json_def scenario_schema_def dec_scenario_def dec_struct_json scenario_spec_wf_def
        dec_selection_json scenario_wf_def)
qed

subsection \<open>Filling in defaults\<close>

lemma fill_null [simp]: "fill_default p v JNull = JNull" "fill_default p v j = JNull \<longleftrightarrow> j = JNull"
  by (cases "(p, v, j)" rule: fill_default.cases; simp)+

lemma fill_value_of [simp]: "fill_default p v (value_of (map_option g x)) = value_of (map_option (\<lambda>y. fill_default p v (g y)) x)"
  by (cases x) simp_all

text \<open>A field that is there stays.\<close>

lemma fill_present: "(k, Some x) \<in> set fs \<Longrightarrow> fill_default [k] v (struct_json fs) = struct_json fs"
  by (force simp: struct_json_def present_def map_filter_def image_iff split: option.splits)

lemma fill_struct:
  "fill_default (k # k2 # ks) v (struct_json fs) =
   struct_json (map (\<lambda>(n, x). (n, if n = k then map_option (fill_default (k2 # ks) v) x else x)) fs)"
proof -
  have "map (\<lambda>(n, j). (n, if n = k then fill_default (k2 # ks) v j else j)) (present fs) =
      present (map (\<lambda>(n, x). (n, if n = k then map_option (fill_default (k2 # ks) v) x else x)) fs)"
    by (induction fs) (auto split: option.splits)
  then show ?thesis by (simp add: struct_json_def)
qed

lemma target_written:
  "fill_default [''scenario'', ''network'', ''target''] v (prune (spec_json c sp) (spec_schema crd)) =
   prune (spec_json c sp) (spec_schema crd)"
proof -
  have n: "fill_default [''target''] v (prune (network_json c n) (network_schema port)) = prune (network_json c n) (network_schema port)"
    for n port
    by (simp add: network_json_def network_schema_def) (rule fill_present, simp)
  have s: "fill_default [''network'', ''target''] v (prune (scenario_json c s) (scenario_schema action port)) =
      prune (scenario_json c s) (scenario_schema action port)" for s action port
    by (simp add: scenario_json_def scenario_schema_def fill_struct n)
  show ?thesis
    by (cases crd) (simp_all add: spec_json_def spec_schema_def generated_spec_schema_def bases_spec_schema_def
        chart_spec_schema_def spec_schema_of_def fill_struct s)
qed

lemma stored_spec_simps:
  "stored_spec BasesCrd j = prune j (spec_schema BasesCrd)" "stored_spec ChartCrd j = prune j (spec_schema ChartCrd)"
  "stored_spec GeneratedCrd (spec_json c sp) = fill_default [''scenario'', ''network'', ''direction''] (JString ''Both'')
     (prune (spec_json c sp) (spec_schema GeneratedCrd))"
  by (simp_all add: stored_spec_def spec_defaults_def target_written)

lemma wire_field_append: "wire_field (kvs @ [(k, v)]) n = (if n = k \<and> v \<noteq> JNull then v else wire_field kvs n)"
  by (induction kvs) auto

lemma field_present: "list_all (\<lambda>(n, x). x \<noteq> JNull) kvs \<Longrightarrow> k \<in> fst ` set kvs \<longleftrightarrow> wire_field kvs k \<noteq> JNull"
  by (induction kvs) auto

lemma dec_filled:
  assumes "list_all (\<lambda>(n, x). x \<noteq> Some JNull) fs" and "distinct (map fst fs)" and "v \<noteq> JNull"
  shows "dec_struct F (fill_default [k] v (struct_json fs)) =
    F (\<lambda>n. let x = (case map_of fs n of Some x \<Rightarrow> value_of x | None \<Rightarrow> JNull) in if n = k \<and> x = JNull then v else x)"
proof -
  let ?w = "\<lambda>n. case map_of fs n of Some x \<Rightarrow> value_of x | None \<Rightarrow> JNull"
  have w: "wire_field (present fs) = ?w" by (intro ext wire_field_present assms(2))
  have "list_all (\<lambda>(n, x). x \<noteq> JNull) (present fs)"
    using assms(1) by (induction fs) (auto split: option.splits)
  then have "k \<in> fst ` set (present fs) \<longleftrightarrow> ?w k \<noteq> JNull" by (simp add: field_present w)
  then have "wire_field (if k \<in> fst ` set (present fs) then present fs else present fs @ [(k, v)]) =
      (\<lambda>n. if n = k \<and> ?w n = JNull then v else ?w n)"
    using assms(3) by (auto simp: wire_field_append w fun_eq_iff)
  then show ?thesis by (simp add: struct_json_def Let_def)
qed

lemma str_val_nulls [simp]: "str_val s \<noteq> Some JNull" "value_of (str_val s) = JNull \<longleftrightarrow> s = ''''"
  by (simp_all add: str_val_def)

lemma direction_strings [simp]: "string_of_direction NoDirection = ''''" "direction_of_string ''Both'' = Both"
  by (simp_all add: string_of_direction_def direction_of_string_def)

lemma dec_network_filled:
  assumes "codec_ok c" and "network_wf n"
  shows "dec_network c (fill_default [''direction''] (JString ''Both'') (prune (network_json c n) (network_schema port))) =
    Inr (filled_network n)"
proof -
  have "dec_pointer dec_endpoint (value_of (map_option (\<lambda>x. prune (endpoint_json x)
      (ObjectS [(''cidr'', StringS []), (''hostname'', StringS []), (''port'', port)] [])) x)) = Inr x"
    if "opt_all (\<lambda>x. in_i32 (x_port x)) x" for x
    using that by (cases x) (simp_all add: dec_pointer_def dec_endpoint_json)
  moreover have "string_of_direction d = '''' \<longleftrightarrow> d = NoDirection" if "direction_of_string (string_of_direction d) = d" for d
    using that by (cases d) (auto simp: string_of_direction_def direction_of_string_def)
  ultimately show ?thesis
    using assms
    by (cases "n_direction n = NoDirection")
      (simp_all add: network_json_def network_schema_def dec_network_def dec_filled network_wf_def filled_network_def)
qed

lemma dec_scenario_filled:
  assumes "codec_ok c" and "scenario_spec_wf s"
    and "map_of ps ''type'' \<noteq> None" and "map_of ps ''gracePeriodSeconds'' \<noteq> None"
  shows "dec_scenario c (fill_default [''network'', ''direction''] (JString ''Both'')
      (prune (scenario_json c s) (scenario_schema (ObjectS ps req) port))) =
    Inr (s\<lparr>s_network := map_option filled_network (s_network s)\<rparr>)"
proof -
  have "dec_pointer (dec_network c) (value_of (map_option (\<lambda>n. fill_default [''direction''] (JString ''Both'')
      (prune (network_json c n) (network_schema port))) x)) = Inr (map_option filled_network x)" if "opt_all network_wf x" for x
    using that assms(1) by (cases x) (simp_all add: dec_pointer_def dec_network_filled)
  moreover have "dec_pointer (dec_exhaustion c) (value_of (map_option (\<lambda>re. prune (exhaustion_json c re) exhaustion_schema) x)) = Inr x"
    if "opt_all exhaustion_wf x" for x
    using that assms(1) by (cases x) (simp_all add: dec_pointer_def dec_exhaustion_json)
  ultimately show ?thesis
    using assms(2-4) dec_action_json [where a = "s_action s" and ps = ps and req = req]
    by (simp add: scenario_json_def scenario_schema_def fill_struct dec_scenario_def dec_struct_json scenario_spec_wf_def
        dec_selection_json scenario_wf_def)
qed

lemma spec_trip:
  assumes "codec_ok c" and "spec_wf sp"
  shows "dec_spec c (stored_spec crd (spec_json c sp)) = Inr (kept_spec crd sp)"
proof -
  note defs = spec_json_def dec_spec_def dec_struct_json spec_schema_def spec_schema_of_def dec_target_json dec_scenario_json
    observe_schema_def observe_json_def dec_observe_def dec_zero_def flink_rest_json_def dec_flink_rest_def safety_json_def
    dec_safety_def control_json_def dec_control_def kept_spec_def
  note wf = assms(1) assms(2) [unfolded spec_wf_def observe_wf_def safety_wf_def]
  show ?thesis
  proof (cases crd)
    case GeneratedCrd
    show ?thesis
      unfolding GeneratedCrd stored_spec_simps
      using wf by (simp add: defs generated_spec_schema_def fill_struct dec_scenario_filled)
  next
    case BasesCrd
    show ?thesis
      unfolding BasesCrd stored_spec_simps using wf by (simp add: defs bases_spec_schema_def)
  next
    case ChartCrd
    show ?thesis
      unfolding ChartCrd stored_spec_simps using wf by (simp add: defs chart_spec_schema_def)
  qed
qed

subsection \<open>Properties\<close>

text \<open>
  C6. What a client reads of a run that another one wrote is, field by field, what was written, except
  that instants are cut to whole seconds, that the checked-in schema drops the settings of the
  checkpoint gate and of the safety caps and every record of an injection, and that the chart's drops
  the names of the network policies, the preview of a dry run, the recovery time and the marks of
  cleaned records; under the schema of the markers a network without a direction gets Both.
\<close>

theorem server_round_trip:
  assumes "codec_ok c" and "spec_wf sp" and "status_wf st"
  shows "dec_spec c (stored_spec crd (spec_json c sp)) = Inr (kept_spec crd sp) \<and>
    dec_status c (prune (status_json c st) (status_schema crd)) = Inr (kept_status crd st)"
  using spec_trip [OF assms(1,2)] status_trip [OF assms(1,3)] by blast

text \<open>A codec that meets the law: seconds in decimal.\<close>

definition demo_codec :: codec where
  "demo_codec = \<lparr>tm_text = (\<lambda>t. fmt_d (t div second)), tm_parse = (\<lambda>s. map_option (\<lambda>i. i * second) (parse_int64 s)),
     du_text = fmt_d, du_parse = parse_int64\<rparr>"

lemma demo_codec_ok: "codec_ok demo_codec"
proof -
  have "in_i64 (t div second)" if "in_i64 t" for t
    using that by (auto simp: in_i64_def second_def)
  then show ?thesis by (simp add: codec_ok_def demo_codec_def parse_int64_fmt_d whole_def)
qed

definition demo_record :: container_record where
  "demo_record = \<lparr>er_podName = ''tm-1'', er_containerName = ''fchaos-tc-kill-one'', er_injectedAt = Some 2700000000,
     er_cleanedUp = False\<rparr>"

theorem server_round_trip_witness:
  "\<exists>st. dec_status demo_codec (prune (status_json demo_codec ((demo_status Observing)\<lparr>st_startedAt := Some 1500000000,
       st_tcInjections := [demo_record]\<rparr>)) (status_schema BasesCrd)) = Inr st \<and>
     st_startedAt st = Some 1000000000 \<and> st_tcInjections st = []"
proof -
  let ?st = "(demo_status Observing)\<lparr>st_startedAt := Some 1500000000, st_tcInjections := [demo_record]\<rparr>"
  have "spec_wf demo_spec" "status_wf ?st" by code_simp+
  with server_round_trip [OF demo_codec_ok] have
    "dec_status demo_codec (prune (status_json demo_codec ?st) (status_schema BasesCrd)) = Inr (kept_status BasesCrd ?st)"
    by blast
  then show ?thesis by (simp add: kept_status_def whole_def second_def)
qed

end
