(* ===== verification/Progress.thy ===== *)
theory Progress
  imports Metrics Stored_Form
begin

section \<open>The progress of a pass\<close>

text \<open>
  What a handler achieves when the server accepts its writes, and what it keeps in any case: the times
  that the timeouts are measured from.
\<close>

subsection \<open>What the server keeps\<close>

text \<open>
  What is documented of patches when nobody else writes the status: the server answers with the
  object as it stores it, under the schema \<open>crd\<close>, and its spec \<open>sp\<close> as the user wrote it. A patch of the
  object itself leaves the status alone.
\<close>

definition patch_stores :: "'w kube \<Rightarrow> crd \<Rightarrow> chaos_run_spec \<Rightarrow> bool" where
  "patch_stores k crd sp \<longleftrightarrow>
     (\<forall>base r w r' w'. k_status_patch k base r w = (Inr r', w') \<longrightarrow>
        cr_status r' = kept_status crd (cr_status r) \<and> cr_spec r' = sp) \<and>
     (\<forall>base r w r' w'. k_patch k base r w = (Inr r', w') \<and> cr_status base = cr_status r \<longrightarrow>
        cr_status r' = kept_status crd (cr_status r))"

lemma patch_storesD:
  assumes "patch_stores k crd sp"
  shows "k_status_patch k base r w = (Inr r', w') \<Longrightarrow> cr_status r' = kept_status crd (cr_status r)"
    and "k_status_patch k base r w = (Inr r', w') \<Longrightarrow> cr_spec r' = sp"
    and "k_patch k base r w = (Inr r', w') \<Longrightarrow> cr_status base = cr_status r \<Longrightarrow>
      cr_status r' = kept_status crd (cr_status r)"
  using assms unfolding patch_stores_def by blast+

lemma patch_stores_keeps: "patch_stores k crd sp \<Longrightarrow> patch_keeps_phase k"
  unfolding patch_keeps_phase_def by (intro allI impI) (simp add: patch_storesD(1))

text \<open>The status after a pass: what the server keeps of the last patch it accepted.\<close>

definition stored_status :: "crd \<Rightarrow> chaos_run_status \<Rightarrow> call list \<Rightarrow> chaos_run_status" where
  "stored_status crd st cs =
     foldl (\<lambda>st c. case c of StatusPatch r ok \<Rightarrow> if ok then kept_status crd (cr_status r) else st | _ \<Rightarrow> st) st cs"

lemma stored_status_simps [simp]:
  "stored_status crd st [] = st"
  "stored_status crd st (cs @ ds) = stored_status crd (stored_status crd st cs) ds"
  "stored_status crd st (StatusPatch r ok # cs) = stored_status crd (if ok then kept_status crd (cr_status r) else st) cs"
  by (simp_all add: stored_status_def)

lemma stored_status_cases:
  "stored_status crd st cs = st \<or>
   (\<exists>r. StatusPatch r True \<in> set cs \<and> stored_status crd st cs = kept_status crd (cr_status r))"
proof (induction cs rule: rev_induct)
  case (snoc c cs)
  then show ?case by (cases c) (auto simp: stored_status_def)
qed simp

definition accepted :: "call \<Rightarrow> bool" where
  "accepted c \<longleftrightarrow> (case c of StatusPatch r ok \<Rightarrow> ok | ObjectPatch r ok \<Rightarrow> ok | _ \<Rightarrow> True)"

lemma accepted_simps [simp]: "accepted (StatusPatch r ok) = ok" "accepted (ObjectPatch r ok) = ok"
  by (simp_all add: accepted_def)

definition panics :: "outcome \<Rightarrow> bool" where
  "panics x \<longleftrightarrow> (case x of Panicked msg \<Rightarrow> True | _ \<Rightarrow> False)"

lemma panics_simps [simp]: "panics (Panicked m)" "\<not> panics (Errored e)" "\<not> panics (Returned b d)"
  by (simp_all add: panics_def)

lemma sent_once_stored:
  assumes "sent_runs new = [r]" and "list_all accepted new"
  shows "stored_status crd st new = kept_status crd (cr_status r)"
  using assms
proof (induction new arbitrary: st)
  case (Cons c cs)
  have later: "stored_status crd st cs = st" if "sent_runs cs = []" for st cs
    using that by (induction cs arbitrary: st) (auto simp: sent_runs_def stored_status_def split: call.splits)
  show ?case
  proof (cases c)
    case (StatusPatch r' ok)
    with Cons.prems later show ?thesis by simp
  qed (use Cons in \<open>simp_all add: stored_status_def sent_runs_def\<close>)
qed simp

subsection \<open>Handlers that move a run on\<close>

text \<open>
  \<open>moves crd P m\<close>: when the server accepts every write of \<open>m\<close> and nothing panics, the status it is left
  with satisfies \<open>P\<close>.
\<close>

definition moves :: "crd \<Rightarrow> (chaos_run_status \<Rightarrow> bool) \<Rightarrow> ('w sys, outcome) state \<Rightarrow> bool" where
  "moves crd P m \<longleftrightarrow> (\<forall>s x s'. run_state m s = (x, s') \<longrightarrow> (\<exists>new. calls s' = calls s @ new \<and>
     (list_all accepted new \<and> \<not> panics x \<longrightarrow> (\<forall>st. P (stored_status crd st new)))))"

lemma movesD:
  assumes "moves crd P m" and "run_state m s = (x, s')" and "calls s' = calls s @ new"
    and "list_all accepted new" and "\<not> panics x"
  shows "P (stored_status crd st new)"
  using assms unfolding moves_def by fastforce

lemma moves_bind:
  assumes "triple (\<lambda>_. True) Q m" and "\<And>a. Q a \<Longrightarrow> moves crd P (f a)"
  shows "moves crd P (State_Monad.bind m f)"
  unfolding moves_def
proof (intro allI impI)
  fix s b s'
  assume run: "run_state (State_Monad.bind m f) s = (b, s')"
  obtain a s1 where m: "run_state m s = (a, s1)" by (cases "run_state m s")
  with run have f: "run_state (f a) s1 = (b, s')" by (simp add: run_state_bind)
  from tripleD [OF assms(1) m] obtain one where one: "calls s1 = calls s @ one" and a: "Q a"
    by (auto simp: emits_def)
  from assms(2) [OF a] f obtain new where "calls s' = calls s1 @ new"
    "list_all accepted new \<and> \<not> panics b \<longrightarrow> (\<forall>st. P (stored_status crd st new))"
    unfolding moves_def by blast
  with one show "\<exists>new. calls s' = calls s @ new \<and>
      (list_all accepted new \<and> \<not> panics b \<longrightarrow> (\<forall>st. P (stored_status crd st new)))"
    by (intro exI [of _ "one @ new"]) simp
qed

lemma moves_if: "(b \<Longrightarrow> moves crd P m) \<Longrightarrow> (\<not> b \<Longrightarrow> moves crd P n) \<Longrightarrow> moves crd P (if b then m else n)"
  by simp

lemma moves_option:
  "(x = None \<Longrightarrow> moves crd P m) \<Longrightarrow> (\<And>y. x = Some y \<Longrightarrow> moves crd P (f y)) \<Longrightarrow>
   moves crd P (case x of None \<Rightarrow> m | Some y \<Rightarrow> f y)"
  by (cases x) simp_all

lemma moves_sum:
  "(\<And>e. x = Inl e \<Longrightarrow> moves crd P (f e)) \<Longrightarrow> (\<And>y. x = Inr y \<Longrightarrow> moves crd P (g y)) \<Longrightarrow>
   moves crd P (case x of Inl e \<Rightarrow> f e | Inr y \<Rightarrow> g y)"
  by (cases x) simp_all

lemma moves_prod: "(\<And>a b. x = (a, b) \<Longrightarrow> moves crd P (f a b)) \<Longrightarrow> moves crd P (case x of (a, b) \<Rightarrow> f a b)"
  by (cases x) simp

lemma moves_panic: "moves crd P (State_Monad.return (Panicked msg))"
  by (simp add: moves_def)

lemma moves_driver:
  "(\<And>e u. moves crd P (g e u)) \<Longrightarrow> (\<And>res. moves crd P (h res)) \<Longrightarrow>
   moves crd P (case r of DriverPanic msg \<Rightarrow> State_Monad.return (Panicked msg) | DriverError e u \<Rightarrow> g e u | DriverOk res \<Rightarrow> h res)"
  by (cases r) (simp_all add: moves_panic)

text \<open>A patch that is the last one, and one after which the handler goes on with the server's answer.\<close>

lemma moves_last_patch:
  assumes "P (kept_status crd (cr_status run))"
  shows "moves crd P (patch_status k base run (\<lambda>_. State_Monad.return x))"
  unfolding moves_def
proof (intro allI impI)
  fix s a s'
  assume "run_state (patch_status k base run (\<lambda>_. State_Monad.return x)) s = (a, s')"
  then show "\<exists>new. calls s' = calls s @ new \<and>
      (list_all accepted new \<and> \<not> panics a \<longrightarrow> (\<forall>st. P (stored_status crd st new)))"
  proof (rule patch_log)
    fix ok s1
    assume "calls s1 = calls s @ [StatusPatch run ok]"
      and "ok \<and> (\<exists>r. run_state (State_Monad.return x) s1 = (a, s')) \<or> s' = s1"
    then show ?thesis by (intro exI [of _ "[StatusPatch run ok]"]) (auto simp: assms)
  qed
qed

lemma moves_patch_on:
  assumes "patch_stores k crd sp" and "\<And>r. cr_status r = kept_status crd (cr_status run) \<Longrightarrow> cr_spec r = sp \<Longrightarrow> moves crd P (rest r)"
  shows "moves crd P (patch_status k base run rest)"
  unfolding moves_def
proof (intro allI impI)
  fix s x s'
  assume run: "run_state (patch_status k base run rest) s = (x, s')"
  obtain p s1 where p: "status_patch k base run s = (p, s1)" (is "?p = _") by (cases ?p)
  note one = status_patch_calls [OF p]
  show "\<exists>new. calls s' = calls s @ new \<and>
      (list_all accepted new \<and> \<not> panics x \<longrightarrow> (\<forall>st. P (stored_status crd st new)))"
  proof (cases p)
    case (Inl e)
    with run p have "s' = s1" by (simp add: patch_status_def run_state_bind)
    with one Inl show ?thesis by (intro exI [of _ "[StatusPatch run False]"]) simp
  next
    case (Inr r)
    with p obtain w w' where "k_status_patch k base run w = (Inr r, w')"
      by (auto simp: status_patch_def write_ext_def split: prod.splits)
    with assms(1) have "cr_status r = kept_status crd (cr_status run)" "cr_spec r = sp" unfolding patch_stores_def by blast+
    from assms(2) [OF this] have m: "moves crd P (rest r)" .
    from run p Inr have "run_state (rest r) s1 = (x, s')" by (simp add: patch_status_def run_state_bind)
    with m obtain new where "calls s' = calls s1 @ new"
      "list_all accepted new \<and> \<not> panics x \<longrightarrow> (\<forall>st. P (stored_status crd st new))" unfolding moves_def by blast
    with one Inr show ?thesis by (intro exI [of _ "StatusPatch run True # new"]) simp
  qed
qed

lemma moves_object_on:
  assumes "\<And>r. moves crd P (rest r)"
  shows "moves crd P (patch_object k base run rest)"
  unfolding moves_def
proof (intro allI impI)
  fix s x s'
  assume run: "run_state (patch_object k base run rest) s = (x, s')"
  obtain p s1 where p: "object_patch k base run s = (p, s1)" (is "?p = _") by (cases ?p)
  note one = object_patch_calls [OF p]
  show "\<exists>new. calls s' = calls s @ new \<and>
      (list_all accepted new \<and> \<not> panics x \<longrightarrow> (\<forall>st. P (stored_status crd st new)))"
  proof (cases p)
    case (Inl e)
    with run p have "s' = s1" by (simp add: patch_object_def run_state_bind)
    with one Inl show ?thesis by (intro exI [of _ "[ObjectPatch run False]"]) simp
  next
    case (Inr r)
    with run p have "run_state (rest r) s1 = (x, s')" by (simp add: patch_object_def run_state_bind)
    with assms [of r] obtain new where "calls s' = calls s1 @ new"
      "list_all accepted new \<and> \<not> panics x \<longrightarrow> (\<forall>st. P (stored_status crd st new))" unfolding moves_def by blast
    with one Inr show ?thesis by (intro exI [of _ "ObjectPatch run True # new"]) (simp add: stored_status_def)
  qed
qed

lemma moves_log: "(\<And>u. moves crd P (f u)) \<Longrightarrow> moves crd P (State_Monad.bind (log_call c) f)"
  by (rule moves_bind [OF triple_log]) simp_all

lemmas moves_rules = moves_if moves_option moves_sum moves_prod moves_driver moves_last_patch moves_object_on
  moves_bind [OF triple_clock] moves_log
  moves_bind [OF condition_carries] moves_bind [OF finalized_carries] moves_bind [OF failed_carries]

lemma pending_moves:
  assumes "patch_stores (rc_kube rc) crd sp" and "\<not> fr_requireStableCheckpoint (o_flinkRest (sp_observe sp))"
  shows "moves crd (\<lambda>st. st_phase st = Failed \<or> st_phase st = Injecting) (reconcile_pending rc run)"
  unfolding reconcile_pending_def pending_invalid_def start_injecting_def Let_def
  by (intro moves_rules moves_patch_on [OF assms(1)]) (use assms(2) in \<open>auto simp: ended_as_def same_but_conditions_def Let_def\<close>)

context operator_parts begin

lemma inject_any: "triple (\<lambda>_. True) (\<lambda>_. True) (lift_run (inject_chaos rc t) run)"
  unfolding lift_run_def
  by (rule triple_State) (auto split: prod.splits dest!: inject_effect elim!: emits_mono)

lemma injecting_moves:
  assumes "patch_stores (rc_kube rc) crd sp"
  shows "moves crd (\<lambda>st. st_phase st \<in> {Failed, Completed, Observing}) (reconcile_injecting rc run)"
  unfolding reconcile_injecting_def transition_to_observing_def injecting_unresolved_def injecting_resolved_def
    injecting_unsafe_def injecting_checked_def injecting_dry_run_def injecting_inject_def injecting_failed_def
    injecting_done_def injecting_add_finalizer_def Let_def
  by (intro moves_rules moves_bind [OF triple_resolve] moves_bind [OF triple_safety] moves_bind [OF inject_any]
      moves_patch_on [OF assms])
    (auto simp: ended_as_def same_but_conditions_def Let_def)

end

subsection \<open>The times the timeouts are measured from\<close>

text \<open>
  A run has its start once it has left Pending, and the start of its observation while it is observed.
\<close>

definition anchored :: "chaos_run_status \<Rightarrow> bool" where
  "anchored st \<longleftrightarrow> (st_phase st \<in> {Injecting, Observing, CleaningUp} \<longrightarrow> st_startedAt st \<noteq> None) \<and>
     (st_phase st = Observing \<longrightarrow> st_observingStartedAt st \<noteq> None)"

definition keeps_anchors :: "chaos_run \<Rightarrow> chaos_run \<Rightarrow> bool" where
  "keeps_anchors run r \<longleftrightarrow> st_startedAt (cr_status r) = st_startedAt (cr_status run) \<and>
     st_observingStartedAt (cr_status r) = st_observingStartedAt (cr_status run)"

lemma keeps_anchors_simps [simp]:
  "keeps_anchors run run" "keeps_anchors run (transition_phase r p m) = keeps_anchors run r"
  "keeps_anchors run (record_observation r res) = keeps_anchors run r"
  "keeps_anchors run (record_recovery r t secs) = keeps_anchors run r"
  "keeps_anchors run (upd_status (st_verdict_update f) r) = keeps_anchors run r"
  by (simp_all add: keeps_anchors_def transition_phase_def record_observation_def record_recovery_def Let_def)

lemma keeps_anchors_trans:
  "same_but_conditions r r' \<Longrightarrow> keeps_anchors run r' = keeps_anchors run r"
  "ended_as p v m r r' \<Longrightarrow> keeps_anchors run r' = keeps_anchors run r"
  "driver_frame r r' \<Longrightarrow> keeps_anchors run r' = keeps_anchors run r"
  by (auto simp: keeps_anchors_def same_but_conditions_def ended_as_def driver_frame_def Let_def)

context operator_parts begin

lemma observing_keeps: "logs (patches_only (keeps_anchors run)) (reconcile_observing rc run)"
proof -
  have secs: "logs P (case anchor of None \<Rightarrow> State_Monad.return None
      | Some t0 \<Rightarrow> State_Monad.bind (read_clock (rc_kube rc))
          (\<lambda>t. State_Monad.return (Some (whole_seconds (time_sub t t0)))))" for P anchor
    by (intro carry_rules) simp_all
  show ?thesis
    unfolding reconcile_observing_def observing_disabled_def observing_timeout_def observing_within_def
      observing_partition_def observing_poll_def observing_recovered_def Let_def
    by (intro carry_rules bind_resolve bind_observe triple_bind [OF secs]) (simp_all add: keeps_anchors_trans)
qed

lemma cleaning_keeps: "logs (patches_only (keeps_anchors run)) (reconcile_cleaning_up rc run)"
proof -
  have verdict: "triple Q (\<lambda>r2. keeps_anchors run r2 = keeps_anchors run r1)
      (if b then aborted_run (rc_kube rc) m r1 else finalized_run (rc_kube rc) v m' r1)" for Q b r1 m v m'
    by (simp, intro conjI impI triple_weaken [OF aborted_carries] triple_weaken [OF finalized_carries])
      (simp_all add: keeps_anchors_trans)
  show ?thesis
    unfolding reconcile_cleaning_up_def cleaning_overdue_def cleaning_try_def cleaning_complete_def Let_def
    by (intro carry_rules triple_bind [OF cleanup_carries] triple_bind [OF verdict])
      (simp_all add: keeps_anchors_trans)
qed

lemma abort_keeps: "logs (patches_only (keeps_anchors run)) (reconcile_abort rc run)"
  unfolding reconcile_abort_def Let_def
  by (intro carry_rules) (simp_all add: keeps_anchors_trans)

lemma pass_keeps:
  assumes "phase_of run \<in> {Observing, CleaningUp}"
  shows "logs (patches_only (keeps_anchors run)) (reconcile_run rc run)"
  unfolding reconcile_run_def reconcile_phase_def
  by (intro carry_rules deleted_patches abort_keeps observing_keeps cleaning_keeps) (use assms in auto)

end

text \<open>Before observation: the start is set with the first patch of a pending run.\<close>

lemma patch_on_carries:
  assumes "patch_stores k crd sp" and "G run"
    and "\<And>r. cr_status r = kept_status crd (cr_status run) \<Longrightarrow> logs (patches_only G) (rest r)"
  shows "logs (patches_only G) (patch_status k base run rest)"
proof -
  have "triple (patches_only G) (\<lambda>x. \<forall>r. x = Inr r \<longrightarrow> cr_status r = kept_status crd (cr_status run)) (State (status_patch k base run))"
  proof (rule triple_State)
    fix s x s'
    assume p: "status_patch k base run s = (x, s')"
    then have "\<exists>w w'. k_status_patch k base run w = (x, w')"
      by (auto simp: status_patch_def write_ext_def split: prod.splits)
    with patch_storesD(1) [OF assms(1)] have "\<forall>r. x = Inr r \<longrightarrow> cr_status r = kept_status crd (cr_status run)" by blast
    with status_patch_calls [OF p] assms(2)
    show "emits (patches_only G) s s' \<and> (\<forall>r. x = Inr r \<longrightarrow> cr_status r = kept_status crd (cr_status run))" by (simp add: emits_def)
  qed
  then show ?thesis
    unfolding patch_status_def
    by (rule triple_bind, intro triple_sum) (auto intro!: triple_return assms(3))
qed

lemma object_on_carries:
  assumes "patch_stores k crd sp" and "cr_status base = cr_status run"
    and "\<And>r. cr_status r = kept_status crd (cr_status run) \<Longrightarrow> logs (patches_only G) (rest r)"
  shows "logs (patches_only G) (patch_object k base run rest)"
proof -
  have "triple (patches_only G) (\<lambda>x. \<forall>r. x = Inr r \<longrightarrow> cr_status r = kept_status crd (cr_status run)) (State (object_patch k base run))"
  proof (rule triple_State)
    fix s x s'
    assume p: "object_patch k base run s = (x, s')"
    then have "\<exists>w w'. k_patch k base run w = (x, w')"
      by (auto simp: object_patch_def write_ext_def split: prod.splits)
    with patch_storesD(3) [OF assms(1)] assms(2)
    have "\<forall>r. x = Inr r \<longrightarrow> cr_status r = kept_status crd (cr_status run)" by blast
    with object_patch_calls [OF p]
    show "emits (patches_only G) s s' \<and> (\<forall>r. x = Inr r \<longrightarrow> cr_status r = kept_status crd (cr_status run))" by (simp add: emits_def)
  qed
  then show ?thesis
    unfolding patch_object_def
    by (rule triple_bind, intro triple_sum) (auto intro!: triple_return assms(3))
qed

abbreviation sends_anchored :: "call \<Rightarrow> bool" where
  "sends_anchored \<equiv> patches_only (\<lambda>r. anchored (cr_status r))"

lemma anchored_early: "phase_of r \<in> {NoPhase, Pending} \<or> is_terminal (phase_of r) \<Longrightarrow> anchored (cr_status r)"
  by (auto simp: anchored_def)

lemma anchored_start [simp]:
  "anchored (st_startedAt_update (\<lambda>_. Some t) st) \<longleftrightarrow> (st_phase st = Observing \<longrightarrow> st_observingStartedAt st \<noteq> None)"
  by (auto simp: anchored_def)

lemma helper_phase:
  "same_but_conditions r r' \<Longrightarrow> phase_of r' = phase_of r"
  "ended_as p v m r r' \<Longrightarrow> phase_of r' = p"
  "driver_frame r r' \<Longrightarrow> phase_of r' = phase_of r"
  by (auto simp: same_but_conditions_def ended_as_def Let_def dest: driver_frame_phase)

lemma helper_start:
  "same_but_conditions r r' \<Longrightarrow> st_startedAt (cr_status r') = st_startedAt (cr_status r)"
  "driver_frame r r' \<Longrightarrow> st_startedAt (cr_status r') = st_startedAt (cr_status r)"
  by (auto simp: same_but_conditions_def driver_frame_def Let_def)

lemma helper_anchored: "same_but_conditions r r' \<Longrightarrow> anchored (cr_status r') = anchored (cr_status r)"
  by (simp add: anchored_def same_but_conditions_def Let_def)

lemmas anchor_simps = anchored_early helper_phase helper_start helper_anchored

lemma start_injecting_anchored:
  assumes "st_startedAt (cr_status run) \<noteq> None"
  shows "logs sends_anchored (start_injecting rc run)"
  unfolding start_injecting_def
  by (intro carry_rules) (use assms in \<open>simp_all add: anchored_def transition_phase_def\<close>)

lemma wait_anchored:
  assumes "patch_stores (rc_kube rc) crd sp" and "phase_of run \<in> {NoPhase, Pending}" and "st_startedAt (cr_status run) \<noteq> None"
  shows "triple sends_anchored (\<lambda>(e, r). e = None \<longrightarrow> phase_of r = Failed \<or> st_startedAt (cr_status r) \<noteq> None)
    (wait_for_stable_checkpoint rc run base)"
proof -
  have stable: "triple P (\<lambda>_. True) (State (is_checkpoint_stable k c n))" for P k c n
    by (rule triple_silent) (rule is_checkpoint_stable_silent)
  have patch: "triple sends_anchored (\<lambda>x. \<forall>r'. x = Inr r' \<longrightarrow> cr_status r' = kept_status crd (cr_status r))
      (State (status_patch (rc_kube rc) b r))" if "anchored (cr_status r)" for b r
  proof (rule triple_State)
    fix s x s'
    assume p: "status_patch (rc_kube rc) b r s = (x, s')"
    then have "\<exists>w w'. k_status_patch (rc_kube rc) b r w = (x, w')"
      by (auto simp: status_patch_def write_ext_def split: prod.splits)
    with assms(1) have "\<forall>r'. x = Inr r' \<longrightarrow> cr_status r' = kept_status crd (cr_status r)" unfolding patch_stores_def by blast
    with status_patch_calls [OF p] that
    show "emits sends_anchored s s' \<and> (\<forall>r'. x = Inr r' \<longrightarrow> cr_status r' = kept_status crd (cr_status r))" by (simp add: emits_def)
  qed
  have now: "anchored (cr_status run)" using assms(2) by (auto intro: anchored_early)
  show ?thesis
    unfolding wait_for_stable_checkpoint_def Let_def
    by (intro carry_rules triple_bind [OF stable] triple_bind [OF patch])
      (use assms(2,3) now in \<open>auto simp: anchor_simps\<close>)
qed

lemma pending_anchored:
  assumes "patch_stores (rc_kube rc) crd sp" and "phase_of run \<in> {NoPhase, Pending}"
  shows "logs sends_anchored (reconcile_pending rc run)"
proof -
  have wait: "logs sends_anchored (pending_checkpoint_wait rc r)"
    if "phase_of r \<in> {NoPhase, Pending}" "st_startedAt (cr_status r) \<noteq> None" for r
    unfolding pending_checkpoint_wait_def
    by (intro carry_rules triple_bind [OF wait_anchored [OF assms(1) that]] start_injecting_anchored) auto
  show ?thesis
    unfolding reconcile_pending_def pending_invalid_def Let_def
    by (intro carry_rules(1-13) patch_on_carries [OF assms(1)] wait start_injecting_anchored)
      (use assms(2) in \<open>auto simp: anchor_simps\<close>)
qed

lemma observing_started_anchored:
  assumes "st_startedAt (cr_status run) \<noteq> None"
  shows "logs sends_anchored (transition_to_observing rc run)"
  unfolding transition_to_observing_def Let_def
  by (intro carry_rules) (use assms in \<open>simp_all add: anchored_def transition_phase_def\<close>)

lemma add_finalizer_anchored:
  assumes "patch_stores (rc_kube rc) crd sp" and "st_startedAt (cr_status run) \<noteq> None"
  shows "logs sends_anchored (injecting_add_finalizer rc run)"
  unfolding injecting_add_finalizer_def Let_def
  by (intro triple_if object_on_carries [OF assms(1)] observing_started_anchored) (use assms(2) in simp_all)

lemma injecting_run_anchored: "phase_of r = Injecting \<Longrightarrow> st_startedAt (cr_status r) \<noteq> None \<Longrightarrow> anchored (cr_status r)"
  by (simp add: anchored_def)

context operator_parts begin

lemma inject_carries: "triple (patches_only G) (\<lambda>(r, run'). driver_frame run run') (lift_run (inject_chaos rc t) run)"
  unfolding lift_run_def
  by (rule triple_State) (auto split: prod.splits dest!: inject_effect intro: emits_mono disruptive_patches)

lemma injecting_done_anchored:
  assumes "patch_stores (rc_kube rc) crd sp" and "phase_of run = Injecting" and "st_startedAt (cr_status run) \<noteq> None"
  shows "logs sends_anchored (injecting_done rc base run t res)"
  unfolding injecting_done_def Let_def
  by (intro carry_rules(1-13) patch_on_carries [OF assms(1)] add_finalizer_anchored [OF assms(1)])
    (use assms(2,3) in \<open>auto simp: anchor_simps anchored_def\<close>)

lemma injecting_anchored:
  assumes "patch_stores (rc_kube rc) crd sp" and "phase_of run = Injecting" and "st_startedAt (cr_status run) \<noteq> None"
  shows "logs sends_anchored (reconcile_injecting rc run)"
proof -
  have inject: "logs sends_anchored (injecting_inject rc base r t)"
    if "phase_of r = Injecting" "st_startedAt (cr_status r) \<noteq> None" for base r t
    unfolding injecting_inject_def injecting_failed_def Let_def
    by (intro carry_rules triple_bind [OF inject_carries] triple_driver_result injecting_done_anchored [OF assms(1)])
      (use that in \<open>auto simp: anchor_simps\<close>)
  show ?thesis
    unfolding reconcile_injecting_def injecting_unresolved_def injecting_resolved_def
      injecting_unsafe_def injecting_checked_def injecting_dry_run_def Let_def
    by (intro carry_rules bind_resolve bind_safety observing_started_anchored inject)
      (use assms(2,3) in \<open>auto simp: anchor_simps\<close>)
qed

lemma abort_anchored:
  assumes "anchored (cr_status run)" and "\<not> is_terminal (phase_of run)" and "\<And>x. phase_of run \<noteq> OtherPhase x"
  shows "logs sends_anchored (reconcile_abort rc run)"
proof -
  have "st_startedAt (cr_status run) \<noteq> None" if "phase_of run \<noteq> NoPhase" "phase_of run \<noteq> Pending"
    using assms that by (cases "phase_of run") (auto simp: anchored_def)
  then show ?thesis
    unfolding reconcile_abort_def Let_def
    by (intro carry_rules) (auto simp: anchor_simps anchored_def transition_phase_def)
qed

lemma pass_anchored:
  assumes "patch_stores (rc_kube rc) crd sp" and "anchored (cr_status run)"
    and "\<And>x. phase_of run \<noteq> OtherPhase x" and "phase_of run \<notin> {Observing, CleaningUp}"
  shows "logs sends_anchored (reconcile_run rc run)"
  unfolding reconcile_run_def reconcile_phase_def
  by (intro carry_rules deleted_patches abort_anchored pending_anchored [OF assms(1)] injecting_anchored [OF assms(1)])
    (use assms(2-4) in \<open>auto simp: anchored_def\<close>)

end

lemma pass_sends_anchored:
  assumes "patch_stores k crd sp" and "fst (k_get_run k ns name (ext s)) = Inr run"
    and "anchored (cr_status run)" and "\<And>x. phase_of run \<noteq> OtherPhase x"
    and "run_state (reconcile (operator k newClient tcEnv stressEnv lossPointer) ns name) s = (x, s')"
    and "calls s' = calls s @ new" and "StatusPatch r ok \<in> set new"
  shows "anchored (cr_status r) \<and> (phase_of run \<in> {Observing, CleaningUp} \<longrightarrow> keeps_anchors run r)"
proof -
  let ?rc = "operator k newClient tcEnv stressEnv lossPointer" and ?run = "set_defaults run"
  let ?s = "snd (read_ext (k_get_run k ns name) s)"
  have run: "run_state (reconcile_run ?rc ?run) ?s = (x, s')" using reconcile_fetched [OF assms(5)] assms(2) by simp
  show ?thesis
  proof (cases "phase_of run \<in> {Observing, CleaningUp}")
    case True
    with op.pass_keeps [where run = ?run] have "logs (patches_only (keeps_anchors ?run)) (reconcile_run ?rc ?run)" by simp
    from tripleD [OF this run] assms(6,7) have keep: "keeps_anchors run r" by (auto simp: emits_def keeps_anchors_def)
    have "phase_of r = phase_of run \<or> phase_step (phase_of run) (phase_of r)"
      using pass_patches [OF patch_stores_keeps [OF assms(1)] assms(2,5,6,7)] by simp
    with True have "phase_of r = phase_of run \<or> phase_of r = CleaningUp \<or> is_terminal (phase_of r)"
      by (auto simp: phase_step_iff)
    with True keep assms(3) show ?thesis by (auto simp: anchored_def keeps_anchors_def)
  next
    case False
    with op.pass_anchored [where sp = sp and run = ?run] assms(1,3,4) have "logs sends_anchored (reconcile_run ?rc ?run)" by simp
    from tripleD [OF this run] assms(6,7) False show ?thesis by (auto simp: emits_def)
  qed
qed

end
