(* ===== verification/Run_End.thy ===== *)
theory Run_End
  imports Progress
begin

section \<open>Every run ends\<close>

text \<open>
  From the creation of a run to its end: a sequence of passes over one run, each of which finds what
  the one before has stored, while the world around it changes as it likes.
\<close>

subsection \<open>Sequences of passes\<close>

text \<open>
  \<open>passes crd rc ns name S R L\<close>: pass \<open>i\<close> starts in the state \<open>S i\<close>, fetches the run \<open>R i\<close> and logs the
  calls \<open>L i\<close>; the next pass finds the status this one stored, under the same spec, and nobody
  deletes the run. The rest of the world may change between the passes as it likes.
\<close>

definition passes ::
  "crd \<Rightarrow> 'w reconciler \<Rightarrow> string \<Rightarrow> string \<Rightarrow> (nat \<Rightarrow> 'w sys) \<Rightarrow> (nat \<Rightarrow> chaos_run) \<Rightarrow> (nat \<Rightarrow> call list) \<Rightarrow> bool" where
  "passes crd rc ns name S R L \<longleftrightarrow> (\<forall>i. fst (k_get_run (rc_kube rc) ns name (ext (S i))) = Inr (R i) \<and>
     calls (snd (run_state (reconcile rc ns name) (S i))) = calls (S i) @ L i \<and>
     cr_status (R (Suc i)) = stored_status crd (cr_status (R i)) (L i) \<and>
     cr_spec (R (Suc i)) = cr_spec (R i) \<and> cr_deletionTimestamp (R i) = None)"

text \<open>
  Again and again, at times later than any given one, the server accepts all the writes of a pass and
  the pass does not panic.
\<close>

definition lively ::
  "'w reconciler \<Rightarrow> string \<Rightarrow> string \<Rightarrow> (nat \<Rightarrow> 'w sys) \<Rightarrow> (nat \<Rightarrow> call list) \<Rightarrow> bool" where
  "lively rc ns name S L \<longleftrightarrow> (\<forall>i t. \<exists>j \<ge> i. t < pass_clock (rc_kube rc) ns name (S j) \<and>
     list_all accepted (L j) \<and> \<not> panics (fst (run_state (reconcile rc ns name) (S j))))"

lemma passesD:
  assumes "passes crd rc ns name S R L"
  shows "fst (k_get_run (rc_kube rc) ns name (ext (S i))) = Inr (R i)"
    and "run_state (reconcile rc ns name) (S i) =
      (fst (run_state (reconcile rc ns name) (S i)), snd (run_state (reconcile rc ns name) (S i)))"
    and "calls (snd (run_state (reconcile rc ns name) (S i))) = calls (S i) @ L i"
    and "cr_status (R (Suc i)) = stored_status crd (cr_status (R i)) (L i)"
    and "cr_deletionTimestamp (R i) = None"
  using assms by (simp_all add: passes_def)

lemma passes_spec: "passes crd rc ns name S R L \<Longrightarrow> cr_spec (R i) = cr_spec (R 0)"
  by (induction i) (simp_all add: passes_def)

lemma livelyD:
  "lively rc ns name S L \<Longrightarrow> \<exists>j \<ge> i. t < pass_clock (rc_kube rc) ns name (S j) \<and> list_all accepted (L j) \<and>
     \<not> panics (fst (run_state (reconcile rc ns name) (S j)))"
  by (simp add: lively_def)

text \<open>What one pass does to the status, whatever the server accepts of it; the instants it keeps are
  cut to whole seconds when they are stored.\<close>

definition earlier :: "int option \<Rightarrow> int option \<Rightarrow> bool" where
  "earlier x y \<longleftrightarrow> (case x of None \<Rightarrow> y = None | Some a \<Rightarrow> (case y of None \<Rightarrow> False | Some b \<Rightarrow> a \<le> b))"

lemma earlier_refl [simp]: "earlier x x"
  by (simp add: earlier_def split: option.splits)

lemma earlier_whole [simp]: "earlier (map_option whole x) x"
  by (simp add: earlier_def whole_le split: option.splits)

lemma earlier_trans: "earlier x y \<Longrightarrow> earlier y z \<Longrightarrow> earlier x z"
  by (auto simp: earlier_def split: option.splits)

lemma earlier_Some: "earlier x (Some b) \<longleftrightarrow> (\<exists>a. x = Some a \<and> a \<le> b)"
  by (auto simp: earlier_def split: option.splits)

lemma anchored_kept [simp]: "anchored (kept_status crd st) = anchored st"
  by (simp add: anchored_def)

definition follows :: "chaos_run_status \<Rightarrow> chaos_run_status \<Rightarrow> bool" where
  "follows st st' \<longleftrightarrow> (st_phase st' = st_phase st \<or> phase_step (st_phase st) (st_phase st')) \<and> anchored st' \<and>
     (st_phase st \<in> {Observing, CleaningUp} \<longrightarrow> earlier (st_startedAt st') (st_startedAt st) \<and>
        earlier (st_observingStartedAt st') (st_observingStartedAt st))"

lemma passes_follow:
  assumes "passes crd (operator k newClient tcEnv stressEnv lossPointer) ns name S R L" and "patch_stores k crd sp"
    and "anchored (cr_status (R i))" and "\<And>x. phase_of (R i) \<noteq> OtherPhase x"
  shows "follows (cr_status (R i)) (cr_status (R (Suc i)))"
proof -
  note p = passesD [OF assms(1), of i]
  have g: "fst (k_get_run k ns name (ext (S i))) = Inr (R i)" using p(1) by simp
  from stored_status_cases [of crd "cr_status (R i)" "L i"] show ?thesis
  proof (elim disjE exE conjE)
    assume "stored_status crd (cr_status (R i)) (L i) = cr_status (R i)"
    with p(4) assms(3) show ?thesis by (simp add: follows_def)
  next
    fix r
    assume r: "StatusPatch r True \<in> set (L i)" "stored_status crd (cr_status (R i)) (L i) = kept_status crd (cr_status r)"
    from pass_patches [OF patch_stores_keeps [OF assms(2)] g p(2,3) r(1)]
      pass_sends_anchored [OF assms(2) g assms(3,4) p(2,3) r(1)] p(4) r(2)
    show ?thesis by (simp add: follows_def keeps_anchors_def)
  qed
qed

lemma phase_step_known: "phase_step p q \<Longrightarrow> q \<noteq> OtherPhase x"
  by (auto elim!: phase_stepE)

lemma passes_anchored:
  assumes "passes crd (operator k newClient tcEnv stressEnv lossPointer) ns name S R L" and "patch_stores k crd sp"
    and "anchored (cr_status (R 0))" and "\<And>x. phase_of (R 0) \<noteq> OtherPhase x"
  shows "anchored (cr_status (R i)) \<and> (\<forall>x. phase_of (R i) \<noteq> OtherPhase x)"
proof (induction i)
  case (Suc i)
  with passes_follow [OF assms(1,2), of i] show ?case by (auto simp: follows_def dest: phase_step_known)
qed (use assms(3,4) in simp)

lemma passes_ranks:
  assumes "passes crd (operator k newClient tcEnv stressEnv lossPointer) ns name S R L" and "patch_stores k crd sp"
    and "anchored (cr_status (R 0))" and "\<And>x. phase_of (R 0) \<noteq> OtherPhase x" and "i \<le> j"
  shows "phase_rank (phase_of (R i)) \<le> phase_rank (phase_of (R j))"
  using assms(5)
proof (induction j rule: dec_induct)
  case (step j)
  from passes_follow [OF assms(1,2), of j] passes_anchored [OF assms(1-4), of j]
  have "phase_rank (phase_of (R j)) \<le> phase_rank (phase_of (R (Suc j)))"
    by (auto simp: follows_def dest: phase_step_rank)
  with step.IH show ?case by simp
qed simp

subsection \<open>One pass that is accepted\<close>

lemma accepted_pass_advances:
  assumes "passes crd (operator k newClient tcEnv stressEnv lossPointer) ns name S R L" and "patch_stores k crd (cr_spec (R i))"
    and "\<not> fr_requireStableCheckpoint (o_flinkRest (sp_observe (cr_spec (R i))))"
    and "\<not> is_terminal (phase_of (R i))" and "\<And>x. phase_of (R i) \<noteq> OtherPhase x"
    and "phase_of (R i) \<in> {Observing, CleaningUp} \<Longrightarrow>
      out_of_time (set_defaults (R i)) (pass_clock k ns name (S i))"
    and "list_all accepted (L i)"
    and "\<not> panics (fst (run_state (reconcile (operator k newClient tcEnv stressEnv lossPointer) ns name) (S i)))"
  shows "phase_rank (phase_of (R i)) < phase_rank (phase_of (R (Suc i)))"
proof -
  let ?rc = "operator k newClient tcEnv stressEnv lossPointer" and ?run = "set_defaults (R i)"
  let ?s = "snd (read_ext (k_get_run k ns name) (S i))"
  note p = passesD [OF assms(1), of i]
  have g: "fst (k_get_run k ns name (ext (S i))) = Inr (R i)" using p(1) by simp
  have run: "run_state (reconcile_run ?rc ?run) ?s = (fst (run_state (reconcile ?rc ns name) (S i)),
      snd (run_state (reconcile ?rc ns name) (S i)))"
    using reconcile_fetched [OF p(2)] g by simp
  have once: ?thesis if "sent_runs (L i) = [r]" "phase_rank (phase_of (R i)) < phase_rank (phase_of r)" for r
    using that sent_once_stored [OF that(1) assms(7)] p(4) by simp
  consider (abort) "ctl_abort (sp_control (cr_spec (R i)))" "phase_of (R i) \<noteq> CleaningUp"
    | (late) "phase_of (R i) \<in> {Observing, CleaningUp}" "\<not> ctl_abort (sp_control (cr_spec (R i))) \<or> phase_of (R i) = CleaningUp"
    | (pending) "phase_of (R i) \<in> {NoPhase, Pending}" "\<not> ctl_abort (sp_control (cr_spec (R i)))"
    | (injecting) "phase_of (R i) = Injecting" "\<not> ctl_abort (sp_control (cr_spec (R i)))"
    using assms(4,5) by (cases "phase_of (R i)") auto
  then show ?thesis
  proof cases
    case abort
    from aborted_pass [OF g abort(1) assms(4) abort(2) _ p(2,3)] p(5) obtain r where r: "sent_runs (L i) = [r]"
      "phase_of r = (if scenario_of (R i) \<in> {NetworkPartition, NetworkChaos, ResourceExhaustion} \<and>
        phase_of (R i) \<noteq> NoPhase \<and> phase_of (R i) \<noteq> Pending then CleaningUp else Aborted)" by blast
    from r(2) abort(2) assms(4) have "phase_rank (phase_of (R i)) < phase_rank (phase_of r)"
      by (cases "phase_of (R i)") auto
    with r(1) show ?thesis by (rule once)
  next
    case late
    from assms(6) [OF late(1)] have over: "out_of_time ?run (pass_clock k ns name (S i))" .
    from overdue_pass [OF g over _ late(2) p(2,3)] p(5) obtain r where
      r: "sent_runs (L i) = [r]" "phase_of r = next_when_over (R i)" by blast
    have "next_when_over ?run = next_when_over (R i)" by (simp add: next_when_over_def)
    with next_when_over_rank [OF over] r(2) have "phase_rank (phase_of (R i)) < phase_rank (phase_of r)" by simp
    with r(1) show ?thesis by (rule once)
  next
    case pending
    then have "reconcile_run ?rc ?run = reconcile_pending ?rc ?run"
      using p(5) by (auto simp: reconcile_run_def reconcile_phase_def)
    moreover have "moves crd (\<lambda>st. st_phase st = Failed \<or> st_phase st = Injecting) (reconcile_pending ?rc ?run)"
      by (rule pending_moves [OF _ assms(3)]) (simp add: assms(2))
    ultimately have "st_phase (stored_status crd (cr_status (R i)) (L i)) = Failed \<or>
        st_phase (stored_status crd (cr_status (R i)) (L i)) = Injecting"
      using movesD [OF _ run, of crd _ "L i"] p(3) assms(7,8) by simp
    with p(4) pending(1) show ?thesis by auto
  next
    case injecting
    then have "reconcile_run ?rc ?run = reconcile_injecting ?rc ?run"
      using p(5) by (auto simp: reconcile_run_def reconcile_phase_def)
    moreover have "moves crd (\<lambda>st. st_phase st \<in> {Failed, Completed, Observing}) (reconcile_injecting ?rc ?run)"
      by (rule op.injecting_moves [where sp = "cr_spec (R i)"]) (simp add: assms(2))
    ultimately have "st_phase (stored_status crd (cr_status (R i)) (L i)) \<in> {Failed, Completed, Observing}"
      using movesD [OF _ run, of crd _ "L i"] p(3) assms(7,8) by simp
    with p(4) injecting(1) show ?thesis by auto
  qed
qed

subsection \<open>All of them\<close>

lemma terminal_pass:
  assumes "fst (k_get_run (rc_kube rc) ns name (ext s)) = Inr run" and "is_terminal (phase_of run)"
  shows "run_state (reconcile rc ns name) s = (finished, snd (read_ext (k_get_run (rc_kube rc) ns name) s))"
  using reconcile_fetched [OF prod.collapse [symmetric] assms(1)] assms(2)
  by (simp add: reconcile_run_def prod_eq_iff)

lemma read_ext_calls [simp]: "calls (snd (read_ext f s)) = calls s"
  by (simp add: read_ext_def split: prod.splits)

lemma terminal_stays:
  assumes "passes crd rc ns name S R L" and "is_terminal (phase_of (R i))" and "i \<le> j"
  shows "cr_status (R j) = cr_status (R i)"
  using assms(3)
proof (induction j rule: dec_induct)
  case (step j)
  note p = passesD [OF assms(1), of j]
  have "is_terminal (phase_of (R j))" using step.IH assms(2) by simp
  from terminal_pass [OF p(1) this] p(3,4) step.IH show ?case by simp
qed simp

lemma same_phase_anchors:
  assumes "passes crd (operator k newClient tcEnv stressEnv lossPointer) ns name S R L" and "patch_stores k crd sp"
    and "anchored (cr_status (R 0))" and "\<And>x. phase_of (R 0) \<noteq> OtherPhase x"
    and "phase_of (R i) \<in> {Observing, CleaningUp}" and "\<And>j. i \<le> j \<Longrightarrow> phase_rank (phase_of (R j)) = phase_rank (phase_of (R i))"
    and "i \<le> j"
  shows "phase_of (R j) = phase_of (R i) \<and> earlier (st_startedAt (cr_status (R j))) (st_startedAt (cr_status (R i))) \<and>
    earlier (st_observingStartedAt (cr_status (R j))) (st_observingStartedAt (cr_status (R i)))"
  using assms(7)
proof (induction j rule: dec_induct)
  case (step j)
  have "phase_rank (phase_of (R (Suc j))) = phase_rank (phase_of (R j))" using assms(6) [of j] assms(6) [of "Suc j"] step.hyps
    by linarith
  then have "\<not> phase_step (phase_of (R j)) (phase_of (R (Suc j)))" by (auto dest: phase_step_rank)
  moreover have "follows (cr_status (R j)) (cr_status (R (Suc j)))"
    using passes_follow [OF assms(1,2), of j] passes_anchored [OF assms(1-4), of j] by blast
  ultimately show ?case using step.IH assms(5) unfolding follows_def by (auto intro: earlier_trans)
qed simp

lemma out_of_time_later:
  assumes "anchored (cr_status run)" and "phase_of run \<in> {Observing, CleaningUp}"
    and "o_timeout (sp_observe (cr_spec run)) < max_duration"
  obtains b where "\<And>r t. phase_of r = phase_of run \<Longrightarrow> earlier (st_startedAt (cr_status r)) (st_startedAt (cr_status run)) \<Longrightarrow>
    earlier (st_observingStartedAt (cr_status r)) (st_observingStartedAt (cr_status run)) \<Longrightarrow> cr_spec r = cr_spec run \<Longrightarrow>
    b < t \<Longrightarrow> out_of_time r t"
proof (cases "phase_of run = Observing")
  case True
  with assms(1) obtain t0 where t0: "st_observingStartedAt (cr_status run) = Some t0" by (auto simp: anchored_def)
  show ?thesis
    by (rule that [of "t0 + o_timeout (sp_observe (cr_spec run))"])
      (use True t0 assms(3) in \<open>auto simp: out_of_time_def Let_def observe_anchor_def time_sub_def earlier_Some\<close>)
next
  case False
  with assms(1,2) obtain t0 where t0: "st_startedAt (cr_status run) = Some t0" by (auto simp: anchored_def)
  show ?thesis
    by (rule that [of "t0 + o_timeout (sp_observe (cr_spec run)) + cleanup_grace"])
      (use False t0 assms(2) in \<open>auto simp: out_of_time_def Let_def earlier_Some\<close>)
qed

lemma passes_out_of_time:
  assumes "passes crd (operator k newClient tcEnv stressEnv lossPointer) ns name S R L" and "patch_stores k crd sp"
    and "anchored (cr_status (R 0))" and "\<And>x. phase_of (R 0) \<noteq> OtherPhase x"
    and "o_timeout (sp_observe (cr_spec (set_defaults (R 0)))) < max_duration"
    and "\<And>j. i \<le> j \<Longrightarrow> phase_rank (phase_of (R j)) = phase_rank (phase_of (R i))"
  obtains b where "\<And>j t. phase_of (R i) \<in> {Observing, CleaningUp} \<Longrightarrow> i \<le> j \<Longrightarrow> b < t \<Longrightarrow>
    out_of_time (set_defaults (R j)) t"
proof (cases "phase_of (R i) \<in> {Observing, CleaningUp}")
  case True
  have defaults: "cr_spec (set_defaults (R j)) = cr_spec (set_defaults (R 0))" for j
    using passes_spec [OF assms(1), of j] by (simp add: set_defaults_def)
  obtain b where b: "\<And>r t. phase_of r = phase_of (R i) \<Longrightarrow> earlier (st_startedAt (cr_status r)) (st_startedAt (cr_status (R i))) \<Longrightarrow>
      earlier (st_observingStartedAt (cr_status r)) (st_observingStartedAt (cr_status (R i))) \<Longrightarrow>
      cr_spec r = cr_spec (set_defaults (R i)) \<Longrightarrow> b < t \<Longrightarrow> out_of_time r t"
    using out_of_time_later [of "set_defaults (R i)"] True passes_anchored [OF assms(1-4), of i] assms(5) defaults [of i]
    by auto
  show ?thesis
  proof (rule that [of b])
    fix j t
    assume "i \<le> j" "b < t"
    then show "out_of_time (set_defaults (R j)) t"
      using same_phase_anchors [OF assms(1-4) True assms(6) \<open>i \<le> j\<close>] defaults [of i] defaults [of j]
      by (intro b) simp_all
  qed
qed auto

subsection \<open>Properties\<close>

text \<open>
  C5. Whatever a pass sends for a run, the times its timeouts are measured from are there: a status in
  phase Injecting, Observing or CleaningUp has its start, one in phase Observing the start of the
  observation, and from then on neither is changed.
\<close>

theorem timeouts_stay_anchored:
  assumes "patch_stores k crd sp" and "fst (k_get_run k ns name (ext s)) = Inr run"
    and "anchored (cr_status run)" and "\<And>x. phase_of run \<noteq> OtherPhase x"
    and "run_state (reconcile (operator k newClient tcEnv stressEnv lossPointer) ns name) s = (x, s')"
    and "calls s' = calls s @ new" and "StatusPatch r ok \<in> set new"
  shows "anchored (cr_status r) \<and> (phase_of run \<in> {Observing, CleaningUp} \<longrightarrow>
    st_startedAt (cr_status r) = st_startedAt (cr_status run) \<and>
    st_observingStartedAt (cr_status r) = st_observingStartedAt (cr_status run))"
  using pass_sends_anchored [OF assms] by (simp add: keeps_anchors_def)

text \<open>
  C4. Every run ends: under passes that go on for ever, at times that pass every bound and with the
  server again and again accepting the writes of a pass that does not panic, a run that does not wait
  for a stable checkpoint reaches a terminal phase, whatever the cluster, the target and the workload
  do, and its status is final from then on.
\<close>

theorem every_run_ends:
  assumes "passes crd (operator k newClient tcEnv stressEnv lossPointer) ns name S R L"
    and "lively (operator k newClient tcEnv stressEnv lossPointer) ns name S L"
    and "patch_stores k crd (cr_spec (R 0))"
    and "\<not> fr_requireStableCheckpoint (o_flinkRest (sp_observe (cr_spec (R 0))))"
    and "o_timeout (sp_observe (cr_spec (set_defaults (R 0)))) < max_duration"
    and "anchored (cr_status (R 0))" and "\<And>x. phase_of (R 0) \<noteq> OtherPhase x"
  shows "\<exists>i. is_terminal (phase_of (R i)) \<and> (\<forall>j \<ge> i. cr_status (R j) = cr_status (R i))"
proof -
  let ?rank = "\<lambda>i. phase_rank (phase_of (R i))"
  have spec: "cr_spec (R i) = cr_spec (R 0)" for i by (rule passes_spec [OF assms(1)])
  obtain i where top: "?rank j \<le> ?rank i" for j
    using ex_has_greatest_nat [of "\<lambda>_. True" 0 ?rank 5] phase_rank_le by (auto simp: less_Suc_eq_le numeral_eq_Suc)
  have same: "?rank j = ?rank i" if "i \<le> j" for j
    using passes_ranks [OF assms(1,3,6,7) that] top [of j] by simp
  note ok = passes_anchored [OF assms(1,3,6,7)]
  have "is_terminal (phase_of (R i))"
  proof (rule ccontr)
    assume open_run: "\<not> is_terminal (phase_of (R i))"
    obtain b where b: "phase_of (R i) \<in> {Observing, CleaningUp} \<Longrightarrow> i \<le> j \<Longrightarrow> b < t \<Longrightarrow>
        out_of_time (set_defaults (R j)) t" for j t
      by (rule passes_out_of_time [OF assms(1,3,6,7,5) same]) blast+
    obtain j where j: "i \<le> j" "b < pass_clock k ns name (S j)" "list_all accepted (L j)"
      "\<not> panics (fst (run_state (reconcile (operator k newClient tcEnv stressEnv lossPointer) ns name) (S j)))"
      using livelyD [OF assms(2), of i b] by auto
    have nt: "\<not> is_terminal (phase_of (R j))" using open_run same [OF j(1)] by (simp add: terminal_rank)
    have late: "out_of_time (set_defaults (R j)) (pass_clock k ns name (S j))"
      if "phase_of (R j) \<in> {Observing, CleaningUp}"
    proof (rule b [OF _ j(1,2)])
      show "phase_of (R i) \<in> {Observing, CleaningUp}"
        using that same [OF j(1)] ok [of i] by (cases "phase_of (R i)") auto
    qed
    have "?rank j < ?rank (Suc j)"
      by (rule accepted_pass_advances [OF assms(1) _ _ nt _ late j(3,4)]) (use assms(3,4) spec [of j] ok [of j] in auto)
    with same [OF j(1)] top [of "Suc j"] show False by simp
  qed
  with terminal_stays [OF assms(1)] show ?thesis by blast
qed

text \<open>
  A server that answers every patch with the object as it keeps it, and on it, under the chart's schema,
  the life of a pod kill, with twenty minutes between the passes and all pods back at each of them.
\<close>

definition keeping_kube :: "crd \<Rightarrow> chaos_run_spec \<Rightarrow> world kube" where
  "keeping_kube crd sp = demo_kube\<lparr>
     k_status_patch := \<lambda>base r w. (let r' = r\<lparr>cr_spec := sp, cr_status := kept_status crd (cr_status r)\<rparr>
       in (Inr r', w\<lparr>w_run := r'\<rparr>)),
     k_patch := \<lambda>base r w. (let r' = r\<lparr>cr_status := kept_status crd (cr_status r)\<rparr> in (Inr r', w\<lparr>w_run := r'\<rparr>))\<rparr>"

lemma keeping_stores: "patch_stores (keeping_kube crd sp) crd sp"
  by (simp add: patch_stores_def keeping_kube_def Let_def)

definition echo_kube :: "world kube" where
  "echo_kube = keeping_kube ChartCrd demo_spec"

lemma echo_stores: "patch_stores echo_kube ChartCrd demo_spec"
  by (simp add: echo_kube_def keeping_stores)

definition echo_operator :: "world reconciler" where
  "echo_operator = operator echo_kube demo_client '''' '''' ''0xc000012345''"

definition demo_at :: "nat \<Rightarrow> chaos_run \<Rightarrow> world sys" where
  "demo_at i r = (demo_sys r)\<lparr>ext := (ext (demo_sys r))\<lparr>w_time := 1200000000000 * (int i + 1)\<rparr>\<rparr>"

definition demo_calls :: "nat \<Rightarrow> chaos_run \<Rightarrow> call list" where
  "demo_calls i r = calls (snd (run_state (reconcile echo_operator ''flink'' ''kill-one'') (demo_at i r)))"

definition demo_next :: "nat \<Rightarrow> chaos_run \<Rightarrow> chaos_run" where
  "demo_next i r = r\<lparr>cr_status := stored_status ChartCrd (cr_status r) (demo_calls i r)\<rparr>"

primrec demo_life :: "nat \<Rightarrow> chaos_run" where
  "demo_life 0 = demo_run Pending"
| "demo_life (Suc i) = demo_next i (demo_life i)"

lemma demo_life_object [simp]:
  "cr_name (demo_life i) = ''kill-one''" "cr_spec (demo_life i) = demo_spec" "cr_deletionTimestamp (demo_life i) = None"
  by (induction i) (simp_all add: demo_run_def demo_next_def)

lemma demo_life_fetch:
  "fst (k_get_run echo_kube ''flink'' ''kill-one'' (ext (demo_at i (demo_life i)))) = Inr (demo_life i)"
  by (simp add: echo_kube_def keeping_kube_def demo_kube_def demo_at_def demo_sys_def)

lemma demo_life_passes:
  "passes ChartCrd echo_operator ''flink'' ''kill-one'' (\<lambda>i. demo_at i (demo_life i)) demo_life (\<lambda>i. demo_calls i (demo_life i))"
  by (simp add: passes_def demo_life_fetch echo_operator_def)
    (simp add: demo_next_def demo_calls_def demo_at_def demo_sys_def echo_operator_def)

lemma demo_life_third: "is_terminal (phase_of (demo_life 3))"
  by code_simp

lemma demo_life_silent:
  assumes "3 \<le> i"
  shows "demo_calls i (demo_life i) = [] \<and>
    fst (run_state (reconcile echo_operator ''flink'' ''kill-one'') (demo_at i (demo_life i))) = finished"
proof -
  have "is_terminal (phase_of (demo_life i))"
    using terminal_stays [OF demo_life_passes demo_life_third assms] demo_life_third by simp
  with terminal_pass [of echo_operator "''flink''" "''kill-one''" "demo_at i (demo_life i)" "demo_life i"] demo_life_fetch [of i]
  show ?thesis by (simp add: demo_calls_def echo_operator_def) (simp add: demo_at_def demo_sys_def)
qed

lemma demo_life_lively:
  "lively echo_operator ''flink'' ''kill-one'' (\<lambda>i. demo_at i (demo_life i)) (\<lambda>i. demo_calls i (demo_life i))"
  unfolding lively_def
proof (intro allI)
  fix i :: nat and t :: int
  have "3 \<le> max 3 (max i (nat t))" "i \<le> max 3 (max i (nat t))" "t \<le> int (max 3 (max i (nat t)))"
    by (simp_all add: nat_le_iff [symmetric] del: of_nat_max)
  then obtain j where j: "3 \<le> j" "i \<le> j" "t \<le> int j" by blast
  have "pass_clock echo_kube ''flink'' ''kill-one'' (demo_at j (demo_life j)) = 1200000000000 * (int j + 1)"
    by (simp add: pass_clock_def echo_kube_def keeping_kube_def demo_kube_def demo_at_def)
  moreover have "t < 1200000000000 * (int j + 1)" using j(3) by (simp add: algebra_simps)
  ultimately show "\<exists>j \<ge> i. t < pass_clock (rc_kube echo_operator) ''flink'' ''kill-one'' (demo_at j (demo_life j)) \<and>
      list_all accepted (demo_calls j (demo_life j)) \<and>
      \<not> panics (fst (run_state (reconcile echo_operator ''flink'' ''kill-one'') (demo_at j (demo_life j))))"
    using demo_life_silent [OF j(1)] j(2) by (intro exI [of _ j]) (simp add: echo_operator_def)
qed

theorem every_run_ends_witness:
  "\<exists>i. is_terminal (phase_of (demo_life i)) \<and> (\<forall>j \<ge> i. cr_status (demo_life j) = cr_status (demo_life i))"
proof -
  have "o_timeout (sp_observe (cr_spec (set_defaults (demo_life 0)))) < max_duration" by code_simp
  from every_run_ends [OF demo_life_passes [unfolded echo_operator_def] demo_life_lively [unfolded echo_operator_def]
      _ _ this] echo_stores
  show ?thesis by (simp add: anchored_def) (simp add: demo_spec_def demo_run_def demo_status_def)
qed

theorem timeouts_stay_anchored_witness:
  "\<exists>r ok. StatusPatch r ok \<in> set (demo_calls 1 (demo_life 1)) \<and> phase_of r = Observing \<and> anchored (cr_status r)"
proof -
  let ?s = "demo_at 1 (demo_life 1)"
  have "Observing \<in> set (map phase_of (sent_runs (demo_calls 1 (demo_life 1))))" by code_simp
  then obtain r ok where r: "StatusPatch r ok \<in> set (demo_calls 1 (demo_life 1))" "phase_of r = Observing"
    by (rule sent_witness)
  have a: "anchored (cr_status (demo_life 1))" and p: "phase_of (demo_life 1) = Injecting" by code_simp+
  have n: "calls (snd (run_state (reconcile echo_operator ''flink'' ''kill-one'') ?s)) = calls ?s @ demo_calls 1 (demo_life 1)"
    by (simp add: demo_calls_def) (simp add: demo_at_def demo_sys_def)
  have "anchored (cr_status r)"
    using timeouts_stay_anchored [OF echo_stores demo_life_fetch a _ prod.collapse [symmetric] n [unfolded echo_operator_def] r(1)] p
    by simp
  with r show ?thesis by blast
qed

end
