(* ===== verification/Stale_Schema.thy ===== *)
theory Stale_Schema
  imports Run_End
begin

section \<open>The operator under the checked-in schema\<close>

text \<open>
  What becomes of a run under \<^verbatim>\<open>config/crd/bases\<close>, which lacks the fields the types have gained since:
  the records of ephemeral containers are lost between the passes, and so are the settings of the
  checkpoint gate and of the safety caps.
\<close>

lemma kept_bases [simp]:
  "st_networkPolicies (kept_status BasesCrd st) = []" "st_tcInjections (kept_status BasesCrd st) = []"
  "st_stressInjections (kept_status BasesCrd st) = []"
  by (simp_all add: kept_status_def)

subsection \<open>Cleaning up without records\<close>

lemma drop_finalizer_unsent: "logs unsent (drop_finalizer rc run)"
proof -
  have read: "triple unsent (\<lambda>_. True) (State (read_ext f))" for f :: "'a \<Rightarrow> (api_error + chaos_run) \<times> 'a"
    by (rule triple_silent) (rule read_ext_silent)
  have patch: "logs unsent (State (object_patch k base r))" for k :: "'a kube" and base r
    by (rule triple_State) (auto dest!: object_patch_calls simp: emits_def)
  show ?thesis
    unfolding drop_finalizer_def patch_object_def Let_def
    by (intro triple_rules triple_bind [OF read] triple_bind [OF patch]) auto
qed

lemma cleaning_complete_sends:
  "sends_once (\<lambda>r. phase_of r \<in> {Completed, Aborted}) (cleaning_complete rc base run)"
proof -
  have cond: "triple quiet (\<lambda>_. True) (condition_set k ct st a b run)" for k ct st a b
    unfolding condition_set_def by (rule triple_silent) (rule set_condition_silent)
  have verdict: "triple quiet (\<lambda>r. phase_of r \<in> {Completed, Aborted})
      (if b then aborted_run (rc_kube rc) m r else finalized_run (rc_kube rc) (cleaned_verdict v) m' r)" for b r m v m'
    by (simp, intro conjI impI triple_weaken [OF triple_aborted] triple_weaken [OF triple_finalized])
      (simp_all add: settled_def)
  show ?thesis
    unfolding cleaning_complete_def Let_def
    by (intro sends_bind [OF cond] sends_bind [OF verdict] sends_rules sends_patch drop_finalizer_unsent) simp_all
qed

lemma cleanup_forgotten:
  assumes "scenario_of run \<in> {NetworkChaos, ResourceExhaustion}" and "cr_status run = kept_status BasesCrd st"
  shows "cleanup_driver (operator k newClient tcEnv stressEnv lossPointer) run s = (None, run, s)"
  using assms by (auto simp: cleanup_driver_def operator_def operator_drivers_def Let_def chaos_cleanup_def
      exhaustion_cleanup_def)

lemma cleaning_try_forgotten:
  assumes "scenario_of run \<in> {NetworkChaos, ResourceExhaustion}" and "cr_status run = kept_status BasesCrd st"
  shows "cleaning_try (operator k newClient tcEnv stressEnv lossPointer) run =
    cleaning_complete (operator k newClient tcEnv stressEnv lossPointer) run run"
proof -
  have "is_cleanup_complete run" by (simp add: is_cleanup_complete_def assms(2))
  then show ?thesis
    by (simp add: cleaning_try_def lift_run_def cleanup_forgotten [OF assms] State_Monad.bind_def)
qed

text \<open>No pod is looked at on the way.\<close>

lemma finish_any_pods: "finish_run (operator (k\<lparr>k_get_pod := g\<rparr>) newClient a b c) = finish_run (operator k newClient a b c)"
  by (rule ext) (simp add: finish_run_def read_clock_def now_def Let_def cong del: option.case_cong_weak)

lemma complete_any_pods:
  "cleaning_complete (operator (k\<lparr>k_get_pod := g\<rparr>) newClient a b c) base run =
   cleaning_complete (operator k newClient a b c) base run"
proof -
  have "drop_finalizer (operator (k\<lparr>k_get_pod := g\<rparr>) newClient a b c) = drop_finalizer (operator k newClient a b c)"
    by (rule ext) (simp add: drop_finalizer_def patch_object_def object_patch_def Let_def
        cong del: if_weak_cong sum.case_cong_weak)
  then show ?thesis
    by (simp add: cleaning_complete_def condition_set_def set_condition_def [abs_def] aborted_run_def abort_run_def [abs_def]
        finalized_run_def finalize_run_def [abs_def] now_def finish_any_pods patch_status_def status_patch_def Let_def
        cong del: if_weak_cong sum.case_cong_weak)
qed

lemma forgotten_pass:
  assumes "fst (k_get_run k ns name (ext s)) = Inr run" and "phase_of run = CleaningUp"
    and "scenario_of run \<in> {NetworkChaos, ResourceExhaustion}" and "cr_status run = kept_status BasesCrd st"
    and "cr_deletionTimestamp run = None" and "\<not> out_of_time (set_defaults run) (pass_clock k ns name s)"
  shows "run_state (reconcile (operator k newClient a b c) ns name) s =
    run_state (cleaning_complete (operator k newClient a b c) (set_defaults run) (set_defaults run))
      (if st_startedAt (cr_status run) = None then snd (read_ext (k_get_run k ns name) s)
       else snd (now k (snd (read_ext (k_get_run k ns name) s))))"
proof -
  let ?rc = "operator k newClient a b c" and ?run = "set_defaults run"
  let ?s = "snd (read_ext (k_get_run k ns name) s)"
  have ext: "ext ?s = snd (k_get_run k ns name (ext s))" by (simp add: read_ext_def split: prod.splits)
  have "run_state (reconcile ?rc ns name) s = run_state (reconcile_cleaning_up ?rc ?run) ?s"
    using reconcile_fetched [OF prod.collapse [symmetric], of ?rc ns name s] assms(1,2,5)
    by (simp add: reconcile_run_def reconcile_phase_def prod_eq_iff)
  moreover have "cleaning_try ?rc ?run = cleaning_complete ?rc ?run ?run"
    by (rule cleaning_try_forgotten) (use assms(3,4) in simp_all)
  ultimately show ?thesis
    using assms(2,6)
    by (cases "st_startedAt (cr_status run)")
      (simp_all add: reconcile_cleaning_up_def run_state_bind read_clock_run out_of_time_def Let_def pass_clock_def ext)
qed

subsection \<open>Settings that never arrive\<close>

lemma kept_bases_spec:
  "sp_scenario (kept_spec BasesCrd sp) = sp_scenario sp"
  "sf_maxNetworkDuration (sp_safety (kept_spec BasesCrd sp)) = None"
  "sf_maxExhaustionDuration (sp_safety (kept_spec BasesCrd sp)) = None"
  "\<not> sf_allowCheckpointStorage (sp_safety (kept_spec BasesCrd sp))"
  "\<not> fr_requireStableCheckpoint (o_flinkRest (sp_observe (kept_spec BasesCrd sp)))"
  by (simp_all add: kept_spec_def)

lemma default_caps:
  assumes "cr_spec run = kept_spec BasesCrd sp"
  shows "sf_maxNetworkDuration (sp_safety (cr_spec (set_defaults run))) = Some (5 * minute)"
    and "sf_maxExhaustionDuration (sp_safety (cr_spec (set_defaults run))) = Some (5 * minute)"
    and "\<not> sf_allowCheckpointStorage (sp_safety (cr_spec (set_defaults run)))"
  using assms by (simp_all add: set_defaults_def set_safety_defaults_def kept_bases_spec Let_def)

lemma default_network_keeps:
  "n_target (default_network n) = n_target n" "n_duration n = Some d \<Longrightarrow> n_duration (default_network n) = Some d"
  by (simp_all add: default_network_def Let_def)

subsection \<open>Properties\<close>

text \<open>
  C23. Under the checked-in schema the cleaning up of a NetworkChaos or a ResourceExhaustion run is over
  with its first pass in time: the pass disturbs nothing and sends the status once, as Completed or
  Aborted, and it is the same whatever becomes of the pods, since without the records it never asks for
  them. The containers that carry the disruption are left to themselves.
\<close>

theorem stale_schema_cleans_unseen:
  assumes "fst (k_get_run k ns name (ext s)) = Inr run" and "phase_of run = CleaningUp"
    and "scenario_of run \<in> {NetworkChaos, ResourceExhaustion}" and "cr_status run = kept_status BasesCrd st"
    and "cr_deletionTimestamp run = None" and "\<not> out_of_time (set_defaults run) (pass_clock k ns name s)"
    and "run_state (reconcile (operator k newClient a b c) ns name) s = (x, s')" and "calls s' = calls s @ new"
  shows "(\<exists>r. sent_runs new = [r] \<and> phase_of r \<in> {Completed, Aborted}) \<and> (\<forall>d \<in> set new. \<not> disruptive d) \<and>
    (\<forall>g. run_state (reconcile (operator (k\<lparr>k_get_pod := g\<rparr>) newClient a b c) ns name) s = (x, s'))"
proof -
  let ?s1 = "if st_startedAt (cr_status run) = None then snd (read_ext (k_get_run k ns name) s)
    else snd (now k (snd (read_ext (k_get_run k ns name) s)))"
  have pass: "run_state (cleaning_complete (operator k newClient a b c) (set_defaults run) (set_defaults run)) ?s1 = (x, s')"
    using forgotten_pass [OF assms(1-6)] assms(7) by simp
  have "calls s' = calls ?s1 @ new" using assms(8) by simp
  with sends_onceD [OF cleaning_complete_sends pass] have
    "\<exists>r. sent_runs new = [r] \<and> phase_of r \<in> {Completed, Aborted} \<and> (\<forall>d \<in> set new. \<not> disruptive d)" by blast
  moreover have "run_state (reconcile (operator (k\<lparr>k_get_pod := g\<rparr>) newClient a b c) ns name) s = (x, s')" for g
    using forgotten_pass [of "k\<lparr>k_get_pod := g\<rparr>" ns name s run st newClient a b c] assms(1-6) pass
    by (simp add: pass_clock_def complete_any_pods now_def cong del: if_weak_cong)
  ultimately show ?thesis by blast
qed

text \<open>A live container on a pod, as it was recorded and as the stored run shows it.\<close>

definition demo_forgotten :: chaos_run where
  "demo_forgotten = with_network NetworkChaos demo_network (demo_run CleaningUp)\<lparr>cr_status :=
     kept_status BasesCrd ((demo_status CleaningUp)\<lparr>st_injectedPods := [''tm-1''], st_tcInjections := [demo_record]\<rparr>)\<rparr>"

theorem stale_schema_cleans_unseen_witness:
  "\<exists>r. sent_runs (calls (snd (demo_pass (demo_sys demo_forgotten)))) = [r] \<and> phase_of r \<in> {Completed, Aborted}"
proof -
  let ?st = "(demo_status CleaningUp)\<lparr>st_injectedPods := [''tm-1''], st_tcInjections := [demo_record]\<rparr>"
  have f: "fst (k_get_run demo_kube ''flink'' ''kill-one'' (ext (demo_sys demo_forgotten))) = Inr demo_forgotten"
    by (rule demo_fetch) (simp add: demo_forgotten_def with_network_def demo_run_def)
  have o: "phase_of demo_forgotten = CleaningUp" "scenario_of demo_forgotten \<in> {NetworkChaos, ResourceExhaustion}"
    "cr_status demo_forgotten = kept_status BasesCrd ?st" "cr_deletionTimestamp demo_forgotten = None"
    by (simp_all add: demo_forgotten_def with_network_def demo_run_def demo_status_def demo_spec_def)
  have t: "\<not> out_of_time (set_defaults demo_forgotten) (pass_clock demo_kube ''flink'' ''kill-one'' (demo_sys demo_forgotten))"
    by code_simp
  from stale_schema_cleans_unseen [OF f o t demo_pass_run demo_new] show ?thesis by blast
qed

text \<open>
  Under the checked-in schema a user cannot raise the operator's caps: a pass disturbs something for
  a network scenario only when it does not aim at the checkpoint storage and lasts five minutes at most,
  and for a ResourceExhaustion run only when it lasts five minutes at most, whatever the user wrote
  under \<^verbatim>\<open>spec.safety\<close>.
\<close>

theorem stale_schema_fixes_caps:
  assumes "patch_keeps_phase k"
    and "fst (k_get_run k ns name (ext s)) = Inr run" and "cr_spec run = kept_spec BasesCrd sp"
    and "run_state (reconcile (operator k newClient a b c) ns name) s = (x, s')" and "calls s' = calls s @ new"
    and "d \<in> set new" and "disruptive d"
  shows "(scenario_of run \<in> {NetworkPartition, NetworkChaos} \<longrightarrow> (\<forall>n. s_network (sp_scenario sp) = Some n \<longrightarrow>
      n_target n \<noteq> TMtoCheckpoint \<and> (\<forall>t. n_duration n = Some t \<longrightarrow> t \<le> 5 * minute))) \<and>
    (scenario_of run = ResourceExhaustion \<longrightarrow> (\<forall>re. s_resourceExhaustion (sp_scenario sp) = Some re \<longrightarrow>
      (\<forall>t. re_duration re = Some t \<longrightarrow> t \<le> 5 * minute)))"
proof -
  let ?rc = "operator k newClient a b c" and ?run = "set_defaults run"
  have run: "run_state (reconcile_run ?rc ?run) (snd (read_ext (k_get_run k ns name) s)) = (x, s')"
    using reconcile_fetched [OF assms(4)] assms(2) by simp
  have "\<not> emits (\<lambda>c. \<not> disruptive c) (snd (read_ext (k_get_run k ns name) s)) s'"
    using assms(5-7) by (auto simp: emits_def)
  with op.injection_checked [OF _ run] assms(1) obtain r t s3 s4 where
    r: "same_object ?run r" "check k r t s3 = (None, s4)"
    by (auto simp: checks_passed_def run_safety_checks_def)
  have spec: "cr_spec r = cr_spec ?run" using r(1) by (simp add: same_object_def)
  have "fst (check k r t s3) = None" using r(2) by simp
  then have ok: "check_network_scenario r = None" "scenario_of r = ResourceExhaustion \<longrightarrow> check_exhaustion_duration r = None"
    unfolding check_passes_parts by blast+
  note caps = default_caps [OF assms(3)]
  have sc: "sp_scenario (cr_spec ?run) = set_scenario_defaults (sp_scenario sp)" "sp_scenario (cr_spec run) = sp_scenario sp"
    by (simp_all add: set_defaults_def assms(3) kept_bases_spec)
  have types: "s_type (set_scenario_defaults s) = s_type s"
    "s_network (set_scenario_defaults s) = map_option default_network (s_network s)"
    "s_type s = ResourceExhaustion \<Longrightarrow>
      s_resourceExhaustion (set_scenario_defaults s) = map_option default_exhaustion (s_resourceExhaustion s)" for s
    by (simp_all add: set_scenario_defaults_def Let_def)
  have "n_target n \<noteq> TMtoCheckpoint \<and> (\<forall>t. n_duration n = Some t \<longrightarrow> t \<le> 5 * minute)"
    if "scenario_of run \<in> {NetworkPartition, NetworkChaos}" "s_network (sp_scenario sp) = Some n" for n
    using ok(1) that caps default_network_keeps [of n]
    by (auto simp: check_network_scenario_def check_network_duration_def check_checkpoint_storage_def spec sc types
        split: if_splits option.splits)
  moreover have "t \<le> 5 * minute"
    if "scenario_of run = ResourceExhaustion" "s_resourceExhaustion (sp_scenario sp) = Some re" "re_duration re = Some t" for re t
    using ok(2) that caps
    by (auto simp: check_exhaustion_duration_def spec sc types default_exhaustion_def Let_def split: if_splits option.splits)
  ultimately show ?thesis by blast
qed

theorem stale_schema_fixes_caps_witness:
  "\<exists>d run. d \<in> set (calls (snd (demo_pass (demo_sys run)))) \<and> disruptive d \<and> scenario_of run = NetworkPartition \<and>
     (\<forall>n. s_network (sp_scenario (cr_spec run)) = Some n \<longrightarrow> n_target n \<noteq> TMtoCheckpoint)"
proof -
  let ?sp = "cr_spec (with_network NetworkPartition demo_network (demo_run Injecting))"
  let ?run = "(with_network NetworkPartition demo_network (demo_run Injecting))\<lparr>cr_spec := kept_spec BasesCrd ?sp\<rparr>"
  have "list_ex disruptive (calls (snd (demo_pass (demo_sys ?run))))" by code_simp
  then obtain d where d: "d \<in> set (calls (snd (demo_pass (demo_sys ?run))))" "disruptive d" by (auto simp only: list_ex_iff)
  have f: "fst (k_get_run demo_kube ''flink'' ''kill-one'' (ext (demo_sys ?run))) = Inr ?run"
    by (rule demo_fetch) (simp add: with_network_def demo_run_def)
  have sc: "scenario_of ?run = NetworkPartition" "sp_scenario (cr_spec ?run) = sp_scenario ?sp"
    by (simp_all add: kept_bases_spec) (simp add: with_network_def)
  from stale_schema_fixes_caps [OF demo_keeps f _ demo_pass_run demo_new d, of ?sp] sc d show ?thesis
    by (intro exI [of _ d] exI [of _ ?run]) simp
qed

text \<open>
  C24. Under the checked-in schema no run waits for a stable checkpoint, although its user asked for it:
  when the server accepts the writes of the first pass over a pending run, and nothing panics, the run
  is left in phase Injecting or, when it is not valid, Failed.
\<close>

theorem stale_schema_skips_gate:
  assumes "patch_stores k BasesCrd (kept_spec BasesCrd sp)"
    and "fst (k_get_run k ns name (ext s)) = Inr run" and "cr_spec run = kept_spec BasesCrd sp"
    and "phase_of run \<in> {NoPhase, Pending}" and "cr_deletionTimestamp run = None" and "\<not> ctl_abort (sp_control sp)"
    and "run_state (reconcile (operator k newClient a b c) ns name) s = (x, s')" and "calls s' = calls s @ new"
    and "list_all accepted new" and "\<not> panics x"
  shows "st_phase (stored_status BasesCrd (cr_status run) new) \<in> {Injecting, Failed}"
proof -
  let ?rc = "operator k newClient a b c" and ?run = "set_defaults run"
  have "\<not> ctl_abort (sp_control (cr_spec run))" using assms(3,6) by (simp add: kept_spec_def)
  then have "run_state (reconcile_pending ?rc ?run) (snd (read_ext (k_get_run k ns name) s)) = (x, s')"
    using reconcile_fetched [OF assms(7)] assms(2,4,5) by (auto simp: reconcile_run_def reconcile_phase_def)
  moreover have "moves BasesCrd (\<lambda>st. st_phase st = Failed \<or> st_phase st = Injecting) (reconcile_pending ?rc ?run)"
    by (rule pending_moves) (use assms(1) kept_bases_spec(5) [of sp] in simp_all)
  ultimately show ?thesis
    using movesD [of BasesCrd _ _ "snd (read_ext (k_get_run k ns name) s)" x s' new "cr_status run"] assms(8-10) by auto
qed

text \<open>A pod kill whose user wants a stable checkpoint, pending as the server stores it.\<close>

definition demo_gated :: chaos_run_spec where
  "demo_gated = demo_spec\<lparr>sp_observe := (sp_observe demo_spec)\<lparr>o_flinkRest := (o_flinkRest (sp_observe demo_spec))\<lparr>
     fr_enabled := True, fr_requireStableCheckpoint := True\<rparr>\<rparr>\<rparr>"

theorem stale_schema_skips_gate_witness:
  "fr_requireStableCheckpoint (o_flinkRest (sp_observe demo_gated)) \<and>
   (\<exists>new. st_phase (stored_status BasesCrd (demo_status Pending) new) = Injecting)"
proof -
  let ?sp = "kept_spec BasesCrd demo_gated" and ?run = "(demo_run Pending)\<lparr>cr_spec := kept_spec BasesCrd demo_gated\<rparr>"
  let ?k = "keeping_kube BasesCrd (kept_spec BasesCrd demo_gated)"
  let ?p = "run_state (reconcile (operator ?k demo_client '''' '''' '''') ''flink'' ''kill-one'') (demo_sys ?run)"
  have f: "fst (k_get_run ?k ''flink'' ''kill-one'' (ext (demo_sys ?run))) = Inr ?run"
    by (simp add: keeping_kube_def demo_kube_def demo_sys_def demo_run_def)
  have n: "calls (snd ?p) = calls (demo_sys ?run) @ calls (snd ?p)" by (simp add: demo_sys_def)
  have ok: "list_all accepted (calls (snd ?p))" "\<not> panics (fst ?p)" by code_simp+
  have phase: "st_phase (stored_status BasesCrd (demo_status Pending) (calls (snd ?p))) \<noteq> Failed" by code_simp
  have "st_phase (stored_status BasesCrd (cr_status ?run) (calls (snd ?p))) \<in> {Injecting, Failed}"
    by (rule stale_schema_skips_gate [OF keeping_stores f _ _ _ _ prod.collapse [symmetric] n ok])
      (simp_all add: demo_run_def demo_status_def demo_gated_def demo_spec_def)
  with phase have "st_phase (stored_status BasesCrd (demo_status Pending) (calls (snd ?p))) = Injecting"
    by (simp add: demo_run_def)
  then show ?thesis by (auto simp: demo_gated_def)
qed

end
