(* ===== verification/Go_Mux.thy ===== *)
theory Go_Mux
  imports Go_Net Go_Text
begin

section \<open>Request routing of the Go library\<close>

text \<open>
  \<^verbatim>\<open>http.ServeMux\<close> as the UI's API server uses it: patterns of a method and a path whose segments
  are literals or single wildcards, and possibly the pattern of a single slash, which matches every
  path. A request whose path is not clean is redirected; otherwise the patterns of its method are
  tried before those without a method, a HEAD request also tries those of GET, and a path that only
  other methods match is answered with 405. No other pattern ends in a slash here, so the redirection
  to such a pattern never happens.
\<close>

subsection \<open>Paths\<close>

fun split_char :: "char \<Rightarrow> string \<Rightarrow> string list" where
  "split_char c [] = [[]]"
| "split_char c (x # xs) =
     (if x = c then [] # split_char c xs
      else case split_char c xs of [] \<Rightarrow> [[x]] | y # ys \<Rightarrow> (x # y) # ys)"

definition hex_value :: "char \<Rightarrow> nat" where
  "hex_value c =
     (let n = of_char c in if n < 58 then n - 48 else if n < 97 then n - 55 else n - 87)"

fun unescape :: "string \<Rightarrow> string option" where
  "unescape [] = Some []"
| "unescape (c # s) =
     (if c = CHR ''%'' then
        (case s of
           a # b # t \<Rightarrow>
             (if is_hex a \<and> is_hex b
              then map_option ((#) (char_of (16 * hex_value a + hex_value b))) (unescape t) else None)
         | _ \<Rightarrow> None)
      else map_option ((#) c) (unescape s))"

text \<open>\<^verbatim>\<open>pathUnescape\<close>: a segment with a bad escape is taken as it is.\<close>

definition path_unescape :: "string \<Rightarrow> string" where
  "path_unescape s = (case unescape s of None \<Rightarrow> s | Some t \<Rightarrow> t)"

text \<open>\<^verbatim>\<open>path.Clean\<close> on the segments of a rooted path, and \<^verbatim>\<open>cleanPath\<close>, which keeps a slash at the end.\<close>

fun clean_segments :: "string list \<Rightarrow> string list \<Rightarrow> string list" where
  "clean_segments stack [] = rev stack"
| "clean_segments stack (x # xs) =
     (if x = '''' \<or> x = ''.'' then clean_segments stack xs
      else if x = ''..'' then clean_segments (tl stack) xs
      else clean_segments (x # stack) xs)"

definition clean_path :: "string \<Rightarrow> string" where
  "clean_path p =
     (if p = '''' then ''/''
      else let segs = clean_segments [] (split_char (CHR ''/'') p);
               np = ''/'' @ join ''/'' segs
           in if last p = CHR ''/'' \<and> np \<noteq> ''/'' then np @ ''/'' else np)"

text \<open>The segments the patterns are matched with; the empty one after a slash at the end is \<^verbatim>\<open>/\<close>.\<close>

definition path_segments :: "string \<Rightarrow> string list" where
  "path_segments p =
     (let segs = tl (split_char (CHR ''/'') p)
      in map path_unescape (butlast segs) @
         (if segs = [] then [] else if last segs = '''' then [''/''] else [path_unescape (last segs)]))"

subsection \<open>Patterns\<close>

datatype pattern_segment = Literal string | Wildcard string | Subtree

record pattern =
  pt_method :: string
  pt_segments :: "pattern_segment list"

definition parse_segment :: "string \<Rightarrow> pattern_segment" where
  "parse_segment s =
     (if s = '''' then Subtree
      else if has_prefix s ''{'' then Wildcard (butlast (tl s))
      else Literal s)"

definition parse_pattern :: "string \<Rightarrow> pattern" where
  "parse_pattern s =
     (let (m, p) = (case split_first (CHR '' '') s of None \<Rightarrow> ('''', s) | Some mp \<Rightarrow> mp)
      in \<lparr>pt_method = m, pt_segments = map parse_segment (tl (split_char (CHR ''/'') p))\<rparr>)"

text \<open>The values of the wildcards when the segments of a path match.\<close>

fun match_segments :: "pattern_segment list \<Rightarrow> string list \<Rightarrow> string list option" where
  "match_segments [] [] = Some []"
| "match_segments [Subtree] (s # ss) = Some []"
| "match_segments (Literal l # ps) (s # ss) = (if s = l then match_segments ps ss else None)"
| "match_segments (Wildcard n # ps) (s # ss) =
     (if s = ''/'' then None else map_option ((#) s) (match_segments ps ss))"
| "match_segments _ _ = None"

fun match_patterns :: "string \<Rightarrow> string list \<Rightarrow> (pattern \<times> 'h) list \<Rightarrow> ('h \<times> string list) option" where
  "match_patterns m segs [] = None"
| "match_patterns m segs ((p, h) # t) =
     (if pt_method p = m then
        (case match_segments (pt_segments p) segs of
           Some vals \<Rightarrow> Some (h, vals)
         | None \<Rightarrow> match_patterns m segs t)
      else match_patterns m segs t)"

definition mux_match :: "string \<Rightarrow> string list \<Rightarrow> (pattern \<times> 'h) list \<Rightarrow> ('h \<times> string list) option" where
  "mux_match m segs t =
     (case match_patterns m segs t of
        Some r \<Rightarrow> Some r
      | None \<Rightarrow>
          (case (if m = ''HEAD'' then match_patterns ''GET'' segs t else None) of
             Some r \<Rightarrow> Some r
           | None \<Rightarrow> match_patterns '''' segs t))"

definition path_known :: "string list \<Rightarrow> (pattern \<times> 'h) list \<Rightarrow> bool" where
  "path_known segs t \<longleftrightarrow> list_ex (\<lambda>(p, h). match_segments (pt_segments p) segs \<noteq> None) t"

datatype 'h mux_result = Redirect string | NoSuchPath | MethodNotAllowed | Handled 'h "string list"

definition mux_find :: "(pattern \<times> 'h) list \<Rightarrow> string \<Rightarrow> string \<Rightarrow> 'h mux_result" where
  "mux_find t m p0 =
     (let p = (if m = ''CONNECT'' then p0 else clean_path p0);
          segs = path_segments p
      in if p \<noteq> p0 then Redirect p
         else case mux_match m segs t of
           Some (h, vals) \<Rightarrow> Handled h vals
         | None \<Rightarrow> if path_known segs t then MethodNotAllowed else NoSuchPath)"

subsection \<open>Facts of the router\<close>

lemma split_char_ne [simp]: "split_char c s \<noteq> []"
  by (induction s) (auto split: list.splits)

lemma split_char_plain: "c \<notin> set s \<Longrightarrow> split_char c s = [s]"
  by (induction s) auto

lemma split_char_cons: "c \<notin> set s \<Longrightarrow> split_char c (s @ c # t) = s # split_char c t"
  by (induction s) auto

lemma unescape_plain: "CHR ''%'' \<notin> set s \<Longrightarrow> unescape s = Some s"
  by (induction s) auto

lemma path_unescape_plain: "CHR ''%'' \<notin> set s \<Longrightarrow> path_unescape s = s"
  by (simp add: path_unescape_def unescape_plain)

lemma unescape_empty: "unescape s = Some [] \<Longrightarrow> s = []"
  by (cases s) (auto split: if_splits list.splits)

lemma path_unescape_empty [simp]: "path_unescape s = [] \<longleftrightarrow> s = []"
  by (auto simp: path_unescape_def split: option.splits dest: unescape_empty)

lemma empty_path_unescape [simp]: "[] = path_unescape s \<longleftrightarrow> s = []"
  using path_unescape_empty [of s] by metis

lemma match_patterns_Some:
  "match_patterns m segs t = Some (h, vals) \<Longrightarrow>
   \<exists>p. (p, h) \<in> set t \<and> pt_method p = m \<and> match_segments (pt_segments p) segs = Some vals"
  by (induction m segs t rule: match_patterns.induct) (auto split: if_splits option.splits)

lemma match_segments_values:
  "match_segments ps segs = Some vals \<Longrightarrow> set vals \<subseteq> set segs"
  by (induction ps segs arbitrary: vals rule: match_segments.induct) (auto split: if_splits)

lemma match_segments_wild:
  "match_segments ps segs = Some vals \<Longrightarrow> ''/'' \<notin> set vals"
  by (induction ps segs arbitrary: vals rule: match_segments.induct) (auto split: if_splits)

lemma mux_match_Some:
  assumes "mux_match m segs t = Some (h, vals)"
  shows "\<exists>p. (p, h) \<in> set t \<and> (pt_method p = m \<or> (m = ''HEAD'' \<and> pt_method p = ''GET'') \<or> pt_method p = '''') \<and>
    match_segments (pt_segments p) segs = Some vals"
  using assms by (auto simp: mux_match_def split: option.splits if_splits dest!: match_patterns_Some)

text \<open>Two tables with the same patterns whose handlers agree for the methods in \<open>M\<close> route those alike.\<close>

definition agree_on :: "string set \<Rightarrow> (pattern \<times> 'h) list \<Rightarrow> (pattern \<times> 'h) list \<Rightarrow> bool" where
  "agree_on M t t' \<longleftrightarrow> list_all2 (\<lambda>x y. fst x = fst y \<and> (pt_method (fst x) \<in> M \<longrightarrow> snd x = snd y)) t t'"

lemma match_patterns_agree:
  "agree_on M t t' \<Longrightarrow> m \<in> M \<Longrightarrow> match_patterns m segs t = match_patterns m segs t'"
  unfolding agree_on_def
  by (induction t t' rule: list_all2_induct) (auto split: option.splits)

lemma path_known_agree: "agree_on M t t' \<Longrightarrow> path_known segs t = path_known segs t'"
  unfolding agree_on_def path_known_def
  by (induction t t' rule: list_all2_induct) (auto split: option.splits)

lemma mux_find_agree:
  assumes "agree_on M t t'" and "{m, ''GET'', ''''} \<subseteq> M"
  shows "mux_find t m p = mux_find t' m p"
proof -
  have "match_patterns x segs t = match_patterns x segs t'" if "x \<in> {m, ''GET'', ''''}" for x segs
    using match_patterns_agree [OF assms(1)] assms(2) that by blast
  then have m: "match_patterns m segs t = match_patterns m segs t'"
    "match_patterns ''GET'' segs t = match_patterns ''GET'' segs t'"
    "match_patterns '''' segs t = match_patterns '''' segs t'" for segs by simp_all
  show ?thesis
    unfolding mux_find_def mux_match_def m path_known_agree [OF assms(1)] ..
qed

text \<open>A clean path has no empty segment.\<close>

lemma split_char_parts: "x \<in> set (split_char c s) \<Longrightarrow> c \<notin> set x"
  by (induction s arbitrary: x) (auto split: if_splits list.splits)

lemma split_char_join:
  "xs \<noteq> [] \<Longrightarrow> \<forall>x \<in> set xs. c \<notin> set x \<Longrightarrow> split_char c (join [c] xs) = xs"
proof (induction xs rule: induct_list012)
  case (3 x y zs)
  then show ?case using split_char_cons [of c x "join [c] (y # zs)"] by simp
qed (simp_all add: split_char_plain)

lemma split_char_snoc: "split_char c (s @ [c]) = split_char c s @ [[]]"
proof (induction s)
  case (Cons a s)
  then show ?case by (cases "split_char c s") auto
qed simp

lemma set_tl: "x \<in> set (tl xs) \<Longrightarrow> x \<in> set xs"
  by (cases xs) auto

lemma clean_segments_set:
  "set (clean_segments stack xs) \<subseteq> set stack \<union> {x \<in> set xs. x \<noteq> ''''}"
  by (induction stack xs rule: clean_segments.induct) (auto dest: set_tl)

lemma clean_path_segments: "'''' \<notin> set (path_segments p)" if "clean_path p = p" and "p \<noteq> ''''"
proof -
  let ?segs = "clean_segments [] (split_char (CHR ''/'') p)"
  have set: "x \<noteq> '''' \<and> CHR ''/'' \<notin> set x" if "x \<in> set ?segs" for x
    using that clean_segments_set [of "[]" "split_char (CHR ''/'') p"] split_char_parts by fastforce
  show ?thesis
  proof (cases "?segs = []")
    case True
    with that have p: "p = ''/''" by (auto simp: clean_path_def Let_def split: if_splits)
    show ?thesis unfolding p by code_simp
  next
    case False
    have j: "split_char (CHR ''/'') (join ''/'' ?segs) = ?segs"
      using split_char_join [OF False, of "CHR ''/''"] set by auto
    have A: "tl (split_char (CHR ''/'') (''/'' @ join ''/'' ?segs)) = ?segs" using j by simp
    have B: "tl (split_char (CHR ''/'') ((''/'' @ join ''/'' ?segs) @ ''/'')) = ?segs @ [[]]"
      unfolding split_char_snoc using j by simp
    from that have "p = ''/'' @ join ''/'' ?segs \<or> p = (''/'' @ join ''/'' ?segs) @ ''/''"
      by (auto simp: clean_path_def Let_def split: if_splits)
    then have "tl (split_char (CHR ''/'') p) = ?segs \<or> tl (split_char (CHR ''/'') p) = ?segs @ [[]]"
      using A B by metis
    then obtain segs where ne: "segs \<noteq> []" and parts: "\<forall>x \<in> set segs. x \<noteq> []"
      and t: "tl (split_char (CHR ''/'') p) = segs \<or> tl (split_char (CHR ''/'') p) = segs @ [[]]"
      using False set by blast
    have u: "[] \<notin> path_unescape ` A" if "A \<subseteq> set segs" for A
      using that parts by (metis image_iff path_unescape_empty subsetD)
    have "[] \<notin> path_unescape ` set (butlast segs)" "[] \<notin> path_unescape ` set segs" "path_unescape (last segs) \<noteq> []"
      using u [of "set (butlast segs)"] u [of "set segs"] ne parts by (auto dest: in_set_butlastD)
    with t ne show ?thesis by (auto simp: path_segments_def Let_def)
  qed
qed

end
