(* ===== verification/Api_Write.thy ===== *)
theory Api_Write
  imports Run_Store Safety Demo_World
begin

section \<open>The API server: creating, aborting and deleting runs\<close>

text \<open>
  \<^verbatim>\<open>internal/apiserver/handlers_chaos_write.go\<close> with the error envelope of \<^verbatim>\<open>respond.go\<close>. A handler
  takes what the HTTP layer has made of the request, the decoded body or the path value, and
  answers with a status code and body; the decoder of \<^verbatim>\<open>encoding/json\<close> and log output are not
  modelled. Milliseconds and seconds are multiplied into a \<^verbatim>\<open>time.Duration\<close> at 64 bits.
\<close>

subsection \<open>Names\<close>

definition name_char :: "char \<Rightarrow> bool" where
  "name_char c \<longleftrightarrow> is_digit c \<or> (let n = of_char c :: nat in 97 \<le> n \<and> n \<le> 122)"

definition valid_k8s_name :: "string \<Rightarrow> bool" where
  "valid_k8s_name s \<longleftrightarrow>
     (case s of
        [] \<Rightarrow> False
      | [c] \<Rightarrow> name_char c
      | c # cs \<Rightarrow> name_char c \<and> list_all (\<lambda>d. name_char d \<or> d = CHR ''-'') (butlast cs) \<and>
                  name_char (last cs) \<and> length (butlast cs) \<le> 251)"

subsection \<open>The request\<close>

record create_request =
  q_targetName :: string
  q_targetType :: string
  q_deploymentID :: string
  q_vvpNamespace :: string
  q_scenarioType :: string
  q_selectionMode :: string
  q_selectionCount :: int
  q_selectionPods :: "string list"
  q_gracePeriodSeconds :: "int option"
  q_networkTarget :: string
  q_networkDirection :: string
  q_externalHostname :: string
  q_externalCIDR :: string
  q_externalPort :: int
  q_latencyMs :: int
  q_jitterMs :: int
  q_lossPercent :: "int option"
  q_bandwidth :: string
  q_durationSeconds :: int
  q_resourceMode :: string
  q_workers :: int
  q_memoryPercent :: int
  q_minTaskManagers :: int
  q_dryRun :: bool

datatype http_response = HttpError nat string | HttpCreated string string | HttpNoContent

definition min_task_managers_ptr :: "int \<Rightarrow> int option" where
  "min_task_managers_ptr v = Some v"

definition build_target_spec :: "create_request \<Rightarrow> target_spec" where
  "build_target_spec q =
     (if q_targetType q = string_of_target_type VervericaDeployment
      then zero_target\<lparr>t_type := VervericaDeployment, t_deploymentName := q_targetName q,
             t_deploymentID := q_deploymentID q, t_vvpNamespace := q_vvpNamespace q\<rparr>
      else zero_target\<lparr>t_type := FlinkDeployment, t_name := q_targetName q\<rparr>)"

definition seconds_of :: "create_request \<Rightarrow> int" where
  "seconds_of q = wrap64 (q_durationSeconds q * second)"

definition build_network_chaos_spec :: "create_request \<Rightarrow> network_chaos_spec" where
  "build_network_chaos_spec q =
     (let target0 = net_target_of_string (q_networkTarget q);
          target = (if target0 = NoNetTarget then TMtoJM else target0);
          direction0 = direction_of_string (q_networkDirection q);
          direction = (if direction0 = NoDirection then Both else direction0);
          n0 = zero_network\<lparr>n_target := target, n_direction := direction\<rparr>;
          n1 = (if q_externalHostname q \<noteq> '''' \<or> q_externalCIDR q \<noteq> ''''
                then n0\<lparr>n_externalEndpoint := Some \<lparr>x_cidr = q_externalCIDR q, x_hostname = q_externalHostname q,
                       x_port = (if 0 < q_externalPort q then q_externalPort q else 0)\<rparr>\<rparr> else n0);
          n2 = (if 0 < q_latencyMs q then n1\<lparr>n_latency := Some (wrap64 (q_latencyMs q * millisecond))\<rparr> else n1);
          n3 = (if 0 < q_jitterMs q then n2\<lparr>n_jitter := Some (wrap64 (q_jitterMs q * millisecond))\<rparr> else n2);
          n4 = (if q_lossPercent q \<noteq> None then n3\<lparr>n_loss := q_lossPercent q\<rparr> else n3);
          n5 = (if q_bandwidth q \<noteq> '''' then n4\<lparr>n_bandwidth := q_bandwidth q\<rparr> else n4)
      in if 0 < q_durationSeconds q then n5\<lparr>n_duration := Some (seconds_of q)\<rparr> else n5)"

definition build_resource_exhaustion_spec :: "create_request \<Rightarrow> resource_exhaustion_spec" where
  "build_resource_exhaustion_spec q =
     (let mode = (if q_resourceMode q = '''' then CPU else exhaustion_of_string (q_resourceMode q));
          workers = (if q_workers q = 0 then 1 else q_workers q);
          memoryPercent = (if q_memoryPercent q = 0 then 80 else q_memoryPercent q)
      in \<lparr>re_mode = mode, re_workers = workers, re_memoryPercent = memoryPercent,
          re_duration = (if 0 < q_durationSeconds q then Some (seconds_of q) else None)\<rparr>)"

text \<open>The object the handler sends to the server, in namespace \<open>ns\<close>; its name is generated there.\<close>

definition request_scenario :: "create_request \<Rightarrow> scenario_spec" where
  "request_scenario q =
     (let sc = scenario_of_string (q_scenarioType q);
          base = zero_scenario\<lparr>s_type := sc,
            s_selection := \<lparr>sel_mode = mode_of_string (q_selectionMode q), sel_count = q_selectionCount q,
              sel_podNames = q_selectionPods q\<rparr>\<rparr>
      in case sc of
           TaskManagerPodKill \<Rightarrow> base\<lparr>s_action := \<lparr>act_type = DeletePodAction,
             act_gracePeriodSeconds = q_gracePeriodSeconds q\<rparr>\<rparr>
         | NetworkPartition \<Rightarrow> base\<lparr>s_network := Some (build_network_chaos_spec q)\<rparr>
         | NetworkChaos \<Rightarrow> base\<lparr>s_network := Some (build_network_chaos_spec q)\<rparr>
         | ResourceExhaustion \<Rightarrow> base\<lparr>s_resourceExhaustion := Some (build_resource_exhaustion_spec q)\<rparr>
         | _ \<Rightarrow> base)"

definition request_observe :: "create_request \<Rightarrow> observe_spec" where
  "request_observe q =
     (if 0 < q_durationSeconds q then zero_observe\<lparr>o_enabled := True, o_timeout := seconds_of q\<rparr>
      else zero_observe)"

definition request_run :: "string \<Rightarrow> create_request \<Rightarrow> chaos_run" where
  "request_run ns q = new_run '''' ns (build_target_spec q) (request_scenario q) (request_observe q)
     (zero_safety\<lparr>sf_minTaskManagers := min_task_managers_ptr (q_minTaskManagers q), sf_dryRun := q_dryRun q\<rparr>)"

text \<open>The checks of the handler on the decoded body, in their order.\<close>

definition request_error :: "create_request \<Rightarrow> string option" where
  "request_error q =
     (let sc = scenario_of_string (q_scenarioType q); mode = mode_of_string (q_selectionMode q) in
      if q_targetName q = '''' then Some ''targetName is required''
      else if q_scenarioType q = '''' then Some ''scenarioType is required''
      else if \<not> (sc = TaskManagerPodKill \<or> sc = NetworkPartition \<or> sc = NetworkChaos \<or> sc = ResourceExhaustion)
      then Some (''unknown scenarioType: '' @ q_scenarioType q)
      else if q_selectionMode q \<noteq> '''' \<and> \<not> (mode = RandomMode \<or> mode = ExplicitMode)
      then Some (''unknown selectionMode: '' @ q_selectionMode q)
      else None)"

definition create_chaos_run_handler ::
  "'w run_store \<Rightarrow> string \<Rightarrow> string + create_request \<Rightarrow> 'w \<Rightarrow> http_response \<times> 'w" where
  "create_chaos_run_handler st ns body w =
     (case body of
        Inl e \<Rightarrow> (HttpError 400 (''invalid request body: '' @ e), w)
      | Inr q \<Rightarrow>
          (case request_error q of
             Some msg \<Rightarrow> (HttpError 400 msg, w)
           | None \<Rightarrow>
               (case rs_create st (Some ''chaos-run-'') (request_run ns q) w of
                  (Inl e, w1) \<Rightarrow> (HttpError 500 ''failed to create ChaosRun'', w1)
                | (Inr run, w1) \<Rightarrow> (HttpCreated (cr_name run) (cr_namespace run), w1))))"

subsection \<open>Abort and delete\<close>

definition abort_chaos_run_handler ::
  "'w run_store \<Rightarrow> string \<Rightarrow> string \<Rightarrow> 'w \<Rightarrow> http_response \<times> 'w" where
  "abort_chaos_run_handler st ns name w =
     (if name = '''' then (HttpError 400 ''name is required'', w)
      else if \<not> valid_k8s_name name then (HttpError 400 ''invalid resource name'', w)
      else case rs_get st ns name w of
        (Inl (NotFound m), w1) \<Rightarrow> (HttpError 404 ''ChaosRun not found'', w1)
      | (Inl e, w1) \<Rightarrow> (HttpError 500 ''failed to get ChaosRun'', w1)
      | (Inr run, w1) \<Rightarrow>
          (case rs_update st (run\<lparr>cr_spec := (cr_spec run)\<lparr>sp_control := \<lparr>ctl_abort = True\<rparr>\<rparr>\<rparr>) w1 of
             (Some e, w2) \<Rightarrow> (HttpError 500 ''failed to abort ChaosRun'', w2)
           | (None, w2) \<Rightarrow> (HttpNoContent, w2)))"

definition delete_chaos_run_handler ::
  "'w run_store \<Rightarrow> string \<Rightarrow> string \<Rightarrow> 'w \<Rightarrow> http_response \<times> 'w" where
  "delete_chaos_run_handler st ns name w =
     (if name = '''' then (HttpError 400 ''name is required'', w)
      else if \<not> valid_k8s_name name then (HttpError 400 ''invalid resource name'', w)
      else case rs_get st ns name w of
        (Inl (NotFound m), w1) \<Rightarrow> (HttpError 404 ''ChaosRun not found'', w1)
      | (Inl e, w1) \<Rightarrow> (HttpError 500 ''failed to get ChaosRun'', w1)
      | (Inr run, w1) \<Rightarrow>
          (case rs_delete st run w1 of
             (Some e, w2) \<Rightarrow> (HttpError 500 ''failed to delete ChaosRun'', w2)
           | (None, w2) \<Rightarrow> (HttpNoContent, w2)))"

subsection \<open>What becomes of a request\<close>

text \<open>The requests whose run the operator accepts, in terms of the fields of the request.\<close>

definition network_request_ok :: "scenario_type \<Rightarrow> create_request \<Rightarrow> bool" where
  "network_request_ok sc q \<longleftrightarrow>
     (sc = NetworkChaos \<longrightarrow>
        (0 < q_latencyMs q \<or> q_lossPercent q \<noteq> None \<or> q_bandwidth q \<noteq> '''') \<and>
        (0 < q_jitterMs q \<longrightarrow> 0 < q_latencyMs q) \<and>
        (q_bandwidth q \<noteq> '''' \<longrightarrow> q_networkTarget q = ''TMtoExternal'')) \<and>
     (q_bandwidth q \<noteq> '''' \<longrightarrow> bandwidth_ok (q_bandwidth q)) \<and>
     (q_networkTarget q \<in> {''TMtoCheckpoint'', ''TMtoExternal''} \<longrightarrow>
        (q_externalHostname q \<noteq> '''' \<or> q_externalCIDR q \<noteq> '''') \<and>
        (sc = NetworkPartition \<longrightarrow> q_externalCIDR q \<noteq> '''') \<and>
        (q_externalCIDR q \<noteq> '''' \<longrightarrow> valid_cidr (q_externalCIDR q)))"

definition exhaustion_request_ok :: "create_request \<Rightarrow> bool" where
  "exhaustion_request_ok q \<longleftrightarrow> q_resourceMode q \<in> {'''', ''CPU'', ''Memory''} \<and>
     (q_resourceMode q = ''Memory'' \<longrightarrow> 0 \<le> q_memoryPercent q \<and> q_memoryPercent q \<le> 100)"

definition selection_request_ok :: "create_request \<Rightarrow> bool" where
  "selection_request_ok q \<longleftrightarrow>
     (if q_selectionMode q = ''Explicit'' then q_selectionPods q \<noteq> [] else 0 \<le> q_selectionCount q)"

lemma build_network_fields [simp]:
  "n_target (build_network_chaos_spec q) =
     (if q_networkTarget q = '''' then TMtoJM else net_target_of_string (q_networkTarget q))"
  "n_latency (build_network_chaos_spec q) = None \<longleftrightarrow> q_latencyMs q \<le> 0"
  "n_jitter (build_network_chaos_spec q) = None \<longleftrightarrow> q_jitterMs q \<le> 0"
  "n_loss (build_network_chaos_spec q) = q_lossPercent q"
  "n_bandwidth (build_network_chaos_spec q) = q_bandwidth q"
  "n_externalEndpoint (build_network_chaos_spec q) =
     (if q_externalHostname q = '''' \<and> q_externalCIDR q = '''' then None
      else Some \<lparr>x_cidr = q_externalCIDR q, x_hostname = q_externalHostname q,
        x_port = (if 0 < q_externalPort q then q_externalPort q else 0)\<rparr>)"
  by (auto simp: build_network_chaos_spec_def Let_def zero_network_def)

lemma net_target_of_string_iff [simp]:
  "net_target_of_string s = TMtoExternal \<longleftrightarrow> s = ''TMtoExternal''"
  "net_target_of_string s = TMtoCheckpoint \<longleftrightarrow> s = ''TMtoCheckpoint''"
  by (auto simp: net_target_of_string_def)

lemma validate_build_network:
  assumes "sc = NetworkPartition \<or> sc = NetworkChaos"
  shows "validate_network sc (build_network_chaos_spec q) = [] \<longleftrightarrow> network_request_ok sc q"
  using assms by (auto simp: validate_network_def validate_endpoint_def network_request_ok_def)

lemma validate_build_exhaustion:
  "validate_exhaustion (default_exhaustion (build_resource_exhaustion_spec q)) = [] \<longleftrightarrow> exhaustion_request_ok q"
  by (auto simp: validate_exhaustion_def default_exhaustion_def build_resource_exhaustion_spec_def Let_def
      exhaustion_request_ok_def exhaustion_of_string_def)

lemma validate_request_selection:
  assumes "q_selectionMode q \<in> {'''', ''Random'', ''Explicit''}"
  shows "validate_pod_kill (default_selection \<lparr>sel_mode = mode_of_string (q_selectionMode q),
      sel_count = q_selectionCount q, sel_podNames = q_selectionPods q\<rparr>) = [] \<longleftrightarrow> selection_request_ok q"
  using assms
  by (auto simp: validate_pod_kill_def default_selection_def mode_of_string_def selection_request_ok_def Let_def)

lemma request_accepted:
  assumes "request_error q = None"
  shows "q_targetName q \<noteq> ''''" "scenario_of_string (q_scenarioType q) \<in>
      {TaskManagerPodKill, NetworkPartition, NetworkChaos, ResourceExhaustion}"
    "q_selectionMode q \<in> {'''', ''Random'', ''Explicit''}"
  using assms by (auto simp: request_error_def Let_def mode_of_string_def split: if_splits)

lemma request_observe_valid:
  assumes "in_i64 (q_durationSeconds q * second)"
  shows "validate_observe_spec (set_observe_defaults (request_observe q)) = [] \<longleftrightarrow>
    q_durationSeconds q \<le> 0 \<or> 5 \<le> q_durationSeconds q"
  using assms
  by (auto simp: request_observe_def validate_observe_timeout_only seconds_of_def wrap64_id second_def)

lemma request_scenario_valid:
  assumes "request_error q = None"
  shows "validate_scenario_spec (set_scenario_defaults (request_scenario q)) = [] \<longleftrightarrow>
    (case scenario_of_string (q_scenarioType q) of
       TaskManagerPodKill \<Rightarrow> selection_request_ok q
     | ResourceExhaustion \<Rightarrow> exhaustion_request_ok q
     | sc \<Rightarrow> network_request_ok sc q)"
proof -
  note selection = validate_request_selection [OF request_accepted(3) [OF assms]]
  consider "scenario_of_string (q_scenarioType q) = TaskManagerPodKill"
    | "scenario_of_string (q_scenarioType q) = ResourceExhaustion"
    | "scenario_of_string (q_scenarioType q) = NetworkPartition"
    | "scenario_of_string (q_scenarioType q) = NetworkChaos"
    using request_accepted(2) [OF assms] by blast
  then show ?thesis
    by cases (simp_all add: validate_scenario_spec_def set_scenario_defaults_def request_scenario_def Let_def
      zero_scenario_def selection validate_network_defaults validate_build_network validate_build_exhaustion)
qed

text \<open>
  C18. A request the API server accepts becomes a run that the operator's validation accepts, after
  defaulting, exactly when its duration is not between one and four seconds and the fields of its
  scenario are in order; in every other case the server still answers that the run was created. The
  duration is assumed to fit a 64-bit number of nanoseconds: Go's multiplication by a second would wrap.
\<close>

theorem api_run_valid_iff:
  assumes "request_error q = None" and "in_i64 (q_durationSeconds q * second)"
  shows "validate (set_defaults (request_run ns q)) = [] \<longleftrightarrow>
    (q_durationSeconds q \<le> 0 \<or> 5 \<le> q_durationSeconds q) \<and>
    (case scenario_of_string (q_scenarioType q) of
       TaskManagerPodKill \<Rightarrow> selection_request_ok q
     | ResourceExhaustion \<Rightarrow> exhaustion_request_ok q
     | sc \<Rightarrow> network_request_ok sc q)"
proof -
  have "validate_target_spec (build_target_spec q) = []"
    using request_accepted(1) [OF assms(1)]
    by (simp add: validate_target_spec_def build_target_spec_def zero_target_def)
  then show ?thesis
    using request_scenario_valid [OF assms(1)] request_observe_valid [OF assms(2)]
    by (simp add: validate_set_defaults request_run_def conj_commute)
qed

definition demo_request :: create_request where
  "demo_request = \<lparr>q_targetName = ''orders'', q_targetType = '''', q_deploymentID = '''', q_vvpNamespace = '''',
     q_scenarioType = ''TaskManagerPodKill'', q_selectionMode = ''Random'', q_selectionCount = 2,
     q_selectionPods = [], q_gracePeriodSeconds = None, q_networkTarget = '''', q_networkDirection = '''',
     q_externalHostname = '''', q_externalCIDR = '''', q_externalPort = 0, q_latencyMs = 0, q_jitterMs = 0,
     q_lossPercent = None, q_bandwidth = '''', q_durationSeconds = 3, q_resourceMode = '''', q_workers = 0,
     q_memoryPercent = 0, q_minTaskManagers = 0, q_dryRun = False\<rparr>"

theorem api_run_valid_iff_witness:
  "request_error demo_request = None \<and> validate (set_defaults (request_run ''flink'' demo_request)) \<noteq> []"
proof -
  have "request_error demo_request = None" by code_simp
  moreover have "in_i64 (q_durationSeconds demo_request * second)" by code_simp
  ultimately show ?thesis using api_run_valid_iff by (force simp: demo_request_def)
qed

text \<open>
  The API server always sets the minimum of TaskManagers, to zero when the request leaves it
  out, so the default of one never applies: such a run passes the check even when it kills every
  TaskManager of its target.
\<close>

theorem api_kill_all_allowed:
  assumes "q_scenarioType q = ''TaskManagerPodKill''" and "q_minTaskManagers q = 0"
    and "q_selectionMode q \<noteq> ''Explicit''" and "q_selectionCount q = int (length (rt_tmPods t))" and "rt_tmPods t \<noteq> []"
  shows "sf_minTaskManagers (sp_safety (cr_spec (set_defaults (request_run ns q)))) = Some 0 \<and>
    check_min_task_managers (set_defaults (request_run ns q)) t = None"
proof -
  have "sf_minTaskManagers (sp_safety (cr_spec (set_defaults (request_run ns q)))) = Some 0"
    using assms(2) by (simp add: set_defaults_def request_run_def set_safety_defaults_def
        min_task_managers_ptr_def Let_def)
  moreover have "sel_count (s_selection (sp_scenario (cr_spec (set_defaults (request_run ns q))))) = q_selectionCount q"
    using assms(1,4,5)
    by (simp add: set_defaults_def request_run_def request_scenario_def set_scenario_defaults_def default_selection_def
        Let_def scenario_of_string_def)
  ultimately show ?thesis
    using assms(4,5) by (simp add: check_min_task_managers_def wrap32_id in_i32_def)
qed

end
