(* ===== verification/Api_Read.thy ===== *)
theory Api_Read
  imports Api_Write Go_Text
begin

section \<open>The API server: reading runs, deployments and Flink endpoints\<close>

text \<open>
  \<^verbatim>\<open>handlers_chaos.go\<close>, \<^verbatim>\<open>handlers_deployments.go\<close> and \<^verbatim>\<open>resolveFlinkClient\<close> of \<^verbatim>\<open>handlers_flink.go\<close>.
  A handler answers with a status code and a message, or with the value that is encoded as JSON. What
  these handlers ask of the cluster is the record \<open>ui_client\<close>.
\<close>

type_synonym 'a answer = "nat \<times> string + 'a"

subsection \<open>Runs\<close>

record run_summary =
  rsm_name :: string
  rsm_phase :: string
  rsm_verdict :: string
  rsm_scenario :: string
  rsm_target :: string
  rsm_startedAt :: string
  rsm_endedAt :: string

record run_detail = run_summary +
  rd_selectedPods :: "string list"
  rd_injectedPods :: "string list"
  rd_message :: string
  rd_networkPolicies :: "string list"
  rd_recoveryTimeSeconds :: "int option"
  rd_recoveryObservedAt :: string
  rd_tmCountBefore :: int
  rd_tmCountAfter :: int
  rd_observationTimeoutSecs :: int

definition rfc3339 :: "int option \<Rightarrow> string" where
  "rfc3339 t = (case t of None \<Rightarrow> '''' | Some u \<Rightarrow> rfc3339_text u)"

definition run_matches_deployment :: "chaos_run \<Rightarrow> string \<Rightarrow> bool" where
  "run_matches_deployment run name \<longleftrightarrow>
     (if t_name (sp_target (cr_spec run)) = name then True
      else if t_deploymentName (sp_target (cr_spec run)) = name then True
      else (case st_targetSummary (cr_status run) of None \<Rightarrow> False | Some s \<Rightarrow> sum_name s = name))"

definition to_summary :: "chaos_run \<Rightarrow> run_summary" where
  "to_summary run =
     (let st = cr_status run;
          target = (case st_targetSummary st of
              None \<Rightarrow> string_of_target_type (t_type (sp_target (cr_spec run)))
            | Some s \<Rightarrow> sum_type s @ ''/'' @ sum_name s)
      in \<lparr>rsm_name = cr_name run, rsm_phase = string_of_phase (st_phase st),
          rsm_verdict = string_of_verdict (st_verdict st), rsm_scenario = string_of_scenario (scenario_of run),
          rsm_target = target, rsm_startedAt = rfc3339 (st_startedAt st), rsm_endedAt = rfc3339 (st_endedAt st)\<rparr>)"

definition to_detail :: "chaos_run \<Rightarrow> run_detail" where
  "to_detail run =
     (let st = cr_status run; ob = sp_observe (cr_spec run);
          d0 = run_summary.extend (to_summary run)
            \<lparr>rd_selectedPods = st_selectedPods st, rd_injectedPods = st_injectedPods st, rd_message = st_message st,
             rd_networkPolicies = st_networkPolicies st, rd_recoveryTimeSeconds = None, rd_recoveryObservedAt = '''',
             rd_tmCountBefore = 0, rd_tmCountAfter = 0, rd_observationTimeoutSecs = 0\<rparr>;
          d1 = (case st_observation st of
              None \<Rightarrow> d0
            | Some o1 \<Rightarrow> d0\<lparr>rd_tmCountBefore := ob_tmCountBefore o1, rd_tmCountAfter := ob_tmCountAfter o1,
                rd_recoveryTimeSeconds := ob_recoveryTimeSeconds o1,
                rd_recoveryObservedAt := rfc3339 (ob_recoveryObservedAt o1)\<rparr>)
      in if o_enabled ob \<and> 0 < o_timeout ob
         then d1\<lparr>rd_observationTimeoutSecs := whole_seconds (o_timeout ob)\<rparr> else d1)"

definition list_chaos_runs_handler ::
  "'w run_store \<Rightarrow> string \<Rightarrow> string \<Rightarrow> 'w \<Rightarrow> run_summary list answer \<times> 'w" where
  "list_chaos_runs_handler st ns filterName w =
     (case rs_list st ns w of
        (Inl e, w1) \<Rightarrow> (Inl (500, ''failed to list ChaosRuns''), w1)
      | (Inr runs, w1) \<Rightarrow>
          (Inr (map to_summary
             (filter (\<lambda>run. \<not> (filterName \<noteq> '''' \<and> \<not> run_matches_deployment run filterName)) runs)), w1))"

definition get_chaos_run_handler ::
  "'w run_store \<Rightarrow> string \<Rightarrow> string \<Rightarrow> 'w \<Rightarrow> run_detail answer \<times> 'w" where
  "get_chaos_run_handler st ns name w =
     (if name = '''' then (Inl (400, ''name is required''), w)
      else if \<not> valid_k8s_name name then (Inl (400, ''invalid resource name''), w)
      else case rs_get st ns name w of
        (Inl (NotFound m), w1) \<Rightarrow> (Inl (404, ''ChaosRun not found''), w1)
      | (Inl e, w1) \<Rightarrow> (Inl (500, ''failed to get ChaosRun''), w1)
      | (Inr run, w1) \<Rightarrow> (Inr (to_detail run), w1))"

subsection \<open>The cluster as the UI reads it\<close>

text \<open>A pod with its address and the environment of its containers.\<close>

record ui_pod = pod +
  up_podIP :: string
  up_env :: "(string \<times> string) list list"

record service =
  sv_name :: string
  sv_namespace :: string
  sv_labels :: string_map
  sv_annotations :: string_map
  sv_ports :: "(string \<times> int) list"

record 'w ui_client =
  u_list_pods :: "string \<Rightarrow> string \<Rightarrow> 'w \<Rightarrow> (api_error + ui_pod list) \<times> 'w"
    \<comment> \<open>the pods of a namespace whose label \<open>component\<close> is the second argument\<close>
  u_get_pod :: "string \<Rightarrow> string \<Rightarrow> 'w \<Rightarrow> (api_error + ui_pod) \<times> 'w"
  u_jm_services :: "string \<Rightarrow> 'w \<Rightarrow> (api_error + service list) \<times> 'w"
    \<comment> \<open>the services of a namespace labelled \<open>component=jobmanager\<close>\<close>
  u_services :: "string \<Rightarrow> 'w \<Rightarrow> (api_error + service list) \<times> 'w"
  u_config_map :: "string \<Rightarrow> string \<Rightarrow> 'w \<Rightarrow> (api_error + string_map) \<times> 'w"
  u_flink_deployments :: "string \<Rightarrow> 'w \<Rightarrow> (api_error + (string \<times> string_map) list) \<times> 'w"
    \<comment> \<open>name and \<open>spec.flinkConfiguration\<close>, empty where \<^verbatim>\<open>NestedStringMap\<close> finds no string map\<close>

subsection \<open>Deployments\<close>

record deployment_info =
  di_deploymentName :: string
  di_deploymentID :: string
  di_vvpNamespace :: string
  di_jobID :: string
  di_k8sNamespace :: string
  di_targetType :: string

text \<open>The entry of a pod, by the labels of the Ververica platform first, then those of the operator.\<close>

definition deployment_entry :: "ui_pod \<Rightarrow> deployment_info option" where
  "deployment_entry p =
     (let labels = p_labels p in
      if map_get labels ''deploymentName'' \<noteq> ''''
      then Some \<lparr>di_deploymentName = map_get labels ''deploymentName'', di_deploymentID = map_get labels ''deploymentId'',
             di_vvpNamespace = map_get labels ''vvpNamespace'', di_jobID = map_get labels ''jobId'',
             di_k8sNamespace = p_namespace p, di_targetType = ''VervericaDeployment''\<rparr>
      else if map_get labels ''app'' \<noteq> ''''
      then Some \<lparr>di_deploymentName = map_get labels ''app'', di_deploymentID = '''', di_vvpNamespace = '''',
             di_jobID = '''', di_k8sNamespace = p_namespace p, di_targetType = ''FlinkDeployment''\<rparr>
      else None)"

fun collect_deployments :: "string set \<Rightarrow> deployment_info list \<Rightarrow> ui_pod list \<Rightarrow> deployment_info list" where
  "collect_deployments seen result [] = result"
| "collect_deployments seen result (p # ps) =
     (if p_phase p \<noteq> PodRunning then collect_deployments seen result ps
      else case deployment_entry p of
        None \<Rightarrow> collect_deployments seen result ps
      | Some d \<Rightarrow>
          if di_deploymentName d \<in> seen then collect_deployments seen result ps
          else collect_deployments (insert (di_deploymentName d) seen) (result @ [d]) ps)"

definition list_deployments_handler ::
  "'w ui_client \<Rightarrow> string \<Rightarrow> 'w \<Rightarrow> deployment_info list answer \<times> 'w" where
  "list_deployments_handler u ns w =
     (case u_list_pods u ns ''jobmanager'' w of
        (Inl e, w1) \<Rightarrow> (Inl (500, ''failed to list pods''), w1)
      | (Inr ps, w1) \<Rightarrow> (Inr (collect_deployments {} [] ps), w1))"

subsection \<open>The Flink endpoint of a deployment\<close>

definition pod_deployment :: "ui_pod \<Rightarrow> string" where
  "pod_deployment p =
     (let n = map_get (p_labels p) ''deploymentName'' in if n = '''' then map_get (p_labels p) ''app'' else n)"

definition running_job_ids :: "ui_pod list \<Rightarrow> string set" where
  "running_job_ids ps =
     set (filter (\<lambda>j. j \<noteq> '''') (map (\<lambda>p. map_get (p_labels p) ''jobId'') (filter (\<lambda>p. p_phase p = PodRunning) ps)))"

definition rest_endpoint :: "service \<Rightarrow> string" where
  "rest_endpoint svc =
     (let port = (case find (\<lambda>(n, _). n = ''rest'') (sv_ports svc) of Some (_, q) \<Rightarrow> q | None \<Rightarrow> 8081)
      in ''http://'' @ sv_name svc @ ''.'' @ sv_namespace svc @ ''.svc.cluster.local:'' @ fmt_d port)"

text \<open>The base address for \<^verbatim>\<open>flinkrest.NewHTTPClient\<close>; \<open>configured\<close> is \<^verbatim>\<open>cfg.FlinkEndpoint\<close>.\<close>

definition resolve_flink_client ::
  "'w ui_client \<Rightarrow> string \<Rightarrow> string \<Rightarrow> string \<Rightarrow> 'w \<Rightarrow> (string + string) \<times> 'w" where
  "resolve_flink_client u configured ns name w =
     (if configured \<noteq> '''' then (Inr configured, w)
      else case u_list_pods u ns ''jobmanager'' w of
        (Inl e, w1) \<Rightarrow> (Inl (''list jobmanager pods: '' @ api_error_text e), w1)
      | (Inr ps, w1) \<Rightarrow>
          (let pods = (if name \<noteq> '''' then filter (\<lambda>p. pod_deployment p = name) ps else ps);
               running = running_job_ids pods
           in case u_jm_services u ns w1 of
             (Inl e, w2) \<Rightarrow> (Inl (''list jobmanager services: '' @ api_error_text e), w2)
           | (Inr svcs, w2) \<Rightarrow>
               (case filter (\<lambda>s. map_of (sv_labels s) ''jobId'' \<noteq> None \<and> map_get (sv_labels s) ''jobId'' \<in> running) svcs of
                  svc # _ \<Rightarrow> (Inr (rest_endpoint svc), w2)
                | [] \<Rightarrow>
                    (case u_services u ns w2 of
                       (Inl e, w3) \<Rightarrow> (Inl (''list services: '' @ api_error_text e), w3)
                     | (Inr all, w3) \<Rightarrow>
                         (case find (\<lambda>s. map_get (sv_annotations s) ''flink-chaos/flink-rest'' = ''true'') all of
                            Some svc \<Rightarrow> (Inr (rest_endpoint svc), w3)
                          | None \<Rightarrow> (Inl (''no running Flink REST service found in namespace '' @ fmt_q ns @
                              '' (deploymentName='' @ fmt_q name @ '')''), w3))))))"

subsection \<open>One entry per deployment\<close>

abbreviation running_entries :: "ui_pod list \<Rightarrow> deployment_info set" where
  "running_entries ps \<equiv> {d. \<exists>p \<in> set ps. p_phase p = PodRunning \<and> deployment_entry p = Some d}"

lemma collect_deployments_spec:
  assumes "distinct (map di_deploymentName result)" and "seen = di_deploymentName ` set result"
  shows "distinct (map di_deploymentName (collect_deployments seen result ps)) \<and>
    set (collect_deployments seen result ps) \<subseteq> set result \<union> running_entries ps \<and>
    di_deploymentName ` set (collect_deployments seen result ps) = seen \<union> di_deploymentName ` running_entries ps"
  using assms
proof (induction seen result ps rule: collect_deployments.induct)
  case (2 seen result p ps)
  show ?case
  proof (cases "p_phase p = PodRunning \<and> deployment_entry p \<noteq> None")
    case False
    then have "running_entries (p # ps) = running_entries ps" by auto
    with False 2 show ?thesis by (auto split: option.splits)
  next
    case True
    then obtain d where d: "p_phase p = PodRunning" "deployment_entry p = Some d" by blast
    then have e: "running_entries (p # ps) = insert d (running_entries ps)" by auto
    show ?thesis
    proof (cases "di_deploymentName d \<in> seen")
      case True
      with d 2 show ?thesis unfolding e by auto
    next
      case False
      have n: "distinct (map di_deploymentName (result @ [d]))"
        "insert (di_deploymentName d) seen = di_deploymentName ` set (result @ [d])"
        using False 2(5,6) by auto
      have "\<not> p_phase p \<noteq> PodRunning" using d(1) by simp
      note ih = 2(4) [OF this d(2) False n]
      have "collect_deployments seen result (p # ps) =
        collect_deployments (insert (di_deploymentName d) seen) (result @ [d]) ps" using d False by simp
      then show ?thesis using ih unfolding e by auto
    qed
  qed
qed simp

text \<open>
  The list of deployments has one entry per deployment name: every entry is that of a running
  JobManager pod, and every name of a running pod is listed.
\<close>

theorem deployments_listed_once:
  assumes "list_deployments_handler u ns w = (Inr ds, w')"
  shows "\<exists>ps. u_list_pods u ns ''jobmanager'' w = (Inr ps, w') \<and> distinct (map di_deploymentName ds) \<and>
    set ds \<subseteq> running_entries ps \<and> di_deploymentName ` set ds = di_deploymentName ` running_entries ps"
proof -
  from assms obtain ps where ps: "u_list_pods u ns ''jobmanager'' w = (Inr ps, w')" "ds = collect_deployments {} [] ps"
    by (auto simp: list_deployments_handler_def split: prod.splits sum.splits)
  with collect_deployments_spec [of "[]" "{}" ps] show ?thesis by simp
qed

definition demo_jm :: "string \<Rightarrow> string_map \<Rightarrow> ui_pod" where
  "demo_jm name labels = \<lparr>p_name = name, p_namespace = ''flink'', p_labels = labels, p_deletionTimestamp = None,
     p_phase = PodRunning, p_containersReady = [True], p_ephContainers = [], p_ephStatuses = [],
     up_podIP = ''10.0.0.7'', up_env = []\<rparr>"

definition demo_ui :: "ui_pod list \<Rightarrow> service list \<Rightarrow> unit ui_client" where
  "demo_ui ps svcs = \<lparr>u_list_pods = (\<lambda>ns role w. (Inr ps, w)), u_get_pod = (\<lambda>ns n w. (Inl (NotFound n), w)),
     u_jm_services = (\<lambda>ns w. (Inr [], w)), u_services = (\<lambda>ns w. (Inr svcs, w)),
     u_config_map = (\<lambda>ns n w. (Inl (NotFound n), w)), u_flink_deployments = (\<lambda>ns w. (Inr [], w))\<rparr>"

theorem deployments_listed_once_witness:
  "\<exists>ds. list_deployments_handler (demo_ui [demo_jm ''a'' [(''app'', ''orders'')], demo_jm ''b'' [(''app'', ''orders'')]] [])
      ''flink'' () = (Inr ds, ()) \<and> di_deploymentName ` set ds = {''orders''} \<and> distinct (map di_deploymentName ds)"
proof -
  let ?ps = "[demo_jm ''a'' [(''app'', ''orders'')], demo_jm ''b'' [(''app'', ''orders'')]]"
  obtain ds where ds: "list_deployments_handler (demo_ui ?ps []) ''flink'' () = (Inr ds, ())"
    by (simp add: list_deployments_handler_def demo_ui_def)
  have ps: "u_list_pods (demo_ui ?ps []) ''flink'' ''jobmanager'' () = (Inr ?ps, ())" by (simp add: demo_ui_def)
  from deployments_listed_once [OF ds] obtain qs where
    qs: "u_list_pods (demo_ui ?ps []) ''flink'' ''jobmanager'' () = (Inr qs, ())" and d: "distinct (map di_deploymentName ds)"
    "di_deploymentName ` set ds = di_deploymentName ` running_entries qs"
    by blast
  have "qs = ?ps" using qs unfolding ps by simp
  have e: "p_phase (demo_jm n ls) = PodRunning" "deployment_entry (demo_jm n [(''app'', ''orders'')]) =
    Some \<lparr>di_deploymentName = ''orders'', di_deploymentID = '''', di_vvpNamespace = '''', di_jobID = '''',
      di_k8sNamespace = ''flink'', di_targetType = ''FlinkDeployment''\<rparr>" for n ls
    by (simp_all add: demo_jm_def deployment_entry_def map_get_def)
  have "di_deploymentName ` running_entries ?ps = {''orders''}" by (simp add: e)
  with ds d \<open>qs = ?ps\<close> show ?thesis by simp
qed

subsection \<open>Whose Flink answers\<close>

text \<open>
  A request for a named deployment is sent to the configured endpoint, or to a service of a
  running job of that deployment; but when no such service exists, to the first service with the
  annotation, whatever deployment it belongs to.
\<close>

theorem flink_client_scope:
  assumes "resolve_flink_client u configured ns name w = (Inr e, w')" and "name \<noteq> ''''" and "configured = ''''"
  shows "\<exists>ps w1 svcs w2. u_list_pods u ns ''jobmanager'' w = (Inr ps, w1) \<and> u_jm_services u ns w1 = (Inr svcs, w2) \<and>
    (let own = {s \<in> set svcs. \<exists>p \<in> set ps. p_phase p = PodRunning \<and> pod_deployment p = name \<and>
           map_get (p_labels p) ''jobId'' \<noteq> '''' \<and> map_of (sv_labels s) ''jobId'' = Some (map_get (p_labels p) ''jobId'')}
     in if own \<noteq> {} then e \<in> rest_endpoint ` own
        else \<exists>all s. u_services u ns w2 = (Inr all, w') \<and> s \<in> set all \<and>
          map_get (sv_annotations s) ''flink-chaos/flink-rest'' = ''true'' \<and> e = rest_endpoint s)"
proof -
  from assms obtain ps w1 svcs w2 where l: "u_list_pods u ns ''jobmanager'' w = (Inr ps, w1)"
    "u_jm_services u ns w1 = (Inr svcs, w2)"
    by (auto simp: resolve_flink_client_def Let_def split: prod.splits sum.splits)
  define run where "run = running_job_ids (filter (\<lambda>p. pod_deployment p = name) ps)"
  define cand where "cand = filter (\<lambda>s. map_of (sv_labels s) ''jobId'' \<noteq> None \<and> map_get (sv_labels s) ''jobId'' \<in> run) svcs"
  have own: "{s \<in> set svcs. \<exists>p \<in> set ps. p_phase p = PodRunning \<and> pod_deployment p = name \<and>
      map_get (p_labels p) ''jobId'' \<noteq> '''' \<and> map_of (sv_labels s) ''jobId'' = Some (map_get (p_labels p) ''jobId'')} = set cand"
    by (fastforce simp: cand_def run_def running_job_ids_def map_get_def split: option.splits)
  have c: "(case cand of svc # _ \<Rightarrow> (Inr (rest_endpoint svc), w2)
      | [] \<Rightarrow> (case u_services u ns w2 of
           (Inl e, w3) \<Rightarrow> (Inl (''list services: '' @ api_error_text e), w3)
         | (Inr all, w3) \<Rightarrow>
             (case find (\<lambda>s. map_get (sv_annotations s) ''flink-chaos/flink-rest'' = ''true'') all of
                Some svc \<Rightarrow> (Inr (rest_endpoint svc), w3)
              | None \<Rightarrow> (Inl (''no running Flink REST service found in namespace '' @ fmt_q ns @
                  '' (deploymentName='' @ fmt_q name @ '')''), w3)))) = (Inr e, w')"
    using assms l by (simp add: resolve_flink_client_def Let_def cand_def run_def cong: if_cong)
  have main: "if set cand \<noteq> {} then e \<in> rest_endpoint ` set cand
    else \<exists>all s. u_services u ns w2 = (Inr all, w') \<and> s \<in> set all \<and>
      map_get (sv_annotations s) ''flink-chaos/flink-rest'' = ''true'' \<and> e = rest_endpoint s"
  proof (cases cand)
    case Nil
    with c obtain all s where "u_services u ns w2 = (Inr all, w')" "e = rest_endpoint s"
      "find (\<lambda>s. map_get (sv_annotations s) ''flink-chaos/flink-rest'' = ''true'') all = Some s"
      by (auto split: prod.splits sum.splits option.splits)
    with Nil show ?thesis by (auto dest: find_Some_member)
  next
    case (Cons svc rest)
    with c show ?thesis by simp
  qed
  show ?thesis using l main unfolding own [symmetric] Let_def by blast
qed

definition demo_svc :: service where
  "demo_svc = \<lparr>sv_name = ''payments'', sv_namespace = ''flink'', sv_labels = [],
     sv_annotations = [(''flink-chaos/flink-rest'', ''true'')], sv_ports = []\<rparr>"

theorem flink_client_scope_witness:
  "resolve_flink_client (demo_ui [] [demo_svc]) '''' ''flink'' ''orders'' () =
     (Inr (rest_endpoint demo_svc), ())"
proof -
  define u where "u = demo_ui [] [demo_svc]"
  have u: "u_list_pods u ns r w = (Inr [], w)" "u_jm_services u ns w = (Inr [], w)"
    "u_services u ns w = (Inr [demo_svc], w)" for ns r w
    by (simp_all add: u_def demo_ui_def)
  obtain e where e: "resolve_flink_client u '''' ''flink'' ''orders'' () = (Inr e, ())"
    by (simp add: resolve_flink_client_def u running_job_ids_def map_get_def demo_svc_def)
  have n: "''orders'' \<noteq> ([] :: string)" by simp
  from flink_client_scope [OF e n refl] have "e = rest_endpoint demo_svc" by (simp add: u)
  with e show ?thesis by (simp add: u_def)
qed

end
