(* ===== verification/Event_Stream.thy ===== *)
theory Event_Stream
  imports Api_Read
begin

section \<open>The API server: the event stream\<close>

text \<open>
  \<^verbatim>\<open>handlers_sse.go\<close>. A connection compares, at every tick, the listed runs with the snapshot of
  phases it keeps, and writes one event per difference; a write that fails ends the connection. The
  number of open connections is an atomic counter shared by all handlers, here a transition system
  over its interleavings.
\<close>

subsection \<open>One tick of a connection\<close>

datatype sse_event = SseConnected | SseHeartbeat | SseUpdate string string string

type_synonym snapshot = "string \<Rightarrow> run_phase option"

text \<open>The loop over the listed runs. \<open>write\<close> is the response writer, which answers whether it failed;
  the last component of the result is false when the handler returned.\<close>

fun sse_scan ::
  "(sse_event \<Rightarrow> 'w \<Rightarrow> bool \<times> 'w) \<Rightarrow> chaos_run list \<Rightarrow> snapshot \<Rightarrow> 'w \<Rightarrow> snapshot \<times> 'w \<times> bool" where
  "sse_scan send [] snap w = (snap, w, True)"
| "sse_scan send (run # runs) snap w =
     (if snap (cr_name run) = None \<or> snap (cr_name run) \<noteq> Some (phase_of run)
      then let snap1 = snap(cr_name run \<mapsto> phase_of run) in
           (case send (SseUpdate (cr_name run) (string_of_phase (phase_of run)) (string_of_scenario (scenario_of run))) w of
              (failed, w1) \<Rightarrow> if failed then (snap1, w1, False) else sse_scan send runs snap1 w1)
      else sse_scan send runs snap w)"

definition sse_poll ::
  "'w run_store \<Rightarrow> string \<Rightarrow> (sse_event \<Rightarrow> 'w \<Rightarrow> bool \<times> 'w) \<Rightarrow> snapshot \<Rightarrow> 'w \<Rightarrow> snapshot \<times> 'w \<times> bool" where
  "sse_poll st ns send snap w =
     (case rs_list st ns w of
        (Inl e, w1) \<Rightarrow> (snap, w1, True)
      | (Inr runs, w1) \<Rightarrow>
          (case sse_scan send runs snap w1 of
             (snap1, w2, False) \<Rightarrow> (snap1, w2, False)
           | (snap1, w2, True) \<Rightarrow> (snap1 |` (cr_name ` set runs), w2, True)))"

datatype sse_tick = HeartbeatTick | PollTick

definition sse_step ::
  "'w run_store \<Rightarrow> string \<Rightarrow> (sse_event \<Rightarrow> 'w \<Rightarrow> bool \<times> 'w) \<Rightarrow> sse_tick \<Rightarrow> snapshot \<Rightarrow> 'w \<Rightarrow> snapshot \<times> 'w \<times> bool" where
  "sse_step st ns send tick snap w =
     (case tick of
        HeartbeatTick \<Rightarrow> (case send SseHeartbeat w of (failed, w1) \<Rightarrow> (snap, w1, \<not> failed))
      | PollTick \<Rightarrow> sse_poll st ns send snap w)"

text \<open>The stream for a sequence of ticks, from the first event to the end of the client or of a write.\<close>

fun sse_loop ::
  "'w run_store \<Rightarrow> string \<Rightarrow> (sse_event \<Rightarrow> 'w \<Rightarrow> bool \<times> 'w) \<Rightarrow> sse_tick list \<Rightarrow> snapshot \<Rightarrow> 'w \<Rightarrow> snapshot \<times> 'w" where
  "sse_loop st ns send [] snap w = (snap, w)"
| "sse_loop st ns send (t # ts) snap w =
     (case sse_step st ns send t snap w of
        (snap1, w1, True) \<Rightarrow> sse_loop st ns send ts snap1 w1
      | (snap1, w1, False) \<Rightarrow> (snap1, w1))"

definition sse_stream ::
  "'w run_store \<Rightarrow> string \<Rightarrow> (sse_event \<Rightarrow> 'w \<Rightarrow> bool \<times> 'w) \<Rightarrow> sse_tick list \<Rightarrow> 'w \<Rightarrow> 'w" where
  "sse_stream st ns send ticks w =
     (case send SseConnected w of
        (failed, w1) \<Rightarrow> if failed then w1 else snd (sse_loop st ns send ticks (\<lambda>_. None) w1))"

subsection \<open>The events of a tick\<close>

text \<open>With a writer that never fails and logs its events, in a world that the listing leaves alone.\<close>

definition log_event :: "sse_event \<Rightarrow> sse_event list \<Rightarrow> bool \<times> sse_event list" where
  "log_event e l = (False, l @ [e])"

definition update_event :: "chaos_run \<Rightarrow> sse_event" where
  "update_event run = SseUpdate (cr_name run) (string_of_phase (phase_of run)) (string_of_scenario (scenario_of run))"

definition changed :: "snapshot \<Rightarrow> chaos_run \<Rightarrow> bool" where
  "changed snap run \<longleftrightarrow> snap (cr_name run) \<noteq> Some (phase_of run)"

lemma filter_changed_upd:
  "cr_name run \<notin> cr_name ` set runs \<Longrightarrow> filter (changed (snap(cr_name run \<mapsto> p))) runs = filter (changed snap) runs"
  by (rule filter_cong [OF refl]) (force simp: changed_def)

lemma sse_scan_log:
  assumes "distinct (map cr_name runs)"
  shows "sse_scan log_event runs snap l =
    (snap ++ map_of (map (\<lambda>r. (cr_name r, phase_of r)) runs), l @ map update_event (filter (changed snap) runs), True)"
  using assms
proof (induction runs arbitrary: snap l)
  case (Cons r rs)
  then have n: "cr_name r \<notin> cr_name ` set rs" and d: "distinct (map cr_name rs)" by auto
  have m: "snap(cr_name r \<mapsto> p) ++ map_of (map (\<lambda>r. (cr_name r, phase_of r)) rs) =
      snap ++ (map_of (map (\<lambda>r. (cr_name r, phase_of r)) rs))(cr_name r \<mapsto> p)" for p
    using n by (subst map_add_upd_left) (auto simp: dom_map_of_conv_image_fst image_image)
  show ?case
  proof (cases "changed snap r")
    case True
    then have step: "sse_scan log_event (r # rs) snap l =
        sse_scan log_event rs (snap(cr_name r \<mapsto> phase_of r)) (l @ [update_event r])"
      by (simp add: changed_def log_event_def [of _ l] update_event_def [of r])
    from True have keep: "filter (changed snap) (r # rs) = r # filter (changed snap) rs" by simp
    show ?thesis
      unfolding step keep Cons.IH [OF d] filter_changed_upd [OF n] m
      by (simp only: list.map map_of.simps fst_conv snd_conv append_assoc append.simps)
  next
    case False
    then have same: "snap(cr_name r \<mapsto> phase_of r) = snap"
      and step: "sse_scan log_event (r # rs) snap l = sse_scan log_event rs snap l"
      and keep: "filter (changed snap) (r # rs) = filter (changed snap) rs"
      by (auto simp: changed_def)
    show ?thesis
      unfolding step keep Cons.IH [OF d] using m [of "phase_of r"] unfolding same
      by (simp only: list.map map_of.simps fst_conv snd_conv)
  qed
qed simp

definition phases_of :: "chaos_run list \<Rightarrow> snapshot" where
  "phases_of runs = map_of (map (\<lambda>r. (cr_name r, phase_of r)) runs)"

lemma phases_of_None: "phases_of runs n = None \<longleftrightarrow> n \<notin> cr_name ` set runs"
  by (simp add: phases_of_def map_of_eq_None_iff image_image)

lemma restricted_to_listing:
  "(snap ++ phases_of runs) |` (cr_name ` set runs) = phases_of runs"
proof (rule ext)
  fix n
  show "((snap ++ phases_of runs) |` (cr_name ` set runs)) n = phases_of runs n"
  proof (cases "n \<in> cr_name ` set runs")
    case True
    then have "phases_of runs n \<noteq> None" by (simp add: phases_of_None)
    with True show ?thesis by (auto simp: map_add_def)
  next
    case False
    then have "phases_of runs n = None" by (simp add: phases_of_None)
    with False show ?thesis by simp
  qed
qed

text \<open>A store whose answers to the listings are given in advance, for a world that logs the events.\<close>

definition listing_store :: "(sse_event list \<Rightarrow> api_error + chaos_run list) \<Rightarrow> sse_event list run_store" where
  "listing_store answer = \<lparr>rs_create = (\<lambda>p r w. (Inr r, w)), rs_get = (\<lambda>ns n w. (Inl (NotFound n), w)),
     rs_list = (\<lambda>ns w. (answer w, w)), rs_update = (\<lambda>r w. (None, w)), rs_patch = (\<lambda>b r w. (None, w)),
     rs_delete = (\<lambda>r w. (None, w))\<rparr>"

text \<open>
  C36. A tick that lists the runs sends one update for each run that is new or whose phase differs from
  the snapshot, in the order of the listing, and afterwards the snapshot is exactly the phases of the
  listed runs: a deleted run is forgotten, so that a new run of its name is reported again.
\<close>

theorem sse_poll_reports_changes:
  assumes "rs_list st ns l = (Inr runs, l)" and "distinct (map cr_name runs)"
  shows "sse_poll st ns log_event snap l =
    (phases_of runs, l @ map update_event (filter (changed snap) runs), True)"
  using assms sse_scan_log [OF assms(2), of snap l] restricted_to_listing [of snap runs]
  by (simp add: sse_poll_def phases_of_def)

theorem sse_poll_reports_changes_witness:
  "sse_poll (listing_store (\<lambda>_. Inr [demo_run Injecting])) ''flink'' log_event [''kill-one'' \<mapsto> Pending] [] =
     (phases_of [demo_run Injecting], [update_event (demo_run Injecting)], True)"
proof -
  have "changed [''kill-one'' \<mapsto> Pending] (demo_run Injecting)"
    by (simp add: changed_def demo_run_def demo_status_def)
  then show ?thesis
    using sse_poll_reports_changes [of "listing_store (\<lambda>_. Inr [demo_run Injecting])" "''flink''" "[]" "[demo_run Injecting]"]
    by (simp add: listing_store_def)
qed

subsection \<open>The connection limit\<close>

text \<open>
  The counter \<^verbatim>\<open>sseActiveConnections\<close>, the handlers that stream and those between their refused
  \<^verbatim>\<open>Add(1)\<close> and the \<^verbatim>\<open>Add(-1)\<close> that undoes it. An \<^verbatim>\<open>Add\<close> is one step and decides by the value it
  returns; the steps of all handlers interleave.
\<close>

record conns =
  cn_active :: int
  cn_streaming :: nat
  cn_refusing :: nat

definition sse_max_connections :: int where "sse_max_connections = 50"

inductive conn_step :: "conns \<Rightarrow> conns \<Rightarrow> bool" where
  accept: "wrap32 (cn_active s + 1) \<le> sse_max_connections \<Longrightarrow>
    conn_step s (s\<lparr>cn_active := wrap32 (cn_active s + 1), cn_streaming := Suc (cn_streaming s)\<rparr>)"
| refuse: "sse_max_connections < wrap32 (cn_active s + 1) \<Longrightarrow>
    conn_step s (s\<lparr>cn_active := wrap32 (cn_active s + 1), cn_refusing := Suc (cn_refusing s)\<rparr>)"
| refused: "cn_refusing s = Suc n \<Longrightarrow>
    conn_step s (s\<lparr>cn_active := wrap32 (cn_active s - 1), cn_refusing := n\<rparr>)"
| close: "cn_streaming s = Suc n \<Longrightarrow>
    conn_step s (s\<lparr>cn_active := wrap32 (cn_active s - 1), cn_streaming := n\<rparr>)"

text \<open>The states of a server with fewer than \<open>2 ^ 31\<close> handlers at a time.\<close>

inductive conn_reachable :: "conns \<Rightarrow> bool" where
  idle: "conn_reachable \<lparr>cn_active = 0, cn_streaming = 0, cn_refusing = 0\<rparr>"
| step: "\<lbrakk>conn_reachable s; conn_step s s'; cn_streaming s' + cn_refusing s' < 2147483648\<rbrakk> \<Longrightarrow> conn_reachable s'"

definition conns_ok :: "conns \<Rightarrow> bool" where
  "conns_ok s \<longleftrightarrow> cn_active s = int (cn_streaming s + cn_refusing s) \<and> cn_streaming s \<le> 50"

lemma conn_step_ok:
  assumes "conn_step s s'" and "conns_ok s" and "cn_streaming s' + cn_refusing s' < 2147483648"
  shows "conns_ok s'"
  using assms(1)
  by (cases rule: conn_step.cases) (use assms(2,3) in \<open>auto simp: conns_ok_def sse_max_connections_def wrap32_id in_i32_def\<close>)

lemma refused_at_limit:
  assumes "conn_step s s'" and "cn_refusing s' = Suc (cn_refusing s)"
  shows "sse_max_connections < wrap32 (cn_active s + 1)"
  using assms by (cases rule: conn_step.cases) simp_all

lemma conn_reachable_ok: "conn_reachable s \<Longrightarrow> conns_ok s"
proof (induction rule: conn_reachable.induct)
  case (step s s')
  then show ?case by (blast intro: conn_step_ok)
qed (simp add: conns_ok_def)

text \<open>
  C35. However the handlers interleave, the counter is the number of handlers that stream or are being
  refused, at most 50 stream, and one is refused only while at least 50 others stream or are being
  refused themselves.
\<close>

theorem sse_connection_limit:
  assumes "conn_reachable s" and "cn_streaming s + cn_refusing s < 2147483647"
  shows "cn_active s = int (cn_streaming s + cn_refusing s) \<and> cn_streaming s \<le> 50 \<and>
    (conn_step s (s\<lparr>cn_active := wrap32 (cn_active s + 1), cn_refusing := Suc (cn_refusing s)\<rparr>) \<longleftrightarrow>
     50 \<le> cn_streaming s + cn_refusing s)"
proof -
  have ok: "cn_active s = int (cn_streaming s + cn_refusing s)" "cn_streaming s \<le> 50"
    using conn_reachable_ok [OF assms(1)] by (simp_all add: conns_ok_def)
  have w: "wrap32 (cn_active s + 1) = cn_active s + 1" using ok(1) assms(2) by (simp add: wrap32_id in_i32_def)
  have "50 \<le> cn_streaming s + cn_refusing s"
    if "conn_step s (s\<lparr>cn_active := wrap32 (cn_active s + 1), cn_refusing := Suc (cn_refusing s)\<rparr>)"
    using refused_at_limit [OF that] w ok(1) by (simp add: sse_max_connections_def)
  moreover have "conn_step s (s\<lparr>cn_active := wrap32 (cn_active s + 1), cn_refusing := Suc (cn_refusing s)\<rparr>)"
    if "50 \<le> cn_streaming s + cn_refusing s"
    using that w ok(1) by (intro conn_step.refuse) (simp add: sse_max_connections_def)
  ultimately show ?thesis using ok by blast
qed

theorem sse_connection_limit_witness:
  "conn_reachable \<lparr>cn_active = 1, cn_streaming = 1, cn_refusing = 0\<rparr> \<and>
   \<not> conn_step \<lparr>cn_active = 1, cn_streaming = 1, cn_refusing = 0\<rparr> \<lparr>cn_active = 2, cn_streaming = 1, cn_refusing = 1\<rparr>"
proof -
  let ?s = "\<lparr>cn_active = 1, cn_streaming = 1, cn_refusing = 0\<rparr> :: conns"
  have "conn_step \<lparr>cn_active = 0, cn_streaming = 0, cn_refusing = 0\<rparr> ?s"
    using conn_step.accept [of "\<lparr>cn_active = 0, cn_streaming = 0, cn_refusing = 0\<rparr>"]
    by (simp add: sse_max_connections_def wrap32_id in_i32_def)
  then have r: "conn_reachable ?s" by (intro conn_reachable.step [OF conn_reachable.idle]) simp_all
  from sse_connection_limit [OF r] have "\<not> conn_step ?s \<lparr>cn_active = 2, cn_streaming = 1, cn_refusing = 1\<rparr>"
    by (simp add: wrap32_id in_i32_def)
  with r show ?thesis by blast
qed

end
