(* ===== verification/Topology.thy ===== *)
theory Topology
  imports Api_Read Phases
begin

section \<open>The API server: the topology of a deployment\<close>

text \<open>
  \<^verbatim>\<open>handlers_topology.go\<close>: the pods of a deployment, the storage its Flink configuration names, found
  in a FlinkDeployment, in the ConfigMap of the Ververica platform, or in the environment of a
  JobManager, and the runs that are not over.
\<close>

record pod_info =
  pi_name :: string
  pi_phase :: string
  pi_labels :: string_map
  pi_podIP :: string

record external_connection =
  ec_type :: string
  ec_endpoint :: string
  ec_purpose :: string

record active_run =
  ar_name :: string
  ar_phase :: string
  ar_scenario :: string
  ar_targetPods :: "string list"
  ar_startedAt :: string

record topology =
  tp_deploymentName :: string
  tp_targetType :: string
  tp_deploymentID :: string
  tp_vvpNamespace :: string
  tp_jobManagers :: "pod_info list"
  tp_taskManagers :: "pod_info list"
  tp_connections :: "external_connection list"
  tp_activeRuns :: "active_run list"

subsection \<open>Storage\<close>

definition storage_type :: "string \<Rightarrow> string" where
  "storage_type uri =
     (if has_prefix uri ''s3://'' \<or> has_prefix uri ''s3a://'' \<or> has_prefix uri ''s3n://'' then ''S3''
      else if has_prefix uri ''gs://'' then ''GCS''
      else if has_prefix uri ''hdfs://'' then ''HDFS''
      else if has_prefix uri ''wasbs://'' \<or> has_prefix uri ''abfs://'' \<or> has_prefix uri ''abfss://'' then ''AzureBlob''
      else ''Unknown'')"

definition connection :: "string \<Rightarrow> string \<Rightarrow> external_connection" where
  "connection dir purpose = \<lparr>ec_type = storage_type dir, ec_endpoint = dir, ec_purpose = purpose\<rparr>"

definition config_connections :: "string_map \<Rightarrow> external_connection list" where
  "config_connections m =
     (if map_get m ''state.checkpoints.dir'' \<noteq> ''''
      then [connection (map_get m ''state.checkpoints.dir'') ''checkpoint''] else []) @
     (if map_get m ''state.savepoints.dir'' \<noteq> ''''
      then [connection (map_get m ''state.savepoints.dir'') ''savepoint''] else [])"

definition parse_conf_line :: "string \<Rightarrow> external_connection list" where
  "parse_conf_line line =
     (case split_once '': '' (trim_space line) of
        None \<Rightarrow> []
      | Some (a, b) \<Rightarrow>
          (let key = trim_space a; val = trim_space b in
           if val = '''' then []
           else if key = ''state.checkpoints.dir'' then [connection val ''checkpoint'']
           else if key = ''state.savepoints.dir'' then [connection val ''savepoint'']
           else []))"

definition parse_flink_conf_yaml :: "string \<Rightarrow> external_connection list" where
  "parse_flink_conf_yaml raw = concat (map parse_conf_line (split_lines raw))"

definition env_connections :: "string \<times> string \<Rightarrow> external_connection list" where
  "env_connections v =
     (case v of (name, val) \<Rightarrow>
        if name = ''FLINK_PROPERTIES'' then (if val = '''' then [] else concat (map parse_conf_line (split_lines val)))
        else if name = ''CHECKPOINT_DIR'' then (if val \<noteq> '''' then [connection val ''checkpoint''] else [])
        else if name = ''SAVEPOINT_DIR'' then (if val \<noteq> '''' then [connection val ''savepoint''] else [])
        else [])"

text \<open>The keys of the Go map \<open>seen\<close> are the endpoint and the purpose with a bar between them.\<close>

definition connection_key :: "external_connection \<Rightarrow> string" where
  "connection_key c = ec_endpoint c @ ''|'' @ ec_purpose c"

fun dedup_loop :: "string set \<Rightarrow> external_connection list \<Rightarrow> external_connection list" where
  "dedup_loop seen [] = []"
| "dedup_loop seen (c # cs) =
     (if connection_key c \<in> seen then dedup_loop seen cs
      else c # dedup_loop (insert (connection_key c) seen) cs)"

definition deduplicate_connections :: "external_connection list \<Rightarrow> external_connection list" where
  "deduplicate_connections conns = dedup_loop {} conns"

subsection \<open>Pods and deployments\<close>

definition string_of_pod_phase :: "pod_phase \<Rightarrow> string" where
  "string_of_pod_phase p =
     (case p of PodPending \<Rightarrow> ''Pending'' | PodRunning \<Rightarrow> ''Running'' | PodPhaseOther s \<Rightarrow> s)"

definition list_pods_by_deployment ::
  "'w ui_client \<Rightarrow> string \<Rightarrow> string \<Rightarrow> string \<Rightarrow> 'w \<Rightarrow> (api_error + pod_info list) \<times> 'w" where
  "list_pods_by_deployment u ns role name w =
     (case u_list_pods u ns role w of
        (Inl e, w1) \<Rightarrow> (Inl e, w1)
      | (Inr ps, w1) \<Rightarrow>
          (Inr (map (\<lambda>p. \<lparr>pi_name = p_name p, pi_phase = string_of_pod_phase (p_phase p), pi_labels = p_labels p,
                pi_podIP = up_podIP p\<rparr>)
             (filter (\<lambda>p. name \<noteq> '''' \<longrightarrow> pod_deployment p = name) ps)), w1))"

definition resolve_flink_deployment ::
  "'w ui_client \<Rightarrow> string \<Rightarrow> string \<Rightarrow> 'w \<Rightarrow> (string \<times> external_connection list) \<times> 'w" where
  "resolve_flink_deployment u ns filterName w =
     (case u_flink_deployments u ns w of
        (Inl e, w1) \<Rightarrow> (('''', []), w1)
      | (Inr items, w1) \<Rightarrow>
          (case find (\<lambda>(n, _). filterName = '''' \<or> n = filterName) items of
             None \<Rightarrow> (('''', []), w1)
           | Some (n, config) \<Rightarrow> ((n, config_connections config), w1)))"

definition vvp_config_connections ::
  "'w ui_client \<Rightarrow> string \<Rightarrow> string \<Rightarrow> 'w \<Rightarrow> external_connection list \<times> 'w" where
  "vvp_config_connections u ns jobID w =
     (if jobID = '''' then ([], w)
      else case u_config_map u ns (''job-'' @ jobID @ ''-config'') w of
        (Inl e, w1) \<Rightarrow> ([], w1)
      | (Inr cm, w1) \<Rightarrow>
          (let conns = config_connections cm in
           if conns = [] \<and> map_get cm ''flink-conf.yaml'' \<noteq> ''''
           then (parse_flink_conf_yaml (map_get cm ''flink-conf.yaml''), w1) else (conns, w1)))"

definition vvp_env_connections ::
  "'w ui_client \<Rightarrow> string \<Rightarrow> pod_info list \<Rightarrow> 'w \<Rightarrow> external_connection list \<times> 'w" where
  "vvp_env_connections u ns jms w =
     (case find (\<lambda>jm. pi_phase jm = ''Running'') jms of
        None \<Rightarrow> ([], w)
      | Some jm \<Rightarrow>
          (case u_get_pod u ns (pi_name jm) w of
             (Inl e, w1) \<Rightarrow> ([], w1)
           | (Inr p, w1) \<Rightarrow> (concat (map (\<lambda>env. concat (map env_connections env)) (up_env p)), w1)))"

definition resolve_vvp_deployment ::
  "'w ui_client \<Rightarrow> string \<Rightarrow> pod_info list \<Rightarrow> 'w \<Rightarrow> (string \<times> string \<times> string \<times> external_connection list) \<times> 'w" where
  "resolve_vvp_deployment u ns jms w =
     (let labels = (case find (\<lambda>jm. pi_phase jm = ''Running'') jms of Some jm \<Rightarrow> pi_labels jm | None \<Rightarrow> []);
          jobID = (case find (\<lambda>jm. map_get (pi_labels jm) ''jobId'' \<noteq> '''') jms of
                     Some jm \<Rightarrow> map_get (pi_labels jm) ''jobId'' | None \<Rightarrow> '''');
          (conns1, w1) = vvp_config_connections u ns jobID w;
          (conns2, w2) = (if conns1 = [] then vvp_env_connections u ns jms w1 else (conns1, w1))
      in ((map_get labels ''deploymentName'', map_get labels ''deploymentId'', map_get labels ''vvpNamespace'',
           deduplicate_connections conns2), w2))"

subsection \<open>Active runs and the handler\<close>

definition is_terminal_phase :: "run_phase \<Rightarrow> bool" where
  "is_terminal_phase p \<longleftrightarrow> p = Completed \<or> p = Aborted \<or> p = Failed"

definition active_run_of :: "chaos_run \<Rightarrow> active_run" where
  "active_run_of run =
     (let st = cr_status run;
          pods = (if st_injectedPods st = [] then st_selectedPods st else st_injectedPods st)
      in \<lparr>ar_name = cr_name run, ar_phase = string_of_phase (st_phase st), ar_scenario = string_of_scenario (scenario_of run),
          ar_targetPods = pods, ar_startedAt = rfc3339 (st_startedAt st)\<rparr>)"

definition list_active_chaos_runs ::
  "'w run_store \<Rightarrow> string \<Rightarrow> 'w \<Rightarrow> (api_error + active_run list) \<times> 'w" where
  "list_active_chaos_runs st ns w =
     (case rs_list st ns w of
        (Inl e, w1) \<Rightarrow> (Inl e, w1)
      | (Inr runs, w1) \<Rightarrow> (Inr (map active_run_of (filter (\<lambda>r. \<not> is_terminal_phase (phase_of r)) runs)), w1))"

definition topology_handler ::
  "'w run_store \<Rightarrow> 'w ui_client \<Rightarrow> string \<Rightarrow> string \<Rightarrow> 'w \<Rightarrow> topology answer \<times> 'w" where
  "topology_handler st u ns filterName w =
     (case list_pods_by_deployment u ns ''jobmanager'' filterName w of
        (Inl e, w1) \<Rightarrow> (Inl (500, ''failed to list JobManager pods''), w1)
      | (Inr jms, w1) \<Rightarrow>
     (case list_pods_by_deployment u ns ''taskmanager'' filterName w1 of
        (Inl e, w2) \<Rightarrow> (Inl (500, ''failed to list TaskManager pods''), w2)
      | (Inr tms, w2) \<Rightarrow>
          (let t0 = \<lparr>tp_deploymentName = '''', tp_targetType = '''', tp_deploymentID = '''', tp_vvpNamespace = '''',
                 tp_jobManagers = jms, tp_taskManagers = tms, tp_connections = [], tp_activeRuns = []\<rparr>;
               ((fdName, extConns), w3) = resolve_flink_deployment u ns filterName w2;
               (t1, w4) =
                 (if fdName \<noteq> ''''
                  then (t0\<lparr>tp_deploymentName := fdName, tp_targetType := ''FlinkDeployment'',
                          tp_connections := extConns\<rparr>, w3)
                  else (case resolve_vvp_deployment u ns jms w3 of
                    ((vvpName, vvpID, vvpNS, conns), w') \<Rightarrow>
                      (t0\<lparr>tp_deploymentName := vvpName, tp_targetType := ''VervericaDeployment'',
                         tp_deploymentID := vvpID, tp_vvpNamespace := vvpNS, tp_connections := conns\<rparr>, w')))
           in case list_active_chaos_runs st ns w4 of
                (Inl e, w5) \<Rightarrow> (Inl (500, ''failed to list active ChaosRuns''), w5)
              | (Inr runs, w5) \<Rightarrow> (Inr (t1\<lparr>tp_activeRuns := runs\<rparr>), w5))))"

text \<open>The API server and the operator agree on which runs are over.\<close>

lemma is_terminal_phase_eq: "is_terminal_phase = is_terminal"
  by (rule ext) (auto simp: is_terminal_phase_def is_terminal_def split: run_phase.split)

subsection \<open>One connection per endpoint and purpose\<close>

abbreviation conn_pair :: "external_connection \<Rightarrow> string \<times> string" where
  "conn_pair c \<equiv> (ec_endpoint c, ec_purpose c)"

lemma purpose_of_key:
  assumes "CHR ''|'' \<notin> set p"
  shows "takeWhile (\<lambda>c. c \<noteq> CHR ''|'') (rev (e @ ''|'' @ p)) = rev p"
proof -
  have "takeWhile (\<lambda>c. c \<noteq> CHR ''|'') (rev p @ CHR ''|'' # rev e) = rev p"
    using assms by (subst takeWhile_append2) auto
  then show ?thesis by simp
qed

lemma connection_key_pair:
  assumes "CHR ''|'' \<notin> set (ec_purpose c)" and "CHR ''|'' \<notin> set (ec_purpose d)"
  shows "connection_key c = connection_key d \<longleftrightarrow> conn_pair c = conn_pair d"
proof
  assume k: "connection_key c = connection_key d"
  then have "rev (ec_purpose c) = rev (ec_purpose d)"
    unfolding connection_key_def using purpose_of_key [OF assms(1)] purpose_of_key [OF assms(2)] by metis
  with k show "conn_pair c = conn_pair d" by (simp add: connection_key_def)
qed (simp add: connection_key_def)

lemma dedup_loop_spec:
  "distinct (map connection_key (dedup_loop seen cs)) \<and>
   connection_key ` set (dedup_loop seen cs) = connection_key ` set cs - seen \<and>
   set (dedup_loop seen cs) \<subseteq> set cs"
  by (induction seen cs rule: dedup_loop.induct) auto

lemma dedup_loop_first:
  "\<forall>s \<in> seen. s \<noteq> k \<Longrightarrow>
   find (\<lambda>c. connection_key c = k) (dedup_loop seen cs) = find (\<lambda>c. connection_key c = k) cs"
  by (induction seen cs rule: dedup_loop.induct) auto

text \<open>
  Deduplication keeps exactly one connection of each endpoint and purpose, the first: for
  purposes without a bar, as all of the server's are, joining the two with a bar confuses no two
  pairs, whatever the endpoints contain.
\<close>

theorem dedup_keeps_first:
  assumes "\<forall>c \<in> set cs. CHR ''|'' \<notin> set (ec_purpose c)"
  shows "distinct (map conn_pair (deduplicate_connections cs)) \<and>
    conn_pair ` set (deduplicate_connections cs) = conn_pair ` set cs \<and>
    (\<forall>c \<in> set cs. find (\<lambda>d. conn_pair d = conn_pair c) (deduplicate_connections cs) =
       find (\<lambda>d. conn_pair d = conn_pair c) cs)"
proof (intro conjI ballI)
  let ?out = "dedup_loop {} cs"
  have sub: "set ?out \<subseteq> set cs" and keys: "connection_key ` set ?out = connection_key ` set cs"
    and dist: "distinct (map connection_key ?out)"
    using dedup_loop_spec [of "{}" cs] by auto
  have pair: "connection_key c = connection_key d \<longleftrightarrow> conn_pair c = conn_pair d" if "c \<in> set cs" "d \<in> set cs" for c d
    using assms that by (intro connection_key_pair) auto
  from dist sub show "distinct (map conn_pair (deduplicate_connections cs))"
    unfolding deduplicate_connections_def distinct_map inj_on_def using pair by blast
  show "conn_pair ` set (deduplicate_connections cs) = conn_pair ` set cs"
  proof
    show "conn_pair ` set cs \<subseteq> conn_pair ` set (deduplicate_connections cs)"
    proof
      fix x assume "x \<in> conn_pair ` set cs"
      then obtain c where c: "c \<in> set cs" "x = conn_pair c" by blast
      with keys obtain d where "d \<in> set ?out" "connection_key d = connection_key c"
        by (metis (no_types, lifting) imageE imageI)
      with c sub pair show "x \<in> conn_pair ` set (deduplicate_connections cs)"
        unfolding deduplicate_connections_def by (metis (no_types, lifting) imageI subsetD)
    qed
  qed (use sub in \<open>auto simp: deduplicate_connections_def\<close>)
  fix c assume c: "c \<in> set cs"
  have same: "find (\<lambda>d. conn_pair d = conn_pair c) xs = find (\<lambda>d. connection_key d = connection_key c) xs"
    if "set xs \<subseteq> set cs" for xs
    using that pair c by (induction xs) auto
  show "find (\<lambda>d. conn_pair d = conn_pair c) (deduplicate_connections cs) = find (\<lambda>d. conn_pair d = conn_pair c) cs"
    using dedup_loop_first [of "{}" "connection_key c" cs] same [OF sub] same [OF order_refl]
    by (simp add: deduplicate_connections_def)
qed

theorem dedup_keeps_first_witness:
  "deduplicate_connections [connection ''s3://b/c'' ''checkpoint'', connection ''s3://b/c'' ''savepoint'',
       connection ''s3://b/c'' ''checkpoint''] \<noteq> [] \<and>
   distinct (map conn_pair (deduplicate_connections [connection ''s3://b/c'' ''checkpoint'',
       connection ''s3://b/c'' ''savepoint'', connection ''s3://b/c'' ''checkpoint'']))"
proof -
  let ?cs = "[connection ''s3://b/c'' ''checkpoint'', connection ''s3://b/c'' ''savepoint'', connection ''s3://b/c'' ''checkpoint'']"
  have "\<forall>c \<in> set ?cs. CHR ''|'' \<notin> set (ec_purpose c)" by (simp add: connection_def)
  from dedup_keeps_first [OF this] show ?thesis by auto
qed

text \<open>The purposes the server gives its connections.\<close>

lemma connection_purpose [simp]: "ec_purpose (connection d p) = p"
  by (simp add: connection_def)

lemma server_purposes:
  "c \<in> set (config_connections m) \<Longrightarrow> ec_purpose c \<in> {''checkpoint'', ''savepoint''}"
  "c \<in> set (parse_conf_line l) \<Longrightarrow> ec_purpose c \<in> {''checkpoint'', ''savepoint''}"
  unfolding config_connections_def parse_conf_line_def Let_def by (auto split: if_splits option.splits prod.splits)

end
