(* ===== verification/Flink_Http.thy ===== *)
theory Flink_Http
  imports Observers Json
begin

section \<open>The Flink REST client\<close>

text \<open>
  \<^verbatim>\<open>HTTPClient\<close> of \<^verbatim>\<open>internal/observer/flinkrest/client.go\<close> and \<^verbatim>\<open>Checkpoints\<close> of
  \<^verbatim>\<open>checkpoints.go\<close>. A GET request is the parameter \<open>http\<close>: it may be impossible to build, may fail, or
  answers with a status and a body, which is a JSON value or the error of its decoder. A
  \<^verbatim>\<open>float64\<close> is a value of a type \<open>'f\<close> with the operations of the record \<open>floats\<close>.
\<close>

datatype http_result = BadRequest string | TransportError string | HttpResponse nat "string + json"

type_synonym 'w http = "string \<Rightarrow> 'w \<Rightarrow> http_result \<times> 'w"

subsection \<open>Requests that must succeed\<close>

text \<open>The pattern of all methods: an error is returned with its context; \<open>what\<close> names the response.\<close>

definition get_json :: "'w http \<Rightarrow> string \<Rightarrow> string \<Rightarrow> 'a decoder \<Rightarrow> 'w \<Rightarrow> (string + 'a) \<times> 'w" where
  "get_json http url what dec w =
     (case http url w of
        (BadRequest e, w1) \<Rightarrow> (Inl (''build request: '' @ e), w1)
      | (TransportError e, w1) \<Rightarrow> (Inl (''GET '' @ url @ '': '' @ e), w1)
      | (HttpResponse status body, w1) \<Rightarrow>
          (if status \<noteq> 200 then (Inl (''GET '' @ url @ '': unexpected status '' @ fmt_d (int status)), w1)
           else case bind_dec body dec of
             Inl e \<Rightarrow> (Inl (''decode '' @ what @ '' response: '' @ e), w1)
           | Inr x \<Rightarrow> (Inr x, w1)))"

definition dec_job :: "flink_job decoder" where
  "dec_job = dec_object (\<lambda>fld.
     bind_dec (dec_string (fld ''jid'')) (\<lambda>jid. bind_dec (dec_string (fld ''name'')) (\<lambda>_.
     bind_dec (dec_string (fld ''state'')) (\<lambda>state. Inr \<lparr>fj_id = jid, fj_state = state\<rparr>))))"

definition http_jobs :: "'w http \<Rightarrow> string \<Rightarrow> 'w \<Rightarrow> (string + flink_job list) \<times> 'w" where
  "http_jobs http base =
     get_json http (base @ ''/jobs/overview'') ''jobs'' (dec_object (\<lambda>fld. dec_list dec_job (fld ''jobs'')))"

definition http_task_managers :: "'w http \<Rightarrow> string \<Rightarrow> 'w \<Rightarrow> (string + int) \<times> 'w" where
  "http_task_managers http base w =
     (case get_json http (base @ ''/taskmanagers'') ''taskmanagers''
             (dec_object (\<lambda>fld. dec_list (dec_object (\<lambda>_. Inr ())) (fld ''taskmanagers''))) w of
        (Inl e, w1) \<Rightarrow> (Inl e, w1)
      | (Inr tms, w1) \<Rightarrow> (Inr (int (length tms)), w1))"

text \<open>The identifier of the first running job, empty when there is none.\<close>

definition first_running :: "flink_job list \<Rightarrow> string" where
  "first_running jobs = (case find (\<lambda>j. fj_state j = ''RUNNING'') jobs of Some j \<Rightarrow> fj_id j | None \<Rightarrow> '''')"

definition dec_checkpoint :: "checkpoint_detail decoder" where
  "dec_checkpoint = dec_object (\<lambda>fld.
     bind_dec (dec_int (fld ''trigger_timestamp'')) (\<lambda>t. bind_dec (dec_string (fld ''status'')) (\<lambda>s.
     Inr \<lparr>cp_triggerTimestamp = t, cp_status = s\<rparr>)))"

definition dec_latest :: "checkpoint_detail option decoder" where
  "dec_latest = dec_object (\<lambda>fld. dec_object (\<lambda>latest. dec_pointer dec_checkpoint (latest ''completed'')) (fld ''latest''))"

text \<open>The outer option is the pointer to the summary, the inner its \<^verbatim>\<open>LatestCompleted\<close>.\<close>

definition http_checkpoints :: "'w http \<Rightarrow> string \<Rightarrow> 'w \<Rightarrow> (string + checkpoint_detail option option) \<times> 'w" where
  "http_checkpoints http base w =
     (case http_jobs http base w of
        (Inl e, w1) \<Rightarrow> (Inl (''list jobs: '' @ e), w1)
      | (Inr jobs, w1) \<Rightarrow>
          (if first_running jobs = '''' then (Inr None, w1)
           else case get_json http (base @ ''/jobs/'' @ first_running jobs @ ''/checkpoints'') ''checkpoints'' dec_latest w1 of
             (Inl e, w2) \<Rightarrow> (Inl e, w2)
           | (Inr d, w2) \<Rightarrow> (Inr (Some d), w2)))"

text \<open>The client as the operator uses it, where the two kinds of absence are not told apart.\<close>

definition http_client :: "'w http \<Rightarrow> string \<Rightarrow> 'w flink_client" where
  "http_client http base = \<lparr>fc_jobs = http_jobs http base, fc_task_managers = http_task_managers http base,
     fc_checkpoints = (\<lambda>w. case http_checkpoints http base w of
       (Inl e, w1) \<Rightarrow> (Inl e, w1) | (Inr d, w1) \<Rightarrow> (Inr (Option.bind d id), w1))\<rparr>"

subsection \<open>Requests whose failure is ignored\<close>

definition try_json :: "'w http \<Rightarrow> string \<Rightarrow> 'a decoder \<Rightarrow> 'w \<Rightarrow> 'a option \<times> 'w" where
  "try_json http url dec w =
     (case http url w of
        (HttpResponse status body, w1) \<Rightarrow>
          (if status \<noteq> 200 then (None, w1)
           else case bind_dec body dec of Inl e \<Rightarrow> (None, w1) | Inr x \<Rightarrow> (Some x, w1))
      | (_, w1) \<Rightarrow> (None, w1))"

text \<open>\<^verbatim>\<open>fmt.Sscanf\<close> with \<^verbatim>\<open>%d\<close>: blanks, a sign and digits, whatever follows. White space other than
  blanks and tabs, and underscores between digits, are not modelled.\<close>

definition scan_int :: "string \<Rightarrow> int option" where
  "scan_int s0 =
     (let s = dropWhile (\<lambda>c. c = CHR '' '' \<or> c = char_of (9::nat)) s0;
          neg = has_prefix s ''-''; t = (if neg \<or> has_prefix s ''+'' then drop 1 s else s);
          ds = takeWhile is_digit t; i = (if neg then - decimal_int ds else decimal_int ds)
      in if ds \<noteq> [] \<and> in_i64 i then Some i else None)"

record 'f floats =
  fl_zero :: 'f
  fl_unavailable :: 'f
  fl_scan :: "string \<Rightarrow> 'f option"
  fl_parse :: "string \<Rightarrow> 'f option"
  fl_add :: "'f \<Rightarrow> 'f \<Rightarrow> 'f"

definition dec_id_value :: "(string \<times> string) decoder" where
  "dec_id_value = dec_object (\<lambda>fld.
     bind_dec (dec_string (fld ''id'')) (\<lambda>i. bind_dec (dec_string (fld ''value'')) (\<lambda>v. Inr (i, v))))"

subsection \<open>Metrics of the TaskManagers\<close>

record 'f tm_metrics =
  tm_id :: string
  tm_podIP :: string
  tm_cpuLoad :: 'f
  tm_heapUsedMB :: int
  tm_heapMaxMB :: int
  tm_heapPercent :: int

definition pod_ip_of :: "string \<Rightarrow> string" where
  "pod_ip_of i = (if CHR '':'' \<in> set i then takeWhile (\<lambda>c. c \<noteq> CHR '':'') i else '''')"

definition tm_entry :: "'f floats \<Rightarrow> string \<times> string \<Rightarrow> 'f tm_metrics \<Rightarrow> 'f tm_metrics" where
  "tm_entry fl e m =
     (case e of (i, v) \<Rightarrow>
        if i = ''Status.JVM.CPU.Load''
        then (case fl_scan fl v of Some x \<Rightarrow> m\<lparr>tm_cpuLoad := x\<rparr> | None \<Rightarrow> m)
        else if i = ''Status.JVM.Memory.Heap.Used''
        then (case scan_int v of Some x \<Rightarrow> m\<lparr>tm_heapUsedMB := go_div x 1048576\<rparr> | None \<Rightarrow> m)
        else if i = ''Status.JVM.Memory.Heap.Max''
        then (case scan_int v of Some x \<Rightarrow> m\<lparr>tm_heapMaxMB := go_div x 1048576\<rparr> | None \<Rightarrow> m)
        else m)"

definition with_heap_percent :: "'f tm_metrics \<Rightarrow> 'f tm_metrics" where
  "with_heap_percent m =
     (if 0 < tm_heapMaxMB m
      then let pct = go_div (wrap64 (tm_heapUsedMB m * 100)) (tm_heapMaxMB m)
           in m\<lparr>tm_heapPercent := (if 100 < pct then 100 else pct)\<rparr>
      else m)"

definition fetch_tm_metrics :: "'w http \<Rightarrow> 'f floats \<Rightarrow> string \<Rightarrow> string \<Rightarrow> 'w \<Rightarrow> 'f tm_metrics \<times> 'w" where
  "fetch_tm_metrics http fl base i w =
     (let m = \<lparr>tm_id = i, tm_podIP = pod_ip_of i, tm_cpuLoad = fl_unavailable fl, tm_heapUsedMB = 0,
            tm_heapMaxMB = 0, tm_heapPercent = 0\<rparr>;
          url = base @ ''/taskmanagers/'' @ i @
            ''/metrics?get=Status.JVM.CPU.Load,Status.JVM.Memory.Heap.Used,Status.JVM.Memory.Heap.Max''
      in case try_json http url (dec_list dec_id_value) w of
           (None, w1) \<Rightarrow> (m, w1)
         | (Some entries, w1) \<Rightarrow> (with_heap_percent (fold (tm_entry fl) entries m), w1))"

fun fetch_all_tm_metrics :: "'w http \<Rightarrow> 'f floats \<Rightarrow> string \<Rightarrow> string list \<Rightarrow> 'w \<Rightarrow> 'f tm_metrics list \<times> 'w" where
  "fetch_all_tm_metrics http fl base [] w = ([], w)"
| "fetch_all_tm_metrics http fl base (i # is) w =
     (case fetch_tm_metrics http fl base i w of
        (m, w1) \<Rightarrow> (case fetch_all_tm_metrics http fl base is w1 of (ms, w2) \<Rightarrow> (m # ms, w2)))"

definition http_task_manager_metrics ::
  "'w http \<Rightarrow> 'f floats \<Rightarrow> string \<Rightarrow> 'w \<Rightarrow> (string + 'f tm_metrics list) \<times> 'w" where
  "http_task_manager_metrics http fl base w =
     (case get_json http (base @ ''/taskmanagers'') ''taskmanagers''
             (dec_object (\<lambda>fld. dec_list (dec_object (\<lambda>tm. dec_string (tm ''id''))) (fld ''taskmanagers''))) w of
        (Inl e, w1) \<Rightarrow> (Inl e, w1)
      | (Inr ids, w1) \<Rightarrow> (case fetch_all_tm_metrics http fl base ids w1 of (ms, w2) \<Rightarrow> (Inr ms, w2)))"

subsection \<open>What the methods answer\<close>

lemma get_json_ok:
  "get_json http url what dec w = (Inr x, w') \<longleftrightarrow> (\<exists>body. http url w = (HttpResponse 200 (Inr body), w') \<and> dec body = Inr x)"
  by (auto simp: get_json_def bind_dec_def split: prod.splits http_result.splits if_splits sum.splits)

subsection \<open>The stability gate over HTTP\<close>

lemma first_running_here:
  "\<forall>x \<in> set pre. fj_state x \<noteq> ''RUNNING'' \<Longrightarrow> fj_state j = ''RUNNING'' \<Longrightarrow> first_running (pre @ j # post) = fj_id j"
  by (induction pre) (simp_all add: first_running_def)

lemma first_running_split:
  "first_running jobs = i \<and> i \<noteq> '''' \<longleftrightarrow> (\<exists>pre j post. jobs = pre @ j # post \<and>
     (\<forall>x \<in> set pre. fj_state x \<noteq> ''RUNNING'') \<and> fj_state j = ''RUNNING'' \<and> fj_id j = i \<and> i \<noteq> '''')"
proof (cases "\<exists>x \<in> set jobs. fj_state x = ''RUNNING''")
  case True
  from split_list_first_prop [OF this] obtain pre j post where
    "jobs = pre @ j # post" "fj_state j = ''RUNNING''" "\<forall>x \<in> set pre. fj_state x \<noteq> ''RUNNING''" by blast
  then show ?thesis using first_running_here by metis
next
  case False
  then have "first_running jobs = ''''" by (induction jobs) (simp_all add: first_running_def)
  with False show ?thesis by auto
qed

lemma read_checkpoints: "read_ext (fc_checkpoints (http_client http base)) s = (Inr (Some d), s1) \<longleftrightarrow>
    (\<exists>w. http_checkpoints http base (ext s) = (Inr (Some (Some d)), w) \<and> s1 = s\<lparr>ext := w\<rparr>)"
  by (auto simp: read_ext_def http_client_def bind_eq_Some_conv split: prod.splits sum.splits)

lemma latest_of_first_running: "http_checkpoints http base w = (Inr (Some (Some d)), w2) \<longleftrightarrow>
    (\<exists>jobs w1. http_jobs http base w = (Inr jobs, w1) \<and> first_running jobs \<noteq> '''' \<and>
      get_json http (base @ ''/jobs/'' @ first_running jobs @ ''/checkpoints'') ''checkpoints'' dec_latest w1 = (Inr (Some d), w2))"
  by (auto simp: http_checkpoints_def split: prod.splits sum.splits if_splits)

text \<open>
  C33. Over the HTTP client the checkpoint counts as stable exactly when the first job of the overview in state
  RUNNING, whose identifier is not empty, has a latest completed checkpoint with the status COMPLETED that was
  triggered no longer ago than the window; the jobs after it are not looked at. The age is counted from the
  trigger, not from the completion: a stable checkpoint was completed within the window, but one that
  takes longer than the window is never stable.
\<close>

theorem stable_first_running_job:
  "is_checkpoint_stable k (http_client http base) window s = (Inr True, s') \<longleftrightarrow>
    (\<exists>pre j post w1 d w2 t. http_jobs http base (ext s) = (Inr (pre @ j # post), w1) \<and>
       (\<forall>x \<in> set pre. fj_state x \<noteq> ''RUNNING'') \<and> fj_state j = ''RUNNING'' \<and> fj_id j \<noteq> '''' \<and>
       get_json http (base @ ''/jobs/'' @ fj_id j @ ''/checkpoints'') ''checkpoints'' dec_latest w1 = (Inr (Some d), w2) \<and>
       cp_status d = ''COMPLETED'' \<and> now k (s\<lparr>ext := w2\<rparr>) = (t, s') \<and>
       time_sub t (cp_triggerTimestamp d * millisecond) \<le> wrap64 (window * second))"
  (is "?stable \<longleftrightarrow> ?first")
proof -
  have "?stable \<longleftrightarrow> (\<exists>d s1 t. read_ext (fc_checkpoints (http_client http base)) s = (Inr (Some d), s1) \<and>
      cp_status d = ''COMPLETED'' \<and> now k s1 = (t, s') \<and>
      time_sub t (cp_triggerTimestamp d * millisecond) \<le> wrap64 (window * second))"
    by (auto simp: is_checkpoint_stable_def split: sum.splits prod.splits option.splits if_splits)
  also have "\<dots> \<longleftrightarrow> (\<exists>jobs i w1 d w2 t. http_jobs http base (ext s) = (Inr jobs, w1) \<and> (first_running jobs = i \<and> i \<noteq> '''') \<and>
      get_json http (base @ ''/jobs/'' @ i @ ''/checkpoints'') ''checkpoints'' dec_latest w1 = (Inr (Some d), w2) \<and>
      cp_status d = ''COMPLETED'' \<and> now k (s\<lparr>ext := w2\<rparr>) = (t, s') \<and>
      time_sub t (cp_triggerTimestamp d * millisecond) \<le> wrap64 (window * second))"
    unfolding read_checkpoints latest_of_first_running by auto
  also have "\<dots> \<longleftrightarrow> ?first" unfolding first_running_split by blast
  finally show ?thesis .
qed

text \<open>A JobManager with a finished and a running job, as it answers over HTTP.\<close>

definition demo_overview :: json where
  "demo_overview = JObject [(''jobs'', JArray
     [JObject [(''jid'', JString ''f0''), (''name'', JString ''batch''), (''start-time'', JNumber ''100''),
        (''state'', JString ''FINISHED''), (''tasks'', JObject [(''total'', JNumber ''4'')])],
      JObject [(''jid'', JString ''a1''), (''name'', JString ''orders''), (''start-time'', JNumber ''200''),
        (''state'', JString ''RUNNING''), (''tasks'', JObject [(''total'', JNumber ''8'')])]])]"

definition demo_checkpoints :: json where
  "demo_checkpoints = JObject
     [(''counts'', JObject [(''restored'', JNumber ''0''), (''total'', JNumber ''7'')]),
      (''latest'', JObject [(''savepoint'', JNull), (''completed'', JObject [(''id'', JNumber ''7''),
         (''status'', JString ''COMPLETED''), (''trigger_timestamp'', JNumber ''970000''),
         (''latest_ack_timestamp'', JNumber ''985000''), (''is_savepoint'', JBool False)])])]"

definition demo_http :: "'w http" where
  "demo_http url w =
     (if url = ''http://jm:8081/jobs/overview'' then (HttpResponse 200 (Inr demo_overview), w)
      else if url = ''http://jm:8081/jobs/a1/checkpoints'' then (HttpResponse 200 (Inr demo_checkpoints), w)
      else (HttpResponse 404 (Inl ''EOF''), w))"

theorem stable_first_running_job_witness:
  "\<exists>s'. is_checkpoint_stable demo_kube (http_client demo_http ''http://jm:8081'') 60 (demo_sys (demo_run Pending)) = (Inr True, s')"
proof -
  let ?s = "demo_sys (demo_run Pending)"
  let ?d = "\<lparr>cp_triggerTimestamp = 970000, cp_status = ''COMPLETED''\<rparr>"
  have "bind_dec (Inr demo_overview) (dec_object (\<lambda>fld. dec_list dec_job (fld ''jobs''))) =
      Inr [\<lparr>fj_id = ''f0'', fj_state = ''FINISHED''\<rparr>, \<lparr>fj_id = ''a1'', fj_state = ''RUNNING''\<rparr>]" by code_simp
  then have jobs: "http_jobs demo_http ''http://jm:8081'' (ext ?s) =
      (Inr ([\<lparr>fj_id = ''f0'', fj_state = ''FINISHED''\<rparr>] @ \<lparr>fj_id = ''a1'', fj_state = ''RUNNING''\<rparr> # []), ext ?s)"
    by (simp add: http_jobs_def get_json_def demo_http_def)
  have "bind_dec (Inr demo_checkpoints) dec_latest = Inr (Some ?d)" by code_simp
  then have latest: "get_json demo_http (''http://jm:8081'' @ ''/jobs/'' @ ''a1'' @ ''/checkpoints'') ''checkpoints'' dec_latest
      (ext ?s) = (Inr (Some ?d), ext ?s)"
    by (simp add: get_json_def demo_http_def)
  obtain t s' where n: "now demo_kube (?s\<lparr>ext := ext ?s\<rparr>) = (t, s')" (is "?n = _") by (cases ?n)
  then have "t = 1000000000000" by (simp add: now_def read_ext_def demo_kube_def demo_sys_def)
  then have "time_sub t (cp_triggerTimestamp ?d * millisecond) \<le> wrap64 (60 * second)"
    by (simp add: time_sub_def millisecond_def second_def min_duration_def max_duration_def wrap64_def)
  with jobs latest n show ?thesis
    unfolding stable_first_running_job
    by (intro exI [of _ s'] exI [of _ "[\<lparr>fj_id = ''f0'', fj_state = ''FINISHED''\<rparr>]"]
        exI [of _ "\<lparr>fj_id = ''a1'', fj_state = ''RUNNING''\<rparr>"] exI [of _ "[]"] exI [of _ "ext ?s"] exI [of _ ?d]
        exI [of _ t]) simp
qed

end
