(* ===== verification/Job_Metrics.thy ===== *)
theory Job_Metrics
  imports Flink_Http
begin

section \<open>The metrics of the running job\<close>

text \<open>
  \<^verbatim>\<open>JobMetrics\<close> of \<^verbatim>\<open>internal/observer/flinkrest/client.go\<close> with its three helpers. Counters are
  64-bit integers and wrap when summed. The goroutines of \<^verbatim>\<open>fetchVertexRates\<close> add their results under
  one lock; the order in which they come to it is the parameter \<open>order\<close>.
\<close>

record vertex_detail =
  vd_name :: string
  vd_parallelism :: int
  vd_status :: string

record 'f job_metrics =
  jm_jobID :: string
  jm_jobName :: string
  jm_jobStartTime :: int
  jm_jobDurationMs :: int
  jm_maxParallelism :: int
  jm_vertices :: "vertex_detail list"
  jm_lastCheckpointDurationMs :: int
  jm_lastCheckpointSizeBytes :: int
  jm_completedCheckpoints :: int
  jm_failedCheckpoints :: int
  jm_numRestarts :: int
  jm_inProgressCheckpoints :: int
  jm_restoredCheckpoints :: int
  jm_totalCheckpoints :: int
  jm_latestCheckpointID :: int
  jm_latestCheckpointCompletionTime :: int
  jm_latestCheckpointDurationMs :: int
  jm_latestCheckpointStateSizeBytes :: int
  jm_latestCheckpointFullSizeBytes :: int
  jm_recordsInPerSec :: 'f
  jm_recordsOutPerSec :: 'f
  jm_bytesInPerSec :: 'f
  jm_bytesOutPerSec :: 'f
  jm_readRecords :: int
  jm_writeRecords :: int
  jm_readBytes :: int
  jm_writeBytes :: int
  jm_sampledAt :: int

definition new_job_metrics :: "'f floats \<Rightarrow> int \<Rightarrow> 'f job_metrics" where
  "new_job_metrics fl t = \<lparr>jm_jobID = '''', jm_jobName = '''', jm_jobStartTime = 0, jm_jobDurationMs = 0,
     jm_maxParallelism = 0, jm_vertices = [], jm_lastCheckpointDurationMs = 0, jm_lastCheckpointSizeBytes = 0,
     jm_completedCheckpoints = 0, jm_failedCheckpoints = 0, jm_numRestarts = 0, jm_inProgressCheckpoints = 0,
     jm_restoredCheckpoints = 0, jm_totalCheckpoints = 0, jm_latestCheckpointID = 0,
     jm_latestCheckpointCompletionTime = 0, jm_latestCheckpointDurationMs = 0,
     jm_latestCheckpointStateSizeBytes = 0, jm_latestCheckpointFullSizeBytes = 0,
     jm_recordsInPerSec = fl_zero fl, jm_recordsOutPerSec = fl_zero fl, jm_bytesInPerSec = fl_zero fl,
     jm_bytesOutPerSec = fl_zero fl, jm_readRecords = 0, jm_writeRecords = 0, jm_readBytes = 0, jm_writeBytes = 0,
     jm_sampledAt = t\<rparr>"

subsection \<open>Job-level metrics\<close>

text \<open>A value that does not scan leaves its field alone.\<close>

definition scan_into :: "'a option \<Rightarrow> ('a \<Rightarrow> 'm \<Rightarrow> 'm) \<Rightarrow> 'm \<Rightarrow> 'm" where
  "scan_into x set_field m = (case x of Some v \<Rightarrow> set_field v m | None \<Rightarrow> m)"

definition job_metric :: "'f floats \<Rightarrow> string \<times> string \<Rightarrow> 'f job_metrics \<Rightarrow> 'f job_metrics" where
  "job_metric fl item m =
     (case item of (i, v) \<Rightarrow>
        if i = ''lastCheckpointDuration'' then scan_into (scan_int v) (\<lambda>x m. m\<lparr>jm_lastCheckpointDurationMs := x\<rparr>) m
        else if i = ''lastCheckpointSize'' then scan_into (scan_int v) (\<lambda>x m. m\<lparr>jm_lastCheckpointSizeBytes := x\<rparr>) m
        else if i = ''numberOfCompletedCheckpoints'' then scan_into (scan_int v) (\<lambda>x m. m\<lparr>jm_completedCheckpoints := x\<rparr>) m
        else if i = ''numberOfFailedCheckpoints'' then scan_into (scan_int v) (\<lambda>x m. m\<lparr>jm_failedCheckpoints := x\<rparr>) m
        else if i = ''numRestarts'' then scan_into (scan_int v) (\<lambda>x m. m\<lparr>jm_numRestarts := x\<rparr>) m
        else if i = ''numberOfInProgressCheckpoints'' then scan_into (scan_int v) (\<lambda>x m. m\<lparr>jm_inProgressCheckpoints := x\<rparr>) m
        else if i = ''numberOfRestoredCheckpoints'' then scan_into (scan_int v) (\<lambda>x m. m\<lparr>jm_restoredCheckpoints := x\<rparr>) m
        else if i = ''numRecordsInPerSecond'' then scan_into (fl_scan fl v) (\<lambda>x m. m\<lparr>jm_recordsInPerSec := x\<rparr>) m
        else if i = ''numRecordsOutPerSecond'' then scan_into (fl_scan fl v) (\<lambda>x m. m\<lparr>jm_recordsOutPerSec := x\<rparr>) m
        else if i = ''numBytesInPerSecond'' then scan_into (fl_scan fl v) (\<lambda>x m. m\<lparr>jm_bytesInPerSec := x\<rparr>) m
        else if i = ''numBytesOutPerSecond'' then scan_into (fl_scan fl v) (\<lambda>x m. m\<lparr>jm_bytesOutPerSec := x\<rparr>) m
        else m)"

definition metrics_url :: "string \<Rightarrow> string \<Rightarrow> string" where
  "metrics_url base jobID = base @ ''/jobs/'' @ jobID @
     ''/metrics?get=lastCheckpointDuration,lastCheckpointSize,'' @
     ''numberOfCompletedCheckpoints,numberOfFailedCheckpoints,numRestarts,'' @
     ''numberOfInProgressCheckpoints,numberOfRestoredCheckpoints,'' @
     ''numRecordsInPerSecond,numRecordsOutPerSecond,'' @
     ''numBytesInPerSecond,numBytesOutPerSecond&agg=sum''"

subsection \<open>Checkpoints\<close>

record checkpoint_counts =
  cc_restored :: int
  cc_total :: int
  cc_inProgress :: int
  cc_completed :: int
  cc_failed :: int

record completed_checkpoint =
  cd_id :: int
  cd_latestAckTimestamp :: int
  cd_endToEndDuration :: int
  cd_stateSize :: int
  cd_fullSize :: int

definition dec_counts :: "checkpoint_counts decoder" where
  "dec_counts = dec_object (\<lambda>fld.
     bind_dec (dec_int (fld ''restored'')) (\<lambda>r. bind_dec (dec_int (fld ''total'')) (\<lambda>t.
     bind_dec (dec_int (fld ''in_progress'')) (\<lambda>p. bind_dec (dec_int (fld ''completed'')) (\<lambda>c.
     bind_dec (dec_int (fld ''failed'')) (\<lambda>f.
     Inr \<lparr>cc_restored = r, cc_total = t, cc_inProgress = p, cc_completed = c, cc_failed = f\<rparr>))))))"

definition dec_completed :: "completed_checkpoint decoder" where
  "dec_completed = dec_object (\<lambda>fld.
     bind_dec (dec_int (fld ''id'')) (\<lambda>i. bind_dec (dec_int (fld ''latest_ack_timestamp'')) (\<lambda>t.
     bind_dec (dec_int (fld ''end_to_end_duration'')) (\<lambda>d. bind_dec (dec_int (fld ''state_size'')) (\<lambda>s.
     bind_dec (dec_int (fld ''full_size'')) (\<lambda>f.
     Inr \<lparr>cd_id = i, cd_latestAckTimestamp = t, cd_endToEndDuration = d, cd_stateSize = s, cd_fullSize = f\<rparr>))))))"

definition dec_checkpoint_stats :: "(checkpoint_counts \<times> completed_checkpoint option) decoder" where
  "dec_checkpoint_stats = dec_object (\<lambda>fld.
     bind_dec (dec_counts (fld ''counts'')) (\<lambda>c.
     bind_dec (dec_object (\<lambda>latest. dec_pointer dec_completed (latest ''completed'')) (fld ''latest'')) (\<lambda>l.
     Inr (c, l))))"

definition add_checkpoint_stats ::
  "checkpoint_counts \<times> completed_checkpoint option \<Rightarrow> 'f job_metrics \<Rightarrow> 'f job_metrics" where
  "add_checkpoint_stats stats m0 =
     (case stats of (c, latest) \<Rightarrow>
        let m1 = m0\<lparr>jm_restoredCheckpoints := cc_restored c, jm_totalCheckpoints := cc_total c,
                   jm_inProgressCheckpoints := cc_inProgress c\<rparr>;
            m2 = (if 0 < cc_total c
                  then m1\<lparr>jm_completedCheckpoints := cc_completed c, jm_failedCheckpoints := cc_failed c\<rparr> else m1)
        in case latest of
             None \<Rightarrow> m2
           | Some d \<Rightarrow> m2\<lparr>jm_latestCheckpointID := cd_id d, jm_latestCheckpointCompletionTime := cd_latestAckTimestamp d,
               jm_latestCheckpointDurationMs := cd_endToEndDuration d,
               jm_latestCheckpointStateSizeBytes := cd_stateSize d, jm_latestCheckpointFullSizeBytes := cd_fullSize d\<rparr>)"

definition fetch_checkpoint_detail ::
  "'w http \<Rightarrow> string \<Rightarrow> string \<Rightarrow> 'f job_metrics \<Rightarrow> 'w \<Rightarrow> 'f job_metrics \<times> 'w" where
  "fetch_checkpoint_detail http base jobID m w =
     (case try_json http (base @ ''/jobs/'' @ jobID @ ''/checkpoints'') dec_checkpoint_stats w of
        (None, w1) \<Rightarrow> (m, w1)
      | (Some stats, w1) \<Rightarrow> (add_checkpoint_stats stats m, w1))"

subsection \<open>Vertices\<close>

record vertex_counters =
  vx_id :: string
  vx_detail :: vertex_detail
  vx_readRecords :: int
  vx_writeRecords :: int
  vx_readBytes :: int
  vx_writeBytes :: int

record job_detail =
  jd_jid :: string
  jd_name :: string
  jd_startTime :: int
  jd_duration :: int
  jd_maxParallelism :: int
  jd_vertices :: "vertex_counters list"

definition dec_vertex :: "vertex_counters decoder" where
  "dec_vertex = dec_object (\<lambda>fld.
     bind_dec (dec_string (fld ''id'')) (\<lambda>i. bind_dec (dec_string (fld ''name'')) (\<lambda>n.
     bind_dec (dec_int (fld ''parallelism'')) (\<lambda>p. bind_dec (dec_string (fld ''status'')) (\<lambda>s.
     bind_dec (dec_int (fld ''read-records'')) (\<lambda>rr. bind_dec (dec_int (fld ''write-records'')) (\<lambda>wr.
     bind_dec (dec_int (fld ''read-bytes'')) (\<lambda>rb. bind_dec (dec_int (fld ''write-bytes'')) (\<lambda>wb.
     Inr \<lparr>vx_id = i, vx_detail = \<lparr>vd_name = n, vd_parallelism = p, vd_status = s\<rparr>, vx_readRecords = rr,
       vx_writeRecords = wr, vx_readBytes = rb, vx_writeBytes = wb\<rparr>)))))))))"

definition dec_job_detail :: "job_detail decoder" where
  "dec_job_detail = dec_object (\<lambda>fld.
     bind_dec (dec_string (fld ''jid'')) (\<lambda>j. bind_dec (dec_string (fld ''name'')) (\<lambda>n.
     bind_dec (dec_int (fld ''start-time'')) (\<lambda>t. bind_dec (dec_int (fld ''duration'')) (\<lambda>d.
     bind_dec (dec_int (fld ''maxParallelism'')) (\<lambda>p. bind_dec (dec_list dec_vertex (fld ''vertices'')) (\<lambda>vs.
     Inr \<lparr>jd_jid = j, jd_name = n, jd_startTime = t, jd_duration = d, jd_maxParallelism = p, jd_vertices = vs\<rparr>)))))))"

text \<open>The nodes of the plan, as the Ververica platform reports them: records in and out, bytes in and out.\<close>

definition dec_plan :: "(int \<times> int \<times> int \<times> int) list decoder" where
  "dec_plan = dec_object (\<lambda>fld. dec_object (\<lambda>plan. dec_list (dec_object (\<lambda>n.
     bind_dec (dec_int (n ''numRecordsIn'')) (\<lambda>ri. bind_dec (dec_int (n ''numRecordsOut'')) (\<lambda>ro.
     bind_dec (dec_int (n ''numBytesIn'')) (\<lambda>bi. bind_dec (dec_int (n ''numBytesOut'')) (\<lambda>bo.
     Inr (ri, ro, bi, bo))))))) (plan ''nodes'')) (fld ''plan''))"

definition add_counters :: "int \<times> int \<times> int \<times> int \<Rightarrow> 'f job_metrics \<Rightarrow> 'f job_metrics" where
  "add_counters c m =
     (case c of (rr, wr, rb, wb) \<Rightarrow>
        m\<lparr>jm_readRecords := wrap64 (jm_readRecords m + rr), jm_writeRecords := wrap64 (jm_writeRecords m + wr),
          jm_readBytes := wrap64 (jm_readBytes m + rb), jm_writeBytes := wrap64 (jm_writeBytes m + wb)\<rparr>)"

definition add_vertex :: "vertex_counters \<Rightarrow> 'f job_metrics \<Rightarrow> 'f job_metrics" where
  "add_vertex v m =
     (let m1 = add_counters (vx_readRecords v, vx_writeRecords v, vx_readBytes v, vx_writeBytes v) m
      in m1\<lparr>jm_vertices := jm_vertices m1 @ [vx_detail v]\<rparr>)"

definition decode_vertex_throughput :: "string + json \<Rightarrow> 'f job_metrics \<Rightarrow> string list \<times> 'f job_metrics" where
  "decode_vertex_throughput body m0 =
     (case bind_dec body dec_job_detail of
        Inl e \<Rightarrow> ([], m0)
      | Inr d \<Rightarrow>
          (let m1 = (if jd_jid d \<noteq> '''' then m0\<lparr>jm_jobID := jd_jid d\<rparr> else m0);
               m2 = (if jd_name d \<noteq> '''' then m1\<lparr>jm_jobName := jd_name d\<rparr> else m1);
               m3 = (if 0 < jd_startTime d then m2\<lparr>jm_jobStartTime := jd_startTime d\<rparr> else m2);
               m4 = (if 0 < jd_duration d then m3\<lparr>jm_jobDurationMs := jd_duration d\<rparr> else m3);
               m5 = (if 0 < jd_maxParallelism d then m4\<lparr>jm_maxParallelism := jd_maxParallelism d\<rparr> else m4);
               m6 = fold add_vertex (jd_vertices d) m5;
               ids = filter (\<lambda>i. i \<noteq> '''') (map vx_id (jd_vertices d));
               m7 = (if jm_readRecords m6 = 0 \<and> jm_writeRecords m6 = 0
                     then (case bind_dec body dec_plan of Inl e \<Rightarrow> m6 | Inr nodes \<Rightarrow> fold add_counters nodes m6)
                     else m6)
           in (ids, m7)))"

subsection \<open>Rates\<close>

fun dec_float :: "'f floats \<Rightarrow> 'f decoder" where
  "dec_float fl JNull = Inr (fl_zero fl)"
| "dec_float fl (JNumber l) = (case fl_parse fl l of Some x \<Rightarrow> Inr x | None \<Rightarrow> Inl type_error)"
| "dec_float fl _ = Inl type_error"

definition dec_rate :: "'f floats \<Rightarrow> (string \<times> 'f) decoder" where
  "dec_rate fl = dec_object (\<lambda>fld.
     bind_dec (dec_string (fld ''id'')) (\<lambda>i. bind_dec (dec_float fl (fld ''sum'')) (\<lambda>x. Inr (i, x))))"

definition add_rate :: "'f floats \<Rightarrow> string \<times> 'f \<Rightarrow> 'f job_metrics \<Rightarrow> 'f job_metrics" where
  "add_rate fl item m =
     (case item of (i, x) \<Rightarrow>
        if i = ''numRecordsInPerSecond'' then m\<lparr>jm_recordsInPerSec := fl_add fl (jm_recordsInPerSec m) x\<rparr>
        else if i = ''numRecordsOutPerSecond'' then m\<lparr>jm_recordsOutPerSec := fl_add fl (jm_recordsOutPerSec m) x\<rparr>
        else if i = ''numBytesInPerSecond'' then m\<lparr>jm_bytesInPerSec := fl_add fl (jm_bytesInPerSec m) x\<rparr>
        else if i = ''numBytesOutPerSecond'' then m\<lparr>jm_bytesOutPerSec := fl_add fl (jm_bytesOutPerSec m) x\<rparr>
        else m)"

fun add_vertex_rates ::
  "'w http \<Rightarrow> 'f floats \<Rightarrow> string \<Rightarrow> string \<Rightarrow> string list \<Rightarrow> 'f job_metrics \<Rightarrow> 'w \<Rightarrow> 'f job_metrics \<times> 'w" where
  "add_vertex_rates http fl base jobID [] m w = (m, w)"
| "add_vertex_rates http fl base jobID (v # vs) m w =
     (case try_json http (base @ ''/jobs/'' @ jobID @ ''/vertices/'' @ v @ ''/subtasks/metrics?get='' @
             ''numRecordsInPerSecond,numRecordsOutPerSecond,numBytesInPerSecond,numBytesOutPerSecond'' @
             ''&agg=sum'') (dec_list (dec_rate fl)) w of
        (None, w1) \<Rightarrow> add_vertex_rates http fl base jobID vs m w1
      | (Some items, w1) \<Rightarrow> add_vertex_rates http fl base jobID vs (fold (add_rate fl) items m) w1)"

definition fetch_vertex_rates ::
  "'w http \<Rightarrow> 'f floats \<Rightarrow> (string list \<Rightarrow> string list) \<Rightarrow> string \<Rightarrow> string \<Rightarrow> string list \<Rightarrow> 'f job_metrics \<Rightarrow> 'w \<Rightarrow>
   'f job_metrics \<times> 'w" where
  "fetch_vertex_rates http fl order base jobID ids = add_vertex_rates http fl base jobID (order ids)"

subsection \<open>The method\<close>

definition http_job_metrics ::
  "'w http \<Rightarrow> 'f floats \<Rightarrow> (string list \<Rightarrow> string list) \<Rightarrow> ('w \<Rightarrow> int \<times> 'w) \<Rightarrow> string \<Rightarrow> 'w \<Rightarrow>
   (string + 'f job_metrics option) \<times> 'w" where
  "http_job_metrics http fl order clock base w =
     (case http_jobs http base w of
        (Inl e, w1) \<Rightarrow> (Inl (''list jobs: '' @ e), w1)
      | (Inr jobs, w1) \<Rightarrow>
          (let jobID = first_running jobs in
           if jobID = '''' then (Inr None, w1)
           else
             let (t, w2) = clock w1;
                 m0 = new_job_metrics fl (t div millisecond);
                 url = metrics_url base jobID
             in case http url w2 of
                  (BadRequest e, w3) \<Rightarrow> (Inl (''build metrics request: '' @ e), w3)
                | (TransportError e, w3) \<Rightarrow> (Inl (''GET '' @ url @ '': '' @ e), w3)
                | (HttpResponse status body, w3) \<Rightarrow>
                    (let m1 = (if status = 200
                         then (case bind_dec body (dec_list dec_id_value) of
                                 Inl e \<Rightarrow> m0 | Inr items \<Rightarrow> fold (job_metric fl) items m0)
                         else m0);
                         (m2, w4) = fetch_checkpoint_detail http base jobID m1 w3
                     in case http (base @ ''/jobs/'' @ jobID) w4 of
                          (HttpResponse status2 body2, w5) \<Rightarrow>
                            (let (ids, m3) = (if status2 = 200 then decode_vertex_throughput body2 m2 else ([], m2));
                                 (m4, w6) = (if ids \<noteq> [] then fetch_vertex_rates http fl order base jobID ids m3 w5
                                             else (m3, w5))
                             in (Inr (Some m4), w6))
                        | (_, w5) \<Rightarrow> (Inr (Some m2), w5))))"

end
