(* ===== verification/Flink_Proxy.thy ===== *)
theory Flink_Proxy
  imports Api_Read Job_Metrics
begin

section \<open>The API server: the Flink proxy\<close>

text \<open>
  The five handlers of \<^verbatim>\<open>handlers_flink.go\<close>: find the endpoint of the deployment, query it, answer.
\<close>

definition flink_query ::
  "'w ui_client \<Rightarrow> string \<Rightarrow> string \<Rightarrow> string \<Rightarrow> string \<Rightarrow> (string \<Rightarrow> 'w \<Rightarrow> (string + 'a) \<times> 'w) \<Rightarrow> 'w \<Rightarrow> 'a answer \<times> 'w" where
  "flink_query u configured ns name what query w =
     (case resolve_flink_client u configured ns name w of
        (Inl e, w1) \<Rightarrow> (Inl (503, ''flink endpoint not available''), w1)
      | (Inr base, w1) \<Rightarrow>
          (case query base w1 of
             (Inl e, w2) \<Rightarrow> (Inl (502, ''failed to query Flink '' @ what), w2)
           | (Inr x, w2) \<Rightarrow> (Inr x, w2)))"

definition flink_jobs_handler ::
  "'w http \<Rightarrow> 'w ui_client \<Rightarrow> string \<Rightarrow> string \<Rightarrow> string \<Rightarrow> 'w \<Rightarrow> flink_job list answer \<times> 'w" where
  "flink_jobs_handler http u configured ns name = flink_query u configured ns name ''jobs'' (http_jobs http)"

definition flink_task_managers_handler ::
  "'w http \<Rightarrow> 'w ui_client \<Rightarrow> string \<Rightarrow> string \<Rightarrow> string \<Rightarrow> 'w \<Rightarrow> int answer \<times> 'w" where
  "flink_task_managers_handler http u configured ns name =
     flink_query u configured ns name ''TaskManagers'' (http_task_managers http)"

definition flink_checkpoints_handler ::
  "'w http \<Rightarrow> 'w ui_client \<Rightarrow> string \<Rightarrow> string \<Rightarrow> string \<Rightarrow> 'w \<Rightarrow> checkpoint_detail option option answer \<times> 'w" where
  "flink_checkpoints_handler http u configured ns name =
     flink_query u configured ns name ''checkpoints'' (http_checkpoints http)"

definition flink_job_metrics_handler ::
  "'w http \<Rightarrow> 'f floats \<Rightarrow> (string list \<Rightarrow> string list) \<Rightarrow> ('w \<Rightarrow> int \<times> 'w) \<Rightarrow> 'w ui_client \<Rightarrow>
   string \<Rightarrow> string \<Rightarrow> string \<Rightarrow> 'w \<Rightarrow> 'f job_metrics option answer \<times> 'w" where
  "flink_job_metrics_handler http fl order clock u configured ns name =
     flink_query u configured ns name ''job metrics'' (http_job_metrics http fl order clock)"

definition flink_tm_metrics_handler ::
  "'w http \<Rightarrow> 'f floats \<Rightarrow> 'w ui_client \<Rightarrow> string \<Rightarrow> string \<Rightarrow> string \<Rightarrow> 'w \<Rightarrow> 'f tm_metrics list answer \<times> 'w" where
  "flink_tm_metrics_handler http fl u configured ns name =
     flink_query u configured ns name ''TM metrics'' (http_task_manager_metrics http fl)"

end
