(* ===== verification/Api_Server.thy ===== *)
theory Api_Server
  imports Go_Mux Event_Stream Topology Flink_Proxy Api_Write
begin

section \<open>The API server as a whole\<close>

text \<open>
  \<^verbatim>\<open>internal/apiserver/server.go\<close>: the routes with their handlers, the CORS middleware around the
  router and the settings of the HTTP server; and \<^verbatim>\<open>respond.go\<close>. A request is what the handlers
  read of it: method, escaped path, query, decoded body, and for the event stream the value
  \<^verbatim>\<open>sseActiveConnections\<close> has when it arrives, the ticks of its connection and the writer of its
  response. Of a reply, status, the headers the source sets and the value before encoding are kept; of
  the router's own replies only the status.
\<close>

subsection \<open>Requests, replies and the configuration\<close>

record 'w request =
  rq_method :: string
  rq_path :: string
  rq_query :: "string \<Rightarrow> string"
  rq_body :: "string + create_request"
  rq_active :: int
  rq_ticks :: "sse_tick list"
  rq_send :: "sse_event \<Rightarrow> 'w \<Rightarrow> bool \<times> 'w"

datatype 'f payload =
    NoBody
  | ErrorJson string
  | DeploymentsJson "deployment_info list"
  | TopologyJson topology
  | RunsJson "run_summary list"
  | RunJson run_detail
  | CreatedJson string string
  | JobsJson "flink_job list"
  | TaskManagersJson int
  | CheckpointsJson "checkpoint_detail option option"
  | JobMetricsJson "'f job_metrics option"
  | TmMetricsJson "'f tm_metrics list"
  | EventStreamBody
  | FileBody string

record 'f reply =
  rp_status :: nat
  rp_headers :: string_map
  rp_payload :: "'f payload"

text \<open>
  The \<^verbatim>\<open>Config\<close>; the client is the run store, the reads of the UI and the HTTP transport to Flink.
  \<open>ac_static\<close> is the file server over the embedded files, if any: the status for a method and path.
\<close>

record ('w, 'f) api_config =
  ac_store :: "'w run_store"
  ac_client :: "'w ui_client"
  ac_http :: "'w http"
  ac_floats :: "'f floats"
  ac_order :: "string list \<Rightarrow> string list"
  ac_clock :: "'w \<Rightarrow> int \<times> 'w"
  ac_namespace :: string
  ac_endpoint :: string
  ac_port :: int
  ac_static :: "(string \<Rightarrow> string \<Rightarrow> nat) option"

type_synonym ('w, 'f) api_handler = "string list \<Rightarrow> 'w request \<Rightarrow> 'w \<Rightarrow> 'f reply \<times> 'w"

subsection \<open>Writing a response\<close>

definition write_json :: "nat \<Rightarrow> 'f payload \<Rightarrow> 'f reply" where
  "write_json status v = \<lparr>rp_status = status, rp_headers = [(''Content-Type'', ''application/json'')], rp_payload = v\<rparr>"

definition write_error :: "nat \<Rightarrow> string \<Rightarrow> 'f reply" where
  "write_error status msg = write_json status (ErrorJson msg)"

definition write_header :: "nat \<Rightarrow> 'f reply" where
  "write_header status = \<lparr>rp_status = status, rp_headers = [], rp_payload = NoBody\<rparr>"

definition answer_json :: "('a \<Rightarrow> 'f payload) \<Rightarrow> 'a answer \<times> 'w \<Rightarrow> 'f reply \<times> 'w" where
  "answer_json f r =
     (case r of (Inl (status, msg), w) \<Rightarrow> (write_error status msg, w) | (Inr x, w) \<Rightarrow> (write_json 200 (f x), w))"

definition response_json :: "http_response \<times> 'w \<Rightarrow> 'f reply \<times> 'w" where
  "response_json r =
     (case r of
        (HttpError status msg, w) \<Rightarrow> (write_error status msg, w)
      | (HttpCreated name ns, w) \<Rightarrow> (write_json 201 (CreatedJson name ns), w)
      | (HttpNoContent, w) \<Rightarrow> (write_header 204, w))"

definition sse_handler :: "('w, 'f) api_config \<Rightarrow> 'w request \<Rightarrow> 'w \<Rightarrow> 'f reply \<times> 'w" where
  "sse_handler cfg rq w =
     (if sse_max_connections < wrap32 (rq_active rq + 1) then (write_error 429 ''too many SSE connections'', w)
      else (\<lparr>rp_status = 200,
             rp_headers = [(''Content-Type'', ''text/event-stream''), (''Cache-Control'', ''no-cache''),
               (''Connection'', ''keep-alive''), (''X-Accel-Buffering'', ''no'')],
             rp_payload = EventStreamBody\<rparr>,
            sse_stream (ac_store cfg) (ac_namespace cfg) (rq_send rq) (rq_ticks rq) w))"

definition static_handler :: "(string \<Rightarrow> string \<Rightarrow> nat) \<Rightarrow> ('w, 'f) api_handler" where
  "static_handler fs = (\<lambda>_ rq w.
     (\<lparr>rp_status = fs (rq_method rq) (rq_path rq), rp_headers = [], rp_payload = FileBody (rq_path rq)\<rparr>, w))"

subsection \<open>The routes\<close>

definition api_routes :: "('w, 'f) api_config \<Rightarrow> (string \<times> ('w, 'f) api_handler) list" where
  "api_routes cfg =
     (let st = ac_store cfg; u = ac_client cfg; ns = ac_namespace cfg; ep = ac_endpoint cfg; http = ac_http cfg;
          job = (\<lambda>rq. rq_query rq ''deploymentName'');
          path_name = (\<lambda>vals. case vals of [] \<Rightarrow> '''' | v # _ \<Rightarrow> v)
      in [(''GET /healthz'', \<lambda>_ rq w. (write_header 200, w)),
          (''GET /api/deployments'', \<lambda>_ rq w. answer_json DeploymentsJson (list_deployments_handler u ns w)),
          (''GET /api/topology'', \<lambda>_ rq w. answer_json TopologyJson (topology_handler st u ns (job rq) w)),
          (''GET /api/chaosruns'', \<lambda>_ rq w. answer_json RunsJson (list_chaos_runs_handler st ns (job rq) w)),
          (''GET /api/chaosruns/{name}'',
             \<lambda>vals rq w. answer_json RunJson (get_chaos_run_handler st ns (path_name vals) w)),
          (''POST /api/chaosruns'', \<lambda>_ rq w. response_json (create_chaos_run_handler st ns (rq_body rq) w)),
          (''PATCH /api/chaosruns/{name}/abort'',
             \<lambda>vals rq w. response_json (abort_chaos_run_handler st ns (path_name vals) w)),
          (''DELETE /api/chaosruns/{name}'',
             \<lambda>vals rq w. response_json (delete_chaos_run_handler st ns (path_name vals) w)),
          (''GET /api/flink/jobs'', \<lambda>_ rq w. answer_json JobsJson (flink_jobs_handler http u ep ns (job rq) w)),
          (''GET /api/flink/taskmanagers'',
             \<lambda>_ rq w. answer_json TaskManagersJson (flink_task_managers_handler http u ep ns (job rq) w)),
          (''GET /api/flink/checkpoints'',
             \<lambda>_ rq w. answer_json CheckpointsJson (flink_checkpoints_handler http u ep ns (job rq) w)),
          (''GET /api/flink/jobmetrics'', \<lambda>_ rq w. answer_json JobMetricsJson
             (flink_job_metrics_handler http (ac_floats cfg) (ac_order cfg) (ac_clock cfg) u ep ns (job rq) w)),
          (''GET /api/flink/tmmetrics'', \<lambda>_ rq w. answer_json TmMetricsJson
             (flink_tm_metrics_handler http (ac_floats cfg) u ep ns (job rq) w)),
          (''GET /api/events'', \<lambda>_ rq w. sse_handler cfg rq w)] @
         (case ac_static cfg of None \<Rightarrow> [] | Some fs \<Rightarrow> [(''/'', static_handler fs)]))"

definition mux_serve :: "(string \<times> ('w, 'f) api_handler) list \<Rightarrow> 'w request \<Rightarrow> 'w \<Rightarrow> 'f reply \<times> 'w" where
  "mux_serve routes rq w =
     (case mux_find (map (\<lambda>(p, h). (parse_pattern p, h)) routes) (rq_method rq) (rq_path rq) of
        Redirect p \<Rightarrow> (\<lparr>rp_status = 301, rp_headers = [], rp_payload = NoBody\<rparr>, w)
      | NoSuchPath \<Rightarrow> (\<lparr>rp_status = 404, rp_headers = [], rp_payload = NoBody\<rparr>, w)
      | MethodNotAllowed \<Rightarrow> (\<lparr>rp_status = 405, rp_headers = [], rp_payload = NoBody\<rparr>, w)
      | Handled h vals \<Rightarrow> h vals rq w)"

subsection \<open>The server\<close>

definition cors_headers :: string_map where
  "cors_headers = [(''Access-Control-Allow-Origin'', ''*''),
     (''Access-Control-Allow-Methods'', ''GET, POST, PATCH, DELETE, OPTIONS''),
     (''Access-Control-Allow-Headers'', ''Content-Type, Authorization'')]"

definition cors_middleware :: "('w request \<Rightarrow> 'w \<Rightarrow> 'f reply \<times> 'w) \<Rightarrow> 'w request \<Rightarrow> 'w \<Rightarrow> 'f reply \<times> 'w" where
  "cors_middleware next_handler rq w =
     (let (r, w1) = (if rq_method rq = ''OPTIONS'' then (write_header 204, w) else next_handler rq w)
      in (r\<lparr>rp_headers := cors_headers @ rp_headers r\<rparr>, w1))"

record ('w, 'f) http_server =
  hs_addr :: string
  hs_handler :: "'w request \<Rightarrow> 'w \<Rightarrow> 'f reply \<times> 'w"
  hs_readTimeout :: int
  hs_writeTimeout :: int
  hs_idleTimeout :: int

definition new_server :: "('w, 'f) api_config \<Rightarrow> ('w, 'f) http_server" where
  "new_server cfg = \<lparr>hs_addr = '':'' @ fmt_d (ac_port cfg), hs_handler = cors_middleware (mux_serve (api_routes cfg)),
     hs_readTimeout = 15 * second, hs_writeTimeout = 0, hs_idleTimeout = 60 * second\<rparr>"

abbreviation serve :: "('w, 'f) api_config \<Rightarrow> 'w request \<Rightarrow> 'w \<Rightarrow> 'f reply \<times> 'w" where
  "serve cfg \<equiv> hs_handler (new_server cfg)"

subsection \<open>The table of patterns\<close>

abbreviation api_table :: "('w, 'f) api_config \<Rightarrow> (pattern \<times> ('w, 'f) api_handler) list" where
  "api_table cfg \<equiv> map (\<lambda>(p, h). (parse_pattern p, h)) (api_routes cfg)"

text \<open>The patterns of the routes, parsed.\<close>

lemma parsed_routes [simp]:
  "parse_pattern ''GET /healthz'' = \<lparr>pt_method = ''GET'', pt_segments = [Literal ''healthz'']\<rparr>"
  "parse_pattern ''GET /api/deployments'' = \<lparr>pt_method = ''GET'', pt_segments = [Literal ''api'', Literal ''deployments'']\<rparr>"
  "parse_pattern ''GET /api/topology'' = \<lparr>pt_method = ''GET'', pt_segments = [Literal ''api'', Literal ''topology'']\<rparr>"
  "parse_pattern ''GET /api/chaosruns'' = \<lparr>pt_method = ''GET'', pt_segments = [Literal ''api'', Literal ''chaosruns'']\<rparr>"
  "parse_pattern ''GET /api/chaosruns/{name}'' =
     \<lparr>pt_method = ''GET'', pt_segments = [Literal ''api'', Literal ''chaosruns'', Wildcard ''name'']\<rparr>"
  "parse_pattern ''POST /api/chaosruns'' = \<lparr>pt_method = ''POST'', pt_segments = [Literal ''api'', Literal ''chaosruns'']\<rparr>"
  "parse_pattern ''PATCH /api/chaosruns/{name}/abort'' =
     \<lparr>pt_method = ''PATCH'', pt_segments = [Literal ''api'', Literal ''chaosruns'', Wildcard ''name'', Literal ''abort'']\<rparr>"
  "parse_pattern ''DELETE /api/chaosruns/{name}'' =
     \<lparr>pt_method = ''DELETE'', pt_segments = [Literal ''api'', Literal ''chaosruns'', Wildcard ''name'']\<rparr>"
  "parse_pattern ''GET /api/flink/jobs'' = \<lparr>pt_method = ''GET'', pt_segments = [Literal ''api'', Literal ''flink'', Literal ''jobs'']\<rparr>"
  "parse_pattern ''GET /api/flink/taskmanagers'' =
     \<lparr>pt_method = ''GET'', pt_segments = [Literal ''api'', Literal ''flink'', Literal ''taskmanagers'']\<rparr>"
  "parse_pattern ''GET /api/flink/checkpoints'' =
     \<lparr>pt_method = ''GET'', pt_segments = [Literal ''api'', Literal ''flink'', Literal ''checkpoints'']\<rparr>"
  "parse_pattern ''GET /api/flink/jobmetrics'' =
     \<lparr>pt_method = ''GET'', pt_segments = [Literal ''api'', Literal ''flink'', Literal ''jobmetrics'']\<rparr>"
  "parse_pattern ''GET /api/flink/tmmetrics'' =
     \<lparr>pt_method = ''GET'', pt_segments = [Literal ''api'', Literal ''flink'', Literal ''tmmetrics'']\<rparr>"
  "parse_pattern ''GET /api/events'' = \<lparr>pt_method = ''GET'', pt_segments = [Literal ''api'', Literal ''events'']\<rparr>"
  "parse_pattern ''/'' = \<lparr>pt_method = '''', pt_segments = [Subtree]\<rparr>"
  by code_simp+

text \<open>Replies of the read handlers depend on what the store reads only.\<close>

definition reads_alike :: "'w run_store \<Rightarrow> 'w run_store \<Rightarrow> bool" where
  "reads_alike st st' \<longleftrightarrow> rs_get st = rs_get st' \<and> rs_list st = rs_list st'"

lemma sse_alike:
  assumes "reads_alike st st'"
  shows "sse_stream st ns send ticks w = sse_stream st' ns send ticks w"
proof -
  have "sse_poll st ns = sse_poll st' ns"
    using assms by (intro ext) (simp add: sse_poll_def reads_alike_def)
  then have "sse_step st ns = sse_step st' ns"
    by (intro ext) (simp add: sse_step_def cong: sse_tick.case_cong)
  then have "sse_loop st ns send ts snap u = sse_loop st' ns send ts snap u" for ts snap u
    by (induction ts arbitrary: snap u) (auto split: prod.splits bool.splits)
  then show ?thesis unfolding sse_stream_def by (simp cong: if_cong split: prod.split)
qed

lemma reads_alike_handlers:
  assumes "reads_alike st st'"
  shows "list_chaos_runs_handler st ns n w = list_chaos_runs_handler st' ns n w"
    and "get_chaos_run_handler st ns n w = get_chaos_run_handler st' ns n w"
    and "topology_handler st u ns n w = topology_handler st' u ns n w"
proof -
  have active: "list_active_chaos_runs st ns = list_active_chaos_runs st' ns"
    using assms by (intro ext) (simp add: list_active_chaos_runs_def reads_alike_def)
  show "topology_handler st u ns n w = topology_handler st' u ns n w"
    unfolding topology_handler_def active ..
qed (use assms in \<open>simp_all add: list_chaos_runs_handler_def get_chaos_run_handler_def reads_alike_def\<close>)

lemma routes_agree:
  assumes "reads_alike (ac_store cfg) st"
  shows "agree_on (- {''POST'', ''PATCH'', ''DELETE''}) (api_table cfg) (api_table (cfg\<lparr>ac_store := st\<rparr>))"
  using reads_alike_handlers [OF assms] sse_alike [OF assms]
  by (cases "ac_static cfg") (simp_all add: agree_on_def api_routes_def Let_def sse_handler_def cong: if_cong)

subsection \<open>The paths of one run\<close>

definition plain_name :: "string \<Rightarrow> bool" where
  "plain_name n \<longleftrightarrow> n \<noteq> '''' \<and> n \<noteq> ''.'' \<and> n \<noteq> ''..'' \<and> CHR ''/'' \<notin> set n \<and> CHR ''%'' \<notin> set n"

definition run_path :: "string \<Rightarrow> string" where
  "run_path n = ''/api/chaosruns/'' @ n"

lemma split_run_path:
  assumes "CHR ''/'' \<notin> set n"
  shows "split_char (CHR ''/'') (run_path n) = ['''', ''api'', ''chaosruns'', n]"
    and "split_char (CHR ''/'') (run_path n @ ''/abort'') = ['''', ''api'', ''chaosruns'', n, ''abort'']"
  using split_char_plain [OF assms] split_char_cons [OF assms, of "''abort''"] by (simp_all add: run_path_def)

lemma run_path_routing:
  assumes "plain_name n"
  shows "clean_path (run_path n) = run_path n" "path_segments (run_path n) = [''api'', ''chaosruns'', n]"
    and "clean_path (run_path n @ ''/abort'') = run_path n @ ''/abort''"
      "path_segments (run_path n @ ''/abort'') = [''api'', ''chaosruns'', n, ''abort'']"
proof -
  have n: "n \<noteq> ''''" "n \<noteq> ''.''" "n \<noteq> ''..''" "CHR ''/'' \<notin> set n" "CHR ''%'' \<notin> set n"
    using assms by (simp_all add: plain_name_def)
  have l: "last (run_path n) \<noteq> CHR ''/''" using n(1,4) last_in_set [OF n(1)] by (metis last_append run_path_def)
  show "clean_path (run_path n) = run_path n"
    using n l split_run_path [OF n(4)] by (simp add: clean_path_def Let_def) (simp add: run_path_def)
  show "clean_path (run_path n @ ''/abort'') = run_path n @ ''/abort''"
    using n split_run_path [OF n(4)] by (simp add: clean_path_def Let_def) (simp add: run_path_def)
  show "path_segments (run_path n) = [''api'', ''chaosruns'', n]"
    "path_segments (run_path n @ ''/abort'') = [''api'', ''chaosruns'', n, ''abort'']"
    using n split_run_path [OF n(4)] by (simp_all add: path_segments_def Let_def path_unescape_plain)
qed

lemma valid_name_plain:
  assumes "valid_k8s_name n"
  shows "plain_name n"
proof -
  have c: "name_char c \<or> c = CHR ''-''" if "c \<in> set n" for c
  proof (cases n)
    case (Cons a cs)
    show ?thesis
    proof (cases cs)
      case (Cons b ds)
      with assms \<open>n = a # cs\<close> have v: "name_char a" "name_char (last cs)"
        "list_all (\<lambda>d. name_char d \<or> d = CHR ''-'') (butlast cs)"
        by (auto simp: valid_k8s_name_def split: list.splits)
      have "cs = butlast cs @ [last cs]" using Cons by simp
      then have "c \<in> set (butlast cs) \<or> c = last cs" if "c \<in> set cs"
        using that by (metis Un_iff empty_iff insert_iff list.set set_append)
      with v that \<open>n = a # cs\<close> show ?thesis by (force simp: list_all_iff)
    qed (use assms that \<open>n = a # cs\<close> in \<open>simp add: valid_k8s_name_def\<close>)
  qed (use that in simp)
  have "\<not> name_char (CHR ''/'')" "\<not> name_char (CHR ''%'')" "\<not> name_char (CHR ''.'')" by code_simp+
  with c [of "CHR ''/''"] c [of "CHR ''%''"] c [of "CHR ''.''"]
  have "CHR ''/'' \<notin> set n" "CHR ''%'' \<notin> set n" "CHR ''.'' \<notin> set n" by auto
  then show ?thesis using assms by (auto simp: plain_name_def valid_k8s_name_def)
qed

lemma find_run_path:
  assumes "plain_name n"
  shows "mux_find t m (run_path n) =
      (case mux_match m [''api'', ''chaosruns'', n] t of Some (h, vals) \<Rightarrow> Handled h vals
       | None \<Rightarrow> if path_known [''api'', ''chaosruns'', n] t then MethodNotAllowed else NoSuchPath)"
    and "mux_find t m (run_path n @ ''/abort'') =
      (case mux_match m [''api'', ''chaosruns'', n, ''abort''] t of Some (h, vals) \<Rightarrow> Handled h vals
       | None \<Rightarrow> if path_known [''api'', ''chaosruns'', n, ''abort''] t then MethodNotAllowed else NoSuchPath)"
  unfolding mux_find_def run_path_routing [OF assms] Let_def
  by (simp_all add: run_path_routing [OF assms])

lemma abort_route:
  assumes "plain_name n" and "rq_method rq = ''PATCH''" and "rq_path rq = run_path n @ ''/abort''"
  shows "mux_serve (api_routes cfg) rq w =
    response_json (abort_chaos_run_handler (ac_store cfg) (ac_namespace cfg) n w)"
proof -
  have "n \<noteq> ''/''" using assms(1) by (auto simp: plain_name_def)
  with assms show ?thesis
    by (simp add: mux_serve_def find_run_path api_routes_def Let_def mux_match_def)
qed

lemma delete_route:
  assumes "plain_name n" and "rq_method rq = ''DELETE''" and "rq_path rq = run_path n"
  shows "mux_serve (api_routes cfg) rq w =
    response_json (delete_chaos_run_handler (ac_store cfg) (ac_namespace cfg) n w)"
proof -
  have "n \<noteq> ''/''" using assms(1) by (auto simp: plain_name_def)
  with assms show ?thesis
    by (simp add: mux_serve_def find_run_path api_routes_def Let_def mux_match_def)
qed

subsection \<open>Properties\<close>

text \<open>
  C20. Only POST, PATCH and DELETE requests can change a run: the server's reply to every other
  request, and the world it leaves, are the same whatever the client's create, update, patch and
  delete do.
\<close>

theorem read_requests_change_no_run:
  assumes "rq_method rq \<notin> {''POST'', ''PATCH'', ''DELETE''}"
    and "rs_get st = rs_get (ac_store cfg)" and "rs_list st = rs_list (ac_store cfg)"
  shows "serve (cfg\<lparr>ac_store := st\<rparr>) rq w = serve cfg rq w"
proof -
  have "agree_on (- {''POST'', ''PATCH'', ''DELETE''}) (api_table cfg) (api_table (cfg\<lparr>ac_store := st\<rparr>))"
    by (rule routes_agree) (simp add: reads_alike_def assms(2,3))
  from mux_find_agree [OF this, of "rq_method rq" "rq_path rq"] assms(1)
  show ?thesis by (simp add: new_server_def cors_middleware_def mux_serve_def)
qed

text \<open>A server over a store that refuses every write, and one over a store that counts its deletions.\<close>

definition demo_config :: "nat run_store \<Rightarrow> (nat, int) api_config" where
  "demo_config st = \<lparr>ac_store = st,
     ac_client = \<lparr>u_list_pods = (\<lambda>_ _ w. (Inr [], w)), u_get_pod = (\<lambda>_ n w. (Inl (NotFound n), w)),
       u_jm_services = (\<lambda>_ w. (Inr [], w)), u_services = (\<lambda>_ w. (Inr [], w)),
       u_config_map = (\<lambda>_ n w. (Inl (NotFound n), w)), u_flink_deployments = (\<lambda>_ w. (Inr [], w))\<rparr>,
     ac_http = (\<lambda>_ w. (TransportError ''refused'', w)),
     ac_floats = \<lparr>fl_zero = 0, fl_unavailable = -1, fl_scan = (\<lambda>_. None), fl_parse = (\<lambda>_. None), fl_add = (+)\<rparr>,
     ac_order = id, ac_clock = (\<lambda>w. (0, w)), ac_namespace = ''flink'', ac_endpoint = '''', ac_port = 8090,
     ac_static = None\<rparr>"

definition counting_store :: "bool \<Rightarrow> nat run_store" where
  "counting_store ok = \<lparr>rs_create = (\<lambda>_ r w. if ok then (Inr r, Suc w) else (Inl (OtherApi ''forbidden''), w)),
     rs_get = (\<lambda>_ _ w. (Inr (demo_run Observing), w)), rs_list = (\<lambda>_ w. (Inr [demo_run Observing], w)),
     rs_update = (\<lambda>_ w. if ok then (None, Suc w) else (Some (OtherApi ''forbidden''), w)),
     rs_patch = (\<lambda>_ _ w. if ok then (None, Suc w) else (Some (OtherApi ''forbidden''), w)),
     rs_delete = (\<lambda>_ w. if ok then (None, Suc w) else (Some (OtherApi ''forbidden''), w))\<rparr>"

definition demo_http_request :: "string \<Rightarrow> string \<Rightarrow> nat request" where
  "demo_http_request m p = \<lparr>rq_method = m, rq_path = p, rq_query = (\<lambda>_. ''''), rq_body = Inl ''EOF'', rq_active = 0,
     rq_ticks = [], rq_send = (\<lambda>_ w. (False, w))\<rparr>"

theorem read_requests_change_no_run_witness:
  "serve (demo_config (counting_store True)) (demo_http_request ''GET'' (run_path ''kill-one'')) 0 =
     serve (demo_config (counting_store False)) (demo_http_request ''GET'' (run_path ''kill-one'')) 0 \<and>
   rp_status (fst (serve (demo_config (counting_store False)) (demo_http_request ''GET'' (run_path ''kill-one'')) 0)) = 200"
proof -
  have v: "valid_k8s_name ''kill-one''" by code_simp
  have "rp_status (fst (serve (demo_config (counting_store False)) (demo_http_request ''GET'' (run_path ''kill-one'')) 0)) = 200"
    using valid_name_plain [OF v] v
    by (simp add: new_server_def cors_middleware_def mux_serve_def find_run_path api_routes_def Let_def mux_match_def
        demo_http_request_def demo_config_def get_chaos_run_handler_def counting_store_def answer_json_def write_json_def)
  then show ?thesis
    using read_requests_change_no_run [of "demo_http_request ''GET'' (run_path ''kill-one'')" "counting_store True"
        "demo_config (counting_store False)" 0]
    by (simp add: demo_http_request_def counting_store_def demo_config_def)
qed

text \<open>
  Every reply of the server allows every origin, the methods the routes use and the headers of a
  JSON request; a preflight request is answered with 204, whatever its path, and reaches no handler.
\<close>

theorem every_reply_allows_origins:
  "\<exists>rest. rp_headers (fst (serve cfg rq w)) =
     [(''Access-Control-Allow-Origin'', ''*''), (''Access-Control-Allow-Methods'', ''GET, POST, PATCH, DELETE, OPTIONS''),
      (''Access-Control-Allow-Headers'', ''Content-Type, Authorization'')] @ rest \<and>
   (if rq_method rq = ''OPTIONS'' then rest = [] \<and> rp_status (fst (serve cfg rq w)) = 204 \<and> snd (serve cfg rq w) = w
    else \<exists>r. mux_serve (api_routes cfg) rq w = (r, snd (serve cfg rq w)) \<and> rest = rp_headers r \<and>
      rp_status (fst (serve cfg rq w)) = rp_status r)"
  by (cases "mux_serve (api_routes cfg) rq w")
    (auto simp: new_server_def cors_middleware_def cors_headers_def write_header_def)

text \<open>
  The name a handler reads from the path is never empty and never a slash, whatever the request:
  the replies of the three handlers of a named run to an empty name are dead code.
\<close>

theorem path_names_never_empty:
  assumes "mux_find (api_table cfg) m p = Handled h vals" and "v \<in> set vals"
  shows "v \<noteq> '''' \<and> v \<noteq> ''/''"
proof -
  from assms(1) obtain q where q: "q = (if m = ''CONNECT'' then p else clean_path p)" "q = p"
    and f: "mux_match m (path_segments p) (api_table cfg) = Some (h, vals)"
    by (auto simp: mux_find_def Let_def split: if_splits option.splits prod.splits)
  from mux_match_Some [OF f] obtain pat where pat: "(pat, h) \<in> set (api_table cfg)"
    "pt_method pat = m \<or> (m = ''HEAD'' \<and> pt_method pat = ''GET'') \<or> pt_method pat = ''''"
    "match_segments (pt_segments pat) (path_segments p) = Some vals" by blast
  have slash: "v \<noteq> ''/''" using match_segments_wild [OF pat(3)] assms(2) by blast
  have "pt_method pat = ''''" "pt_segments pat = [Subtree]" if "m = ''CONNECT''"
    using pat(1,2) that by (auto simp: api_routes_def Let_def split: option.splits)
  with pat(3) assms(2) have "m \<noteq> ''CONNECT''" by (cases "path_segments p") auto
  with q have "clean_path p = p" by simp
  moreover from this have "p \<noteq> ''''" by (auto simp: clean_path_def)
  ultimately have "'''' \<notin> set (path_segments p)" by (rule clean_path_segments)
  with slash match_segments_values [OF pat(3)] assms(2) show ?thesis by blast
qed

theorem path_names_never_empty_witness:
  "\<exists>h. mux_find (api_table (demo_config (counting_store True))) ''GET'' ''/api/chaosruns/a%2Fb'' = Handled h [''a/b''] \<and>
     ''a/b'' \<noteq> '''' \<and> ''a/b'' \<noteq> ''/''"
proof -
  let ?f = "mux_find (api_table (demo_config (counting_store True))) ''GET'' ''/api/chaosruns/a%2Fb''"
  have s: "clean_path ''/api/chaosruns/a%2Fb'' = ''/api/chaosruns/a%2Fb''"
    "path_segments ''/api/chaosruns/a%2Fb'' = [''api'', ''chaosruns'', ''a/b'']" by code_simp+
  have "\<exists>h. ?f = Handled h [''a/b'']"
    by (simp add: mux_find_def Let_def s mux_match_def api_routes_def)
  then obtain h where f: "?f = Handled h [''a/b'']" ..
  from path_names_never_empty [OF this, of "''a/b''"] f show ?thesis by simp
qed

text \<open>
  A request for the path of a run by a method that no route has there is refused with 405 by a
  server without files; where the frontend's files are embedded their handler, registered for every
  path and method, answers it instead. The world stays as it is.
\<close>

theorem unrouted_method:
  assumes "plain_name n" and "rq_path rq = run_path n"
    and "rq_method rq \<notin> {''GET'', ''HEAD'', ''DELETE'', ''OPTIONS''}"
  shows "rp_status (fst (serve cfg rq w)) =
      (case ac_static cfg of None \<Rightarrow> 405 | Some fs \<Rightarrow> fs (rq_method rq) (run_path n)) \<and>
    snd (serve cfg rq w) = w"
proof -
  have n: "n \<noteq> ''/''" using assms(1) by (auto simp: plain_name_def)
  have "''GET'' \<noteq> rq_method rq" "''HEAD'' \<noteq> rq_method rq" "''DELETE'' \<noteq> rq_method rq" using assms(3) by auto
  then show ?thesis
    using assms n
    by (cases "ac_static cfg")
      (simp_all add: new_server_def cors_middleware_def mux_serve_def find_run_path api_routes_def Let_def mux_match_def
        path_known_def static_handler_def)
qed

theorem unrouted_method_witness:
  "rp_status (fst (serve (demo_config (counting_store True)) (demo_http_request ''PUT'' (run_path ''kill-one'')) 0)) = 405"
proof -
  have "plain_name ''kill-one''" by code_simp
  from unrouted_method [OF this, of "demo_http_request ''PUT'' (run_path ''kill-one'')" "demo_config (counting_store True)" 0]
  show ?thesis by (simp add: demo_http_request_def demo_config_def)
qed

end
