(* ===== verification/Cli.thy ===== *)
theory Cli
  imports Run_Store Go_Text Demo_World "HOL-Library.AList"
begin

section \<open>The kubectl plugin\<close>

text \<open>
  \<^verbatim>\<open>cmd/kubectl-fchaos\<close>: the target flags, the checks of \<^verbatim>\<open>validate.go\<close> and the commands that create
  a ChaosRun or stop one. A command answers with an error or with the line it prints. Parameters,
  in the record \<open>cli_env\<close>: \<^verbatim>\<open>labels.Parse\<close> of apimachinery, the construction of the client from
  the kubeconfig, and the clock. Command-line parsing by cobra is not modelled: a command takes the
  values of its flags as a record, and the defaults of the flags are values of these records.
\<close>

subsection \<open>Checks of flag values\<close>

definition valid_network_targets :: "string list" where
  "valid_network_targets = [''TMtoTM'', ''TMtoJM'', ''TMtoCheckpoint'', ''TMtoExternal'']"

definition valid_network_directions :: "string list" where
  "valid_network_directions = [''Ingress'', ''Egress'', ''Both'']"

definition validate_network_target :: "string \<Rightarrow> string option" where
  "validate_network_target s =
     (if list_ex (equal_fold s) valid_network_targets then None
      else Some (''invalid --network-target '' @ fmt_q s @ ''; valid values: '' @ join '', '' valid_network_targets))"

definition validate_network_direction :: "string \<Rightarrow> string option" where
  "validate_network_direction s =
     (if list_ex (equal_fold s) valid_network_directions then None
      else Some (''invalid --direction '' @ fmt_q s @ ''; valid values: '' @ join '', '' valid_network_directions))"

definition normalise_network_target :: "string \<Rightarrow> string" where
  "normalise_network_target s = (case find (equal_fold s) valid_network_targets of Some v \<Rightarrow> v | None \<Rightarrow> s)"

definition normalise_network_direction :: "string \<Rightarrow> string" where
  "normalise_network_direction s = (case find (equal_fold s) valid_network_directions of Some v \<Rightarrow> v | None \<Rightarrow> s)"

definition validate_resource_exhaustion_mode :: "string \<Rightarrow> string option" where
  "validate_resource_exhaustion_mode m =
     (case exhaustion_of_string m of
        CPU \<Rightarrow> None
      | Memory \<Rightarrow> None
      | OtherExhaustion _ \<Rightarrow>
          Some (''resourceExhaustion mode '' @ fmt_q m @ '' is not supported; must be CPU or Memory''))"

subsection \<open>Selectors\<close>

text \<open>A parsed selector: \<^verbatim>\<open>labels.Requirement\<close>, its values as the sorted list of its set, and the
  second result of \<^verbatim>\<open>Requirements\<close>.\<close>

datatype sel_operator = SelEquals | SelDoubleEquals | SelIn | SelNotEquals | SelNotIn | SelExists
  | SelDoesNotExist | SelGreaterThan | SelLessThan

record requirement =
  rq_key :: string
  rq_operator :: sel_operator
  rq_values :: "string list"

definition add_requirement :: "requirement \<Rightarrow> string_map \<Rightarrow> string_map" where
  "add_requirement req m =
     (if rq_operator req = SelEquals \<or> rq_operator req = SelDoubleEquals \<or> rq_operator req = SelIn
      then if length (rq_values req) = 1 then AList.update (rq_key req) (hd (rq_values req)) m else m
      else m)"

definition parse_selector ::
  "(string \<Rightarrow> string + requirement list \<times> bool) \<Rightarrow> string \<Rightarrow> string + label_selector" where
  "parse_selector parse s =
     (case parse s of
        Inl e \<Rightarrow> Inl (''parse selector '' @ fmt_q s @ '': '' @ e)
      | Inr (reqs, selectable) \<Rightarrow>
          (if \<not> selectable then Inl (''selector '' @ fmt_q s @ '' is not convertible to requirements'')
           else Inr \<lparr>matchLabels = fold add_requirement reqs [], matchExpressions = []\<rparr>))"

subsection \<open>Target flags\<close>

record target_flags =
  tf_targetType :: string
  tf_targetName :: string
  tf_deploymentName :: string
  tf_deploymentID :: string
  tf_vvpNamespace :: string
  tf_selector :: string

definition build_target ::
  "(string \<Rightarrow> string + requirement list \<times> bool) \<Rightarrow> target_flags \<Rightarrow> string + target_spec" where
  "build_target parse tf =
     (let ty = go_to_lower (tf_targetType tf) in
      if ty = ''flinkdeployment''
      then if tf_targetName tf = ''''
           then Inl (''--target-name is required for target type '' @ fmt_q ty)
           else Inr (zero_target\<lparr>t_type := FlinkDeployment, t_name := tf_targetName tf\<rparr>)
      else if ty = ''ververica''
      then if tf_deploymentID tf = '''' \<and> tf_deploymentName tf = ''''
           then Inl (''at least one of --deployment-id or --deployment-name is required for target type '' @ fmt_q ty)
           else Inr (zero_target\<lparr>t_type := VervericaDeployment, t_deploymentID := tf_deploymentID tf,
             t_deploymentName := tf_deploymentName tf, t_vvpNamespace := tf_vvpNamespace tf\<rparr>)
      else if ty = ''podselector''
      then if tf_selector tf = ''''
           then Inl (''--selector is required for target type '' @ fmt_q ty)
           else (case parse_selector parse (tf_selector tf) of
                   Inl e \<Rightarrow> Inl e
                 | Inr ls \<Rightarrow> Inr (zero_target\<lparr>t_type := PodSelector, t_selector := Some ls\<rparr>))
      else Inl (''unknown target type '' @ fmt_q ty @ ''; valid values: flinkdeployment, ververica, podselector''))"

subsection \<open>Commands that create a run\<close>

record 'w cli_env =
  ce_namespace :: string
  ce_parse :: "string \<Rightarrow> string + requirement list \<times> bool"
  ce_connect :: "'w \<Rightarrow> (string + 'w run_store) \<times> 'w"
  ce_now :: "'w \<Rightarrow> int \<times> 'w"

type_synonym 'w cli_command = "'w \<Rightarrow> (string + string) \<times> 'w"

text \<open>The given name, or one made of a prefix and the Unix time in seconds.\<close>

definition run_name :: "'w cli_env \<Rightarrow> string \<Rightarrow> string \<Rightarrow> 'w \<Rightarrow> string \<times> 'w" where
  "run_name env given prefix w =
     (if given = '''' then (case ce_now env w of (t, w1) \<Rightarrow> (prefix @ fmt_d (t div second), w1)) else (given, w))"

definition submit_run :: "'w cli_env \<Rightarrow> chaos_run \<Rightarrow> 'w cli_command" where
  "submit_run env run w =
     (case ce_connect env w of
        (Inl e, w1) \<Rightarrow> (Inl e, w1)
      | (Inr st, w1) \<Rightarrow>
          (case rs_create st None run w1 of
             (Inl e, w2) \<Rightarrow> (Inl (''create ChaosRun: '' @ api_error_text e), w2)
           | (Inr _, w2) \<Rightarrow>
               (Inr (''ChaosRun '' @ fmt_q (cr_name run) @ '' created in namespace '' @ fmt_q (ce_namespace env)), w2)))"

text \<open>The parts all commands share: an enabled observation with a timeout, and the dry-run flag.\<close>

abbreviation cli_observe :: "int \<Rightarrow> observe_spec" where
  "cli_observe t \<equiv> zero_observe\<lparr>o_enabled := True, o_timeout := t\<rparr>"

abbreviation cli_safety :: "bool \<Rightarrow> safety_spec" where
  "cli_safety d \<equiv> zero_safety\<lparr>sf_dryRun := d\<rparr>"

record tm_kill_flags =
  tk_count :: int
  tk_dryRun :: bool
  tk_observeTimeout :: int
  tk_name :: string

definition tm_kill_defaults :: tm_kill_flags where
  "tm_kill_defaults = \<lparr>tk_count = 1, tk_dryRun = False, tk_observeTimeout = 10 * minute, tk_name = ''''\<rparr>"

definition tm_kill_run :: "string \<Rightarrow> string \<Rightarrow> target_spec \<Rightarrow> tm_kill_flags \<Rightarrow> chaos_run" where
  "tm_kill_run name ns target fl = new_run name ns target
     (zero_scenario\<lparr>s_type := TaskManagerPodKill,
       s_selection := \<lparr>sel_mode = RandomMode, sel_count = tk_count fl, sel_podNames = []\<rparr>,
       s_action := \<lparr>act_type = DeletePodAction, act_gracePeriodSeconds = None\<rparr>\<rparr>)
     (cli_observe (tk_observeTimeout fl)) (cli_safety (tk_dryRun fl))"

definition run_tm_kill :: "'w cli_env \<Rightarrow> target_flags \<Rightarrow> tm_kill_flags \<Rightarrow> 'w cli_command" where
  "run_tm_kill env tf fl w =
     (case build_target (ce_parse env) tf of
        Inl e \<Rightarrow> (Inl e, w)
      | Inr target \<Rightarrow>
          (case run_name env (tk_name fl) ''tm-kill-'' w of
             (name, w1) \<Rightarrow> submit_run env (tm_kill_run name (ce_namespace env) target fl) w1))"

record partition_flags =
  pf_networkTarget :: string
  pf_direction :: string
  pf_externalCIDR :: string
  pf_externalPort :: int
  pf_observeTimeout :: int
  pf_dryRun :: bool
  pf_name :: string

definition partition_defaults :: partition_flags where
  "partition_defaults = \<lparr>pf_networkTarget = ''TMtoJM'', pf_direction = ''Both'', pf_externalCIDR = '''',
     pf_externalPort = 0, pf_observeTimeout = 10 * minute, pf_dryRun = False, pf_name = ''''\<rparr>"

definition cidr_endpoint :: "string \<Rightarrow> int \<Rightarrow> external_target option" where
  "cidr_endpoint cidr port =
     (if cidr \<noteq> '''' then Some \<lparr>x_cidr = cidr, x_hostname = '''', x_port = port\<rparr> else None)"

definition partition_run :: "string \<Rightarrow> string \<Rightarrow> target_spec \<Rightarrow> partition_flags \<Rightarrow> chaos_run" where
  "partition_run name ns target fl = new_run name ns target
     (zero_scenario\<lparr>s_type := NetworkPartition,
       s_network := Some (zero_network\<lparr>
         n_target := net_target_of_string (normalise_network_target (pf_networkTarget fl)),
         n_direction := direction_of_string (normalise_network_direction (pf_direction fl)),
         n_externalEndpoint := cidr_endpoint (pf_externalCIDR fl) (pf_externalPort fl)\<rparr>)\<rparr>)
     (cli_observe (pf_observeTimeout fl)) (cli_safety (pf_dryRun fl))"

definition run_network_partition :: "'w cli_env \<Rightarrow> target_flags \<Rightarrow> partition_flags \<Rightarrow> 'w cli_command" where
  "run_network_partition env tf fl w =
     (case build_target (ce_parse env) tf of
        Inl e \<Rightarrow> (Inl e, w)
      | Inr target \<Rightarrow>
          (case validate_network_target (pf_networkTarget fl) of
             Some e \<Rightarrow> (Inl e, w)
           | None \<Rightarrow>
               (let net = normalise_network_target (pf_networkTarget fl) in
                case validate_network_direction (pf_direction fl) of
                  Some e \<Rightarrow> (Inl e, w)
                | None \<Rightarrow>
                    if (net = ''TMtoExternal'' \<or> net = ''TMtoCheckpoint'') \<and> pf_externalCIDR fl = ''''
                    then (Inl (''--external-cidr is required for network-target '' @ fmt_q net), w)
                    else (case run_name env (pf_name fl) ''np-'' w of
                            (name, w1) \<Rightarrow>
                              submit_run env (partition_run name (ce_namespace env) target fl) w1))))"

record net_chaos_flags =
  cf_networkTarget :: string
  cf_direction :: string
  cf_latency :: int
  cf_jitter :: int
  cf_loss :: int
  cf_bandwidth :: string
  cf_duration :: int
  cf_externalCIDR :: string
  cf_externalPort :: int
  cf_observeTimeout :: int
  cf_dryRun :: bool
  cf_name :: string

definition net_chaos_defaults :: net_chaos_flags where
  "net_chaos_defaults = \<lparr>cf_networkTarget = ''TMtoJM'', cf_direction = ''Both'', cf_latency = 0, cf_jitter = 0,
     cf_loss = 0, cf_bandwidth = '''', cf_duration = 60 * second, cf_externalCIDR = '''', cf_externalPort = 0,
     cf_observeTimeout = 10 * minute, cf_dryRun = False, cf_name = ''''\<rparr>"

definition net_chaos_spec :: "net_chaos_flags \<Rightarrow> network_chaos_spec" where
  "net_chaos_spec fl = zero_network\<lparr>
     n_target := net_target_of_string (normalise_network_target (cf_networkTarget fl)),
     n_direction := direction_of_string (normalise_network_direction (cf_direction fl)),
     n_bandwidth := cf_bandwidth fl,
     n_latency := (if 0 < cf_latency fl then Some (cf_latency fl) else None),
     n_jitter := (if 0 < cf_jitter fl then Some (cf_jitter fl) else None),
     n_loss := (if 0 < cf_loss fl then Some (cf_loss fl) else None),
     n_duration := (if 0 < cf_duration fl then Some (cf_duration fl) else None),
     n_externalEndpoint := cidr_endpoint (cf_externalCIDR fl) (cf_externalPort fl)\<rparr>"

definition net_chaos_run :: "string \<Rightarrow> string \<Rightarrow> target_spec \<Rightarrow> net_chaos_flags \<Rightarrow> chaos_run" where
  "net_chaos_run name ns target fl = new_run name ns target
     (zero_scenario\<lparr>s_type := NetworkChaos, s_network := Some (net_chaos_spec fl)\<rparr>)
     (cli_observe (cf_observeTimeout fl)) (cli_safety (cf_dryRun fl))"

definition run_network_chaos :: "'w cli_env \<Rightarrow> target_flags \<Rightarrow> net_chaos_flags \<Rightarrow> 'w cli_command" where
  "run_network_chaos env tf fl w =
     (case build_target (ce_parse env) tf of
        Inl e \<Rightarrow> (Inl e, w)
      | Inr target \<Rightarrow>
          (case validate_network_target (cf_networkTarget fl) of
             Some e \<Rightarrow> (Inl e, w)
           | None \<Rightarrow>
               (case validate_network_direction (cf_direction fl) of
                  Some e \<Rightarrow> (Inl e, w)
                | None \<Rightarrow>
                    (case run_name env (cf_name fl) ''nc-'' w of
                       (name, w1) \<Rightarrow> submit_run env (net_chaos_run name (ce_namespace env) target fl) w1))))"

record exhaustion_flags =
  xf_mode :: string
  xf_workers :: int
  xf_memoryPercent :: int
  xf_duration :: int
  xf_observeTimeout :: int
  xf_dryRun :: bool
  xf_name :: string

definition exhaustion_defaults :: exhaustion_flags where
  "exhaustion_defaults = \<lparr>xf_mode = '''', xf_workers = 1, xf_memoryPercent = 80, xf_duration = 60 * second,
     xf_observeTimeout = 10 * minute, xf_dryRun = False, xf_name = ''''\<rparr>"

definition exhaustion_run :: "string \<Rightarrow> string \<Rightarrow> target_spec \<Rightarrow> exhaustion_flags \<Rightarrow> chaos_run" where
  "exhaustion_run name ns target fl =
     (let mode = exhaustion_of_string (xf_mode fl) in
      new_run name ns target
        (zero_scenario\<lparr>s_type := ResourceExhaustion,
          s_resourceExhaustion := Some \<lparr>re_mode = mode, re_workers = xf_workers fl,
            re_memoryPercent = (if mode = Memory then xf_memoryPercent fl else 0),
            re_duration = Some (xf_duration fl)\<rparr>\<rparr>)
        (cli_observe (xf_observeTimeout fl)) (cli_safety (xf_dryRun fl)))"

definition run_resource_exhaustion :: "'w cli_env \<Rightarrow> target_flags \<Rightarrow> exhaustion_flags \<Rightarrow> 'w cli_command" where
  "run_resource_exhaustion env tf fl w =
     (case build_target (ce_parse env) tf of
        Inl e \<Rightarrow> (Inl e, w)
      | Inr target \<Rightarrow>
          (case validate_resource_exhaustion_mode (xf_mode fl) of
             Some e \<Rightarrow> (Inl e, w)
           | None \<Rightarrow>
               (case run_name env (xf_name fl) ''re-'' w of
                  (name, w1) \<Rightarrow> submit_run env (exhaustion_run name (ce_namespace env) target fl) w1)))"

subsection \<open>Stopping a run and showing its status\<close>

definition run_stop :: "'w cli_env \<Rightarrow> string \<Rightarrow> 'w cli_command" where
  "run_stop env name w =
     (case ce_connect env w of
        (Inl e, w1) \<Rightarrow> (Inl e, w1)
      | (Inr st, w1) \<Rightarrow>
          (case rs_get st (ce_namespace env) name w1 of
             (Inl e, w2) \<Rightarrow> (Inl (''get ChaosRun '' @ fmt_q name @ '': '' @ api_error_text e), w2)
           | (Inr run, w2) \<Rightarrow>
               (case rs_patch st run (run\<lparr>cr_spec := (cr_spec run)\<lparr>sp_control := \<lparr>ctl_abort = True\<rparr>\<rparr>\<rparr>) w2 of
                  (Some e, w3) \<Rightarrow> (Inl (''patch ChaosRun '' @ fmt_q name @ '': '' @ api_error_text e), w3)
                | (None, w3) \<Rightarrow> (Inr (''ChaosRun '' @ fmt_q name @ '' abort requested''), w3))))"

text \<open>The age of a run, for the elapsed time \<open>d\<close> since its creation.\<close>

definition human_age :: "int option \<Rightarrow> int \<Rightarrow> string" where
  "human_age created t_now =
     (case created of
        None \<Rightarrow> ''<unknown>''
      | Some t \<Rightarrow>
          (let d = go_div (time_sub t_now t) second * second in
           if d < minute then fmt_d (go_div d second) @ ''s''
           else if d < 60 * minute then fmt_d (go_div d minute) @ ''m''
           else fmt_d (go_div d (60 * minute)) @ ''h''))"

definition format_strings :: "string list \<Rightarrow> string" where
  "format_strings ss = (if length ss = 0 then ''[]'' else ''['' @ join '' '' ss @ '']'')"

definition target_text :: "chaos_run \<Rightarrow> string" where
  "target_text run =
     (case st_targetSummary (cr_status run) of
        Some s \<Rightarrow> sum_type s @ ''/'' @ sum_name s
      | None \<Rightarrow> string_of_target_type (t_type (sp_target (cr_spec run))))"

text \<open>The rows of the status table, label and value; \<^verbatim>\<open>tabwriter\<close> aligns them.\<close>

definition format_time :: "int option \<Rightarrow> string" where
  "format_time t = (case t of None \<Rightarrow> ''<none>'' | Some u \<Rightarrow> rfc3339_text u)"

definition status_rows :: "chaos_run \<Rightarrow> (string \<times> string) list" where
  "status_rows run =
     (let s = cr_status run in
      [(''Name:'', cr_name run), (''Namespace:'', cr_namespace run),
       (''Phase:'', string_of_phase (st_phase s)), (''Verdict:'', string_of_verdict (st_verdict s)),
       (''Target:'', target_text run), (''Scenario:'', string_of_scenario (scenario_of run)),
       (''Selected:'', format_strings (st_selectedPods s)), (''Injected:'', format_strings (st_injectedPods s)),
       (''Recovery:'', if st_replacementObserved s then ''true'' else ''false''),
       (''Started:'', format_time (st_startedAt s)), (''Ended:'', format_time (st_endedAt s)),
       (''Message:'', st_message s)] @
      (if 0 < length (st_networkPolicies s)
       then [(''NetworkPolicies:'', format_strings (st_networkPolicies s))] else []) @
      (if 0 < length (st_tcInjections s)
       then [(''EphemeralContainers:'', fmt_d (int (length (st_tcInjections s))) @ '' injected'')] else []))"

definition run_status ::
  "'w cli_env \<Rightarrow> string \<Rightarrow> 'w \<Rightarrow> (string + (string \<times> string) list) \<times> 'w" where
  "run_status env name w =
     (case ce_connect env w of
        (Inl e, w1) \<Rightarrow> (Inl e, w1)
      | (Inr st, w1) \<Rightarrow>
          (case rs_get st (ce_namespace env) name w1 of
             (Inl e, w2) \<Rightarrow> (Inl (''get ChaosRun '' @ fmt_q name @ '': '' @ api_error_text e), w2)
           | (Inr run, w2) \<Rightarrow> (Inr (status_rows run), w2)))"

text \<open>The table of \<^verbatim>\<open>list\<close>; the creation time of an object, which no other code reads, is the
  argument \<open>created\<close>. \<^verbatim>\<open>time.Since\<close> reads the clock for each row that has one.\<close>

fun list_rows ::
  "'w cli_env \<Rightarrow> (chaos_run \<Rightarrow> int option) \<Rightarrow> chaos_run list \<Rightarrow> 'w \<Rightarrow> string list list \<times> 'w" where
  "list_rows env created [] w = ([], w)"
| "list_rows env created (run # runs) w =
     (let (age, w1) = (case created run of
            None \<Rightarrow> (human_age None 0, w)
          | Some c \<Rightarrow> (case ce_now env w of (t, w1) \<Rightarrow> (human_age (Some c) t, w1)));
          (rows, w2) = list_rows env created runs w1
      in ([cr_name run, string_of_phase (phase_of run), string_of_verdict (st_verdict (cr_status run)),
           target_text run, age] # rows, w2))"

definition run_list ::
  "'w cli_env \<Rightarrow> (chaos_run \<Rightarrow> int option) \<Rightarrow> 'w \<Rightarrow> (string + string list list) \<times> 'w" where
  "run_list env created w =
     (case ce_connect env w of
        (Inl e, w1) \<Rightarrow> (Inl e, w1)
      | (Inr st, w1) \<Rightarrow>
          (case rs_list st (ce_namespace env) w1 of
             (Inl e, w2) \<Rightarrow> (Inl (''list ChaosRuns: '' @ api_error_text e), w2)
           | (Inr runs, w2) \<Rightarrow>
               (case list_rows env created runs w2 of
                  (rows, w3) \<Rightarrow> (Inr ([''NAME'', ''PHASE'', ''VERDICT'', ''TARGET'', ''AGE''] # rows), w3))))"

subsection \<open>Accepted flag values are canonical\<close>

lemma network_target_accepted:
  assumes "validate_network_target s = None"
  shows "normalise_network_target s \<in> set valid_network_targets" "equal_fold s (normalise_network_target s)"
proof -
  from assms have "find (equal_fold s) valid_network_targets \<noteq> None"
    by (auto simp: validate_network_target_def find_None_iff list_ex_iff split: if_splits)
  then obtain v where v: "find (equal_fold s) valid_network_targets = Some v" by blast
  from find_Some_member [OF v] show "normalise_network_target s \<in> set valid_network_targets"
    "equal_fold s (normalise_network_target s)"
    by (simp_all add: normalise_network_target_def v)
qed

lemma network_direction_accepted:
  assumes "validate_network_direction s = None"
  shows "normalise_network_direction s \<in> set valid_network_directions" "equal_fold s (normalise_network_direction s)"
proof -
  from assms have "find (equal_fold s) valid_network_directions \<noteq> None"
    by (auto simp: validate_network_direction_def find_None_iff list_ex_iff split: if_splits)
  then obtain v where v: "find (equal_fold s) valid_network_directions = Some v" by blast
  from find_Some_member [OF v] show "normalise_network_direction s \<in> set valid_network_directions"
    "equal_fold s (normalise_network_direction s)"
    by (simp_all add: normalise_network_direction_def v)
qed

lemma accepted_net_target: "validate_network_target s = None \<Longrightarrow> normalise_network_target s \<noteq> ''''"
  using network_target_accepted(1) [of s] by (auto simp: valid_network_targets_def)

subsection \<open>Which runs of the commands the operator accepts\<close>

definition observe_flag_ok :: "int \<Rightarrow> bool" where
  "observe_flag_ok t \<longleftrightarrow> t \<le> 0 \<or> 5 * second \<le> t"

definition partition_flags_ok :: "partition_flags \<Rightarrow> bool" where
  "partition_flags_ok fl \<longleftrightarrow> observe_flag_ok (pf_observeTimeout fl) \<and>
     (normalise_network_target (pf_networkTarget fl) \<in> {''TMtoCheckpoint'', ''TMtoExternal''} \<longrightarrow>
        valid_cidr (pf_externalCIDR fl))"

definition net_chaos_flags_ok :: "net_chaos_flags \<Rightarrow> bool" where
  "net_chaos_flags_ok fl \<longleftrightarrow> observe_flag_ok (cf_observeTimeout fl) \<and>
     (0 < cf_latency fl \<or> 0 < cf_loss fl \<or> cf_bandwidth fl \<noteq> '''') \<and>
     (0 < cf_jitter fl \<longrightarrow> 0 < cf_latency fl) \<and>
     (cf_bandwidth fl \<noteq> '''' \<longrightarrow>
        normalise_network_target (cf_networkTarget fl) = ''TMtoExternal'' \<and> bandwidth_ok (cf_bandwidth fl)) \<and>
     (normalise_network_target (cf_networkTarget fl) \<in> {''TMtoCheckpoint'', ''TMtoExternal''} \<longrightarrow>
        cf_externalCIDR fl \<noteq> '''' \<and> valid_cidr (cf_externalCIDR fl))"

definition exhaustion_flags_ok :: "exhaustion_flags \<Rightarrow> bool" where
  "exhaustion_flags_ok fl \<longleftrightarrow> observe_flag_ok (xf_observeTimeout fl) \<and>
     (xf_mode fl = ''Memory'' \<longrightarrow> 0 \<le> xf_memoryPercent fl \<and> xf_memoryPercent fl \<le> 100)"

lemma valid_cidr_nonempty: "valid_cidr s \<Longrightarrow> s \<noteq> ''''"
  by (auto simp: valid_cidr_def)

lemma net_target_strings:
  "net_target_of_string s = TMtoExternal \<longleftrightarrow> s = ''TMtoExternal''"
  "net_target_of_string s = TMtoCheckpoint \<longleftrightarrow> s = ''TMtoCheckpoint''"
  by (auto simp: net_target_of_string_def)

lemmas cli_run_simps = validate_set_defaults validate_scenario_spec_def set_scenario_defaults_def zero_scenario_def Let_def
  validate_observe_timeout_only observe_flag_ok_def

lemma tm_kill_run_valid:
  "validate (set_defaults (tm_kill_run name ns target fl)) = [] \<longleftrightarrow>
   validate_target_spec target = [] \<and> observe_flag_ok (tk_observeTimeout fl) \<and> 0 \<le> tk_count fl"
  by (auto simp: tm_kill_run_def cli_run_simps validate_pod_kill_def default_selection_def)

lemma partition_run_valid:
  assumes "validate_network_target (pf_networkTarget fl) = None"
    and "normalise_network_target (pf_networkTarget fl) \<in> {''TMtoExternal'', ''TMtoCheckpoint''} \<longrightarrow>
      pf_externalCIDR fl \<noteq> ''''"
  shows "validate (set_defaults (partition_run name ns target fl)) = [] \<longleftrightarrow>
    validate_target_spec target = [] \<and> partition_flags_ok fl"
  using accepted_net_target [OF assms(1)] assms(2)
  by (auto simp: partition_run_def cli_run_simps validate_network_defaults validate_network_def validate_endpoint_def
      cidr_endpoint_def partition_flags_ok_def net_target_strings zero_network_def dest: valid_cidr_nonempty)

lemma net_chaos_run_valid:
  assumes "validate_network_target (cf_networkTarget fl) = None"
  shows "validate (set_defaults (net_chaos_run name ns target fl)) = [] \<longleftrightarrow>
    validate_target_spec target = [] \<and> net_chaos_flags_ok fl"
  using accepted_net_target [OF assms]
  by (auto simp: net_chaos_run_def net_chaos_spec_def cli_run_simps validate_network_defaults validate_network_def
      validate_endpoint_def cidr_endpoint_def net_chaos_flags_ok_def net_target_strings zero_network_def
      dest: valid_cidr_nonempty)

lemma exhaustion_run_valid:
  assumes "validate_resource_exhaustion_mode (xf_mode fl) = None"
  shows "validate (set_defaults (exhaustion_run name ns target fl)) = [] \<longleftrightarrow>
    validate_target_spec target = [] \<and> exhaustion_flags_ok fl"
  using assms
  by (auto simp: exhaustion_run_def cli_run_simps validate_exhaustion_def default_exhaustion_def exhaustion_flags_ok_def
      validate_resource_exhaustion_mode_def exhaustion_of_string_def split: if_splits)

lemma build_target_valid:
  assumes "build_target parse tf = Inr t"
  shows "validate_target_spec t = [] \<longleftrightarrow> (\<forall>ls. t_selector t = Some ls \<longrightarrow> matchLabels ls \<noteq> [])"
  using assms
  by (auto simp: build_target_def validate_target_spec_def zero_target_def Let_def parse_selector_def
      split: if_splits sum.splits)

text \<open>
  C19. The spec a command of the plugin creates from accepted flags passes the operator's validation,
  after defaulting, exactly under the stated conditions on the flags, which the command itself does
  not check; a selector none of whose requirements is kept makes every command's run invalid.
\<close>

theorem cli_runs_valid:
  assumes "build_target parse tf = Inr target"
  shows "(validate (set_defaults (tm_kill_run name ns target k)) = [] \<longleftrightarrow>
      (\<forall>ls. t_selector target = Some ls \<longrightarrow> matchLabels ls \<noteq> []) \<and>
      observe_flag_ok (tk_observeTimeout k) \<and> 0 \<le> tk_count k) \<and>
    (validate_network_target (pf_networkTarget p) = None \<and>
     (normalise_network_target (pf_networkTarget p) \<in> {''TMtoExternal'', ''TMtoCheckpoint''} \<longrightarrow>
        pf_externalCIDR p \<noteq> '''') \<longrightarrow>
     (validate (set_defaults (partition_run name ns target p)) = [] \<longleftrightarrow>
      (\<forall>ls. t_selector target = Some ls \<longrightarrow> matchLabels ls \<noteq> []) \<and> partition_flags_ok p)) \<and>
    (validate_network_target (cf_networkTarget c) = None \<longrightarrow>
     (validate (set_defaults (net_chaos_run name ns target c)) = [] \<longleftrightarrow>
      (\<forall>ls. t_selector target = Some ls \<longrightarrow> matchLabels ls \<noteq> []) \<and> net_chaos_flags_ok c)) \<and>
    (validate_resource_exhaustion_mode (xf_mode x) = None \<longrightarrow>
     (validate (set_defaults (exhaustion_run name ns target x)) = [] \<longleftrightarrow>
      (\<forall>ls. t_selector target = Some ls \<longrightarrow> matchLabels ls \<noteq> []) \<and> exhaustion_flags_ok x))"
  using build_target_valid [OF assms] tm_kill_run_valid [of name ns target k] partition_run_valid [of p name ns target]
    net_chaos_run_valid [of c name ns target] exhaustion_run_valid [of x name ns target]
  by simp

definition demo_target_flags :: target_flags where
  "demo_target_flags = \<lparr>tf_targetType = ''FlinkDeployment'', tf_targetName = ''orders'', tf_deploymentName = '''',
     tf_deploymentID = '''', tf_vvpNamespace = '''', tf_selector = ''''\<rparr>"

theorem cli_runs_valid_witness:
  "\<exists>target. build_target Inl demo_target_flags = Inr target \<and>
     validate (set_defaults (tm_kill_run ''k'' ''flink'' target tm_kill_defaults)) = [] \<and>
     validate (set_defaults (partition_run ''k'' ''flink'' target
       (partition_defaults\<lparr>pf_networkTarget := ''tmtojm''\<rparr>))) = [] \<and>
     validate (set_defaults (net_chaos_run ''k'' ''flink'' target net_chaos_defaults)) \<noteq> []"
proof -
  define target where "target = zero_target\<lparr>t_type := FlinkDeployment, t_name := ''orders''\<rparr>"
  have t: "build_target Inl demo_target_flags = Inr target" "t_selector target = None"
    unfolding target_def by code_simp+
  define p where "p = partition_defaults\<lparr>pf_networkTarget := ''tmtojm''\<rparr>"
  have p: "validate_network_target (pf_networkTarget p) = None"
    "normalise_network_target (pf_networkTarget p) = ''TMtoJM''"
    unfolding p_def by code_simp+
  then have q: "partition_flags_ok p"
    by (simp add: partition_flags_ok_def observe_flag_ok_def p_def partition_defaults_def minute_def second_def)
  have c: "validate_network_target (cf_networkTarget net_chaos_defaults) = None" by code_simp
  have d: "\<not> net_chaos_flags_ok net_chaos_defaults" by (simp add: net_chaos_flags_ok_def net_chaos_defaults_def)
  have k: "observe_flag_ok (tk_observeTimeout tm_kill_defaults)" "0 \<le> tk_count tm_kill_defaults"
    by (simp_all add: observe_flag_ok_def tm_kill_defaults_def minute_def second_def)
  have "validate (set_defaults (tm_kill_run ''k'' ''flink'' target tm_kill_defaults)) = []"
    "validate (set_defaults (partition_run ''k'' ''flink'' target p)) = []"
    "validate (set_defaults (net_chaos_run ''k'' ''flink'' target net_chaos_defaults)) \<noteq> []"
    using cli_runs_valid [OF t(1), of "''k''" "''flink''" tm_kill_defaults p net_chaos_defaults exhaustion_defaults] t(2) p q c d k
    by simp_all
  then show ?thesis using t(1) unfolding p_def by blast
qed

subsection \<open>What becomes of a selector\<close>

text \<open>The meaning of a requirement for the labels of a pod, as apimachinery documents it; \<open>compare\<close>
  reads the values of the numeric operators.\<close>

definition requirement_matches ::
  "(sel_operator \<Rightarrow> string \<Rightarrow> string list \<Rightarrow> bool) \<Rightarrow> requirement \<Rightarrow> string_map \<Rightarrow> bool" where
  "requirement_matches compare req labels =
     (let found = map_of labels (rq_key req) in
      case rq_operator req of
        SelNotEquals \<Rightarrow> (case found of None \<Rightarrow> True | Some v \<Rightarrow> v \<notin> set (rq_values req))
      | SelNotIn \<Rightarrow> (case found of None \<Rightarrow> True | Some v \<Rightarrow> v \<notin> set (rq_values req))
      | SelExists \<Rightarrow> found \<noteq> None
      | SelDoesNotExist \<Rightarrow> found = None
      | SelGreaterThan \<Rightarrow> (case found of None \<Rightarrow> False | Some v \<Rightarrow> compare SelGreaterThan v (rq_values req))
      | SelLessThan \<Rightarrow> (case found of None \<Rightarrow> False | Some v \<Rightarrow> compare SelLessThan v (rq_values req))
      | _ \<Rightarrow> (case found of None \<Rightarrow> False | Some v \<Rightarrow> v \<in> set (rq_values req)))"

definition single_equality :: "requirement \<Rightarrow> bool" where
  "single_equality req \<longleftrightarrow>
     rq_operator req \<in> {SelEquals, SelDoubleEquals, SelIn} \<and> length (rq_values req) = 1"

lemma add_requirement_single:
  "add_requirement req m = (if single_equality req then AList.update (rq_key req) (hd (rq_values req)) m else m)"
  by (auto simp: add_requirement_def single_equality_def)

lemma single_equality_matches:
  "single_equality req \<Longrightarrow>
   requirement_matches cmp req labels \<longleftrightarrow> map_of labels (rq_key req) = Some (hd (rq_values req))"
  by (auto simp: single_equality_def requirement_matches_def Let_def length_Suc_conv split: option.split)

lemma has_labels_update:
  "k \<notin> fst ` set m \<Longrightarrow> has_labels (AList.update k v m) labels \<longleftrightarrow> has_labels m labels \<and> map_of labels k = Some v"
  by (induction m) (auto simp: has_labels_def)

lemma update_keys: "fst ` set (AList.update k v m) = insert k (fst ` set m)"
  by (simp add: dom_map_of_conv_image_fst [symmetric] update_conv')

lemma selector_fold:
  assumes "distinct (map rq_key (filter single_equality reqs))"
    and "\<forall>r \<in> set (filter single_equality reqs). rq_key r \<notin> fst ` set m"
  shows "has_labels (fold add_requirement reqs m) labels \<longleftrightarrow>
    has_labels m labels \<and> (\<forall>r \<in> set (filter single_equality reqs). requirement_matches cmp r labels)"
  using assms
proof (induction reqs arbitrary: m)
  case (Cons r rs)
  show ?case
  proof (cases "single_equality r")
    case True
    have "distinct (map rq_key (filter single_equality rs))" using Cons.prems(1) True by simp
    moreover have "\<forall>q \<in> set (filter single_equality rs). rq_key q \<notin> fst ` set (add_requirement r m)"
    proof
      fix q assume q: "q \<in> set (filter single_equality rs)"
      then have "rq_key q \<in> rq_key ` set (filter single_equality rs)" by (rule imageI)
      moreover have "rq_key r \<notin> rq_key ` set (filter single_equality rs)" using Cons.prems(1) True by simp
      ultimately have "rq_key q \<noteq> rq_key r" by metis
      with Cons.prems(2) q True show "rq_key q \<notin> fst ` set (add_requirement r m)"
        by (simp add: add_requirement_single update_keys)
    qed
    ultimately have "has_labels (fold add_requirement rs (add_requirement r m)) labels \<longleftrightarrow>
      has_labels (add_requirement r m) labels \<and> (\<forall>r \<in> set (filter single_equality rs). requirement_matches cmp r labels)"
      by (rule Cons.IH)
    moreover have "rq_key r \<notin> fst ` set m" using Cons.prems(2) True by simp
    ultimately show ?thesis
      by (auto simp: add_requirement_single [of r] True has_labels_update single_equality_matches [OF True])
  next
    case False
    then show ?thesis using Cons by (simp add: add_requirement_single [of r])
  qed
qed simp

text \<open>
  C26. The label selector the plugin makes of a selector string selects exactly the pods that meet its
  single-valued equality requirements (with distinct keys): every other requirement, a negation or a
  choice of several values included, is dropped without an error.
\<close>

theorem cli_selector_drops:
  assumes "parse s = Inr (reqs, True)" and "distinct (map rq_key (filter single_equality reqs))"
  shows "\<exists>ls. parse_selector parse s = Inr ls \<and> matchExpressions ls = [] \<and>
    (\<forall>labels. has_labels (matchLabels ls) labels \<longleftrightarrow>
       (\<forall>r \<in> set (filter single_equality reqs). requirement_matches cmp r labels))"
  using assms selector_fold [OF assms(2), of "[]"] by (simp add: parse_selector_def has_labels_def)

definition demo_reqs :: "requirement list" where
  "demo_reqs = [\<lparr>rq_key = ''app'', rq_operator = SelEquals, rq_values = [''flink'']\<rparr>,
     \<lparr>rq_key = ''env'', rq_operator = SelNotEquals, rq_values = [''prod'']\<rparr>]"

theorem cli_selector_drops_witness:
  "\<exists>ls. parse_selector (\<lambda>s. Inr (demo_reqs, True)) ''app=flink,env!=prod'' = Inr ls \<and>
     has_labels (matchLabels ls) [(''app'', ''flink''), (''env'', ''prod'')] \<and>
     \<not> list_all (\<lambda>r. requirement_matches (\<lambda>_ _ _. False) r [(''app'', ''flink''), (''env'', ''prod'')]) demo_reqs"
proof -
  let ?parse = "\<lambda>s :: string. Inr (demo_reqs, True) :: string + requirement list \<times> bool"
  have d: "distinct (map rq_key (filter single_equality demo_reqs))"
    by (simp add: demo_reqs_def single_equality_def)
  from cli_selector_drops [of ?parse, OF refl d, where cmp = "\<lambda>_ _ _. False"]
  obtain ls where "parse_selector ?parse ''app=flink,env!=prod'' = Inr ls"
    "\<forall>labels. has_labels (matchLabels ls) labels \<longleftrightarrow>
       (\<forall>r \<in> set (filter single_equality demo_reqs). requirement_matches (\<lambda>_ _ _. False) r labels)"
    by blast
  then show ?thesis by (simp add: demo_reqs_def single_equality_def requirement_matches_def)
qed

end
