(* ===== verification/User_Actions.thy ===== *)
theory User_Actions
  imports Passes Api_Server Cli
begin

section \<open>What the user's tools do to the operator\<close>

text \<open>
  The API server and the kubectl plugin never talk to the operator: they write the object, and the
  operator's next pass reads it. The hypothesis \<open>store_coherent\<close> says that, with no other writer
  in between, an object read, changed outside its status and written back is what the operator reads
  next, whatever other objects the store holds. A tool that aborts meets the contract \<open>abort_tool\<close>; the handler of the API server and the stop
  command of the plugin do.
\<close>

definition store_coherent :: "'w run_store \<Rightarrow> 'w kube \<Rightarrow> bool" where
  "store_coherent st k \<longleftrightarrow> (\<forall>ns name w run w1. rs_get st ns name w = (Inr run, w1) \<longrightarrow>
     (\<forall>run' w2. cr_name run' = cr_name run \<and> cr_namespace run' = cr_namespace run \<and>
        cr_status run' = cr_status run \<and>
        (rs_update st run' w1 = (None, w2) \<or> rs_patch st run run' w1 = (None, w2)) \<longrightarrow>
        fst (k_get_run k ns name w2) = Inr run'))"

definition with_abort :: "chaos_run \<Rightarrow> chaos_run" where
  "with_abort run = run\<lparr>cr_spec := (cr_spec run)\<lparr>sp_control := \<lparr>ctl_abort = True\<rparr>\<rparr>\<rparr>"

lemma with_abort_simps [simp]:
  "cr_name (with_abort run) = cr_name run" "cr_namespace (with_abort run) = cr_namespace run"
  "cr_status (with_abort run) = cr_status run" "ctl_abort (sp_control (cr_spec (with_abort run)))"
  "cr_deletionTimestamp (with_abort run) = cr_deletionTimestamp run"
  "cr_finalizers (with_abort run) = cr_finalizers run" "scenario_of (with_abort run) = scenario_of run"
  by (simp_all add: with_abort_def)

lemma abort_handler_stores:
  assumes "store_coherent st k" and "abort_chaos_run_handler st ns name w = (HttpNoContent, w1)"
    and "fst (rs_get st ns name w) = Inr run"
  shows "fst (k_get_run k ns name w1) = Inr (with_abort run)"
proof -
  obtain w0 where g: "rs_get st ns name w = (Inr run, w0)" using assms(3) by (cases "rs_get st ns name w") simp
  with assms(2) have "rs_update st (with_abort run) w0 = (None, w1)"
    by (auto simp: abort_chaos_run_handler_def with_abort_def split: if_splits prod.splits option.splits)
  then show ?thesis using assms(1) g unfolding store_coherent_def by (metis with_abort_simps(1-3))
qed

lemma run_stop_stores:
  assumes "store_coherent st k" and "run_stop env name w = (Inr line, w1)" and "ce_connect env w = (Inr st, w)"
    and "fst (rs_get st (ce_namespace env) name w) = Inr run"
  shows "fst (k_get_run k (ce_namespace env) name w1) = Inr (with_abort run)"
proof -
  obtain w0 where g: "rs_get st (ce_namespace env) name w = (Inr run, w0)"
    using assms(4) by (cases "rs_get st (ce_namespace env) name w") simp
  with assms(2,3) have "rs_patch st run (with_abort run) w0 = (None, w1)"
    by (auto simp: run_stop_def with_abort_def split: prod.splits option.splits)
  then show ?thesis using assms(1) g unfolding store_coherent_def by (metis with_abort_simps(1-3))
qed

subsection \<open>Tools that abort\<close>

text \<open>
  The contract of a tool that aborts the run of a name: the world it leaves when it reports success
  holds the run it found, with the abort flag. What the operator does next follows from this alone.
\<close>

locale abort_tool =
  fixes st :: "'w run_store" and ns name :: string and request :: "'w \<Rightarrow> 'w option"
  assumes stores: "\<lbrakk>store_coherent st k; request w = Some w1; fst (rs_get st ns name w) = Inr run\<rbrakk> \<Longrightarrow>
    fst (k_get_run k ns name w1) = Inr (with_abort run)"

context abort_tool begin

lemma next_pass:
  assumes "store_coherent st k" and "fst (rs_get st ns name w) = Inr run" and "request w = Some w1"
    and "ext s = w1" and "calls s = []"
    and "run_state (reconcile (operator k newClient tcEnv stressEnv lossPointer) ns name) s = (x, s')"
  shows "(\<forall>c \<in> set (calls s'). \<not> disruptive c) \<and>
    (if is_terminal (phase_of run) then calls s' = []
     else if cr_deletionTimestamp run \<noteq> None \<and> k_contains_finalizer k (cr_finalizers run) chaos_run_finalizer
     then sent_runs (calls s') = []
     else if phase_of run = CleaningUp
     then \<forall>r \<in> set (sent_runs (calls s')). phase_of r \<in> {CleaningUp, Completed, Aborted, Failed}
     else \<exists>r. sent_runs (calls s') = [r] \<and>
       phase_of r = (if scenario_of run \<in> {NetworkPartition, NetworkChaos, ResourceExhaustion} \<and>
         phase_of run \<noteq> NoPhase \<and> phase_of run \<noteq> Pending then CleaningUp else Aborted))"
proof -
  have "fst (k_get_run k ns name (ext s)) = Inr (with_abort run)"
    using stores [OF assms(1,3,2)] assms(4) by simp
  from stopped_pass [OF this _ assms(6), of "calls s'"] assms(5) show ?thesis by (simp cong: if_cong)
qed

end

definition api_abort_request :: "'w run_store \<Rightarrow> string \<Rightarrow> string \<Rightarrow> 'w \<Rightarrow> 'w option" where
  "api_abort_request st ns name w =
     (case abort_chaos_run_handler st ns name w of (HttpNoContent, w1) \<Rightarrow> Some w1 | _ \<Rightarrow> None)"

definition cli_abort_request :: "'w run_store \<Rightarrow> 'w cli_env \<Rightarrow> string \<Rightarrow> 'w \<Rightarrow> 'w option" where
  "cli_abort_request st env name w =
     (case run_stop (env\<lparr>ce_connect := (\<lambda>w. (Inr st, w))\<rparr>) name w of (Inr line, w1) \<Rightarrow> Some w1 | _ \<Rightarrow> None)"

interpretation api_abort: abort_tool st ns name "api_abort_request st ns name" for st ns name
  by unfold_locales
    (auto simp: api_abort_request_def split: prod.splits http_response.splits intro: abort_handler_stores)

text \<open>The same request through the whole server, as the frontend sends it for a valid name.\<close>

definition server_abort_request :: "('w, 'f) api_config \<Rightarrow> 'w request \<Rightarrow> string \<Rightarrow> 'w \<Rightarrow> 'w option" where
  "server_abort_request cfg rq name w =
     (case serve cfg (rq\<lparr>rq_method := ''PATCH'', rq_path := run_path name @ ''/abort''\<rparr>) w of
        (r, w1) \<Rightarrow> if valid_k8s_name name \<and> rp_status r = 204 then Some w1 else None)"

lemma server_abort_handled:
  assumes "server_abort_request cfg rq name w = Some w1"
  shows "abort_chaos_run_handler (ac_store cfg) (ac_namespace cfg) name w = (HttpNoContent, w1)"
proof -
  obtain a w2 where a: "abort_chaos_run_handler (ac_store cfg) (ac_namespace cfg) name w = (a, w2)" (is "?a = _") by (cases ?a)
  have "plain_name name" using assms valid_name_plain by (auto simp: server_abort_request_def split: prod.splits if_splits)
  from abort_route [OF this, of "rq\<lparr>rq_method := ''PATCH'', rq_path := run_path name @ ''/abort''\<rparr>" cfg w]
  have "mux_serve (api_routes cfg) (rq\<lparr>rq_method := ''PATCH'', rq_path := run_path name @ ''/abort''\<rparr>) w = response_json (a, w2)"
    by (simp add: a)
  with assms have "w1 = w2" "rp_status (fst (response_json (a, w2) :: 'b reply \<times> 'a)) = 204"
    by (auto simp: server_abort_request_def new_server_def cors_middleware_def response_json_def
        split: if_splits http_response.splits)
  with a show ?thesis
    by (auto simp: response_json_def write_error_def write_json_def abort_chaos_run_handler_def
        split: http_response.splits if_splits prod.splits sum.splits option.splits api_error.splits)
qed

interpretation server_abort: abort_tool "ac_store cfg" "ac_namespace cfg" name "server_abort_request cfg rq name"
  for cfg rq name
  by unfold_locales (auto dest: server_abort_handled intro: abort_handler_stores)

interpretation cli_stop: abort_tool st "ce_namespace env" name "cli_abort_request st env name" for st env name
proof unfold_locales
  fix k w w1 run
  let ?env = "env\<lparr>ce_connect := (\<lambda>w. (Inr st, w))\<rparr>"
  assume c: "store_coherent st k" and "cli_abort_request st env name w = Some w1"
    and g: "fst (rs_get st (ce_namespace env) name w) = Inr run"
  then obtain line where "run_stop ?env name w = (Inr line, w1)"
    by (auto simp: cli_abort_request_def split: prod.splits sum.splits)
  from run_stop_stores [OF c this] g show "fst (k_get_run k (ce_namespace env) name w1) = Inr (with_abort run)"
    by simp
qed

subsection \<open>A store for the demonstration world\<close>

definition demo_write :: "chaos_run \<Rightarrow> world \<Rightarrow> api_error option \<times> world" where
  "demo_write run w = (None, w\<lparr>w_run := run\<lparr>cr_status := cr_status (w_run w)\<rparr>\<rparr>)"

definition demo_store :: "world run_store" where
  "demo_store = \<lparr>
     rs_create = (\<lambda>prefix run w. (Inr run, w\<lparr>w_run := run\<rparr>)),
     rs_get = (\<lambda>ns name w. (if name = cr_name (w_run w) then Inr (w_run w) else Inl (NotFound name), w)),
     rs_list = (\<lambda>ns w. (Inr [w_run w], w)),
     rs_update = (\<lambda>run w. if cr_name run = cr_name (w_run w) then demo_write run w else (Some (NotFound (cr_name run)), w)),
     rs_patch = (\<lambda>base run w. if cr_name run = cr_name (w_run w) then demo_write run w else (Some (NotFound (cr_name run)), w)),
     rs_delete = (\<lambda>run w. (None, w))\<rparr>"

lemma demo_store_coherent: "store_coherent demo_store demo_kube"
  by (auto simp: store_coherent_def demo_store_def demo_kube_def demo_write_def split: if_splits)

definition demo_env :: "world cli_env" where
  "demo_env = \<lparr>ce_namespace = ''flink'', ce_parse = (\<lambda>s. Inl s), ce_connect = (\<lambda>w. (Inr demo_store, w)),
     ce_now = (\<lambda>w. (w_time w, w))\<rparr>"

text \<open>
  C13. When the API server answers the PATCH of a run's abort path with 204, or the stop command of the
  plugin reports success, the operator's next pass disturbs nothing. A run that has ended it leaves alone; of a
  run that is being deleted with the finalizer it sends no status; a run that is cleaning up goes on with that,
  until it is Completed, Aborted or Failed. Every other run gets one status: phase CleaningUp where resources may exist,
  Aborted otherwise.
\<close>

theorem user_abort_reaches_operator:
  assumes "store_coherent st k" and "fst (rs_get st ns name w) = Inr run"
    and "st = ac_store cfg \<and> ns = ac_namespace cfg \<and> server_abort_request cfg rq name w = Some w1 \<or>
      ns = ce_namespace env \<and> ce_connect env = (\<lambda>w. (Inr st, w)) \<and> run_stop env name w = (Inr line, w1)"
    and "ext s = w1" and "calls s = []"
    and "run_state (reconcile (operator k newClient tcEnv stressEnv lossPointer) ns name) s = (x, s')"
  shows "(\<forall>c \<in> set (calls s'). \<not> disruptive c) \<and>
    (if is_terminal (phase_of run) then calls s' = []
     else if cr_deletionTimestamp run \<noteq> None \<and> k_contains_finalizer k (cr_finalizers run) chaos_run_finalizer
     then sent_runs (calls s') = []
     else if phase_of run = CleaningUp
     then \<forall>r \<in> set (sent_runs (calls s')). phase_of r \<in> {CleaningUp, Completed, Aborted, Failed}
     else \<exists>r. sent_runs (calls s') = [r] \<and>
       phase_of r = (if scenario_of run \<in> {NetworkPartition, NetworkChaos, ResourceExhaustion} \<and>
         phase_of run \<noteq> NoPhase \<and> phase_of run \<noteq> Pending then CleaningUp else Aborted))"
  using assms(3)
proof
  assume c: "st = ac_store cfg \<and> ns = ac_namespace cfg \<and> server_abort_request cfg rq name w = Some w1"
  with server_abort.next_pass [of cfg k name w run rq w1] assms(1,2,4-6) show ?thesis by blast
next
  assume c: "ns = ce_namespace env \<and> ce_connect env = (\<lambda>w. (Inr st, w)) \<and> run_stop env name w = (Inr line, w1)"
  then have e: "env\<lparr>ce_connect := (\<lambda>w. (Inr st, w))\<rparr> = env" by (cases env) simp
  from c have "cli_abort_request st env name w = Some w1" unfolding cli_abort_request_def e by simp
  have ns: "ns = ce_namespace env" using c by simp
  from cli_stop.next_pass [OF assms(1) assms(2) [unfolded ns] \<open>cli_abort_request st env name w = Some w1\<close> assms(4,5)
      assms(6) [unfolded ns]]
  show ?thesis .
qed

theorem user_abort_reaches_operator_witness:
  "\<exists>w1 r. run_stop demo_env ''kill-one'' (ext (demo_sys (demo_run Observing))) =
       (Inr (''ChaosRun '' @ fmt_q ''kill-one'' @ '' abort requested''), w1) \<and>
     sent_runs (calls (snd (demo_pass \<lparr>ext = w1, calls = []\<rparr>))) = [r] \<and> phase_of r = Aborted"
proof -
  let ?w = "ext (demo_sys (demo_run Observing))"
  have n: "cr_name (w_run ?w) = ''kill-one''" "w_run ?w = demo_run Observing"
    by (simp_all add: demo_sys_def demo_run_def)
  then have g: "fst (rs_get demo_store ''flink'' ''kill-one'' ?w) = Inr (demo_run Observing)"
    by (simp add: demo_store_def)
  obtain w1 where w1: "run_stop demo_env ''kill-one'' ?w = (Inr (''ChaosRun '' @ fmt_q ''kill-one'' @ '' abort requested''), w1)"
    using n by (simp add: run_stop_def demo_env_def demo_store_def demo_write_def)
  have d: "''flink'' = ce_namespace demo_env \<and> ce_connect demo_env = (\<lambda>w. (Inr demo_store, w)) \<and>
    run_stop demo_env ''kill-one'' ?w = (Inr (''ChaosRun '' @ fmt_q ''kill-one'' @ '' abort requested''), w1)"
    using w1 by (simp add: demo_env_def)
  define s where "s = \<lparr>ext = w1, calls = []\<rparr>"
  have s: "ext s = w1" "calls s = []" by (simp_all add: s_def)
  have r: "\<not> is_terminal (phase_of (demo_run Observing))" "phase_of (demo_run Observing) \<noteq> CleaningUp"
    "cr_deletionTimestamp (demo_run Observing) = None" "scenario_of (demo_run Observing) = TaskManagerPodKill"
    by (simp_all add: demo_run_def demo_status_def demo_spec_def)
  from user_abort_reaches_operator [OF demo_store_coherent g disjI2 [OF d] s demo_pass_run] r
  obtain z where "sent_runs (calls (snd (demo_pass s))) = [z]" "phase_of z = Aborted"
    by auto
  with w1 show ?thesis unfolding s_def by blast
qed

end
