(* ===== verification/Crd_Schema.thy ===== *)
theory Crd_Schema
  imports Api_Write Cli Stored_Form
begin

section \<open>Which specs the schemas admit\<close>

text \<open>
  \<open>spec_errors\<close> lists the paths at which the JSON of a typed spec breaks a schema of the resource, as
  the validation markers in \<^verbatim>\<open>api/v1alpha1/chaosrun_types.go\<close> and the two files have it. A field marked
  \<^verbatim>\<open>omitempty\<close> is left out when it is an empty string, a zero or a nil pointer, and then nothing is
  checked; a struct is always written. That this is what the schemas say of the JSON is a theorem.
\<close>

definition need :: "string \<Rightarrow> bool \<Rightarrow> string list" where
  "need path ok = (if ok then [] else [path])"

lemma need_Nil [simp]: "need p b = [] \<longleftrightarrow> b"
  by (simp add: need_def)

lemma set_need [simp]: "x \<in> set (need p b) \<longleftrightarrow> \<not> b \<and> x = p"
  by (simp add: need_def)

definition target_errors :: "target_spec \<Rightarrow> string list" where
  "target_errors t = need ''spec.target.type'' (t_type t \<in> {FlinkDeployment, VervericaDeployment, PodSelector})"

definition selection_errors :: "selection_spec \<Rightarrow> string list" where
  "selection_errors sel =
     need ''spec.scenario.selection.mode'' (sel_mode sel \<in> {NoMode, RandomMode, ExplicitMode}) @
     need ''spec.scenario.selection.count'' (sel_count sel = 0 \<or> 1 \<le> sel_count sel)"

definition action_errors :: "crd \<Rightarrow> action_spec \<Rightarrow> string list" where
  "action_errors crd a =
     need ''spec.scenario.action.type''
       (act_type a = DeletePodAction \<or> (crd \<noteq> ChartCrd \<and> act_type a = NoAction)) @
     need ''spec.scenario.action.gracePeriodSeconds''
       (case act_gracePeriodSeconds a of None \<Rightarrow> True | Some g \<Rightarrow> 0 \<le> g)"

definition endpoint_errors :: "crd \<Rightarrow> external_target \<Rightarrow> string list" where
  "endpoint_errors crd x = need ''spec.scenario.network.externalEndpoint.port''
     (x_port x = 0 \<or> (1 \<le> x_port x \<and> x_port x \<le> 65535) \<or> crd = BasesCrd)"

definition network_errors :: "crd \<Rightarrow> network_chaos_spec \<Rightarrow> string list" where
  "network_errors crd n =
     need ''spec.scenario.network.target'' (n_target n \<in> {TMtoTM, TMtoJM, TMtoCheckpoint, TMtoExternal}) @
     need ''spec.scenario.network.direction'' (n_direction n \<in> {NoDirection, Ingress, Egress, Both}) @
     (case n_externalEndpoint n of None \<Rightarrow> [] | Some x \<Rightarrow> endpoint_errors crd x) @
     need ''spec.scenario.network.loss'' (case n_loss n of None \<Rightarrow> True | Some l \<Rightarrow> 0 \<le> l \<and> l \<le> 100)"

definition exhaustion_errors :: "resource_exhaustion_spec \<Rightarrow> string list" where
  "exhaustion_errors re =
     need ''spec.scenario.resourceExhaustion.mode'' (re_mode re \<in> {CPU, Memory}) @
     need ''spec.scenario.resourceExhaustion.workers'' (re_workers re = 0 \<or> 1 \<le> re_workers re) @
     need ''spec.scenario.resourceExhaustion.memoryPercent''
       (re_memoryPercent re = 0 \<or> (1 \<le> re_memoryPercent re \<and> re_memoryPercent re \<le> 100))"

definition scenario_errors :: "crd \<Rightarrow> scenario_spec \<Rightarrow> string list" where
  "scenario_errors crd s =
     need ''spec.scenario.type'' (s_type s \<in> {TaskManagerPodKill, NetworkPartition, NetworkChaos, ResourceExhaustion}) @
     selection_errors (s_selection s) @ action_errors crd (s_action s) @
     (case s_network s of None \<Rightarrow> [] | Some n \<Rightarrow> network_errors crd n) @
     (case s_resourceExhaustion s of None \<Rightarrow> [] | Some re \<Rightarrow> exhaustion_errors re)"

definition observe_errors :: "crd \<Rightarrow> observe_spec \<Rightarrow> string list" where
  "observe_errors crd ob = need ''spec.observe.flinkRest.checkpointStableWindowSeconds''
     (fr_stableWindowSeconds (o_flinkRest ob) = 0 \<or> 1 \<le> fr_stableWindowSeconds (o_flinkRest ob) \<or> crd = BasesCrd)"

definition safety_errors :: "safety_spec \<Rightarrow> string list" where
  "safety_errors sf =
     need ''spec.safety.maxConcurrentRunsPerTarget'' (sf_maxConcurrentRuns sf = 0 \<or> 1 \<le> sf_maxConcurrentRuns sf) @
     need ''spec.safety.minTaskManagersRemaining''
       (case sf_minTaskManagers sf of None \<Rightarrow> True | Some m \<Rightarrow> 0 \<le> m)"

definition spec_errors :: "crd \<Rightarrow> chaos_run_spec \<Rightarrow> string list" where
  "spec_errors crd spec = target_errors (sp_target spec) @ scenario_errors crd (sp_scenario spec) @
     observe_errors crd (sp_observe spec) @ safety_errors (sp_safety spec)"

lemmas schema_defs = spec_errors_def target_errors_def scenario_errors_def selection_errors_def action_errors_def
  network_errors_def endpoint_errors_def exhaustion_errors_def observe_errors_def safety_errors_def

text \<open>The chart's schema is the strictest one.\<close>

lemma chart_admits_less: "spec_errors ChartCrd spec = [] \<Longrightarrow> spec_errors crd spec = []"
proof -
  have "action_errors ChartCrd a = [] \<Longrightarrow> action_errors crd a = []" for a
    by (simp add: action_errors_def)
  moreover have "endpoint_errors ChartCrd x = [] \<Longrightarrow> endpoint_errors crd x = []" for x
    by (auto simp: endpoint_errors_def)
  then have "network_errors ChartCrd n = [] \<Longrightarrow> network_errors crd n = []" for n
    by (simp add: network_errors_def split: option.splits)
  moreover have "observe_errors ChartCrd ob = [] \<Longrightarrow> observe_errors crd ob = []" for ob
    by (auto simp: observe_errors_def)
  ultimately show "spec_errors ChartCrd spec = [] \<Longrightarrow> spec_errors crd spec = []"
    by (simp add: spec_errors_def scenario_errors_def split: option.splits)
qed

lemma chart_requires_action:
  "act_type (s_action (sp_scenario spec)) = NoAction \<Longrightarrow> ''spec.scenario.action.type'' \<in> set (spec_errors ChartCrd spec)"
  by (simp add: spec_errors_def scenario_errors_def action_errors_def)

lemma generated_action_optional:
  "act_type (s_action (sp_scenario spec)) = NoAction \<Longrightarrow> crd \<noteq> ChartCrd \<Longrightarrow>
   ''spec.scenario.action.type'' \<notin> set (spec_errors crd spec)"
  by (auto simp: schema_defs split: option.splits)

subsection \<open>What an admitted spec cannot fail for\<close>

text \<open>The errors of \<^verbatim>\<open>Validate\<close> about the value of a single field.\<close>

fun field_error :: "valid_error \<Rightarrow> bool" where
  "field_error (TargetTypeUnsupported t) = True"
| "field_error (CountTooSmall n) = True"
| "field_error (ModeUnsupported m) = True"
| "field_error NetworkTargetEmpty = True"
| "field_error (ExhaustionModeUnsupported m) = True"
| "field_error (MemoryPercentRange n) = True"
| "field_error (ScenarioUnsupported s) = True"
| "field_error _ = False"

lemma admitted_target: "target_errors t = [] \<Longrightarrow> e \<in> set (validate_target_spec t) \<Longrightarrow> \<not> field_error e"
  by (auto simp: target_errors_def validate_target_spec_def split: target_type.splits option.splits if_splits)

lemma admitted_selection:
  "selection_errors sel = [] \<Longrightarrow> e \<in> set (validate_pod_kill (default_selection sel)) \<Longrightarrow> \<not> field_error e"
  by (auto simp: selection_errors_def validate_pod_kill_def default_selection_def Let_def split: if_splits)

lemma admitted_network:
  "network_errors crd n = [] \<Longrightarrow> e \<in> set (validate_network st (default_network n)) \<Longrightarrow> \<not> field_error e"
  by (auto simp: network_errors_def validate_network_defaults validate_network_def validate_endpoint_def
      split: if_splits option.splits)

lemma admitted_exhaustion:
  "exhaustion_errors re = [] \<Longrightarrow> e \<in> set (validate_exhaustion (default_exhaustion re)) \<Longrightarrow> \<not> field_error e"
  by (auto simp: exhaustion_errors_def validate_exhaustion_def default_exhaustion_def Let_def split: if_splits)

lemma admitted_observe: "e \<in> set (validate_observe_spec ob) \<Longrightarrow> \<not> field_error e"
  by (auto simp: validate_observe_spec_def split: if_splits)

lemma admitted_scenario:
  assumes "scenario_errors crd s = []" and "e \<in> set (validate_scenario_spec (set_scenario_defaults s))"
  shows "\<not> field_error e"
proof -
  have s: "selection_errors (s_selection s) = []" "\<And>n. s_network s = Some n \<Longrightarrow> network_errors crd n = []"
    "\<And>re. s_resourceExhaustion s = Some re \<Longrightarrow> exhaustion_errors re = []"
    "s_type s \<in> {TaskManagerPodKill, NetworkPartition, NetworkChaos, ResourceExhaustion}"
    using assms(1) by (auto simp: scenario_errors_def)
  from s(4) assms(2) show ?thesis
    by (auto simp: validate_scenario_spec_def set_scenario_defaults_def Let_def
        dest: admitted_selection [OF s(1)] admitted_network [OF s(2)] admitted_exhaustion [OF s(3)]
        split: option.splits if_splits)
qed

subsection \<open>The runs of the plugin\<close>

lemma built_target_admitted: "build_target parse tf = Inr target \<Longrightarrow> target_errors target = []"
  by (auto simp: build_target_def target_errors_def zero_target_def Let_def split: if_splits sum.splits)

lemma accepted_target_typed:
  "validate_network_target s = None \<Longrightarrow>
   net_target_of_string (normalise_network_target s) \<in> {TMtoTM, TMtoJM, TMtoCheckpoint, TMtoExternal}"
  using network_target_accepted(1) [of s] by (auto simp: valid_network_targets_def net_target_of_string_def)

lemma accepted_direction_typed:
  "validate_network_direction s = None \<Longrightarrow>
   direction_of_string (normalise_network_direction s) \<in> {NoDirection, Ingress, Egress, Both}"
  using network_direction_accepted(1) [of s] by (auto simp: valid_network_directions_def direction_of_string_def)

lemma cli_parts_admitted [simp]:
  "observe_errors GeneratedCrd (zero_observe\<lparr>o_enabled := e, o_timeout := t\<rparr>) = []" "safety_errors (zero_safety\<lparr>sf_dryRun := d\<rparr>) = []"
  "selection_errors (s_selection zero_scenario) = []" "action_errors GeneratedCrd (s_action zero_scenario) = []"
  "s_network zero_scenario = None" "s_resourceExhaustion zero_scenario = None"
  by (simp_all add: schema_defs zero_observe_def zero_safety_def zero_scenario_def)

lemma cidr_endpoint_admitted:
  "(case cidr_endpoint cidr port of None \<Rightarrow> [] | Some x \<Rightarrow> endpoint_errors GeneratedCrd x) = [] \<longleftrightarrow>
   cidr = '''' \<or> (0 \<le> port \<and> port \<le> 65535)"
  by (auto simp: cidr_endpoint_def endpoint_errors_def)

subsection \<open>Properties\<close>

text \<open>
  C21. A spec that one of the schemas admits keeps its fields in range through defaulting: the operator's
  validation of it can only complain about a field that another one requires, never about an
  unknown enumeration value, a count or a percentage.
\<close>

theorem admitted_fields_in_range:
  assumes "spec_errors crd (cr_spec run) = []" and "e \<in> set (validate (set_defaults run))"
  shows "\<not> field_error e"
  using assms admitted_target admitted_scenario admitted_observe
  by (auto simp: spec_errors_def validate_set_defaults)

theorem admitted_fields_in_range_witness:
  "spec_errors ChartCrd (demo_spec\<lparr>sp_target := zero_target\<lparr>t_type := FlinkDeployment\<rparr>\<rparr>) = [] \<and>
   \<not> field_error TargetNameRequired"
proof -
  let ?run = "(demo_run Pending)\<lparr>cr_spec := demo_spec\<lparr>sp_target := zero_target\<lparr>t_type := FlinkDeployment\<rparr>\<rparr>\<rparr>"
  have "spec_errors ChartCrd (cr_spec ?run) = []" "TargetNameRequired \<in> set (validate (set_defaults ?run))" by code_simp+
  with admitted_fields_in_range [OF this] show ?thesis by simp
qed

text \<open>
  C25. Under the chart's schema the cluster refuses every run for a scenario other than
  TaskManagerPodKill that the API server or the plugin creates, for want of an action type:
  the client writes the empty action as an object, and the chart requires its type. The other two
  schemas have no objection there.
\<close>

theorem chart_refuses_disruptions:
  assumes "request_error q = None" and "q_scenarioType q \<noteq> ''TaskManagerPodKill''"
    and "run \<in> {request_run ns q, partition_run name ns t p, net_chaos_run name ns t c, exhaustion_run name ns t x}"
  shows "''spec.scenario.action.type'' \<in> set (spec_errors ChartCrd (cr_spec run)) \<and>
    (\<forall>crd. crd \<noteq> ChartCrd \<longrightarrow> ''spec.scenario.action.type'' \<notin> set (spec_errors crd (cr_spec run)))"
proof -
  have "scenario_of_string (q_scenarioType q) \<noteq> TaskManagerPodKill"
    using assms(2) by (simp add: scenario_of_string_def)
  then have "act_type (s_action (sp_scenario (cr_spec run))) = NoAction"
    using assms(3)
    by (auto simp: request_run_def request_scenario_def partition_run_def net_chaos_run_def exhaustion_run_def Let_def
        zero_scenario_def split: scenario_type.splits)
  from chart_requires_action [OF this] generated_action_optional [OF this] show ?thesis by blast
qed

theorem chart_refuses_disruptions_witness:
  "''spec.scenario.action.type'' \<in> set (spec_errors ChartCrd (cr_spec (request_run ''flink''
     (demo_request\<lparr>q_scenarioType := ''NetworkPartition''\<rparr>))))"
proof -
  have "request_error (demo_request\<lparr>q_scenarioType := ''NetworkPartition''\<rparr>) = None" by code_simp
  from chart_refuses_disruptions [OF this, of "request_run ''flink'' (demo_request\<lparr>q_scenarioType := ''NetworkPartition''\<rparr>)" "''flink''"]
  show ?thesis by simp
qed

text \<open>
  The schema of the markers admits a run of the plugin whose flags the command accepted exactly
  when the count, the port, the loss, the workers and the percentage are in range; the commands check
  none of these.
\<close>

theorem cli_runs_admitted:
  assumes "build_target parse tf = Inr target"
    and "validate_network_target (pf_networkTarget p) = None" and "validate_network_direction (pf_direction p) = None"
    and "validate_network_target (cf_networkTarget c) = None" and "validate_network_direction (cf_direction c) = None"
    and "validate_resource_exhaustion_mode (xf_mode x) = None"
  shows "(spec_errors GeneratedCrd (cr_spec (tm_kill_run name ns target k)) = [] \<longleftrightarrow> 0 \<le> tk_count k) \<and>
    (spec_errors GeneratedCrd (cr_spec (partition_run name ns target p)) = [] \<longleftrightarrow>
      pf_externalCIDR p = '''' \<or> (0 \<le> pf_externalPort p \<and> pf_externalPort p \<le> 65535)) \<and>
    (spec_errors GeneratedCrd (cr_spec (net_chaos_run name ns target c)) = [] \<longleftrightarrow>
      (cf_externalCIDR c = '''' \<or> (0 \<le> cf_externalPort c \<and> cf_externalPort c \<le> 65535)) \<and> cf_loss c \<le> 100) \<and>
    (spec_errors GeneratedCrd (cr_spec (exhaustion_run name ns target x)) = [] \<longleftrightarrow>
      0 \<le> xf_workers x \<and> (xf_mode x = ''Memory'' \<longrightarrow> 0 \<le> xf_memoryPercent x \<and> xf_memoryPercent x \<le> 100))"
proof -
  note ok = built_target_admitted [OF assms(1)] accepted_target_typed [OF assms(2)] accepted_direction_typed [OF assms(3)]
    accepted_target_typed [OF assms(4)] accepted_direction_typed [OF assms(5)]
  have k: "spec_errors GeneratedCrd (cr_spec (tm_kill_run name ns target k)) = [] \<longleftrightarrow> 0 \<le> tk_count k"
    using ok(1) by (auto simp: tm_kill_run_def spec_errors_def scenario_errors_def selection_errors_def action_errors_def)
  have p: "spec_errors GeneratedCrd (cr_spec (partition_run name ns target p)) = [] \<longleftrightarrow>
      pf_externalCIDR p = '''' \<or> (0 \<le> pf_externalPort p \<and> pf_externalPort p \<le> 65535)"
    using ok(1-3) by (simp add: partition_run_def spec_errors_def scenario_errors_def network_errors_def
        cidr_endpoint_admitted zero_network_def)
  have c: "spec_errors GeneratedCrd (cr_spec (net_chaos_run name ns target c)) = [] \<longleftrightarrow>
      (cf_externalCIDR c = '''' \<or> (0 \<le> cf_externalPort c \<and> cf_externalPort c \<le> 65535)) \<and> cf_loss c \<le> 100"
    using ok(1,4,5) by (simp add: net_chaos_run_def net_chaos_spec_def spec_errors_def scenario_errors_def network_errors_def
        cidr_endpoint_admitted)
  have x: "spec_errors GeneratedCrd (cr_spec (exhaustion_run name ns target x)) = [] \<longleftrightarrow>
      0 \<le> xf_workers x \<and> (xf_mode x = ''Memory'' \<longrightarrow> 0 \<le> xf_memoryPercent x \<and> xf_memoryPercent x \<le> 100)"
    using ok(1) assms(6) by (auto simp: exhaustion_run_def spec_errors_def scenario_errors_def exhaustion_errors_def
        validate_resource_exhaustion_mode_def exhaustion_of_string_def Let_def split: if_splits)
  from k p c x show ?thesis by simp
qed

theorem cli_runs_admitted_witness:
  "\<exists>target. build_target Inl demo_target_flags = Inr target \<and>
     spec_errors GeneratedCrd (cr_spec (net_chaos_run ''nc'' ''flink'' target (net_chaos_defaults\<lparr>cf_loss := 150\<rparr>))) \<noteq> []"
proof -
  have "case build_target Inl demo_target_flags of Inl _ \<Rightarrow> False | Inr _ \<Rightarrow> True" by code_simp
  then obtain target where t: "build_target Inl demo_target_flags = Inr target" by (auto split: sum.splits)
  have "validate_network_target (pf_networkTarget partition_defaults) = None"
    "validate_network_direction (pf_direction partition_defaults) = None"
    "validate_network_target (cf_networkTarget (net_chaos_defaults\<lparr>cf_loss := 150\<rparr>)) = None"
    "validate_network_direction (cf_direction (net_chaos_defaults\<lparr>cf_loss := 150\<rparr>)) = None"
    "validate_resource_exhaustion_mode (xf_mode (exhaustion_defaults\<lparr>xf_mode := ''CPU''\<rparr>)) = None" by code_simp+
  from cli_runs_admitted [OF t this] t show ?thesis by (auto simp: net_chaos_defaults_def)
qed

end
