(* ===== verification/Schema_Match.thy ===== *)
theory Schema_Match
  imports Crd_Schema
begin

section \<open>The schemas and the listed errors agree\<close>

text \<open>
  \<open>spec_errors\<close> is read off the schemas by hand. Here it is compared with what the validation of the
  JSON document by the schema says, with structural pruning and defaults.
\<close>

subsection \<open>Pruning and validation\<close>

text \<open>A schema requires only keys that it names, and the keys of its lists are texts.\<close>

definition text_schema :: "schema \<Rightarrow> bool" where
  "text_schema t = (case t of StringS _ \<Rightarrow> True | TextS _ _ _ \<Rightarrow> True | _ \<Rightarrow> False)"

primrec schema_ok :: "schema \<Rightarrow> bool" where
  "schema_ok (StringS enum) = True"
| "schema_ok (TextS lo hi p) = True"
| "schema_ok (IntS lo hi) = True"
| "schema_ok BoolS = True"
| "schema_ok (ArrayS t) = schema_ok t"
| "schema_ok (ListMapS ks t) = (schema_ok t \<and>
     (case t of ObjectS ps req \<Rightarrow> list_all (\<lambda>k. case map_of ps k of None \<Rightarrow> False | Some p \<Rightarrow> text_schema p) ks
      | _ \<Rightarrow> False))"
| "schema_ok (MapS t) = schema_ok t"
| "schema_ok (ObjectS ps req) =
     (list_all snd (map (map_prod id schema_ok) ps) \<and> list_all (\<lambda>r. r \<in> fst ` set ps) req)"

lemma schema_ok_field: "schema_ok (ObjectS ps req) \<Longrightarrow> map_of ps k = Some t \<Longrightarrow> schema_ok t"
  by (auto simp: list_all_iff dest!: map_of_SomeD)

text \<open>Validation and pruning of an object, in terms of its fields.\<close>

lemma admits_object: "admits (JObject kvs) (ObjectS ps req) \<longleftrightarrow> set req \<subseteq> fst ` set kvs \<and>
    (\<forall>k v t. (k, v) \<in> set kvs \<longrightarrow> map_of ps k = Some t \<longrightarrow> admits v t)"
  by (fastforce simp: list_all_iff split: option.splits)

definition prune_kvs :: "(string \<times> schema) list \<Rightarrow> (string \<times> json) list \<Rightarrow> (string \<times> json) list" where
  "prune_kvs ps kvs =
     List.map_filter (\<lambda>(k, f). map_option (\<lambda>t. (k, f t)) (map_of ps k)) (map (map_prod id prune) kvs)"

lemma prune_object: "prune (JObject kvs) (ObjectS ps req) = JObject (prune_kvs ps kvs)"
  by (simp add: prune_kvs_def)

lemma prune_kvs_simps [simp]:
  "prune_kvs ps [] = []"
  "prune_kvs ps ((k, v) # kvs) = (case map_of ps k of None \<Rightarrow> prune_kvs ps kvs | Some t \<Rightarrow> (k, prune v t) # prune_kvs ps kvs)"
  by (simp_all add: prune_kvs_def map_filter_simps split: option.splits)

lemma pruned_field: "(k, w) \<in> set (prune_kvs ps kvs) \<longleftrightarrow> (\<exists>v t. (k, v) \<in> set kvs \<and> map_of ps k = Some t \<and> w = prune v t)"
proof (induction kvs)
  case (Cons kv kvs)
  obtain k1 v1 where kv: "kv = (k1, v1)" by (cases kv)
  show ?case
    by (cases "map_of ps k1") (auto simp add: kv Cons.IH conj_disj_distribR ex_disj_distrib)
qed simp

lemma pruned_keys: "fst ` set (prune_kvs ps kvs) = {k \<in> fst ` set kvs. map_of ps k \<noteq> None}"
proof (induction kvs)
  case (Cons kv kvs)
  obtain k v where "kv = (k, v)" by (cases kv)
  with Cons show ?case by (cases "map_of ps k") auto
qed simp

lemma pruned_lookup: "map_of (prune_kvs ps kvs) k =
    (case map_of ps k of None \<Rightarrow> None | Some t \<Rightarrow> map_option (\<lambda>v. prune v t) (map_of kvs k))"
proof (induction kvs)
  case (Cons kv kvs)
  obtain k1 v1 where "kv = (k1, v1)" by (cases kv)
  with Cons show ?case by (cases "map_of ps k1") (auto split: option.splits)
qed (simp split: option.splits)

lemma prune_text: "text_schema t \<Longrightarrow> prune v t = v"
  by (cases v; cases t) (simp_all add: text_schema_def)

lemma pruned_item_key:
  assumes "schema_ok (ListMapS ks t)"
  shows "item_key ks (prune x t) = item_key ks x"
proof (cases x)
  case (JObject kvs)
  obtain ps req where t: "t = ObjectS ps req" using assms by (cases t) auto
  have "map_of (prune_kvs ps kvs) k = map_of kvs k" if "k \<in> set ks" for k
    using assms that unfolding t
    by (cases "map_of kvs k") (auto simp: pruned_lookup prune_text list_all_iff split: option.splits)
  then show ?thesis unfolding JObject t prune_object by (simp add: item_key_def)
qed (simp_all add: item_key_def)

lemma admits_pruned: "schema_ok s \<Longrightarrow> admits (prune j s) s = admits j s"
proof (induction j arbitrary: s)
  case (JArray xs)
  show ?case
  proof (cases s)
    case (ArrayS t)
    with JArray show ?thesis by (auto simp: list_all_iff)
  next
    case (ListMapS ks t)
    have "map (\<lambda>x. item_key ks (prune x t)) xs = map (item_key ks) xs"
      using pruned_item_key JArray.prems ListMapS by simp
    moreover have "(\<forall>x \<in> set xs. admits (prune x t) t) \<longleftrightarrow> (\<forall>x \<in> set xs. admits x t)"
      using JArray.IH JArray.prems ListMapS by simp
    ultimately show ?thesis by (simp only: ListMapS admits.simps prune.simps schema.case list_all_iff map_map comp_def set_map ball_simps)
  qed (use JArray.prems in simp_all)
next
  case (JObject kvs)
  show ?case
  proof (cases s)
    case (MapS t)
    with JObject show ?thesis by (fastforce simp: list_all_iff)
  next
    case (ObjectS ps req)
    have sub: "admits (prune v t) t = admits v t" if "(k, v) \<in> set kvs" "map_of ps k = Some t" for k v t
      using JObject.IH [OF that(1), of v t] schema_ok_field [of ps req k t] JObject.prems that(2) ObjectS by simp
    have "set req \<subseteq> {k. map_of ps k \<noteq> None}"
      using JObject.prems ObjectS by (auto simp: list_all_iff map_of_eq_None_iff)
    with sub show ?thesis
      unfolding ObjectS prune_object admits_object pruned_keys by (auto simp: pruned_field) blast
  qed (use JObject.prems in simp_all)
qed simp_all

subsection \<open>Validating a struct\<close>

lemma present_keys: "r \<in> fst ` set (present fs) \<longleftrightarrow> list_ex (\<lambda>(k, v). k = r \<and> v \<noteq> None) fs"
  by (induction fs) (auto split: option.splits)

lemma admits_struct [simp]:
  "admits (struct_json fs) (ObjectS ps req) \<longleftrightarrow> list_all (\<lambda>r. list_ex (\<lambda>(k, v). k = r \<and> v \<noteq> None) fs) req \<and>
     list_all (\<lambda>(k, v). case map_of ps k of None \<Rightarrow> True | Some t \<Rightarrow> opt_all (\<lambda>x. admits x t) v) fs"
proof -
  have "list_all (\<lambda>(k, ok). case map_of ps k of None \<Rightarrow> True | Some t \<Rightarrow> ok t) (map (map_prod id admits) (present fs)) =
      list_all (\<lambda>(k, v). case map_of ps k of None \<Rightarrow> True | Some t \<Rightarrow> opt_all (\<lambda>x. admits x t) v) fs"
    by (induction fs) (auto split: option.splits)
  then show ?thesis by (simp add: struct_json_def present_keys)
qed

lemma admits_values [simp]:
  "opt_all (\<lambda>x. admits x (StringS enum)) (str_val s) \<longleftrightarrow> s = '''' \<or> enum = [] \<or> s \<in> set enum"
  "opt_all (\<lambda>x. admits x BoolS) (bool_val b)"
  "admits (time_json c t) (StringS [])" "admits (duration_json c d) (StringS [])"
  "opt_all (\<lambda>x. admits x strings_schema) (list_val JString xs)"
  "opt_all (\<lambda>x. admits x (MapS (StringS []))) (map_val m)"
  by (auto simp: str_val_def bool_val_def time_json_def duration_json_def list_val_def strings_schema_def map_val_def
      list_all_iff)

lemma admits_ints [simp]:
  "in_i64 i \<Longrightarrow> opt_all (\<lambda>x. admits x (IntS lo hi)) (int_val i) \<longleftrightarrow> i = 0 \<or> within lo hi i"
  "in_i64 i \<Longrightarrow> admits (int_json i) (IntS lo hi) \<longleftrightarrow> within lo hi i"
  by (simp_all add: int_val_def int_json_def parse_int64_fmt_d)

lemma opt_all_map [simp]: "opt_all P (map_option f x) = opt_all (\<lambda>y. P (f y)) x"
  by (cases x) simp_all

lemma opt_all_True [simp]: "opt_all (\<lambda>y. True) x"
  by (cases x) simp_all

lemma val_present [simp]:
  "str_val s = None \<longleftrightarrow> s = ''''" "(\<exists>y. str_val s = Some y) \<longleftrightarrow> s \<noteq> ''''"
  by (simp_all add: str_val_def)

subsection \<open>The enumerations\<close>

lemma canonical_strings:
  "target_type_of_string (string_of_target_type t) = t \<Longrightarrow>
   string_of_target_type t \<in> {''FlinkDeployment'', ''VervericaDeployment'', ''PodSelector''} \<longleftrightarrow>
   t \<in> {FlinkDeployment, VervericaDeployment, PodSelector}"
  "scenario_wf sc \<Longrightarrow>
   string_of_scenario sc \<in> {''TaskManagerPodKill'', ''NetworkPartition'', ''NetworkChaos'', ''ResourceExhaustion''} \<longleftrightarrow>
   sc \<in> {TaskManagerPodKill, NetworkPartition, NetworkChaos, ResourceExhaustion}"
  "mode_of_string (string_of_mode m) = m \<Longrightarrow>
   string_of_mode m \<in> {'''', ''Random'', ''Explicit''} \<longleftrightarrow> m \<in> {NoMode, RandomMode, ExplicitMode}"
  "action_of_string (string_of_action a) = a \<Longrightarrow> string_of_action a = '''' \<longleftrightarrow> a = NoAction"
  "action_of_string (string_of_action a) = a \<Longrightarrow> string_of_action a = ''DeletePod'' \<longleftrightarrow> a = DeletePodAction"
  "net_target_of_string (string_of_net_target nt) = nt \<Longrightarrow>
   string_of_net_target nt \<in> {''TMtoTM'', ''TMtoJM'', ''TMtoCheckpoint'', ''TMtoExternal''} \<longleftrightarrow>
   nt \<in> {TMtoTM, TMtoJM, TMtoCheckpoint, TMtoExternal}"
  "direction_of_string (string_of_direction d) = d \<Longrightarrow>
   string_of_direction d \<in> {'''', ''Ingress'', ''Egress'', ''Both''} \<longleftrightarrow> d \<in> {NoDirection, Ingress, Egress, Both}"
  "exhaustion_of_string (string_of_exhaustion x) = x \<Longrightarrow>
   string_of_exhaustion x \<in> {''CPU'', ''Memory''} \<longleftrightarrow> x \<in> {CPU, Memory}"
  subgoal by (cases t) (simp_all add: target_type_of_string_def string_of_target_type_def split: if_splits)
  subgoal by (cases sc) (simp_all add: scenario_wf_def scenario_of_string_def string_of_scenario_def split: if_splits)
  subgoal by (cases m) (simp_all add: mode_of_string_def string_of_mode_def split: if_splits)
  subgoal by (cases a) (simp_all add: action_of_string_def string_of_action_def split: if_splits)
  subgoal by (cases a) (simp_all add: action_of_string_def string_of_action_def split: if_splits)
  subgoal by (cases nt) (simp_all add: net_target_of_string_def string_of_net_target_def split: if_splits)
  subgoal by (cases d) (simp_all add: direction_of_string_def string_of_direction_def split: if_splits)
  subgoal by (cases x) (simp_all add: exhaustion_of_string_def string_of_exhaustion_def split: if_splits)
  done

subsection \<open>Struct by struct\<close>

lemma selector_admitted: "admits (selector_json sel) selector_schema"
proof -
  have "admits (requirement_json r) (ObjectS [(''key'', StringS []), (''operator'', StringS []),
      (''values'', strings_schema)] [''key'', ''operator''])" for r
    by (simp add: requirement_json_def)
  then show ?thesis by (simp add: selector_json_def selector_schema_def list_val_def list_all_iff)
qed

lemma target_match:
  "target_type_of_string (string_of_target_type (t_type t)) = t_type t \<Longrightarrow>
   admits (target_json t) target_schema \<longleftrightarrow> target_errors t = []"
  using canonical_strings(1) [of "t_type t"]
  by (cases "t_selector t") (simp_all add: target_json_def target_schema_def target_errors_def selector_admitted)

lemma selection_match:
  "mode_of_string (string_of_mode (sel_mode s)) = sel_mode s \<Longrightarrow> in_i32 (sel_count s) \<Longrightarrow>
   admits (selection_json s) selection_schema \<longleftrightarrow> selection_errors s = []"
  using canonical_strings(3) [of "sel_mode s"]
  by (auto simp: selection_json_def selection_schema_def selection_errors_def in_i32_i64 within_def)

lemma endpoint_match:
  "in_i32 (x_port x) \<Longrightarrow>
   admits (endpoint_json x) (ObjectS [(''cidr'', StringS []), (''hostname'', StringS []),
     (''port'', if crd = BasesCrd then IntS None None else IntS (Some 1) (Some 65535))] []) \<longleftrightarrow> endpoint_errors crd x = []"
  by (simp add: endpoint_json_def endpoint_errors_def in_i32_i64 within_def)

lemma opt_all_cong: "(\<And>y. x = Some y \<Longrightarrow> P y = Q y) \<Longrightarrow> opt_all P x = opt_all Q x"
  by (cases x) simp_all

lemma network_match:
  assumes "network_wf n"
  shows "admits (network_json c n) (network_schema (if crd = BasesCrd then IntS None None else IntS (Some 1) (Some 65535))) \<longleftrightarrow>
    network_errors crd n = []"
proof -
  let ?port = "if crd = BasesCrd then IntS None None else IntS (Some 1) (Some 65535)"
  have x: "opt_all (\<lambda>x. admits (endpoint_json x) (ObjectS [(''cidr'', StringS []), (''hostname'', StringS []), (''port'', ?port)] []))
      (n_externalEndpoint n) \<longleftrightarrow> (case n_externalEndpoint n of None \<Rightarrow> [] | Some x \<Rightarrow> endpoint_errors crd x) = []"
    using assms endpoint_match [of "the (n_externalEndpoint n)" crd]
    by (cases "n_externalEndpoint n") (simp_all add: network_wf_def)
  have l: "opt_all (\<lambda>y. admits (int_json y) (IntS (Some 0) (Some 100))) (n_loss n) \<longleftrightarrow>
      (case n_loss n of None \<Rightarrow> True | Some l \<Rightarrow> 0 \<le> l \<and> l \<le> 100)"
    using assms by (cases "n_loss n") (simp_all add: network_wf_def in_i32_i64 within_def)
  show ?thesis
    using canonical_strings(6) [of "n_target n"] canonical_strings(7) [of "n_direction n"] assms
    by (simp add: network_json_def network_schema_def network_errors_def x l network_wf_def)
qed

lemma exhaustion_match:
  assumes "exhaustion_wf re"
  shows "admits (exhaustion_json c re) exhaustion_schema \<longleftrightarrow> exhaustion_errors re = []"
  using canonical_strings(8) [of "re_mode re"] assms
  by (simp add: exhaustion_json_def exhaustion_schema_def exhaustion_errors_def exhaustion_wf_def in_i32_i64 within_def)

lemma scenario_match:
  assumes "scenario_spec_wf s"
    and "admits (action_json (s_action s)) action \<longleftrightarrow> action_errors crd (s_action s) = []"
    and "port = (if crd = BasesCrd then IntS None None else IntS (Some 1) (Some 65535))"
  shows "admits (scenario_json c s) (scenario_schema action port) \<longleftrightarrow> scenario_errors crd s = []"
proof -
  have n: "opt_all (\<lambda>n. admits (network_json c n) (network_schema port)) (s_network s) \<longleftrightarrow>
      (case s_network s of None \<Rightarrow> [] | Some n \<Rightarrow> network_errors crd n) = []"
    using assms(1,3) network_match [of "the (s_network s)" c crd]
    by (cases "s_network s") (simp_all add: scenario_spec_wf_def)
  have re: "opt_all (\<lambda>re. admits (exhaustion_json c re) exhaustion_schema) (s_resourceExhaustion s) \<longleftrightarrow>
      (case s_resourceExhaustion s of None \<Rightarrow> [] | Some re \<Rightarrow> exhaustion_errors re) = []"
    using assms(1) exhaustion_match [of "the (s_resourceExhaustion s)" c]
    by (cases "s_resourceExhaustion s") (simp_all add: scenario_spec_wf_def)
  show ?thesis
    using canonical_strings(2) [of "s_type s"] selection_match [of "s_selection s"] assms(1,2)
    by (simp add: scenario_json_def scenario_schema_def scenario_errors_def scenario_spec_wf_def n re)
qed

lemma grace_match:
  "opt_all in_i64 g \<Longrightarrow> opt_all (\<lambda>y. admits (int_json y) (IntS (Some 0) None)) g \<longleftrightarrow>
   (case g of None \<Rightarrow> True | Some x \<Rightarrow> 0 \<le> x)"
  by (cases g) (simp_all add: within_def)

lemma action_match:
  assumes "action_of_string (string_of_action (act_type a)) = act_type a" and "opt_all in_i64 (act_gracePeriodSeconds a)"
  shows "admits (action_json a) (ObjectS [(''type'', StringS [''DeletePod'']), (''gracePeriodSeconds'', IntS (Some 0) None)] []) \<longleftrightarrow>
      action_errors GeneratedCrd a = []"
    and "admits (action_json a) (ObjectS [(''gracePeriodSeconds'', IntS (Some 0) None), (''type'', StringS [''DeletePod'', ''''])] []) \<longleftrightarrow>
      action_errors BasesCrd a = []"
    and "admits (action_json a) (ObjectS [(''gracePeriodSeconds'', IntS (Some 0) None), (''type'', StringS [''DeletePod''])] [''type'']) \<longleftrightarrow>
      action_errors ChartCrd a = []"
  using canonical_strings(4,5) [OF assms(1)] grace_match [OF assms(2)]
  by (auto simp: action_json_def action_errors_def)

lemma safety_match:
  assumes "safety_wf sf"
  shows "opt_all (\<lambda>y. admits (int_json y) (IntS (Some 0) None)) (sf_minTaskManagers sf) \<and>
      (sf_maxConcurrentRuns sf = 0 \<or> within (Some 1) None (sf_maxConcurrentRuns sf)) \<longleftrightarrow> safety_errors sf = []"
  using assms by (cases "sf_minTaskManagers sf") (auto simp: safety_errors_def safety_wf_def within_def in_i32_i64)

lemma schema_ok_spec: "schema_ok (spec_schema crd)"
  by (cases crd) (simp_all add: spec_schema_def generated_spec_schema_def bases_spec_schema_def chart_spec_schema_def
      spec_schema_of_def observe_schema_def scenario_schema_def target_schema_def selector_schema_def strings_schema_def
      network_schema_def exhaustion_schema_def selection_schema_def)

lemma spec_match:
  assumes "spec_wf sp"
  shows "admits (spec_json c sp) (spec_schema crd) \<longleftrightarrow> spec_errors crd sp = []"
proof -
  have wf: "scenario_spec_wf (sp_scenario sp)" "observe_wf (sp_observe sp)" "safety_wf (sp_safety sp)"
    "target_type_of_string (string_of_target_type (t_type (sp_target sp))) = t_type (sp_target sp)"
    "action_of_string (string_of_action (act_type (s_action (sp_scenario sp)))) = act_type (s_action (sp_scenario sp))"
    "opt_all in_i64 (act_gracePeriodSeconds (s_action (sp_scenario sp)))"
    using assms by (simp_all add: spec_wf_def scenario_spec_wf_def)
  note act = action_match [OF wf(5,6)]
  note parts = spec_json_def spec_schema_of_def spec_errors_def control_json_def observe_schema_def observe_json_def
    flink_rest_json_def safety_json_def target_match [OF wf(4)]
  show ?thesis
  proof (cases crd)
    case GeneratedCrd
    have "admits (scenario_json c (sp_scenario sp)) (scenario_schema (ObjectS [(''type'', StringS [''DeletePod'']),
        (''gracePeriodSeconds'', IntS (Some 0) None)] []) (IntS (Some 1) (Some 65535))) \<longleftrightarrow>
        scenario_errors GeneratedCrd (sp_scenario sp) = []"
      by (rule scenario_match [OF wf(1) act(1)]) simp
    with wf(2,3) safety_match [OF wf(3)] show ?thesis
      by (simp add: GeneratedCrd spec_schema_def generated_spec_schema_def parts observe_errors_def observe_wf_def safety_wf_def
          in_i32_i64 within_def) blast
  next
    case BasesCrd
    have "admits (scenario_json c (sp_scenario sp)) (scenario_schema (ObjectS [(''gracePeriodSeconds'', IntS (Some 0) None),
        (''type'', StringS [''DeletePod'', ''''])] []) (IntS None None)) \<longleftrightarrow> scenario_errors BasesCrd (sp_scenario sp) = []"
      by (rule scenario_match [OF wf(1) act(2)]) simp
    with wf(2,3) safety_match [OF wf(3)] show ?thesis
      by (simp add: BasesCrd spec_schema_def bases_spec_schema_def parts observe_errors_def observe_wf_def safety_wf_def
          in_i32_i64 within_def) blast
  next
    case ChartCrd
    have "admits (scenario_json c (sp_scenario sp)) (scenario_schema (ObjectS [(''gracePeriodSeconds'', IntS (Some 0) None),
        (''type'', StringS [''DeletePod''])] [''type'']) (IntS (Some 1) (Some 65535))) \<longleftrightarrow>
        scenario_errors ChartCrd (sp_scenario sp) = []"
      by (rule scenario_match [OF wf(1) act(3)]) simp
    with wf(2,3) safety_match [OF wf(3)] show ?thesis
      by (simp add: ChartCrd spec_schema_def chart_spec_schema_def parts observe_errors_def observe_wf_def safety_wf_def
          in_i32_i64 within_def) blast
  qed
qed

subsection \<open>Filling in defaults\<close>

text \<open>A default that its field's schema admits changes no verdict, unless the field is required and missing.\<close>

lemma admits_filled:
  "map_of ps k = Some t \<Longrightarrow> admits v t \<Longrightarrow> k \<notin> set req \<Longrightarrow>
   admits (fill_default [k] v j) (ObjectS ps req) = admits j (ObjectS ps req)"
  by (cases j) (auto simp: list_all_iff simp del: admits.simps(6) simp add: admits_object)

lemma admits_fields: "admits (JObject kvs) (ObjectS ps req) \<longleftrightarrow> set req \<subseteq> fst ` set kvs \<and>
    (\<forall>(k, v) \<in> set kvs. \<forall>t. map_of ps k = Some t \<longrightarrow> admits v t)"
  unfolding admits_object by auto

lemma admits_filled_in:
  assumes "map_of ps k = Some t" and "\<And>x. admits (fill_default (k2 # ks) v x) t = admits x t"
  shows "admits (fill_default (k # k2 # ks) v j) (ObjectS ps req) = admits j (ObjectS ps req)"
proof (cases j)
  case (JObject kvs)
  let ?f = "\<lambda>(n, x). (n, if n = k then fill_default (k2 # ks) v x else x)"
  have "fst ` set (map ?f kvs) = fst ` set kvs" by force
  moreover have "(\<forall>(n, x) \<in> set (map ?f kvs). \<forall>t. map_of ps n = Some t \<longrightarrow> admits x t) \<longleftrightarrow>
      (\<forall>(n, x) \<in> set kvs. \<forall>t. map_of ps n = Some t \<longrightarrow> admits x t)"
    using assms by (induction kvs) (auto split: if_splits)
  ultimately have "admits (JObject (map ?f kvs)) (ObjectS ps req) = admits (JObject kvs) (ObjectS ps req)"
    unfolding admits_fields by (simp only:)
  then show ?thesis by (simp only: JObject fill_default.simps)
qed simp_all

lemma admits_stored: "admits (stored_spec crd (spec_json c sp)) (spec_schema crd) = admits (spec_json c sp) (spec_schema crd)"
proof (cases crd)
  case GeneratedCrd
  have n: "admits (fill_default [''direction''] (JString ''Both'') x) (network_schema port) = admits x (network_schema port)"
    for x port
    unfolding network_schema_def by (rule admits_filled [where t = "StringS [''Ingress'', ''Egress'', ''Both'']"]) simp_all
  have s: "admits (fill_default [''network'', ''direction''] (JString ''Both'') x) (scenario_schema action port) =
      admits x (scenario_schema action port)" for x action port
    unfolding scenario_schema_def by (rule admits_filled_in [where t = "network_schema port"]) (simp_all add: n)
  have "admits (fill_default [''scenario'', ''network'', ''direction''] (JString ''Both'') x) (spec_schema GeneratedCrd) =
      admits x (spec_schema GeneratedCrd)" for x
    unfolding spec_schema_def generated_spec_schema_def spec_schema_of_def crd.case
    by (rule admits_filled_in) (simp, rule s)
  with GeneratedCrd show ?thesis by (simp add: stored_spec_simps admits_pruned [OF schema_ok_spec])
qed (simp_all add: stored_spec_simps admits_pruned [OF schema_ok_spec])

subsection \<open>The property\<close>

text \<open>
  C22. The listed errors are what the schemas find: whatever Go values a spec has, the server's
  validation of the JSON a client writes of it, after pruning and defaulting as before, accepts it under a schema
  exactly when no error is listed for that schema.
\<close>

theorem schema_errors_exact:
  assumes "spec_wf sp"
  shows "(admits (stored_spec crd (spec_json c sp)) (spec_schema crd) \<longleftrightarrow> spec_errors crd sp = []) \<and>
    (admits (spec_json c sp) (spec_schema crd) \<longleftrightarrow> spec_errors crd sp = [])"
  using spec_match [OF assms] admits_stored by simp

theorem schema_errors_exact_witness:
  "spec_errors ChartCrd (demo_spec\<lparr>sp_safety := (sp_safety demo_spec)\<lparr>sf_maxConcurrentRuns := -1\<rparr>\<rparr>) \<noteq> [] \<and>
   \<not> admits (spec_json demo_codec (demo_spec\<lparr>sp_safety := (sp_safety demo_spec)\<lparr>sf_maxConcurrentRuns := -1\<rparr>\<rparr>))
     (spec_schema ChartCrd)"
proof -
  let ?sp = "demo_spec\<lparr>sp_safety := (sp_safety demo_spec)\<lparr>sf_maxConcurrentRuns := -1\<rparr>\<rparr>"
  have "spec_wf ?sp" "spec_errors ChartCrd ?sp \<noteq> []" by code_simp+
  with schema_errors_exact [OF this(1), of ChartCrd demo_codec] show ?thesis by blast
qed

end
