(* ===== verification/Admitted_Status.thy ===== *)
theory Admitted_Status
  imports Run_End Schema_Match
begin

section \<open>The schemas admit what the operator writes\<close>

text \<open>
  A status breaks a schema of the repository only by its phase, its verdict or two conditions of one type:
  everything else that the schemas require is always written. The phases of a pass are known from the phase
  machine; here the verdicts and the conditions. The schema generated from today's markers would also limit the
  texts of conditions, which the operator does not check.
\<close>

subsection \<open>Statuses that the schemas admit\<close>

definition known_status :: "chaos_run_status \<Rightarrow> bool" where
  "known_status st \<longleftrightarrow> (\<forall>x. st_phase st \<noteq> OtherPhase x) \<and> (\<forall>x. st_verdict st \<noteq> OtherVerdict x) \<and>
     distinct (map cond_key (st_conditions st))"

lemma known_strings:
  "(\<And>x. p \<noteq> OtherPhase x) \<Longrightarrow> string_of_phase p = '''' \<or> string_of_phase p \<in>
     {''Pending'', ''Injecting'', ''Observing'', ''CleaningUp'', ''Completed'', ''Aborted'', ''Failed''}"
  "(\<And>x. v \<noteq> OtherVerdict x) \<Longrightarrow> string_of_verdict v \<in> {'''', ''Passed'', ''Failed'', ''Inconclusive''}"
  subgoal by (cases p) (auto simp: string_of_phase_def)
  subgoal by (cases v) (auto simp: string_of_verdict_def)
  done

lemma parts_admitted [simp]:
  "admits (summary_json t) summary_schema"
  "admits (record_json c r) chart_record_schema"
  "admits (condition_json c cd) condition_schema"
  by (simp_all add: summary_json_def summary_schema_def record_json_def chart_record_schema_def condition_json_def
      condition_schema_def)

lemma lists_admitted [simp]:
  "(\<And>x. admits (f x) t) \<Longrightarrow> opt_all (\<lambda>x. admits x (ArrayS t)) (list_val f xs)"
  by (simp add: list_val_def list_all_iff)

lemma condition_item_key: "item_key [''type''] (condition_json c cd) = [Some (JString (cond_key cd))]"
  by (simp add: item_key_def condition_json_def struct_json_def cond_key_def)

lemma conditions_admitted [simp]:
  "opt_all (\<lambda>x. admits x (ListMapS [''type''] condition_schema)) (list_val (condition_json c) cs) \<longleftrightarrow>
   distinct (map cond_key cs)"
proof -
  have "distinct (map (\<lambda>cd. [Some (JString (cond_key cd))]) cs) \<longleftrightarrow> distinct (map cond_key cs)"
    by (simp add: distinct_map inj_on_def)
  then show ?thesis by (simp add: list_val_def list_all_iff comp_def condition_item_key)
qed

lemma observation_admitted:
  assumes "observation_wf ob"
  shows "admits (observation_json c ob) bases_observation_schema" "admits (observation_json c ob) chart_observation_schema"
proof -
  have "opt_all (\<lambda>y. admits (int_json y) (IntS None None)) x" if "opt_all in_i64 x" for x
    using that by (cases x) (simp_all add: within_def)
  with assms show "admits (observation_json c ob) bases_observation_schema"
    "admits (observation_json c ob) chart_observation_schema"
    by (simp_all add: observation_json_def observation_wf_def bases_observation_schema_def chart_observation_schema_def
        within_def)
qed

lemma status_admitted:
  assumes "known_status st" and "opt_all observation_wf (st_observation st)" and "crd \<noteq> GeneratedCrd"
  shows "admits (status_json c st) (status_schema crd)"
proof -
  have p: "string_of_phase (st_phase st) = '''' \<or> string_of_phase (st_phase st) \<in>
      {''Pending'', ''Injecting'', ''Observing'', ''CleaningUp'', ''Completed'', ''Aborted'', ''Failed''}"
    by (rule known_strings(1)) (use assms(1) in \<open>simp add: known_status_def\<close>)
  have v: "string_of_verdict (st_verdict st) \<in> {'''', ''Passed'', ''Failed'', ''Inconclusive''}"
    by (rule known_strings(2)) (use assms(1) in \<open>simp add: known_status_def\<close>)
  have cs: "distinct (map cond_key (st_conditions st))" using assms(1) by (simp add: known_status_def)
  have ob: "opt_all (\<lambda>ob. admits (observation_json c ob) s) (st_observation st)"
    if "s \<in> {bases_observation_schema, chart_observation_schema}" for s
    using assms(2) observation_admitted that by (cases "st_observation st") auto
  show ?thesis
  proof (cases crd)
    case GeneratedCrd
    with assms(3) show ?thesis by simp
  next
    case BasesCrd
    with p v ob cs show ?thesis
      by (simp add: status_json_def status_schema_def bases_status_schema_def verdict_schema_def)
  next
    case ChartCrd
    with p v ob cs show ?thesis
      by (simp add: status_json_def status_schema_def chart_status_schema_def verdict_schema_def) blast
  qed
qed

subsection \<open>The verdicts and the conditions of a pass\<close>

definition known_run :: "chaos_run \<Rightarrow> bool" where
  "known_run r \<longleftrightarrow> (\<forall>x. st_verdict (cr_status r) \<noteq> OtherVerdict x) \<and> distinct (map cond_key (st_conditions (cr_status r)))"

lemma known_run_simps [simp]:
  "known_run (transition_phase r p m) = known_run r"
  "known_run (record_observation r res) = known_run r"
  "known_run (record_recovery r t secs) = known_run r"
  "known_run (upd_status (st_startedAt_update f) r) = known_run r"
  "known_run (upd_status (st_observingStartedAt_update f) r) = known_run r"
  "known_run (upd_status (st_targetSummary_update h) r) = known_run r"
  "known_run (upd_status (st_verdict_update (\<lambda>_. v)) r) =
     ((\<forall>x. v \<noteq> OtherVerdict x) \<and> distinct (map cond_key (st_conditions (cr_status r))))"
  "known_run (upd_status (\<lambda>st. st\<lparr>st_selectedPods := a, st_dryRunPreview := b\<rparr>) r) = known_run r"
  "known_run (upd_status (\<lambda>st. st\<lparr>st_selectedPods := a, st_injectedPods := c, st_observation := g st\<rparr>) r) = known_run r"
  "known_run (set_defaults r) = known_run r"
  by (simp_all add: known_run_def transition_phase_def record_observation_def record_recovery_def Let_def)

lemma kept_condition_keys [simp]:
  "map cond_key (st_conditions (kept_status crd st)) = map cond_key (st_conditions st)"
  by (simp add: kept_status_def cond_key_def comp_def)

lemma known_run_trans:
  "ended_as p v m r r' \<Longrightarrow> known_run r' = ((\<forall>x. v \<noteq> OtherVerdict x) \<and> distinct (map cond_key (st_conditions (cr_status r))))"
  "driver_frame r r' \<Longrightarrow> known_run r' = known_run r"
  "cr_status r' = kept_status crd (cr_status r) \<Longrightarrow> known_run r' = known_run r"
  by (auto simp: known_run_def ended_as_def driver_frame_def Let_def)

lemma known_run_keys: "known_run r \<Longrightarrow> distinct (map cond_key (st_conditions (cr_status r)))"
  by (simp add: known_run_def)

lemma known_timeout [simp]: "fst (timeout_verdict sc st d) \<noteq> OtherVerdict x"
  by (simp add: timeout_verdict_def Let_def)

lemma known_cleaned: "known_run r \<Longrightarrow> cleaned_verdict (st_verdict (cr_status r)) \<noteq> OtherVerdict x"
  by (simp add: known_run_def cleaned_verdict_def)

abbreviation sends_known :: "call \<Rightarrow> bool" where
  "sends_known \<equiv> patches_only known_run"

lemma condition_known:
  assumes "conditions_keyed k" and "known_run run"
  shows "triple P known_run (condition_set k ct st a b run)"
  unfolding condition_set_def
proof (rule triple_State)
  fix s r s'
  assume c: "set_condition k run ct st a b s = (r, s')"
  then have "known_run r"
    using assms by (auto simp: set_condition_def known_run_def conditions_keyed_def split: prod.splits)
  then show "emits P s s' \<and> known_run r" using set_condition_silent [OF c] by (simp add: emits_silent)
qed

lemmas known_rules = carry_rules(1-8) triple_bind [OF condition_known] carry_rules(10-16)

context operator_parts begin

lemma observing_known:
  assumes "conditions_keyed (rc_kube rc)" and "known_run run"
  shows "logs sends_known (reconcile_observing rc run)"
proof -
  have secs: "logs P (case anchor of None \<Rightarrow> State_Monad.return None
      | Some t0 \<Rightarrow> State_Monad.bind (read_clock (rc_kube rc))
          (\<lambda>t. State_Monad.return (Some (whole_seconds (time_sub t t0)))))" for P anchor
    by (intro known_rules) simp_all
  show ?thesis
    unfolding reconcile_observing_def observing_disabled_def observing_timeout_def observing_within_def
      observing_partition_def observing_poll_def observing_recovered_def Let_def
    by (intro known_rules bind_resolve bind_observe triple_bind [OF secs]) (simp_all add: assms known_run_trans known_run_keys)
qed

lemma cleaning_known:
  assumes "conditions_keyed (rc_kube rc)" and "known_run run"
  shows "logs sends_known (reconcile_cleaning_up rc run)"
proof -
  have verdict: "triple Q (\<lambda>r2. known_run r1 \<longrightarrow> known_run r2)
      (if b then aborted_run (rc_kube rc) m r1 else finalized_run (rc_kube rc) (cleaned_verdict (st_verdict (cr_status r1))) m' r1)"
    for Q b r1 m m'
    by (simp, intro conjI impI triple_weaken [OF aborted_carries] triple_weaken [OF finalized_carries])
      (simp_all add: known_run_trans known_run_keys known_cleaned)
  show ?thesis
    unfolding reconcile_cleaning_up_def cleaning_overdue_def cleaning_try_def cleaning_complete_def Let_def
    by (intro known_rules triple_bind [OF cleanup_carries] triple_bind [OF verdict])
      (simp_all add: assms known_run_trans known_run_keys)
qed

lemma abort_known:
  assumes "conditions_keyed (rc_kube rc)" and "known_run run"
  shows "logs sends_known (reconcile_abort rc run)"
  unfolding reconcile_abort_def Let_def
  by (intro known_rules) (simp_all add: assms known_run_trans known_run_keys)

end

lemma start_injecting_known: "known_run run \<Longrightarrow> logs sends_known (start_injecting rc run)"
  unfolding start_injecting_def by (intro known_rules) simp_all

lemma wait_known:
  assumes "patch_stores (rc_kube rc) crd sp" and "known_run run" and "conditions_keyed (rc_kube rc)"
  shows "triple sends_known (\<lambda>(e, r). known_run r) (wait_for_stable_checkpoint rc run base)"
proof -
  have stable: "triple P (\<lambda>_. True) (State (is_checkpoint_stable k c n))" for P k c n
    by (rule triple_silent) (rule is_checkpoint_stable_silent)
  have patch: "triple sends_known (\<lambda>x. \<forall>r'. x = Inr r' \<longrightarrow> known_run r') (State (status_patch (rc_kube rc) b r))"
    if "known_run r" for b r
  proof (rule triple_State)
    fix s x s'
    assume p: "status_patch (rc_kube rc) b r s = (x, s')"
    then have "\<exists>w w'. k_status_patch (rc_kube rc) b r w = (x, w')"
      by (auto simp: status_patch_def write_ext_def split: prod.splits)
    with patch_storesD(1) [OF assms(1)] that have "\<forall>r'. x = Inr r' \<longrightarrow> known_run r'"
      by (auto simp: known_run_def)
    with status_patch_calls [OF p] that
    show "emits sends_known s s' \<and> (\<forall>r'. x = Inr r' \<longrightarrow> known_run r')" by (simp add: emits_def)
  qed
  show ?thesis
    unfolding wait_for_stable_checkpoint_def Let_def
    by (intro known_rules triple_bind [OF stable] triple_bind [OF patch]) (use assms(2,3) in \<open>auto simp: known_run_trans known_run_keys\<close>)
qed

lemma pending_known:
  assumes "patch_stores (rc_kube rc) crd sp" and "known_run run" and "conditions_keyed (rc_kube rc)"
  shows "logs sends_known (reconcile_pending rc run)"
proof -
  have wait: "logs sends_known (pending_checkpoint_wait rc r)" if "known_run r" for r
    unfolding pending_checkpoint_wait_def
    by (intro known_rules triple_bind [OF wait_known [OF assms(1) that assms(3)]] start_injecting_known) auto
  show ?thesis
    unfolding reconcile_pending_def pending_invalid_def Let_def
    by (intro known_rules(1-13) patch_on_carries [OF assms(1)] wait start_injecting_known)
      (use assms(2,3) in \<open>auto simp: known_run_def ended_as_def Let_def\<close>)
qed

lemma observing_started_known: "known_run run \<Longrightarrow> logs sends_known (transition_to_observing rc run)"
  unfolding transition_to_observing_def Let_def by (intro known_rules) simp_all

lemma add_finalizer_known:
  assumes "patch_stores (rc_kube rc) crd sp" and "known_run run" and "conditions_keyed (rc_kube rc)"
  shows "logs sends_known (injecting_add_finalizer rc run)"
  unfolding injecting_add_finalizer_def Let_def
  by (intro triple_if object_on_carries [OF assms(1)] observing_started_known)
    (use assms(2,3) in \<open>simp_all add: known_run_def\<close>)

context operator_parts begin

lemma injecting_known:
  assumes "patch_stores (rc_kube rc) crd sp" and "known_run run" and "conditions_keyed (rc_kube rc)"
  shows "logs sends_known (reconcile_injecting rc run)"
proof -
  have noted: "logs sends_known (injecting_done rc base r t res)" if "known_run r" for base r t res
    unfolding injecting_done_def Let_def
    by (intro known_rules(1-13) patch_on_carries [OF assms(1)] add_finalizer_known [OF assms(1)])
      (use that assms(3) in \<open>auto simp: known_run_def Let_def\<close>)
  have inject: "logs sends_known (injecting_inject rc base r t)" if "known_run r" for base r t
    unfolding injecting_inject_def injecting_failed_def Let_def
    by (intro known_rules triple_bind [OF inject_carries] triple_driver_result noted)
      (use that assms(3) in \<open>auto simp: known_run_trans known_run_keys\<close>)
  show ?thesis
    unfolding reconcile_injecting_def injecting_unresolved_def injecting_resolved_def
      injecting_unsafe_def injecting_checked_def injecting_dry_run_def Let_def
    by (intro known_rules bind_resolve bind_safety observing_started_known inject)
      (use assms(2,3) in \<open>auto simp: known_run_trans known_run_keys\<close>)
qed

lemma pass_known:
  assumes "patch_stores (rc_kube rc) crd sp" and "known_run run" and "conditions_keyed (rc_kube rc)"
  shows "logs sends_known (reconcile_run rc run)"
  unfolding reconcile_run_def reconcile_phase_def
  by (intro known_rules deleted_patches abort_known pending_known [OF assms(1)] injecting_known [OF assms(1)]
      observing_known cleaning_known) (use assms(2,3) in auto)

end

subsection \<open>Properties\<close>

text \<open>
  C7. The schema checked in under config/crd/bases and the one of the Helm chart admit every status a pass sends:
  when the run it fetched has a phase and a verdict that the types know and one condition of a type at most, the
  JSON of the status, pruned or not, is valid, its list of conditions included, whose types must differ. The counts and
  seconds are integers that Go can hold, and SetStatusCondition adds no condition of a type that is there.
\<close>

theorem sent_status_admitted:
  assumes "patch_stores k crd sp" and "conditions_keyed k" and "any \<noteq> GeneratedCrd"
    and "fst (k_get_run k ns name (ext s)) = Inr run" and "known_status (cr_status run)"
    and "run_state (reconcile (operator k newClient tcEnv stressEnv lossPointer) ns name) s = (x, s')"
    and "calls s' = calls s @ new" and "StatusPatch r ok \<in> set new"
    and "opt_all observation_wf (st_observation (cr_status r))"
  shows "admits (status_json c (cr_status r)) (status_schema any) \<and>
    admits (prune (status_json c (cr_status r)) (status_schema any)) (status_schema any)"
proof -
  let ?rc = "operator k newClient tcEnv stressEnv lossPointer" and ?run = "set_defaults run"
  have run: "run_state (reconcile_run ?rc ?run) (snd (read_ext (k_get_run k ns name) s)) = (x, s')"
    using reconcile_fetched [OF assms(6)] assms(4) by simp
  have "logs sends_known (reconcile_run ?rc ?run)"
    by (rule op.pass_known) (use assms(1,2,5) in \<open>simp_all add: known_status_def known_run_def\<close>)
  from patch_of_run [OF this run] assms(7,8) have "known_run r" by simp
  moreover have "phase_of r = phase_of run \<or> phase_step (phase_of run) (phase_of r)"
    using pass_patches [OF patch_stores_keeps [OF assms(1)] assms(4,6-8)] by simp
  ultimately have "known_status (cr_status r)"
    using assms(5) by (auto simp: known_status_def known_run_def dest: phase_step_known)
  from status_admitted [OF this assms(9,3)] have "admits (status_json c (cr_status r)) (status_schema any)" .
  moreover have "schema_ok (status_schema any)"
    by (cases any) (simp_all add: status_schema_def generated_status_schema_def bases_status_schema_def chart_status_schema_def
        condition_schema_def generated_condition_schema_def text_schema_def summary_schema_def verdict_schema_def
        strings_schema_def generated_record_schema_def chart_record_schema_def generated_observation_schema_def
        bases_observation_schema_def chart_observation_schema_def)
  ultimately show ?thesis using admits_pruned by blast
qed

theorem sent_status_admitted_witness:
  "\<exists>r ok. StatusPatch r ok \<in> set (demo_calls 1 (demo_life 1)) \<and> phase_of r = Observing \<and>
     admits (status_json demo_codec (cr_status r)) (status_schema ChartCrd)"
proof -
  let ?s = "demo_at 1 (demo_life 1)"
  have "list_ex (\<lambda>c. case c of StatusPatch r ok \<Rightarrow> phase_of r = Observing \<and> opt_all observation_wf (st_observation (cr_status r))
      | _ \<Rightarrow> False) (demo_calls 1 (demo_life 1))" by code_simp
  then obtain c where c: "c \<in> set (demo_calls 1 (demo_life 1))"
    "case c of StatusPatch r ok \<Rightarrow> phase_of r = Observing \<and> opt_all observation_wf (st_observation (cr_status r)) | _ \<Rightarrow> False"
    by (auto simp only: list_ex_iff)
  from c(2) obtain r ok where "c = StatusPatch r ok" and r: "phase_of r = Observing"
    "opt_all observation_wf (st_observation (cr_status r))" by (cases c) simp_all
  with c(1) have sent: "StatusPatch r ok \<in> set (demo_calls 1 (demo_life 1))" by simp
  have p: "phase_of (demo_life 1) = Injecting" "st_verdict (cr_status (demo_life 1)) = NoVerdict" by code_simp+
  moreover have "distinct (map cond_key (st_conditions (cr_status (demo_life 1))))" by code_simp
  ultimately have known: "known_status (cr_status (demo_life 1))" by (simp add: known_status_def)
  have keyed: "conditions_keyed echo_kube"
    by (rule stored_condition_keyed) (simp add: echo_kube_def keeping_kube_def demo_kube_def)
  have n: "calls (snd (run_state (reconcile echo_operator ''flink'' ''kill-one'') ?s)) = calls ?s @ demo_calls 1 (demo_life 1)"
    by (simp add: demo_calls_def) (simp add: demo_at_def demo_sys_def)
  have "admits (status_json demo_codec (cr_status r)) (status_schema ChartCrd)"
    using sent_status_admitted [OF echo_stores keyed _ demo_life_fetch known prod.collapse [symmetric]
        n [unfolded echo_operator_def] sent r(2), of ChartCrd] by simp
  with sent r(1) show ?thesis by blast
qed

end
