(* ===== verification/Sse_Frames.thy ===== *)
theory Sse_Frames
  imports Event_Stream "HOL-Library.Sublist"
begin

section \<open>The frames of the event stream\<close>

text \<open>
  \<^verbatim>\<open>writeSSEEvent\<close> of \<^verbatim>\<open>handlers_sse.go\<close>: an event as JSON on a line of its own. The escapes are those of
  \<^verbatim>\<open>json.Marshal\<close> for text in UTF-8. The other half is the reader of a browser, \<^verbatim>\<open>EventSource\<close> and
  \<^verbatim>\<open>JSON.parse\<close>, as far as events of strings need it.
\<close>

subsection \<open>Writing\<close>

definition hex_lower :: "nat \<Rightarrow> char" where
  "hex_lower k = ''0123456789abcdef'' ! k"

definition escape_char :: "char \<Rightarrow> string" where
  "escape_char c =
     (let n = of_char c :: nat in
      if n = 34 \<or> n = 92 then [CHR 0x5C, c]
      else if n = 8 then [CHR 0x5C, CHR ''b''] else if n = 12 then [CHR 0x5C, CHR ''f'']
      else if n = 10 then [CHR 0x5C, CHR ''n''] else if n = 13 then [CHR 0x5C, CHR ''r'']
      else if n = 9 then [CHR 0x5C, CHR ''t'']
      else if n < 32 \<or> n = 60 \<or> n = 62 \<or> n = 38
      then [CHR 0x5C, CHR ''u'', CHR ''0'', CHR ''0'', hex_lower (n div 16), hex_lower (n mod 16)]
      else [c])"

text \<open>The separators U+2028 and U+2029, of three bytes each, are escaped too.\<close>

definition is_separator :: "char \<Rightarrow> char \<Rightarrow> char \<Rightarrow> bool" where
  "is_separator a b c \<longleftrightarrow>
     (of_char a :: nat) = 226 \<and> (of_char b :: nat) = 128 \<and> ((of_char c :: nat) = 168 \<or> (of_char c :: nat) = 169)"

fun escape_string :: "string \<Rightarrow> string" where
  "escape_string (a # b # c # s) =
     (if is_separator a b c
      then [CHR 0x5C, CHR ''u'', CHR ''2'', CHR ''0'', CHR ''2'', hex_lower (of_char c - 160)] @ escape_string s
      else escape_char a @ escape_string (b # c # s))"
| "escape_string [a, b] = escape_char a @ escape_char b"
| "escape_string [a] = escape_char a"
| "escape_string [] = []"

definition quoted :: "string \<Rightarrow> string" where
  "quoted s = CHR 0x22 # escape_string s @ [CHR 0x22]"

fun members_text :: "(string \<times> string) list \<Rightarrow> string" where
  "members_text [] = ''''"
| "members_text [(k, v)] = quoted k @ '':'' @ quoted v"
| "members_text ((k, v) # kvs) = quoted k @ '':'' @ quoted v @ '','' @ members_text kvs"

text \<open>The struct \<^verbatim>\<open>sseEvent\<close>; all fields but the type are \<^verbatim>\<open>omitempty\<close>.\<close>

definition sse_fields :: "sse_event \<Rightarrow> (string \<times> string) list" where
  "sse_fields e = (case e of
     SseConnected \<Rightarrow> [(''type'', ''connected'')]
   | SseHeartbeat \<Rightarrow> [(''type'', ''heartbeat'')]
   | SseUpdate name phase scenario \<Rightarrow> (''type'', ''chaosrun_update'') #
       filter (\<lambda>(k, v). v \<noteq> '''') [(''name'', name), (''phase'', phase), (''scenario'', scenario)])"

definition sse_json :: "sse_event \<Rightarrow> string" where
  "sse_json e = ''{'' @ members_text (sse_fields e) @ ''}''"

definition write_sse_event :: "sse_event \<Rightarrow> string" where
  "write_sse_event e = ''data: '' @ sse_json e @ [char_of (10::nat), char_of (10::nat)]"

subsection \<open>Reading\<close>

definition hex_value :: "char \<Rightarrow> nat option" where
  "hex_value c =
     (let n = of_char c :: nat in
      if 48 \<le> n \<and> n \<le> 57 then Some (n - 48) else if 97 \<le> n \<and> n \<le> 102 then Some (n - 87)
      else if 65 \<le> n \<and> n \<le> 70 then Some (n - 55) else None)"

text \<open>A code unit of \<^verbatim>\<open>JSON.parse\<close> in UTF-8; surrogates, which Go never writes as escapes, are refused.\<close>

definition utf8_unit :: "nat \<Rightarrow> string option" where
  "utf8_unit n =
     (if n < 128 then Some [char_of n]
      else if n < 2048 then Some [char_of (192 + n div 64), char_of (128 + n mod 64)]
      else if 55296 \<le> n \<and> n \<le> 57343 then None
      else Some [char_of (224 + n div 4096), char_of (128 + n div 64 mod 64), char_of (128 + n mod 64)])"

definition unescape_unit :: "char \<Rightarrow> char \<Rightarrow> char \<Rightarrow> char \<Rightarrow> string option" where
  "unescape_unit a b c d =
     (case (hex_value a, hex_value b, hex_value c, hex_value d) of
        (Some i, Some j, Some k, Some l) \<Rightarrow> utf8_unit (i * 4096 + j * 256 + k * 16 + l)
      | _ \<Rightarrow> None)"

definition unescape_char :: "char \<Rightarrow> char option" where
  \<comment> \<open>after the backslash: b, f, n, r, t, or a quote, a backslash or a slash\<close>
  "unescape_char c =
     (let n = of_char c :: nat in
      if n = 98 then Some (char_of (8::nat)) else if n = 102 then Some (char_of (12::nat))
      else if n = 110 then Some (char_of (10::nat)) else if n = 114 then Some (char_of (13::nat))
      else if n = 116 then Some (char_of (9::nat))
      else if n = 34 \<or> n = 92 \<or> n = 47 then Some c else None)"

definition put_front :: "string \<Rightarrow> (string \<times> string) option \<Rightarrow> (string \<times> string) option" where
  "put_front p r = map_option (\<lambda>(v, rest). (p @ v, rest)) r"

text \<open>The rest of a string literal after its opening quote, and what follows it.\<close>

fun read_string :: "string \<Rightarrow> (string \<times> string) option" where
  "read_string [] = None"
| "read_string (c # s) =
     (if c = CHR 0x22 then Some ('''', s)
      else if c \<noteq> CHR 0x5C then (if (of_char c :: nat) < 32 then None else put_front [c] (read_string s))
      else case s of
        [] \<Rightarrow> None
      | d # t \<Rightarrow>
          if d \<noteq> CHR ''u'' then
            (case unescape_char d of None \<Rightarrow> None | Some x \<Rightarrow> put_front [x] (read_string t))
          else case t of
            h1 # h2 # h3 # h4 # u \<Rightarrow>
              (case unescape_unit h1 h2 h3 h4 of None \<Rightarrow> None | Some x \<Rightarrow> put_front x (read_string u))
          | _ \<Rightarrow> None)"

text \<open>Objects whose values are strings.\<close>

lemma put_front_Some: "put_front p r = Some (v, rest) \<longleftrightarrow> (\<exists>w. r = Some (w, rest) \<and> v = p @ w)"
  by (auto simp: put_front_def)

lemma read_string_shorter: "read_string s = Some (v, rest) \<Longrightarrow> length rest < length s"
proof (induction s arbitrary: v rest rule: read_string.induct)
  case (2 c s)
  show ?case
  proof (cases "c = CHR 0x22 \<or> c \<noteq> CHR 0x5C \<or> s = []")
    case True
    with 2 show ?thesis by (fastforce simp: put_front_Some split: if_splits)
  next
    case False
    then obtain d t where s: "s = d # t" by (cases s) auto
    show ?thesis
    proof (cases "d = CHR ''u''")
      case False
      with 2 \<open>\<not> (_ \<or> _ \<or> _)\<close> s show ?thesis by (fastforce simp: put_front_Some split: option.splits)
    next
      case True
      with 2 \<open>\<not> (_ \<or> _ \<or> _)\<close> s show ?thesis
        by (fastforce simp: put_front_Some split: option.splits list.splits)
    qed
  qed
qed simp

function read_members :: "string \<Rightarrow> ((string \<times> string) list \<times> string) option" where
  "read_members s =
     (case s of
        [] \<Rightarrow> None
      | q # s1 \<Rightarrow>
          if q \<noteq> CHR 0x22 then None
          else (case read_string s1 of
              Some (k, c # q2 # s2) \<Rightarrow>
                if c \<noteq> CHR '':'' \<or> q2 \<noteq> CHR 0x22 then None
                else (case read_string s2 of
                    Some (v, e # s3) \<Rightarrow>
                      if e = CHR ''}'' then Some ([(k, v)], s3)
                      else if e = CHR '','' then map_option (\<lambda>(m, r). ((k, v) # m, r)) (read_members s3)
                      else None
                  | _ \<Rightarrow> None)
            | _ \<Rightarrow> None))"
  by pat_completeness auto

termination
proof (relation "measure length")
  fix s q s1 kr k r1 c r2 q2 s2 vr v r3 e s3
  assume "s = q # s1" "read_string s1 = Some kr" "(k, r1) = kr" "r1 = c # r2" "r2 = q2 # s2"
    "read_string s2 = Some vr" "(v, r3) = vr" "r3 = e # s3"
  then have "length (c # q2 # s2) < length s1" "length (e # s3) < length s2"
    using read_string_shorter [of s1 k r1] read_string_shorter [of s2 v r3] by auto
  with \<open>s = q # s1\<close> show "(s3, s) \<in> measure length" by simp
qed simp

declare read_members.simps [simp del]

definition read_object :: "string \<Rightarrow> (string \<times> string) list option" where
  "read_object s = (case s of
     [] \<Rightarrow> None
   | c # t \<Rightarrow> if c \<noteq> CHR ''{'' then None else
       (case read_members t of Some (m, []) \<Rightarrow> Some m | _ \<Rightarrow> None))"

subsection \<open>A string literal reads back\<close>

lemma hex_value_lower: "k < 16 \<Longrightarrow> hex_value (hex_lower k) = Some k"
proof -
  have "list_all (\<lambda>k. hex_value (hex_lower k) = Some k) [0..<16]" by code_simp
  then show "k < 16 \<Longrightarrow> hex_value (hex_lower k) = Some k" by (simp only: list_all_iff set_upt) simp
qed

lemma unescape_low:
  assumes "(of_char c :: nat) < 128"
  shows "unescape_unit (CHR ''0'') (CHR ''0'') (hex_lower (of_char c div 16)) (hex_lower (of_char c mod 16)) = Some [c]"
proof -
  have "hex_value (CHR ''0'') = Some 0" by code_simp
  moreover have "(of_char c :: nat) div 16 < 16" using assms by simp
  ultimately show ?thesis
    using assms by (simp add: unescape_unit_def hex_value_lower utf8_unit_def)
qed

lemma read_escape_char: "read_string (escape_char c @ t) = put_front [c] (read_string t)"
proof -
  define n where "n = (of_char c :: nat)"
  have c: "c = char_of n" by (simp add: n_def)
  have not_u: "char_of (34::nat) \<noteq> CHR ''u''" "char_of (92::nat) \<noteq> CHR ''u''" by code_simp+
  consider (quote) "n = 34" | (slash) "n = 92" | (b) "n = 8" | (f) "n = 12" | (nl) "n = 10" | (r) "n = 13" | (t) "n = 9"
    | (hex) "n \<notin> {8, 12, 10, 13, 9, 34, 92}" "n < 32 \<or> n = 60 \<or> n = 62 \<or> n = 38"
    | (plain) "n \<notin> {34, 92, 60, 62, 38}" "32 \<le> n" by fastforce
  then show ?thesis
  proof cases
    case hex
    then have "escape_char c = [CHR 0x5C, CHR ''u'', CHR ''0'', CHR ''0'', hex_lower (n div 16), hex_lower (n mod 16)]"
      by (simp add: escape_char_def Let_def n_def [symmetric])
    moreover have "unescape_unit (CHR ''0'') (CHR ''0'') (hex_lower (n div 16)) (hex_lower (n mod 16)) = Some [c]"
      using unescape_low [of c] hex(2) by (auto simp: n_def)
    ultimately show ?thesis by simp
  next
    case plain
    then have "escape_char c = [c]" "c \<noteq> CHR 0x22" "c \<noteq> CHR 0x5C"
      by (auto simp: escape_char_def Let_def n_def)
    with plain show ?thesis by (simp add: n_def)
  qed (use not_u in \<open>simp_all add: escape_char_def unescape_char_def Let_def c\<close>)
qed

lemma read_separator:
  assumes "is_separator a b c"
  shows "read_string ([CHR 0x5C, CHR ''u'', CHR ''2'', CHR ''0'', CHR ''2'', hex_lower (of_char c - 160)] @ t) =
    put_front [a, b, c] (read_string t)"
proof -
  have abc: "a = char_of (226::nat)" "b = char_of (128::nat)" "c = char_of (168::nat) \<or> c = char_of (169::nat)"
    using assms unfolding is_separator_def by (metis char_of_char)+
  have hex: "hex_value (CHR ''2'') = Some 2" "hex_value (CHR ''0'') = Some 0"
    "hex_value (hex_lower 8) = Some 8" "hex_value (hex_lower 9) = Some 9" by code_simp+
  have "unescape_unit (CHR ''2'') (CHR ''0'') (CHR ''2'') (hex_lower 8) = Some [char_of (226::nat), char_of (128::nat), char_of (168::nat)]"
    "unescape_unit (CHR ''2'') (CHR ''0'') (CHR ''2'') (hex_lower 9) = Some [char_of (226::nat), char_of (128::nat), char_of (169::nat)]"
    by (simp_all add: unescape_unit_def hex utf8_unit_def)
  moreover have "(of_char (char_of (168::nat) :: char) :: nat) - 160 = 8" "(of_char (char_of (169::nat) :: char) :: nat) - 160 = 9"
    by simp_all
  ultimately have "unescape_unit (CHR ''2'') (CHR ''0'') (CHR ''2'') (hex_lower (of_char c - 160)) = Some [a, b, c]"
    using abc(3) unfolding abc(1,2) by (elim disjE) (simp_all only:)
  then show ?thesis by simp
qed

lemma put_front_Nil: "put_front '''' r = r"
  by (cases r) (auto simp: put_front_def)

lemma put_front_append: "put_front p (put_front q r) = put_front (p @ q) r"
  by (cases r) (auto simp: put_front_def)

lemma read_escape_string: "read_string (escape_string s @ t) = put_front s (read_string t)"
proof (induction s rule: escape_string.induct)
  case (1 a b c s)
  show ?case
  proof (cases "is_separator a b c")
    case True
    then have e: "escape_string (a # b # c # s) =
        [CHR 0x5C, CHR ''u'', CHR ''2'', CHR ''0'', CHR ''2'', hex_lower (of_char c - 160)] @ escape_string s" by simp
    show ?thesis
      unfolding e append_assoc read_separator [OF True] 1(1) [OF True] put_front_append by simp
  next
    case False
    then have e: "escape_string (a # b # c # s) = escape_char a @ escape_string (b # c # s)" by simp
    show ?thesis
      unfolding e append_assoc read_escape_char 1(2) [OF False] put_front_append by simp
  qed
next
  case (2 a b)
  then show ?case by (simp add: read_escape_char put_front_append)
next
  case (3 a)
  then show ?case by (simp add: read_escape_char)
qed (simp add: put_front_Nil)

lemma read_quoted: "read_string (escape_string s @ CHR 0x22 # t) = Some (s, t)"
  by (simp add: read_escape_string put_front_def)

lemma read_members_text:
  "kvs \<noteq> [] \<Longrightarrow> read_members (members_text kvs @ ''}'' @ t) = Some (kvs, t)"
proof (induction kvs rule: members_text.induct)
  case (2 k v)
  show ?case
    by (subst read_members.simps) (simp add: quoted_def read_quoted)
next
  case (3 k v kv kvs)
  then have ih: "read_members (members_text (kv # kvs) @ ''}'' @ t) = Some (kv # kvs, t)" by simp
  show ?case
    by (subst read_members.simps) (use ih in \<open>simp add: quoted_def read_quoted\<close>)
qed simp

lemma read_sse_json: "read_object (sse_json e) = Some (sse_fields e)"
proof -
  have "sse_fields e \<noteq> []" by (simp add: sse_fields_def split: sse_event.split)
  from read_members_text [OF this, of "[]"] show ?thesis by (simp add: read_object_def sse_json_def)
qed

subsection \<open>Events from the stream\<close>

text \<open>
  \<^verbatim>\<open>EventSource\<close>: a line ends with a line feed, a carriage return or both; the data of a message are its
  \<^verbatim>\<open>data:\<close> lines, each without the space after the colon, and an empty line ends it. A line that the stream
  has not ended does not count.
\<close>

fun unix_lines :: "string \<Rightarrow> string" where
  "unix_lines [] = []"
| "unix_lines [c] = (if (of_char c :: nat) = 13 then [char_of (10::nat)] else [c])"
| "unix_lines (c # d # s) =
     (if (of_char c :: nat) = 13 then
        (if (of_char d :: nat) = 10 then d # unix_lines s else char_of (10::nat) # unix_lines (d # s))
      else c # unix_lines (d # s))"

fun dispatch :: "string list \<Rightarrow> string list \<Rightarrow> string list" where
  "dispatch data [] = []"
| "dispatch data (l # ls) =
     (if l = '''' then (if data = [] then dispatch [] ls else join [char_of (10::nat)] data # dispatch [] ls)
      else if has_prefix l ''data:''
      then dispatch (data @ [if has_prefix l ''data: '' then drop 6 l else drop 5 l]) ls
      else dispatch data ls)"

definition sse_messages :: "string \<Rightarrow> string list" where
  "sse_messages s = dispatch [] (butlast (split_lines (unix_lines s)))"

definition event_of_fields :: "(string \<times> string) list \<Rightarrow> sse_event option" where
  "event_of_fields m =
     (let ty = map_get m ''type'' in
      if ty = ''connected'' then Some SseConnected
      else if ty = ''heartbeat'' then Some SseHeartbeat
      else if ty = ''chaosrun_update'' then Some (SseUpdate (map_get m ''name'') (map_get m ''phase'') (map_get m ''scenario''))
      else None)"

lemma event_of_sse_fields: "event_of_fields (sse_fields e) = Some e"
  by (cases e) (auto simp: event_of_fields_def sse_fields_def map_get_def Let_def)

text \<open>A frame has no control character but the line feeds at its end.\<close>

definition printable :: "string \<Rightarrow> bool" where
  "printable s \<longleftrightarrow> list_all (\<lambda>c. 32 \<le> (of_char c :: nat)) s"

lemma printable_simps [simp]:
  "printable []" "printable (c # s) \<longleftrightarrow> 32 \<le> (of_char c :: nat) \<and> printable s"
  "printable (s @ t) \<longleftrightarrow> printable s \<and> printable t"
  by (simp_all add: printable_def)

lemma printable_hex: "k < 16 \<Longrightarrow> 32 \<le> (of_char (hex_lower k) :: nat)"
proof -
  have "list_all (\<lambda>k. 32 \<le> (of_char (hex_lower k) :: nat)) [0..<16]" by code_simp
  then show "k < 16 \<Longrightarrow> 32 \<le> (of_char (hex_lower k) :: nat)" by (simp only: list_all_iff set_upt) simp
qed

lemma printable_escape_char: "printable (escape_char c)"
  by (auto simp: escape_char_def Let_def intro!: printable_hex)

lemma printable_escape_string: "printable (escape_string s)"
  by (induction s rule: escape_string.induct)
    (auto simp: printable_escape_char is_separator_def intro: printable_hex)

lemma printable_json: "printable (sse_json e)"
proof -
  have "printable (members_text kvs)" for kvs
    by (induction kvs rule: members_text.induct) (simp_all add: quoted_def printable_escape_string)
  then show ?thesis by (simp add: sse_json_def)
qed

lemma unix_lines_Cons [simp]: "32 \<le> (of_char c :: nat) \<Longrightarrow> unix_lines (c # s) = c # unix_lines s"
  by (cases s) simp_all

lemma unix_line_feed [simp]: "unix_lines (char_of (10::nat) # s) = char_of (10::nat) # unix_lines s"
  by (cases s) simp_all

lemma unix_printable:
  "printable l \<Longrightarrow> unix_lines (l @ char_of (10::nat) # char_of (10::nat) # s) = l @ char_of (10::nat) # char_of (10::nat) # unix_lines s"
  by (induction l) simp_all

lemma unix_prefix:
  "printable l \<Longrightarrow> unix_lines (take n (l @ [char_of (10::nat)])) = take n (l @ [char_of (10::nat)])"
  by (induction l arbitrary: n) (auto simp: take_Cons split: nat.split)

lemma split_lines_not_Nil [simp]: "split_lines s \<noteq> []"
  by (cases s) (simp_all split: list.splits)

lemma split_printable:
  "printable l \<Longrightarrow> split_lines (l @ char_of (10::nat) # s) = l # split_lines s"
  by (induction l) (auto split: list.splits)

lemma split_printable_end: "printable l \<Longrightarrow> split_lines l = [l]"
  by (induction l) auto

lemma frame_text: "write_sse_event e @ s = (''data: '' @ sse_json e) @ char_of (10::nat) # char_of (10::nat) # s"
  by (simp add: write_sse_event_def)

lemma printable_line: "printable (''data: '' @ sse_json e)"
  by (simp add: printable_json)

lemma data_line:
  "dispatch [] ((''data: '' @ sse_json e) # '''' # ls) = sse_json e # dispatch [] ls"
  by (simp add: has_prefix_def)

lemma messages_frame: "sse_messages (write_sse_event e @ s) = sse_json e # sse_messages s"
proof -
  have "split_lines (unix_lines (write_sse_event e @ s)) = (''data: '' @ sse_json e) # '''' # split_lines (unix_lines s)"
    unfolding frame_text unix_printable [OF printable_line] split_printable [OF printable_line] by simp
  then show ?thesis by (simp only: sse_messages_def butlast.simps split_lines_not_Nil data_line if_False list.distinct)
qed

lemma messages_cut_frame:
  assumes "n < length (write_sse_event e)"
  shows "sse_messages (take n (write_sse_event e)) = []"
proof -
  let ?l = "''data: '' @ sse_json e"
  have t: "take n (write_sse_event e) = take n (?l @ [char_of (10::nat)])"
  proof -
    have w: "write_sse_event e = (?l @ [char_of (10::nat)]) @ [char_of (10::nat)]" by (simp add: write_sse_event_def)
    then have "n - length (?l @ [char_of (10::nat)]) = 0" using assms by simp
    then show ?thesis unfolding w take_append [of n "?l @ [char_of (10::nat)]"] by simp
  qed
  show ?thesis
  proof (cases "n \<le> length ?l")
    case True
    then have "take n (write_sse_event e) = take n ?l" unfolding t take_append [of n ?l] by simp
    moreover have p: "printable (take n ?l)"
      using printable_line [of e] unfolding printable_def list_all_iff by (meson in_set_takeD)
    moreover have "unix_lines (take n ?l) = take n ?l"
      using unix_prefix [OF printable_line, of n e] True unfolding take_append [of n ?l] by simp
    ultimately show ?thesis by (simp only: sse_messages_def split_printable_end) simp
  next
    case False
    then have "take n (write_sse_event e) = ?l @ [char_of (10::nat)]" unfolding t by simp
    moreover have "unix_lines (?l @ [char_of (10::nat)]) = ?l @ [char_of (10::nat)]"
      using unix_prefix [OF printable_line, of "Suc (length ?l)" e] by simp
    moreover have "split_lines (?l @ [char_of (10::nat)]) = [?l, '''']"
      using split_printable [OF printable_line, of e "[]"] by simp
    ultimately show ?thesis by (simp add: sse_messages_def has_prefix_def)
  qed
qed

subsection \<open>The property\<close>

text \<open>
  C37. Whatever the names, phases and scenarios contain, a browser reads from the stream exactly the
  events that were written, in their order, and from a stream that breaks off at any byte the events of
  the frames that arrived whole.
\<close>

theorem event_stream_read_back:
  "map (\<lambda>m. Option.bind (read_object m) event_of_fields) (sse_messages (concat (map write_sse_event es))) = map Some es \<and>
   prefix (sse_messages (take n (concat (map write_sse_event es)))) (map sse_json es)"
proof -
  have "sse_messages (concat (map write_sse_event es)) = map sse_json es"
    by (induction es) (simp_all add: messages_frame, simp add: sse_messages_def)
  moreover have "prefix (sse_messages (take n (concat (map write_sse_event es)))) (map sse_json es)"
  proof (induction es arbitrary: n)
    case Nil
    show ?case by (simp add: sse_messages_def)
  next
    case (Cons e es)
    show ?case
    proof (cases "n < length (write_sse_event e)")
      case True
      then show ?thesis by (simp add: messages_cut_frame)
    next
      case False
      with Cons.IH [of "n - length (write_sse_event e)"] show ?thesis by (simp add: messages_frame)
    qed
  qed
  ultimately show ?thesis by (simp add: read_sse_json event_of_sse_fields)
qed

end
