(* ===== verification/Go_Heap.thy ===== *)
theory Go_Heap
  imports Prelude "HOL-Library.AList"
begin

section \<open>Values of Go that share memory\<close>

text \<open>
  Elsewhere a struct is a record and a pointer the value it points to. Here the memory is explicit:
  a pointer or a slice is the address of a cell, and two values may share one. What a value
  stands for, \<open>content_of\<close>, and which cells it depends on, \<open>reached\<close>, are read off along its type.
\<close>

subsection \<open>Memory\<close>

datatype go_value =
    TextV string
  | NumberV int
  | FlagV bool
  | StructV "(string \<times> go_value) list"
  | RefV "nat option"  \<comment> \<open>a pointer or a slice; \<open>None\<close> is \<^verbatim>\<open>nil\<close>\<close>

text \<open>A cell is the variable a pointer points to, or the elements of a slice.\<close>

record memory =
  cells :: "nat \<Rightarrow> go_value list option"
  lim :: nat

definition memory_ok :: "memory \<Rightarrow> bool" where
  "memory_ok h \<longleftrightarrow> (\<forall>a. cells h a \<noteq> None \<longrightarrow> a < lim h)"

definition cell_at :: "memory \<Rightarrow> nat \<Rightarrow> go_value list" where
  "cell_at h a = (case cells h a of Some xs \<Rightarrow> xs | None \<Rightarrow> [])"

definition store :: "nat \<Rightarrow> go_value list \<Rightarrow> memory \<Rightarrow> memory" where
  "store a xs h = h\<lparr>cells := (cells h)(a \<mapsto> xs)\<rparr>"

definition go_field :: "string \<Rightarrow> go_value \<Rightarrow> go_value" where
  "go_field k v = (case v of StructV fs \<Rightarrow> (case map_of fs k of Some x \<Rightarrow> x | None \<Rightarrow> RefV None) | _ \<Rightarrow> RefV None)"

definition with_field :: "string \<Rightarrow> go_value \<Rightarrow> go_value \<Rightarrow> go_value" where
  "with_field k x v = (case v of StructV fs \<Rightarrow> StructV (AList.update k x fs) | _ \<Rightarrow> StructV [(k, x)])"

lemma go_field_with [simp]: "go_field n (with_field k x v) = (if n = k then x else go_field n v)"
  by (cases v) (simp_all add: go_field_def with_field_def update_conv)

subsection \<open>Types\<close>

datatype go_type =
    FlatT  \<comment> \<open>a type without pointers that is no struct\<close>
  | StructT "(string \<times> go_type) list"
  | RefT go_type  \<comment> \<open>a pointer to, or a slice of, a type\<close>

fun flat_value :: "go_value \<Rightarrow> bool" where
  "flat_value (StructV fs) = False"
| "flat_value (RefV r) = False"
| "flat_value v = True"

fun has_type :: "memory \<Rightarrow> go_type \<Rightarrow> go_value \<Rightarrow> bool" where
  "has_type h FlatT v = flat_value v"
| "has_type h (StructT ts) v = list_all (\<lambda>(k, t). has_type h t (go_field k v)) ts"
| "has_type h (RefT t) v = (case v of
     RefV None \<Rightarrow> True
   | RefV (Some a) \<Rightarrow> cells h a \<noteq> None \<and> list_all (\<lambda>x. has_type h t x) (cell_at h a)
   | _ \<Rightarrow> False)"

datatype content =
    Plain go_value
  | Fields "(string \<times> content) list"
  | Absent
  | Elements "content list"

fun content_of :: "memory \<Rightarrow> go_type \<Rightarrow> go_value \<Rightarrow> content" where
  "content_of h FlatT v = Plain v"
| "content_of h (StructT ts) v = Fields (map (\<lambda>(k, t). (k, content_of h t (go_field k v))) ts)"
| "content_of h (RefT t) v = (case v of RefV (Some a) \<Rightarrow> Elements (map (\<lambda>x. content_of h t x) (cell_at h a)) | _ \<Rightarrow> Absent)"

fun reached :: "memory \<Rightarrow> go_type \<Rightarrow> go_value \<Rightarrow> nat list" where
  "reached h FlatT v = []"
| "reached h (StructT ts) v = concat (map (\<lambda>(k, t). reached h t (go_field k v)) ts)"
| "reached h (RefT t) v = (case v of RefV (Some a) \<Rightarrow> a # concat (map (\<lambda>x. reached h t x) (cell_at h a)) | _ \<Rightarrow> [])"

text \<open>A value depends on the cells it reaches only.\<close>

lemma same_cells:
  assumes "\<forall>a \<in> set (reached h t v). cells h' a = cells h a"
  shows "reached h' t v = reached h t v \<and> content_of h' t v = content_of h t v \<and> has_type h' t v = has_type h t v"
  using assms
proof (induction h t v rule: reached.induct)
  case (2 h ts v)
  then have "\<forall>(k, t) \<in> set ts. reached h' t (go_field k v) = reached h t (go_field k v) \<and>
      content_of h' t (go_field k v) = content_of h t (go_field k v) \<and> has_type h' t (go_field k v) = has_type h t (go_field k v)"
    by fastforce
  then show ?case by (auto simp: list_all_iff intro!: arg_cong [where f = concat] map_cong)
next
  case (3 h t v)
  show ?case
  proof (cases "\<exists>a. v = RefV (Some a)")
    case True
    then obtain a where v: "v = RefV (Some a)" ..
    with 3 have c: "cells h' a = cells h a" by simp
    then have "cell_at h' a = cell_at h a" by (simp add: cell_at_def)
    moreover have "\<forall>x \<in> set (cell_at h a). reached h' t x = reached h t x \<and> content_of h' t x = content_of h t x \<and>
        has_type h' t x = has_type h t x"
      using 3 v by fastforce
    ultimately show ?thesis using v c by (auto simp: list_all_iff cong: map_cong)
  next
    case False
    then show ?thesis by (auto split: go_value.splits option.splits)
  qed
qed simp

lemma reached_below: "memory_ok h \<Longrightarrow> has_type h t v \<Longrightarrow> a \<in> set (reached h t v) \<Longrightarrow> a < lim h"
proof (induction h t v rule: reached.induct)
  case (2 h ts v)
  then show ?case by (fastforce simp: list_all_iff)
next
  case (3 h t v)
  then show ?case by (fastforce simp: list_all_iff memory_ok_def split: go_value.splits option.splits)
qed simp

subsection \<open>Allocation only\<close>

text \<open>A copy adds cells and changes none.\<close>

definition grows :: "memory \<Rightarrow> memory \<Rightarrow> bool" where
  "grows h h' \<longleftrightarrow> memory_ok h' \<and> lim h \<le> lim h' \<and> (\<forall>a < lim h. cells h' a = cells h a)"

lemma grows_refl: "memory_ok h \<Longrightarrow> grows h h"
  by (simp add: grows_def)

lemma grows_trans: "grows h h1 \<Longrightarrow> grows h1 h2 \<Longrightarrow> grows h h2"
  by (simp add: grows_def)

lemma growsD: "grows h h' \<Longrightarrow> memory_ok h'" "grows h h' \<Longrightarrow> lim h \<le> lim h'"
  by (simp_all add: grows_def)

lemma grows_same:
  assumes "memory_ok h" and "has_type h t v" and "grows h h'"
  shows "reached h' t v = reached h t v" "content_of h' t v = content_of h t v" "has_type h' t v"
proof -
  have "\<forall>a \<in> set (reached h t v). cells h' a = cells h a"
    using assms reached_below [OF assms(1,2)] by (auto simp: grows_def)
  from same_cells [OF this] assms(2) show "reached h' t v = reached h t v" "content_of h' t v = content_of h t v" "has_type h' t v"
    by simp_all
qed

subsection \<open>Copies\<close>

type_synonym copier = "go_value \<Rightarrow> memory \<Rightarrow> go_value \<times> memory"

text \<open>What is promised of a deep copy: the same content, in cells that did not exist before.\<close>

definition fresh_copy :: "memory \<Rightarrow> go_type \<Rightarrow> go_value \<Rightarrow> go_value \<Rightarrow> memory \<Rightarrow> bool" where
  "fresh_copy h t v v' h' \<longleftrightarrow> has_type h' t v' \<and> content_of h' t v' = content_of h t v \<and> (\<forall>a \<in> set (reached h' t v'). lim h \<le> a)"

definition copies :: "go_type \<Rightarrow> copier \<Rightarrow> bool" where
  "copies t f \<longleftrightarrow> (\<forall>h v v' h'. memory_ok h \<longrightarrow> has_type h t v \<longrightarrow> f v h = (v', h') \<longrightarrow> grows h h' \<and> fresh_copy h t v v' h')"

lemma copiesD:
  assumes "copies t f" and "memory_ok h" and "has_type h t v" and "f v h = (v', h')"
  shows "grows h h'" "fresh_copy h t v v' h'"
  using assms unfolding copies_def by blast+

lemma fresh_copy_later:
  assumes "fresh_copy h t v v' h1" and "memory_ok h1" and "grows h1 h2"
  shows "fresh_copy h t v v' h2"
  using assms grows_same [OF assms(2) _ assms(3), of t v'] by (simp add: fresh_copy_def)

text \<open>\<^verbatim>\<open>*out = *in\<close>\<close>

definition shallow :: copier where
  "shallow v h = (v, h)"

fun pointer_free :: "go_type \<Rightarrow> bool" where
  "pointer_free FlatT = True"
| "pointer_free (StructT ts) = list_all (\<lambda>(k, t). pointer_free t) ts"
| "pointer_free (RefT t) = False"

lemma reached_pointer_free: "pointer_free t \<Longrightarrow> reached h t v = []"
  by (induction h t v rule: reached.induct) (fastforce simp: list_all_iff)+

lemma copies_shallow: "pointer_free t \<Longrightarrow> copies t shallow"
  by (simp add: copies_def shallow_def grows_refl fresh_copy_def reached_pointer_free)

text \<open>The elements of a cell, one after the other, into a new cell.\<close>

fun copy_all :: "copier \<Rightarrow> go_value list \<Rightarrow> memory \<Rightarrow> go_value list \<times> memory" where
  "copy_all f [] h = ([], h)"
| "copy_all f (x # xs) h = (let (y, h1) = f x h; (ys, h2) = copy_all f xs h1 in (y # ys, h2))"

fun copy_ref :: "copier \<Rightarrow> copier" where
  "copy_ref f (RefV (Some a)) h =
     (let b = lim h; (ys, h1) = copy_all f (cell_at h a) (h\<lparr>lim := b + 1\<rparr>) in (RefV (Some b), store b ys h1))"
| "copy_ref f v h = (v, h)"

lemma copy_all_fresh:
  assumes "copies t f" and "memory_ok h" and "list_all (has_type h t) xs" and "copy_all f xs h = (ys, h')"
  shows "grows h h' \<and> list_all2 (\<lambda>x y. fresh_copy h t x y h') xs ys"
  using assms(2-4)
proof (induction xs arbitrary: h ys)
  case Nil
  then show ?case by (simp add: grows_refl)
next
  case (Cons x xs)
  obtain y h1 where y: "f x h = (y, h1)" by (cases "f x h")
  obtain zs where zs: "copy_all f xs h1 = (zs, h')" "ys = y # zs"
    using Cons.prems(3) y by (auto simp: Let_def split: prod.splits)
  have g: "grows h h1" and c: "fresh_copy h t x y h1"
    using copiesD [OF assms(1) Cons.prems(1) _ y] Cons.prems(2) by simp_all
  have xs: "list_all (has_type h1 t) xs"
    using Cons.prems grows_same(3) [OF Cons.prems(1) _ g] by (simp add: list_all_iff)
  have IH: "grows h1 h'" "list_all2 (\<lambda>x y. fresh_copy h1 t x y h') xs zs"
    using Cons.IH [OF growsD(1) [OF g] xs zs(1)] by simp_all
  have "fresh_copy h t x' y' h'" if "x' \<in> set xs" "fresh_copy h1 t x' y' h'" for x' y'
    using that grows_same(2) [OF Cons.prems(1) _ g, of t x'] Cons.prems(2) growsD(2) [OF g]
    by (fastforce simp: fresh_copy_def list_all_iff)
  then have "list_all2 (\<lambda>x y. fresh_copy h t x y h') xs zs"
    using IH(2) by (auto simp: list_all2_conv_all_nth)
  with fresh_copy_later [OF c growsD(1) [OF g] IH(1)] grows_trans [OF g IH(1)] zs(2) show ?case by simp
qed

lemma copies_ref:
  assumes "copies t f"
  shows "copies (RefT t) (copy_ref f)"
  unfolding copies_def
proof (intro allI impI)
  fix h v v' h'
  assume h: "memory_ok h" and v: "has_type h (RefT t) v" and c: "copy_ref f v h = (v', h')"
  show "grows h h' \<and> fresh_copy h (RefT t) v v' h'"
  proof (cases "v = RefV None")
    case True
    with c h show ?thesis by (auto simp: grows_refl fresh_copy_def)
  next
    case False
    with v obtain a where a: "v = RefV (Some a)" by (auto split: go_value.splits option.splits)
    let ?h = "h\<lparr>lim := lim h + 1\<rparr>"
    have g0: "grows h ?h" using h by (fastforce simp: grows_def memory_ok_def)
    obtain ys h1 where ys: "copy_all f (cell_at h a) ?h = (ys, h1)" by (cases "copy_all f (cell_at h a) ?h")
    with c a have out: "v' = RefV (Some (lim h))" "h' = store (lim h) ys h1" by (auto simp: Let_def)
    have el: "list_all (has_type h t) (cell_at h a)" using v a by simp
    then have "list_all (has_type ?h t) (cell_at h a)"
      using grows_same(3) [OF h _ g0] by (simp add: list_all_iff)
    from copy_all_fresh [OF assms growsD(1) [OF g0] this ys]
    have g1: "grows ?h h1" and fr: "list_all2 (\<lambda>x y. fresh_copy ?h t x y h1) (cell_at h a) ys" by simp_all
    have "memory_ok h'" using g1 by (auto simp: grows_def memory_ok_def out store_def)
    with g0 g1 have g: "grows h h'" by (simp add: grows_def out store_def)
    have each: "has_type h' t y \<and> content_of h' t y = content_of h t x \<and> (\<forall>c \<in> set (reached h' t y). lim h \<le> c)"
      if "x \<in> set (cell_at h a)" "fresh_copy ?h t x y h1" for x y
    proof -
      have "\<forall>c \<in> set (reached h1 t y). cells h' c = cells h1 c"
        using that(2) by (auto simp: fresh_copy_def out store_def)
      from same_cells [OF this] that grows_same(2) [OF h _ g0, of t x] el show ?thesis
        by (fastforce simp: fresh_copy_def list_all_iff)
    qed
    have cell: "cells h' (lim h) = Some ys" "cell_at h' (lim h) = ys"
      by (simp_all add: out store_def cell_at_def)
    have "list_all2 (\<lambda>x y. content_of h' t y = content_of h t x) (cell_at h a) ys"
      using fr each by (auto simp: list_all2_conv_all_nth)
    then have "map (content_of h' t) ys = map (content_of h t) (cell_at h a)"
      by (simp add: list_all2_conv_all_nth list_eq_iff_nth_eq)
    moreover have "\<forall>y \<in> set ys. has_type h' t y \<and> (\<forall>c \<in> set (reached h' t y). lim h \<le> c)"
      using fr each by (fastforce simp: list_all2_conv_all_nth in_set_conv_nth)
    ultimately have "fresh_copy h (RefT t) v v' h'"
      by (auto simp: fresh_copy_def a out(1) cell list_all_iff)
    with g show ?thesis ..
  qed
qed

text \<open>A struct: it is copied as it is, then the listed fields are replaced by copies of their own.\<close>

fun copy_fields :: "(string \<times> copier) list \<Rightarrow> copier" where
  "copy_fields [] v h = (v, h)"
| "copy_fields ((k, f) # cs) v h = (let (x, h1) = f (go_field k v) h in copy_fields cs (with_field k x v) h1)"

definition copies_fields :: "(string \<times> go_type) list \<Rightarrow> (string \<times> copier) list \<Rightarrow> bool" where
  "copies_fields ts cs \<longleftrightarrow> distinct (map fst ts) \<and> distinct (map fst cs) \<and>
     list_all (\<lambda>(k, f). case map_of ts k of Some t \<Rightarrow> copies t f | None \<Rightarrow> False) cs \<and>
     list_all (\<lambda>(k, t). pointer_free t \<or> k \<in> fst ` set cs) ts"

lemma copy_fields_fresh:
  assumes "memory_ok h" and "distinct (map fst cs)"
    and "list_all (\<lambda>(k, f). case map_of ts k of Some t \<Rightarrow> copies t f | None \<Rightarrow> False) cs"
    and "\<forall>k t. map_of ts k = Some t \<longrightarrow> has_type h t (go_field k v)"
    and "copy_fields cs v h = (v', h')"
  shows "grows h h' \<and> (\<forall>k t. map_of ts k = Some t \<longrightarrow> (if k \<in> fst ` set cs
    then fresh_copy h t (go_field k v) (go_field k v') h' else go_field k v' = go_field k v))"
  using assms
proof (induction cs arbitrary: v h)
  case Nil
  then show ?case by (simp add: grows_refl)
next
  case (Cons kf cs)
  obtain k f where kf: "kf = (k, f)" by (cases kf)
  obtain x h1 where x: "f (go_field k v) h = (x, h1)" by (cases "f (go_field k v) h")
  have rest: "copy_fields cs (with_field k x v) h1 = (v', h')" using Cons.prems(5) kf x by (simp add: Let_def)
  from Cons.prems(3) kf obtain t where t: "map_of ts k = Some t" "copies t f" by (auto split: option.splits)
  have g: "grows h h1" and fr: "fresh_copy h t (go_field k v) x h1"
    using copiesD [OF t(2) Cons.prems(1) _ x] Cons.prems(4) t(1) by simp_all
  have new: "k \<notin> fst ` set cs" using Cons.prems(2) kf by simp
  have types: "\<forall>n s. map_of ts n = Some s \<longrightarrow> has_type h1 s (go_field n (with_field k x v))"
    using Cons.prems(4) grows_same(3) [OF Cons.prems(1) _ g] fr t(1) by (auto simp: fresh_copy_def)
  have cs: "distinct (map fst cs)" "list_all (\<lambda>(k, f). case map_of ts k of Some t \<Rightarrow> copies t f | None \<Rightarrow> False) cs"
    using Cons.prems(2,3) by simp_all
  note IH = Cons.IH [OF growsD(1) [OF g] cs types rest, THEN conjunct1] Cons.IH [OF growsD(1) [OF g] cs types rest, THEN conjunct2]
  have "if n \<in> fst ` set (kf # cs) then fresh_copy h s (go_field n v) (go_field n v') h' else go_field n v' = go_field n v"
    if s: "map_of ts n = Some s" for n s
  proof (cases "n = k")
    case True
    with IH(2) s new have "go_field n v' = x" by simp
    with fresh_copy_later [OF fr growsD(1) [OF g] IH(1)] True s t(1) kf show ?thesis by simp
  next
    case False
    have "fresh_copy h s (go_field n v) (go_field n v') h'" if "fresh_copy h1 s (go_field n v) (go_field n v') h'"
      using that grows_same(2) [OF Cons.prems(1) _ g, of s "go_field n v"] Cons.prems(4) s growsD(2) [OF g]
      by (fastforce simp: fresh_copy_def)
    with IH(2) [rule_format, OF s] False kf show ?thesis by (auto split: if_splits)
  qed
  with grows_trans [OF g IH(1)] show ?case by blast
qed

lemma copies_struct:
  assumes "copies_fields ts cs"
  shows "copies (StructT ts) (copy_fields cs)"
  unfolding copies_def
proof (intro allI impI)
  fix h v v' h'
  assume h: "memory_ok h" and v: "has_type h (StructT ts) v" and c: "copy_fields cs v h = (v', h')"
  from assms have d: "distinct (map fst ts)" "distinct (map fst cs)"
    "list_all (\<lambda>(k, f). case map_of ts k of Some t \<Rightarrow> copies t f | None \<Rightarrow> False) cs"
    "list_all (\<lambda>(k, t). pointer_free t \<or> k \<in> fst ` set cs) ts"
    by (simp_all add: copies_fields_def)
  have mem: "(k, t) \<in> set ts \<longleftrightarrow> map_of ts k = Some t" for k t using d(1) by simp
  have "\<forall>k t. map_of ts k = Some t \<longrightarrow> has_type h t (go_field k v)"
    using v by (auto simp: list_all_iff dest: map_of_SomeD)
  from copy_fields_fresh [OF h d(2,3) this c] have g: "grows h h'"
    and fs: "\<And>k t. map_of ts k = Some t \<Longrightarrow> if k \<in> fst ` set cs
      then fresh_copy h t (go_field k v) (go_field k v') h' else go_field k v' = go_field k v"
    by blast+
  have "fresh_copy h t (go_field k v) (go_field k v') h'" if kt: "(k, t) \<in> set ts" for k t
  proof (cases "k \<in> fst ` set cs")
    case True
    with fs [of k t] kt mem show ?thesis by simp
  next
    case False
    then have "go_field k v' = go_field k v" "pointer_free t"
      using fs [of k t] kt mem d(4) by (simp, force simp: list_all_iff)
    moreover have "has_type h t (go_field k v)" using v kt by (auto simp: list_all_iff)
    ultimately show ?thesis using grows_same(2,3) [OF h _ g] by (simp add: fresh_copy_def reached_pointer_free)
  qed
  with g show "grows h h' \<and> fresh_copy h (StructT ts) v v' h'"
    by (fastforce simp: fresh_copy_def list_all_iff)
qed

subsection \<open>What copies are good for\<close>

text \<open>
  Whatever is written afterwards to the old cells, the copy keeps its content; whatever is written to
  new ones, the original does.
\<close>

lemma copy_independent:
  assumes "copies t f" and "memory_ok h" and "has_type h t v" and "f v h = (v', h')"
  shows "content_of h' t v' = content_of h t v"
    and "(\<And>a. lim h \<le> a \<Longrightarrow> cells h2 a = cells h' a) \<Longrightarrow> content_of h2 t v' = content_of h t v"
    and "(\<And>a. a < lim h \<Longrightarrow> cells h2 a = cells h a) \<Longrightarrow> content_of h2 t v = content_of h t v"
proof -
  note c = copiesD(2) [OF assms]
  then show same: "content_of h' t v' = content_of h t v" by (simp add: fresh_copy_def)
  show "content_of h2 t v' = content_of h t v" if "\<And>a. lim h \<le> a \<Longrightarrow> cells h2 a = cells h' a"
    using same_cells [of h' t v' h2] c that by (simp add: fresh_copy_def)
  show "content_of h2 t v = content_of h t v" if "\<And>a. a < lim h \<Longrightarrow> cells h2 a = cells h a"
    using same_cells [of h t v h2] reached_below [OF assms(2,3)] that by simp
qed

end
