(* ===== verification/Deep_Copy.thy ===== *)
theory Deep_Copy
  imports Go_Heap
begin

section \<open>The deep copies of the API types\<close>

text \<open>
  \<^verbatim>\<open>api/v1alpha1/zz_generated.deepcopy.go\<close> over an explicit memory: for every type the struct with
  its pointers and slices, the method \<^verbatim>\<open>DeepCopyInto\<close> (\<open>copy_...\<close>) and the method \<^verbatim>\<open>DeepCopy\<close>. The
  reconciler computes its patches against such a copy, which must not change with the run. An
  instant counts as a flat value: the zone that a \<^verbatim>\<open>time.Time\<close> points to is never written.
\<close>

subsection \<open>The types of apimachinery\<close>

text \<open>Their copying methods are not under \<^verbatim>\<open>src\<close>; they are documented to be deep copies.\<close>

record foreign =
  fo_meta_type :: go_type
  fo_meta_copy :: copier
  fo_list_meta_type :: go_type
  fo_list_meta_copy :: copier
  fo_selector_type :: go_type
  fo_selector_copy :: copier
  fo_condition_type :: go_type
  fo_condition_copy :: copier

definition foreign_copies :: "foreign \<Rightarrow> bool" where
  "foreign_copies F \<longleftrightarrow> copies (fo_meta_type F) (fo_meta_copy F) \<and> copies (fo_list_meta_type F) (fo_list_meta_copy F) \<and>
     copies (fo_selector_type F) (fo_selector_copy F) \<and> copies (fo_condition_type F) (fo_condition_copy F)"

definition type_meta_type :: go_type where
  "type_meta_type = StructT [(''Kind'', FlatT), (''APIVersion'', FlatT)]"

subsection \<open>The structs\<close>

definition target_spec_type :: "foreign \<Rightarrow> go_type" where
  "target_spec_type F = StructT
     [(''Type'', FlatT), (''Name'', FlatT), (''DeploymentID'', FlatT), (''DeploymentName'', FlatT), (''VVPNamespace'', FlatT),
      (''Selector'', RefT (fo_selector_type F))]"

definition selection_spec_type :: go_type where
  "selection_spec_type = StructT [(''Mode'', FlatT), (''Count'', FlatT), (''PodNames'', RefT FlatT)]"

definition action_spec_type :: go_type where
  "action_spec_type = StructT [(''Type'', FlatT), (''GracePeriodSeconds'', RefT FlatT)]"

definition external_target_type :: go_type where
  "external_target_type = StructT [(''CIDR'', FlatT), (''Hostname'', FlatT), (''Port'', FlatT)]"

definition network_chaos_spec_type :: go_type where
  "network_chaos_spec_type = StructT
     [(''Target'', FlatT), (''Direction'', FlatT), (''ExternalEndpoint'', RefT external_target_type), (''Latency'', RefT FlatT),
      (''Jitter'', RefT FlatT), (''Loss'', RefT FlatT), (''Bandwidth'', FlatT), (''Duration'', RefT FlatT)]"

definition resource_exhaustion_spec_type :: go_type where
  "resource_exhaustion_spec_type = StructT
     [(''Mode'', FlatT), (''Workers'', FlatT), (''MemoryPercent'', FlatT), (''Duration'', RefT FlatT)]"

definition scenario_spec_type :: go_type where
  "scenario_spec_type = StructT
     [(''Type'', FlatT), (''Selection'', selection_spec_type), (''Action'', action_spec_type),
      (''Network'', RefT network_chaos_spec_type), (''ResourceExhaustion'', RefT resource_exhaustion_spec_type)]"

definition flink_rest_observe_type :: go_type where
  "flink_rest_observe_type = StructT
     [(''Enabled'', FlatT), (''Endpoint'', FlatT), (''RequireStableCheckpointBeforeInject'', FlatT),
      (''CheckpointStableWindowSeconds'', FlatT), (''CheckpointWaitTimeout'', RefT FlatT)]"

definition observe_spec_type :: go_type where
  "observe_spec_type = StructT
     [(''Enabled'', FlatT), (''Timeout'', FlatT), (''PollInterval'', FlatT), (''FlinkRest'', flink_rest_observe_type)]"

definition safety_spec_type :: go_type where
  "safety_spec_type = StructT
     [(''DryRun'', FlatT), (''MaxConcurrentRunsPerTarget'', FlatT), (''MinTaskManagersRemaining'', RefT FlatT),
      (''AllowSharedClusterImpact'', FlatT), (''MaxNetworkChaosDuration'', RefT FlatT), (''AllowCheckpointStorageChaos'', FlatT),
      (''MaxResourceExhaustionDuration'', RefT FlatT)]"

definition control_spec_type :: go_type where
  "control_spec_type = StructT [(''Abort'', FlatT)]"

definition chaos_run_spec_type :: "foreign \<Rightarrow> go_type" where
  "chaos_run_spec_type F = StructT
     [(''Target'', target_spec_type F), (''Scenario'', scenario_spec_type), (''Observe'', observe_spec_type),
      (''Safety'', safety_spec_type), (''Control'', control_spec_type)]"

definition target_summary_type :: go_type where
  "target_summary_type = StructT [(''Type'', FlatT), (''Name'', FlatT)]"

definition observation_status_type :: go_type where
  "observation_status_type = StructT
     [(''JobStateBefore'', FlatT), (''JobStateAfter'', FlatT), (''TaskManagerCountBefore'', FlatT),
      (''TaskManagerCountAfter'', FlatT), (''RecoveryObservedAt'', RefT FlatT), (''RecoveryTimeSeconds'', RefT FlatT)]"

definition container_record_type :: go_type where
  "container_record_type = StructT
     [(''PodName'', FlatT), (''ContainerName'', FlatT), (''InjectedAt'', RefT FlatT), (''CleanedUp'', FlatT)]"

definition chaos_run_status_type :: "foreign \<Rightarrow> go_type" where
  "chaos_run_status_type F = StructT
     [(''Phase'', FlatT), (''Verdict'', FlatT), (''Message'', FlatT), (''StartedAt'', RefT FlatT),
      (''ObservingStartedAt'', RefT FlatT), (''EndedAt'', RefT FlatT), (''SelectedPods'', RefT FlatT), (''InjectedPods'', RefT FlatT),
      (''ReplacementObserved'', FlatT), (''TargetSummary'', RefT target_summary_type),
      (''Observation'', RefT observation_status_type), (''NetworkPolicies'', RefT FlatT),
      (''EphemeralContainerInjections'', RefT container_record_type),
      (''ResourceExhaustionInjections'', RefT container_record_type), (''DryRunPreview'', FlatT),
      (''Conditions'', RefT (fo_condition_type F))]"

definition chaos_run_type :: "foreign \<Rightarrow> go_type" where
  "chaos_run_type F = StructT
     [(''TypeMeta'', type_meta_type), (''ObjectMeta'', fo_meta_type F), (''Spec'', chaos_run_spec_type F),
      (''Status'', chaos_run_status_type F)]"

definition chaos_run_list_type :: "foreign \<Rightarrow> go_type" where
  "chaos_run_list_type F = StructT
     [(''TypeMeta'', type_meta_type), (''ListMeta'', fo_list_meta_type F), (''Items'', RefT (chaos_run_type F))]"

lemmas go_types = target_spec_type_def selection_spec_type_def action_spec_type_def external_target_type_def
  network_chaos_spec_type_def resource_exhaustion_spec_type_def scenario_spec_type_def flink_rest_observe_type_def
  observe_spec_type_def safety_spec_type_def control_spec_type_def chaos_run_spec_type_def target_summary_type_def
  observation_status_type_def container_record_type_def chaos_run_status_type_def type_meta_type_def chaos_run_type_def
  chaos_run_list_type_def

subsection \<open>Copying\<close>

text \<open>
  \<^verbatim>\<open>DeepCopy\<close> of a pointer: \<^verbatim>\<open>nil\<close> stays \<^verbatim>\<open>nil\<close>, otherwise a new variable is filled by \<^verbatim>\<open>DeepCopyInto\<close>.
  Slices are copied element by element in the same way, and so are pointers to flat values.
\<close>

definition deep_copy :: "copier \<Rightarrow> copier" where
  "deep_copy into = copy_ref into"

abbreviation copy_flat :: copier where "copy_flat \<equiv> copy_ref shallow"

abbreviation copy_slice :: "copier \<Rightarrow> copier" where "copy_slice \<equiv> copy_ref"

definition copy_action_spec :: copier where
  "copy_action_spec = copy_fields [(''GracePeriodSeconds'', copy_flat)]"

definition copy_container_record :: copier where
  "copy_container_record = copy_fields [(''InjectedAt'', copy_flat)]"

definition copy_external_target :: copier where
  "copy_external_target = shallow"

definition copy_network_chaos_spec :: copier where
  "copy_network_chaos_spec = copy_fields
     [(''ExternalEndpoint'', deep_copy copy_external_target), (''Latency'', copy_flat), (''Jitter'', copy_flat),
      (''Loss'', copy_flat), (''Duration'', copy_flat)]"

definition copy_control_spec :: copier where
  "copy_control_spec = shallow"

definition copy_flink_rest_observe :: copier where
  "copy_flink_rest_observe = copy_fields [(''CheckpointWaitTimeout'', copy_flat)]"

definition copy_observation_status :: copier where
  "copy_observation_status = copy_fields [(''RecoveryObservedAt'', copy_flat), (''RecoveryTimeSeconds'', copy_flat)]"

definition copy_observe_spec :: copier where
  "copy_observe_spec = copy_fields [(''FlinkRest'', copy_flink_rest_observe)]"

definition copy_resource_exhaustion_spec :: copier where
  "copy_resource_exhaustion_spec = copy_fields [(''Duration'', copy_flat)]"

definition copy_safety_spec :: copier where
  "copy_safety_spec = copy_fields
     [(''MinTaskManagersRemaining'', copy_flat), (''MaxNetworkChaosDuration'', copy_flat),
      (''MaxResourceExhaustionDuration'', copy_flat)]"

definition copy_selection_spec :: copier where
  "copy_selection_spec = copy_fields [(''PodNames'', copy_slice shallow)]"

definition copy_scenario_spec :: copier where
  "copy_scenario_spec = copy_fields
     [(''Selection'', copy_selection_spec), (''Action'', copy_action_spec), (''Network'', deep_copy copy_network_chaos_spec),
      (''ResourceExhaustion'', deep_copy copy_resource_exhaustion_spec)]"

definition copy_target_spec :: "foreign \<Rightarrow> copier" where
  "copy_target_spec F = copy_fields [(''Selector'', deep_copy (fo_selector_copy F))]"

definition copy_target_summary :: copier where
  "copy_target_summary = shallow"

definition copy_chaos_run_spec :: "foreign \<Rightarrow> copier" where
  "copy_chaos_run_spec F = copy_fields
     [(''Target'', copy_target_spec F), (''Scenario'', copy_scenario_spec), (''Observe'', copy_observe_spec),
      (''Safety'', copy_safety_spec), (''Control'', shallow)]"

definition copy_chaos_run_status :: "foreign \<Rightarrow> copier" where
  "copy_chaos_run_status F = copy_fields
     [(''StartedAt'', copy_flat), (''ObservingStartedAt'', copy_flat), (''EndedAt'', copy_flat),
      (''SelectedPods'', copy_slice shallow), (''InjectedPods'', copy_slice shallow), (''TargetSummary'', copy_flat),
      (''Observation'', deep_copy copy_observation_status), (''NetworkPolicies'', copy_slice shallow),
      (''EphemeralContainerInjections'', copy_slice copy_container_record),
      (''ResourceExhaustionInjections'', copy_slice copy_container_record),
      (''Conditions'', copy_slice (fo_condition_copy F))]"

definition copy_chaos_run :: "foreign \<Rightarrow> copier" where
  "copy_chaos_run F = copy_fields
     [(''TypeMeta'', shallow), (''ObjectMeta'', fo_meta_copy F), (''Spec'', copy_chaos_run_spec F),
      (''Status'', copy_chaos_run_status F)]"

definition copy_chaos_run_list :: "foreign \<Rightarrow> copier" where
  "copy_chaos_run_list F = copy_fields
     [(''TypeMeta'', shallow), (''ListMeta'', fo_list_meta_copy F), (''Items'', copy_slice (copy_chaos_run F))]"

text \<open>The methods \<^verbatim>\<open>DeepCopy\<close>.\<close>

definition action_spec_deep_copy :: "copier" where
  "action_spec_deep_copy = deep_copy copy_action_spec"

definition container_record_deep_copy :: "copier" where
  "container_record_deep_copy = deep_copy copy_container_record"

definition external_target_deep_copy :: "copier" where
  "external_target_deep_copy = deep_copy copy_external_target"

definition network_chaos_spec_deep_copy :: "copier" where
  "network_chaos_spec_deep_copy = deep_copy copy_network_chaos_spec"

definition chaos_run_deep_copy :: "foreign \<Rightarrow> copier" where
  "chaos_run_deep_copy F = deep_copy (copy_chaos_run F)"

definition chaos_run_list_deep_copy :: "foreign \<Rightarrow> copier" where
  "chaos_run_list_deep_copy F = deep_copy (copy_chaos_run_list F)"

definition chaos_run_spec_deep_copy :: "foreign \<Rightarrow> copier" where
  "chaos_run_spec_deep_copy F = deep_copy (copy_chaos_run_spec F)"

definition chaos_run_status_deep_copy :: "foreign \<Rightarrow> copier" where
  "chaos_run_status_deep_copy F = deep_copy (copy_chaos_run_status F)"

definition control_spec_deep_copy :: "copier" where
  "control_spec_deep_copy = deep_copy copy_control_spec"

definition flink_rest_observe_deep_copy :: "copier" where
  "flink_rest_observe_deep_copy = deep_copy copy_flink_rest_observe"

definition observation_status_deep_copy :: "copier" where
  "observation_status_deep_copy = deep_copy copy_observation_status"

definition observe_spec_deep_copy :: "copier" where
  "observe_spec_deep_copy = deep_copy copy_observe_spec"

definition resource_exhaustion_spec_deep_copy :: "copier" where
  "resource_exhaustion_spec_deep_copy = deep_copy copy_resource_exhaustion_spec"

definition safety_spec_deep_copy :: "copier" where
  "safety_spec_deep_copy = deep_copy copy_safety_spec"

definition scenario_spec_deep_copy :: "copier" where
  "scenario_spec_deep_copy = deep_copy copy_scenario_spec"

definition selection_spec_deep_copy :: "copier" where
  "selection_spec_deep_copy = deep_copy copy_selection_spec"

definition target_spec_deep_copy :: "foreign \<Rightarrow> copier" where
  "target_spec_deep_copy F = deep_copy (copy_target_spec F)"

definition target_summary_deep_copy :: "copier" where
  "target_summary_deep_copy = deep_copy copy_target_summary"

definition deep_copy_methods :: "foreign \<Rightarrow> (string \<times> go_type \<times> copier) list" where
  "deep_copy_methods F =
     [(''ActionSpec'', action_spec_type, action_spec_deep_copy),
      (''EphemeralContainerRecord'', container_record_type, container_record_deep_copy),
      (''ExternalTarget'', external_target_type, external_target_deep_copy),
      (''NetworkChaosSpec'', network_chaos_spec_type, network_chaos_spec_deep_copy),
      (''ChaosRun'', chaos_run_type F, chaos_run_deep_copy F),
      (''ChaosRunList'', chaos_run_list_type F, chaos_run_list_deep_copy F),
      (''ChaosRunSpec'', chaos_run_spec_type F, chaos_run_spec_deep_copy F),
      (''ChaosRunStatus'', chaos_run_status_type F, chaos_run_status_deep_copy F),
      (''ControlSpec'', control_spec_type, control_spec_deep_copy),
      (''FlinkRestObserve'', flink_rest_observe_type, flink_rest_observe_deep_copy),
      (''ObservationStatus'', observation_status_type, observation_status_deep_copy),
      (''ObserveSpec'', observe_spec_type, observe_spec_deep_copy),
      (''ResourceExhaustionSpec'', resource_exhaustion_spec_type, resource_exhaustion_spec_deep_copy),
      (''SafetySpec'', safety_spec_type, safety_spec_deep_copy),
      (''ScenarioSpec'', scenario_spec_type, scenario_spec_deep_copy),
      (''SelectionSpec'', selection_spec_type, selection_spec_deep_copy),
      (''TargetSpec'', target_spec_type F, target_spec_deep_copy F),
      (''TargetSummary'', target_summary_type, target_summary_deep_copy)]"

text \<open>\<^verbatim>\<open>DeepCopyObject\<close> of the two objects answers a \<^verbatim>\<open>nil\<close> interface for \<^verbatim>\<open>nil\<close>.\<close>

definition deep_copy_object :: "copier \<Rightarrow> go_value \<Rightarrow> memory \<Rightarrow> go_value option \<times> memory" where
  "deep_copy_object copy v h = (case copy v h of (c, h1) \<Rightarrow> (if c \<noteq> RefV None then (Some c, h1) else (None, h1)))"

subsection \<open>Every copy is deep\<close>

lemma copies_deep: "copies t f \<Longrightarrow> copies (RefT t) (deep_copy f)"
  by (simp add: deep_copy_def copies_ref)

lemma copies_flat: "copies (RefT FlatT) copy_flat"
  by (rule copies_ref) (simp add: copies_shallow)

lemmas copy_lemmas = copies_fields_def copies_flat copies_deep copies_ref copies_shallow

lemma copies_external_target: "copies external_target_type copy_external_target"
  unfolding external_target_type_def copy_external_target_def
  by (rule copies_shallow) simp

lemma copies_control_spec: "copies control_spec_type copy_control_spec"
  unfolding control_spec_type_def copy_control_spec_def
  by (rule copies_shallow) simp

lemma copies_target_summary: "copies target_summary_type copy_target_summary"
  unfolding target_summary_type_def copy_target_summary_def
  by (rule copies_shallow) simp

lemma copies_action_spec: "copies action_spec_type copy_action_spec"
  unfolding action_spec_type_def copy_action_spec_def
  by (rule copies_struct) (simp add: copy_lemmas)

lemma copies_container_record: "copies container_record_type copy_container_record"
  unfolding container_record_type_def copy_container_record_def
  by (rule copies_struct) (simp add: copy_lemmas)

lemma copies_flink_rest_observe: "copies flink_rest_observe_type copy_flink_rest_observe"
  unfolding flink_rest_observe_type_def copy_flink_rest_observe_def
  by (rule copies_struct) (simp add: copy_lemmas)

lemma copies_observation_status: "copies observation_status_type copy_observation_status"
  unfolding observation_status_type_def copy_observation_status_def
  by (rule copies_struct) (simp add: copy_lemmas)

lemma copies_resource_exhaustion_spec: "copies resource_exhaustion_spec_type copy_resource_exhaustion_spec"
  unfolding resource_exhaustion_spec_type_def copy_resource_exhaustion_spec_def
  by (rule copies_struct) (simp add: copy_lemmas)

lemma copies_safety_spec: "copies safety_spec_type copy_safety_spec"
  unfolding safety_spec_type_def copy_safety_spec_def
  by (rule copies_struct) (simp add: copy_lemmas)

lemma copies_selection_spec: "copies selection_spec_type copy_selection_spec"
  unfolding selection_spec_type_def copy_selection_spec_def
  by (rule copies_struct) (simp add: copy_lemmas)

lemma copies_network_chaos_spec: "copies network_chaos_spec_type copy_network_chaos_spec"
  unfolding network_chaos_spec_type_def copy_network_chaos_spec_def
  by (rule copies_struct) (simp add: copy_lemmas copies_external_target)

lemma copies_observe_spec: "copies observe_spec_type copy_observe_spec"
  unfolding observe_spec_type_def copy_observe_spec_def
  by (rule copies_struct) (simp add: copy_lemmas copies_flink_rest_observe)

lemma copies_scenario_spec: "copies scenario_spec_type copy_scenario_spec"
  unfolding scenario_spec_type_def copy_scenario_spec_def
  by (rule copies_struct) (simp add: copy_lemmas copies_action_spec copies_selection_spec copies_network_chaos_spec copies_resource_exhaustion_spec)

lemma copies_target_spec: "foreign_copies F \<Longrightarrow> copies (target_spec_type F) (copy_target_spec F)"
  unfolding target_spec_type_def copy_target_spec_def
  by (intro copies_struct) (simp add: copy_lemmas foreign_copies_def)

lemma copies_chaos_run_spec: "foreign_copies F \<Longrightarrow> copies (chaos_run_spec_type F) (copy_chaos_run_spec F)"
  unfolding chaos_run_spec_type_def copy_chaos_run_spec_def
  by (intro copies_struct) (simp add: copy_lemmas copies_target_spec copies_scenario_spec copies_observe_spec copies_safety_spec control_spec_type_def)

lemma copies_chaos_run_status: "foreign_copies F \<Longrightarrow> copies (chaos_run_status_type F) (copy_chaos_run_status F)"
  unfolding chaos_run_status_type_def copy_chaos_run_status_def
  by (intro copies_struct) (simp add: copy_lemmas
      foreign_copies_def copies_observation_status copies_container_record target_summary_type_def)

lemma copies_chaos_run: "foreign_copies F \<Longrightarrow> copies (chaos_run_type F) (copy_chaos_run F)"
  unfolding chaos_run_type_def copy_chaos_run_def
  by (intro copies_struct) (simp add: copy_lemmas
      copies_chaos_run_spec copies_chaos_run_status type_meta_type_def foreign_copies_def)

lemma copies_chaos_run_list: "foreign_copies F \<Longrightarrow> copies (chaos_run_list_type F) (copy_chaos_run_list F)"
  unfolding chaos_run_list_type_def copy_chaos_run_list_def
  by (intro copies_struct) (simp add: copy_lemmas copies_chaos_run type_meta_type_def foreign_copies_def)

lemma copies_methods:
  assumes "foreign_copies F"
  shows "list_all (\<lambda>(name, t, f). copies (RefT t) f) (deep_copy_methods F)"
  unfolding deep_copy_methods_def
  by (simp add: copies_deep action_spec_deep_copy_def container_record_deep_copy_def external_target_deep_copy_def network_chaos_spec_deep_copy_def chaos_run_deep_copy_def chaos_run_list_deep_copy_def chaos_run_spec_deep_copy_def chaos_run_status_deep_copy_def control_spec_deep_copy_def flink_rest_observe_deep_copy_def observation_status_deep_copy_def observe_spec_deep_copy_def resource_exhaustion_spec_deep_copy_def safety_spec_deep_copy_def scenario_spec_deep_copy_def selection_spec_deep_copy_def target_spec_deep_copy_def target_summary_deep_copy_def
      copies_action_spec copies_container_record copies_external_target copies_network_chaos_spec copies_chaos_run [OF assms] copies_chaos_run_list [OF assms] copies_chaos_run_spec [OF assms] copies_chaos_run_status [OF assms] copies_control_spec copies_flink_rest_observe copies_observation_status copies_observe_spec copies_resource_exhaustion_spec copies_safety_spec copies_scenario_spec copies_selection_spec copies_target_spec [OF assms] copies_target_summary)

subsection \<open>Properties\<close>

text \<open>
  C15. A deep copy, by the method of any type of the API, has the content of the original and shares no
  memory with it: no later write to cells that existed before the copy changes the copy, and no
  write to newer cells changes the original.
\<close>

theorem deep_copies_share_nothing:
  assumes "foreign_copies F" and "(name, t, f) \<in> set (deep_copy_methods F)"
    and "memory_ok h" and "has_type h (RefT t) v" and "f v h = (v', h')"
  shows "content_of h' (RefT t) v' = content_of h (RefT t) v \<and>
    (\<forall>h2. (\<forall>a. lim h \<le> a \<longrightarrow> cells h2 a = cells h' a) \<longrightarrow> content_of h2 (RefT t) v' = content_of h (RefT t) v) \<and>
    (\<forall>h2. (\<forall>a. a < lim h \<longrightarrow> cells h2 a = cells h a) \<longrightarrow> content_of h2 (RefT t) v = content_of h (RefT t) v)"
proof -
  have "copies (RefT t) f" using copies_methods [OF assms(1)] assms(2) by (force simp: list_all_iff)
  from copy_independent [OF this assms(3-5)] show ?thesis by blast
qed

text \<open>
  A run with one record of an injected container, which is marked as cleaned in place after the base
  of the patch was copied.
\<close>

fun zero_value :: "go_type \<Rightarrow> go_value" where
  "zero_value FlatT = NumberV 0"
| "zero_value (StructT ts) = StructV (map (\<lambda>(k, t). (k, zero_value t)) ts)"
| "zero_value (RefT t) = RefV None"

definition demo_foreign :: foreign where
  "demo_foreign =
     \<lparr>fo_meta_type = StructT [(''Name'', FlatT), (''Labels'', RefT FlatT)], fo_meta_copy = copy_fields [(''Labels'', copy_flat)],
      fo_list_meta_type = FlatT, fo_list_meta_copy = shallow,
      fo_selector_type = StructT [(''MatchLabels'', RefT FlatT)], fo_selector_copy = copy_fields [(''MatchLabels'', copy_flat)],
      fo_condition_type = StructT [(''Type'', FlatT)], fo_condition_copy = shallow\<rparr>"

lemma demo_foreign_ok: "foreign_copies demo_foreign"
  by (simp add: foreign_copies_def demo_foreign_def copies_struct copy_lemmas)

definition demo_object :: go_value where
  "demo_object = with_field ''Status'' (with_field ''EphemeralContainerInjections'' (RefV (Some 1))
     (zero_value (chaos_run_status_type demo_foreign))) (zero_value (chaos_run_type demo_foreign))"

definition demo_memory :: memory where
  "demo_memory = \<lparr>cells = [0 \<mapsto> [demo_object], 1 \<mapsto> [zero_value container_record_type]], lim = 2\<rparr>"

theorem deep_copies_share_nothing_witness:
  "let (base, h1) = chaos_run_deep_copy demo_foreign (RefV (Some 0)) demo_memory;
       h2 = store 1 [with_field ''CleanedUp'' (FlagV True) (zero_value container_record_type)] h1;
       t = RefT (chaos_run_type demo_foreign)
   in content_of h2 t base = content_of demo_memory t (RefV (Some 0)) \<and>
      content_of h2 t (RefV (Some 0)) \<noteq> content_of demo_memory t (RefV (Some 0))"
proof -
  let ?t = "RefT (chaos_run_type demo_foreign)"
  let ?p = "chaos_run_deep_copy demo_foreign (RefV (Some 0)) demo_memory"
  let ?h2 = "store 1 [with_field ''CleanedUp'' (FlagV True) (zero_value container_record_type)] (snd ?p)"
  have m: "(''ChaosRun'', chaos_run_type demo_foreign, chaos_run_deep_copy demo_foreign) \<in> set (deep_copy_methods demo_foreign)"
    by (simp add: deep_copy_methods_def)
  have ok: "memory_ok demo_memory" by (simp add: memory_ok_def demo_memory_def)
  have ty: "has_type demo_memory ?t (RefV (Some 0))" by code_simp
  have p: "chaos_run_deep_copy demo_foreign (RefV (Some 0)) demo_memory = (fst ?p, snd ?p)" by simp
  have "\<forall>a. lim demo_memory \<le> a \<longrightarrow> cells ?h2 a = cells (snd ?p) a"
    by (simp add: store_def demo_memory_def)
  then have "content_of ?h2 ?t (fst ?p) = content_of demo_memory ?t (RefV (Some 0))"
    using deep_copies_share_nothing [OF demo_foreign_ok m ok ty p] by blast
  moreover have "content_of ?h2 ?t (RefV (Some 0)) \<noteq> content_of demo_memory ?t (RefV (Some 0))" by code_simp
  ultimately show ?thesis by (simp add: Let_def case_prod_unfold)
qed

end
