(* ===== verification/Programs.thy ===== *)
theory Programs
  imports Wiring Api_Server Cli
begin

section \<open>The three programs\<close>

text \<open>
  The main functions: \<^verbatim>\<open>cmd/kubectl-fchaos/main.go\<close> with its command tree,
  \<^verbatim>\<open>cmd/ui-server/main.go\<close> and \<^verbatim>\<open>cmd/controller/main.go\<close>. The arguments are as cobra and
  \<^verbatim>\<open>flag\<close> leave them, with the names of the flags that were given; the Kubernetes libraries that load a
  configuration and make a client, and the manager of controller-runtime, are parameters.
\<close>

subsection \<open>Access to the cluster\<close>

text \<open>The settings of clientcmd: the path of the kubeconfig and the context to use, empty when not set.\<close>

record loading =
  ld_explicitPath :: string
  ld_currentContext :: string

record ('w, 'c) kube_access =
  ka_inCluster :: "'w \<Rightarrow> (string + 'c) \<times> 'w"
  ka_load :: "loading \<Rightarrow> 'w \<Rightarrow> (string + 'c) \<times> 'w"
  ka_store :: "'c \<Rightarrow> 'w \<Rightarrow> (string + 'w run_store) \<times> 'w"

definition build_client :: "('w, 'c) kube_access \<Rightarrow> string \<Rightarrow> 'w \<Rightarrow> (string + 'w run_store) \<times> 'w" where
  "build_client ka kubeconfigPath w =
     (case ka_load ka \<lparr>ld_explicitPath = kubeconfigPath, ld_currentContext = ''''\<rparr> w of
        (Inl e, w1) \<Rightarrow> (Inl (''build kubeconfig: '' @ e), w1)
      | (Inr cfg, w1) \<Rightarrow>
          (case ka_store ka cfg w1 of
             (Inl e, w2) \<Rightarrow> (Inl (''create client: '' @ e), w2)
           | (Inr c, w2) \<Rightarrow> (Inr c, w2)))"

definition build_kube_config ::
  "('w, 'c) kube_access \<Rightarrow> (string \<Rightarrow> string) \<Rightarrow> string \<Rightarrow> 'w \<Rightarrow> (string + 'c) \<times> 'w" where
  "build_kube_config ka getenv kubeContext w =
     (case ka_inCluster ka w of
        (Inr cfg, w1) \<Rightarrow> (Inr cfg, w1)
      | (Inl e, w1) \<Rightarrow>
          (let rules = (if getenv ''KUBECONFIG'' \<noteq> '''' then getenv ''KUBECONFIG'' else '''');
               context = (if kubeContext \<noteq> '''' then kubeContext else '''')
           in ka_load ka \<lparr>ld_explicitPath = rules, ld_currentContext = context\<rparr> w1))"

subsection \<open>The kubectl plugin\<close>

record root_flags =
  rf_namespace :: string
  rf_kubeconfig :: string

definition root_defaults :: root_flags where
  "root_defaults = \<lparr>rf_namespace = ''default'', rf_kubeconfig = ''''\<rparr>"

text \<open>A command of the tree; the list of strings is the flags given, or the arguments of stop, status and list.\<close>

datatype cli_invocation =
    NoCommand
  | TmKillCmd "string list" target_flags tm_kill_flags
  | PartitionCmd "string list" target_flags partition_flags
  | NetChaosCmd "string list" target_flags net_chaos_flags
  | ExhaustionCmd "string list" target_flags exhaustion_flags
  | StopCmd "string list"
  | StatusCmd "string list"
  | ListCmd "string list"

datatype cli_output = HelpText | Line string | StatusTable "(string \<times> string) list" | RunTable "string list list"

definition required_flags :: "string list \<Rightarrow> string list \<Rightarrow> string option" where
  "required_flags names given =
     (case filter (\<lambda>n. n \<notin> set given) names of
        [] \<Rightarrow> None
      | missing \<Rightarrow> Some (''required flag(s) '' @ join '', '' (map fmt_q missing) @ '' not set''))"

definition target_flag_defaults :: target_flags where
  "target_flag_defaults = \<lparr>tf_targetType = '''', tf_targetName = '''', tf_deploymentName = '''', tf_deploymentID = '''', tf_vvpNamespace = '''', tf_selector = ''''\<rparr>"

definition target_required :: "string list" where
  "target_required = [''target-type'']"

definition exact_args :: "nat \<Rightarrow> string list \<Rightarrow> string option" where
  "exact_args n args =
     (if length args = n then None
      else Some (''accepts '' @ fmt_d (int n) @ '' arg(s), received '' @ fmt_d (int (length args))))"

definition no_args :: "string \<Rightarrow> string list \<Rightarrow> string option" where
  "no_args path args =
     (case args of [] \<Rightarrow> None | a # _ \<Rightarrow> Some (''unknown command '' @ fmt_q a @ '' for '' @ fmt_q path))"

definition checked ::
  "string option \<Rightarrow> ('a \<Rightarrow> cli_output) \<Rightarrow> ('w \<Rightarrow> (string + 'a) \<times> 'w) \<Rightarrow> 'w \<Rightarrow> (string + cli_output) \<times> 'w" where
  "checked err out command w =
     (case err of
        Some e \<Rightarrow> (Inl e, w)
      | None \<Rightarrow> (case command w of (Inl e, w1) \<Rightarrow> (Inl e, w1) | (Inr x, w1) \<Rightarrow> (Inr (out x), w1)))"

definition new_tm_kill_cmd ::
  "'w cli_env \<Rightarrow> string list \<Rightarrow> target_flags \<Rightarrow> tm_kill_flags \<Rightarrow> 'w \<Rightarrow> (string + cli_output) \<times> 'w" where
  "new_tm_kill_cmd env given tf fl = checked (required_flags target_required given) Line (run_tm_kill env tf fl)"

definition new_network_partition_cmd ::
  "'w cli_env \<Rightarrow> string list \<Rightarrow> target_flags \<Rightarrow> partition_flags \<Rightarrow> 'w \<Rightarrow> (string + cli_output) \<times> 'w" where
  "new_network_partition_cmd env given tf fl =
     checked (required_flags target_required given) Line (run_network_partition env tf fl)"

definition new_network_chaos_cmd ::
  "'w cli_env \<Rightarrow> string list \<Rightarrow> target_flags \<Rightarrow> net_chaos_flags \<Rightarrow> 'w \<Rightarrow> (string + cli_output) \<times> 'w" where
  "new_network_chaos_cmd env given tf fl =
     checked (required_flags target_required given) Line (run_network_chaos env tf fl)"

definition new_resource_exhaustion_cmd ::
  "'w cli_env \<Rightarrow> string list \<Rightarrow> target_flags \<Rightarrow> exhaustion_flags \<Rightarrow> 'w \<Rightarrow> (string + cli_output) \<times> 'w" where
  "new_resource_exhaustion_cmd env given tf fl =
     checked (required_flags (''mode'' # target_required) given) Line (run_resource_exhaustion env tf fl)"

definition new_stop_cmd :: "'w cli_env \<Rightarrow> string list \<Rightarrow> 'w \<Rightarrow> (string + cli_output) \<times> 'w" where
  "new_stop_cmd env args = checked (exact_args 1 args) Line (run_stop env (args ! 0))"

definition new_status_cmd :: "'w cli_env \<Rightarrow> string list \<Rightarrow> 'w \<Rightarrow> (string + cli_output) \<times> 'w" where
  "new_status_cmd env args = checked (exact_args 1 args) StatusTable (run_status env (args ! 0))"

definition new_list_cmd ::
  "'w cli_env \<Rightarrow> (chaos_run \<Rightarrow> int option) \<Rightarrow> string list \<Rightarrow> 'w \<Rightarrow> (string + cli_output) \<times> 'w" where
  "new_list_cmd env created args = checked (no_args ''kubectl-fchaos list'' args) RunTable (run_list env created)"

definition new_run_cmd :: "'w cli_env \<Rightarrow> cli_invocation \<Rightarrow> 'w \<Rightarrow> (string + cli_output) \<times> 'w" where
  "new_run_cmd env cmd =
     (case cmd of
        TmKillCmd given tf fl \<Rightarrow> new_tm_kill_cmd env given tf fl
      | PartitionCmd given tf fl \<Rightarrow> new_network_partition_cmd env given tf fl
      | NetChaosCmd given tf fl \<Rightarrow> new_network_chaos_cmd env given tf fl
      | ExhaustionCmd given tf fl \<Rightarrow> new_resource_exhaustion_cmd env given tf fl
      | _ \<Rightarrow> (\<lambda>w. (Inr HelpText, w)))"

definition root_cmd ::
  "'w cli_env \<Rightarrow> (chaos_run \<Rightarrow> int option) \<Rightarrow> cli_invocation \<Rightarrow> 'w \<Rightarrow> (string + cli_output) \<times> 'w" where
  "root_cmd env created cmd =
     (case cmd of
        StopCmd args \<Rightarrow> new_stop_cmd env args
      | StatusCmd args \<Rightarrow> new_status_cmd env args
      | ListCmd args \<Rightarrow> new_list_cmd env created args
      | _ \<Rightarrow> new_run_cmd env cmd)"

text \<open>The environment of the commands: namespace and client from the flags of the root command.\<close>

definition cli_environment ::
  "('w, 'c) kube_access \<Rightarrow> (string \<Rightarrow> string + requirement list \<times> bool) \<Rightarrow> ('w \<Rightarrow> int \<times> 'w) \<Rightarrow>
   root_flags \<Rightarrow> 'w cli_env" where
  "cli_environment ka parse clock rf = \<lparr>ce_namespace = rf_namespace rf, ce_parse = parse,
     ce_connect = build_client ka (rf_kubeconfig rf), ce_now = clock\<rparr>"

text \<open>Exit code and what is printed, the error to the standard error output.\<close>

definition cli_main ::
  "'w cli_env \<Rightarrow> (chaos_run \<Rightarrow> int option) \<Rightarrow> cli_invocation \<Rightarrow> 'w \<Rightarrow> (nat \<times> (string + cli_output)) \<times> 'w" where
  "cli_main env created cmd w =
     (case root_cmd env created cmd w of (Inl e, w1) \<Rightarrow> ((1, Inl e), w1) | (Inr x, w1) \<Rightarrow> ((0, Inr x), w1))"

subsection \<open>The UI server\<close>

record ui_flags =
  uf_port :: int
  uf_namespace :: string
  uf_flinkEndpoint :: string
  uf_kubeContext :: string

definition namespace_from_env :: "(string \<Rightarrow> string) \<Rightarrow> string" where
  "namespace_from_env getenv = (if getenv ''POD_NAMESPACE'' \<noteq> '''' then getenv ''POD_NAMESPACE'' else ''default'')"

definition ui_flag_defaults :: "(string \<Rightarrow> string) \<Rightarrow> ui_flags" where
  "ui_flag_defaults getenv = \<lparr>uf_port = 8090, uf_namespace = namespace_from_env getenv, uf_flinkEndpoint = '''',
     uf_kubeContext = ''''\<rparr>"

text \<open>
  What happens once the server runs: the goroutine's \<^verbatim>\<open>ListenAndServe\<close> returns, which it only logs,
  or a signal arrives, on which the main function goes on. \<open>None\<close>: it still waits.
\<close>

datatype ui_event = ServerStopped string | SignalReceived

fun await_signal :: "ui_event list \<Rightarrow> ui_event list option" where
  "await_signal [] = None"
| "await_signal (SignalReceived # es) = Some es"
| "await_signal (ServerStopped e # es) = await_signal es"

record ('w, 'c, 'f) ui_env =
  ue_access :: "('w, 'c) kube_access"
  ue_config :: "'c \<Rightarrow> 'w \<Rightarrow> (string + ('w, 'f) api_config) \<times> 'w"
    \<comment> \<open>\<^verbatim>\<open>client.New\<close> and the reads and transports a handler has with that client\<close>
  ue_files :: "string \<Rightarrow> string \<Rightarrow> nat" \<comment> \<open>the embedded frontend, which is always there\<close>
  ue_events :: "ui_event list"
  ue_shutdown :: "'w \<Rightarrow> string option \<times> 'w"

definition ui_config :: "('w, 'f) api_config \<Rightarrow> ui_flags \<Rightarrow> (string \<Rightarrow> string \<Rightarrow> nat) \<Rightarrow> ('w, 'f) api_config" where
  "ui_config cfg fl files = cfg\<lparr>ac_namespace := uf_namespace fl, ac_endpoint := uf_flinkEndpoint fl,
     ac_port := uf_port fl, ac_static := Some files\<rparr>"

text \<open>The exit code, none while the program runs, and the server it has started.\<close>

definition ui_main ::
  "('w, 'c, 'f) ui_env \<Rightarrow> (string \<Rightarrow> string) \<Rightarrow> ui_flags \<Rightarrow> 'w \<Rightarrow>
   nat option \<times> ('w, 'f) http_server option \<times> 'w" where
  "ui_main env getenv fl w =
     (case build_kube_config (ue_access env) getenv (uf_kubeContext fl) w of
        (Inl e, w1) \<Rightarrow> (Some 1, None, w1)
      | (Inr restCfg, w1) \<Rightarrow>
          (case ue_config env restCfg w1 of
             (Inl e, w2) \<Rightarrow> (Some 1, None, w2)
           | (Inr cfg, w2) \<Rightarrow>
               (let srv = new_server (ui_config cfg fl (ue_files env)) in
                case await_signal (ue_events env) of
                  None \<Rightarrow> (None, Some srv, w2)
                | Some _ \<Rightarrow>
                    (case ue_shutdown env w2 of
                       (Some e, w3) \<Rightarrow> (Some 1, Some srv, w3)
                     | (None, w3) \<Rightarrow> (Some 0, Some srv, w3)))))"

subsection \<open>The controller\<close>

record controller_flags =
  kf_metricsAddr :: string
  kf_probeAddr :: string
  kf_enableLeader :: bool
  kf_namespace :: string

definition controller_flag_defaults :: controller_flags where
  "controller_flag_defaults = \<lparr>kf_metricsAddr = '':8080'', kf_probeAddr = '':8081'', kf_enableLeader = False,
     kf_namespace = ''''\<rparr>"

record manager_options =
  mo_leaderElection :: bool
  mo_leaderElectionID :: string
  mo_probeAddr :: string
  mo_metricsAddr :: string
  mo_defaultNamespaces :: "string list"

definition manager_options_of :: "controller_flags \<Rightarrow> manager_options" where
  "manager_options_of fl =
     (let opts = \<lparr>mo_leaderElection = kf_enableLeader fl, mo_leaderElectionID = ''flink-chaos-operator.chaos.flink.io'',
            mo_probeAddr = kf_probeAddr fl, mo_metricsAddr = kf_metricsAddr fl, mo_defaultNamespaces = []\<rparr>
      in if kf_namespace fl \<noteq> '''' then opts\<lparr>mo_defaultNamespaces := [kf_namespace fl]\<rparr> else opts)"

text \<open>The manager: \<open>None\<close> where a call fails, else its client; the other calls answer with an error, if any.\<close>

record 'w manager_env =
  me_newManager :: "manager_options \<Rightarrow> 'w kube option"
  me_newClientset :: "string option"
  me_http :: "'w http"
  me_lossPointer :: string
  me_setup :: "'w reconciler \<Rightarrow> string option"
  me_healthz :: "string option"
  me_readyz :: "string option"
  me_start :: "string option"

definition controller_main ::
  "'w manager_env \<Rightarrow> (string \<Rightarrow> string) \<Rightarrow> controller_flags \<Rightarrow> nat \<times> 'w reconciler option" where
  "controller_main env getenv fl =
     (case me_newManager env (manager_options_of fl) of
        None \<Rightarrow> (1, None)
      | Some k \<Rightarrow>
          (if me_newClientset env \<noteq> None then (1, None)
           else let rc = operator k (http_client (me_http env)) (getenv ''TC_TOOLS_IMAGE'') (getenv ''STRESS_IMAGE'')
                  (me_lossPointer env)
           in if me_setup env rc \<noteq> None then (1, None)
              else if me_healthz env \<noteq> None then (1, None)
              else if me_readyz env \<noteq> None then (1, None)
              else if me_start env \<noteq> None then (1, Some rc)
              else (0, Some rc)))"

text \<open>What runs is the operator of the theorems, over the client the manager made for the flags.\<close>

lemma controller_runs_operator:
  assumes "controller_main env getenv fl = (code, Some rc)"
  shows "\<exists>k. me_newManager env (manager_options_of fl) = Some k \<and>
    rc = operator k (http_client (me_http env)) (getenv ''TC_TOOLS_IMAGE'') (getenv ''STRESS_IMAGE'') (me_lossPointer env)"
  using assms by (auto simp: controller_main_def Let_def split: option.splits if_splits)

subsection \<open>Properties\<close>

lemma await_signal_None: "await_signal es = None \<longleftrightarrow> SignalReceived \<notin> set es"
  by (induction es rule: await_signal.induct) auto

text \<open>
  Once the UI server's configuration and client are there, the program ends exactly when a signal
  arrives: if the server itself stops, because its port is taken for instance, the program neither
  exits nor reports a failure but waits on, with nothing serving.
\<close>

theorem ui_outlives_its_server:
  assumes "build_kube_config (ue_access env) getenv (uf_kubeContext fl) w = (Inr restCfg, w1)"
    and "ue_config env restCfg w1 = (Inr cfg, w2)"
  shows "(fst (ui_main env getenv fl w) = None \<longleftrightarrow> SignalReceived \<notin> set (ue_events env)) \<and>
    fst (snd (ui_main env getenv fl w)) = Some (new_server (ui_config cfg fl (ue_files env)))"
  using assms await_signal_None [of "ue_events env"]
  by (auto simp: ui_main_def Let_def split: option.splits prod.splits)

definition demo_ui_env :: "(nat, unit, int) ui_env" where
  "demo_ui_env = \<lparr>ue_access = \<lparr>ka_inCluster = (\<lambda>w. (Inr (), w)), ka_load = (\<lambda>_ w. (Inl ''no kubeconfig'', w)),
       ka_store = (\<lambda>_ w. (Inr (counting_store True), w))\<rparr>,
     ue_config = (\<lambda>_ w. (Inr (demo_config (counting_store True)), w)), ue_files = (\<lambda>_ _. 404),
     ue_events = [ServerStopped ''listen tcp :8090: bind: address already in use''], ue_shutdown = (\<lambda>w. (None, w))\<rparr>"

theorem ui_outlives_its_server_witness:
  "fst (ui_main demo_ui_env (\<lambda>_. '''') (ui_flag_defaults (\<lambda>_. '''')) 0) = None"
  using ui_outlives_its_server [of demo_ui_env "\<lambda>_. ''''" "ui_flag_defaults (\<lambda>_. '''')" 0 "()" 0 "demo_config (counting_store True)" 0]
  by (simp add: demo_ui_env_def build_kube_config_def)

text \<open>
  A run command that lacks a required flag, and a stop or status command without exactly one argument,
  exits with code 1 without touching the cluster.
\<close>

lemma cli_checks_before_acting:
  "(\<forall>given tf k. ''target-type'' \<notin> set given \<longrightarrow> fst (fst (cli_main env created (TmKillCmd given tf k) w)) = 1 \<and>
      snd (cli_main env created (TmKillCmd given tf k) w) = w) \<and>
   (\<forall>given tf x. ''target-type'' \<notin> set given \<or> ''mode'' \<notin> set given \<longrightarrow>
      fst (fst (cli_main env created (ExhaustionCmd given tf x) w)) = 1 \<and>
      snd (cli_main env created (ExhaustionCmd given tf x) w) = w) \<and>
   (\<forall>args. length args \<noteq> 1 \<longrightarrow> fst (fst (cli_main env created (StopCmd args) w)) = 1 \<and>
      snd (cli_main env created (StopCmd args) w) = w) \<and>
   (\<forall>name w1 line. run_stop env name w = (Inr line, w1) \<longrightarrow>
      cli_main env created (StopCmd [name]) w = ((0, Inr (Line line)), w1))"
  by (auto simp: cli_main_def root_cmd_def new_run_cmd_def new_tm_kill_cmd_def new_resource_exhaustion_cmd_def
      new_stop_cmd_def checked_def required_flags_def target_required_def exact_args_def
      split: list.splits)

end
