(* ===== verification/Spec2Isabelle.thy ===== *)
theory Spec2Isabelle
  imports Stale_Schema User_Actions Admitted_Status Sse_Frames Deep_Copy Programs
begin

text \<open>
  The Flink chaos operator, a Kubernetes operator in Go that injects faults into Flink clusters and
  watches them recover. A user creates a ChaosRun; the controller's \<^verbatim>\<open>Reconcile\<close> drives it
  through Pending, Injecting, Observing and, for scenarios that leave resources behind,
  CleaningUp to one of the terminal phases Completed, Aborted and Failed. It calls a resolver
  (which pods), a safety checker (may we), a scenario driver (do it, undo it) and an observer (has
  it recovered), each behind a Go interface.

  \<^bold>\<open>How the code is modelled.\<close> Code that talks to the cluster is a state transformer on \<open>'w sys\<close>:
  the field \<open>ext\<close> is the world, of any type \<open>'w\<close>, and \<open>calls\<close> the log of the writes, events and
  metric updates made so far. The Kubernetes client, the clock and the shuffle of
  \<^verbatim>\<open>math/rand\<close> are the fields of the record \<open>'w kube\<close>; what a theorem needs of them is a named
  hypothesis (\<open>patch_keeps_phase\<close>, \<open>patch_stores\<close>, \<open>conditions_keyed\<close>, \<open>shuffle_permutes\<close>,
  \<open>policy_store\<close>, \<open>store_coherent\<close>), and \<open>Demo_World\<close>
  gives an instance on which every witness is evaluated. Go errors are values of a sum or an option, the
  panic of the tc script builder is a value too. Durations and instants are integers in
  nanoseconds; a subtraction of instants saturates as \<^verbatim>\<open>time.Time.Sub\<close> does, a conversion to
  32 bits wraps. Strings are lists of characters, read as bytes.

  \<^bold>\<open>The theories.\<close>
  \<^item> \<open>Prelude\<close>, \<open>Go_Net\<close>: Go integers, durations, \<^verbatim>\<open>strings\<close>, \<^verbatim>\<open>fmt\<close> verbs and \<^verbatim>\<open>net.ParseCIDR\<close>.
  \<^item> \<open>Api_Types\<close>, \<open>Validation\<close>: \<^verbatim>\<open>api/v1alpha1\<close>, the data, \<^verbatim>\<open>Validate\<close> and \<^verbatim>\<open>SetDefaults\<close>.
  \<^item> \<open>Kube\<close>, \<open>Phases\<close>, \<open>Interfaces\<close>: the client, \<^verbatim>\<open>internal/controller/phases.go\<close>, and the Go
    interfaces as the locales \<open>target_resolver\<close>, \<open>safety_check\<close>, \<open>scenario_driver\<close>,
    \<open>cleanable_driver\<close> and \<open>recovery_observer\<close>. Each component interprets the locale it implements.
  \<^item> \<open>Safety\<close>: \<^verbatim>\<open>internal/safety\<close>. \<open>Resolvers\<close>: \<^verbatim>\<open>internal/resolver\<close> and \<^verbatim>\<open>internal/podutil\<close>.
    \<open>Observers\<close>: \<^verbatim>\<open>internal/observer\<close>.
  \<^item> \<open>Pod_Kill\<close>, \<open>Net_Policy\<close>, \<open>Ephemeral\<close>, \<open>Tc_Builder\<close>, \<open>Net_Chaos\<close>, \<open>Res_Exhaust\<close>: the four
    scenario drivers with the builders they use (\<^verbatim>\<open>internal/scenario\<close>, \<^verbatim>\<open>internal/netchaos\<close>,
    \<^verbatim>\<open>internal/ephemeral\<close>).
  \<^item> \<open>Call_Logic\<close>: a logic for programs of the state monad, \<open>triple P Q m\<close>: every logged call
    satisfies \<open>P\<close> and the result \<open>Q\<close>.
  \<^item> \<open>Reconciler\<close>: \<^verbatim>\<open>internal/controller/chaosrun_controller.go\<close>, one definition per handler and
    branch. \<open>Lifecycle\<close>: the abstract phase machine \<open>phase_step\<close> and the proof, in the locale
    \<open>operator_parts\<close>, that a pass refines it whatever the parts are.
  \<^item> \<open>Wiring\<close>: \<^verbatim>\<open>cmd/controller/main.go\<close>, the operator assembled from the components, and the
    interpretation of \<open>operator_parts\<close> on it.
  \<^item> \<open>Pass_Contents\<close>, \<open>Passes\<close>: what the patches of a pass contain, and a pass as a fetch followed by the
    handlers. \<open>Deadlines\<close>: what becomes of a run whose observation or cleaning up is over time.
    \<open>Metrics\<close>: \<^verbatim>\<open>internal/controller/metrics.go\<close> and when the handlers count a run. \<open>Progress\<close>,
    \<open>Run_End\<close>: what an accepted pass achieves, and that every run ends under endless passes.
  \<^item> \<open>Run_Store\<close>: ChaosRun objects as the user's tools create, read and change them. \<open>Cli\<close>: the kubectl
    plugin, \<^verbatim>\<open>cmd/kubectl-fchaos\<close>.
  \<^item> \<open>Api_Write\<close>, \<open>Api_Read\<close>, \<open>Topology\<close>, \<open>Flink_Proxy\<close>, \<open>Event_Stream\<close>: the handlers of the UI's
    API server, \<^verbatim>\<open>internal/apiserver\<close>. \<open>Go_Mux\<close>: the routing of \<^verbatim>\<open>net/http\<close>. \<open>Api_Server\<close>: \<^verbatim>\<open>NewServer\<close>
    with its routes, the CORS headers and the replies, on which the handlers are put together.
  \<^item> \<open>Go_Text\<close>, \<open>Json\<close>: case folding, trimming, RFC 3339 and the decoding of JSON values.
    \<open>Flink_Http\<close>, \<open>Job_Metrics\<close>: the HTTP client of \<^verbatim>\<open>internal/observer/flinkrest\<close>, an instance of the
    record \<open>flink_client\<close> that the observer and the stability gate are stated over.
  \<^item> \<open>User_Actions\<close>: an abort by a user, from the tool that writes it to the pass that obeys it; the
    contract of such a tool is the locale \<open>abort_tool\<close>, interpreted on the handler, on the routed
    request and on the command.
  \<^item> \<open>Wire\<close>, \<open>Wire_Run\<close>: spec and status as JSON, by the tags of \<^verbatim>\<open>api/v1alpha1\<close>, written and read.
    \<open>Schemas\<close>: the schemas of the resource, as generated from the markers, as checked in under
    \<^verbatim>\<open>config/crd/bases\<close> and as the Helm chart installs them, with what the API server does by them.
    \<open>Stored_Form\<close>: what is left of a run when it has passed the server. \<open>Crd_Schema\<close>, \<open>Schema_Match\<close>,
    \<open>Admitted_Status\<close>: which specs the schemas refuse, and that those of the repository refuse no status
    of the operator, whose list of conditions is a map by type.
    \<open>Stale_Schema\<close>: the operator under the checked-in schema, which is older than the types.
  \<^item> \<open>Sse_Frames\<close>: the bytes of the event stream and their reader in a browser.
  \<^item> \<open>Go_Heap\<close>, \<open>Deep_Copy\<close>: an explicit memory, and the deep copies of \<^verbatim>\<open>zz_generated.deepcopy.go\<close> over it.
  \<^item> \<open>Programs\<close>: the three \<^verbatim>\<open>main\<close> functions under \<^verbatim>\<open>cmd\<close>, with the plugin's command tree.
  \<^item> \<open>Demo_Run\<close>, \<open>Demo_World\<close>: a run and a small world for the witnesses.

  \<^bold>\<open>What is shown.\<close> Of single components: what each resolver, driver, builder and observer
  computes, on every branch that the property is about, and where that is less than their comments
  promise. Of a whole pass of the operator, in this theory: nothing is injected without resolution
  and a passed safety check, status patches follow the lifecycle, a verdict is earned but for two switches of the spec, aborts,
  deletions and clean-ups take the right branch, and a random pod kill keeps the minimum of
  TaskManagers; a run past its deadlines is terminal after two passes, every run ends as long as the server
  keeps accepting writes, and which ends are counted. Of the tools: which requests and flags become runs that the operator accepts, what
  a selector loses on the way, which runs the schema admits, that an abort reaches the next pass, that
  only writing requests change a run, and what the event stream reports, byte by byte, and how many
  streams there can be under every interleaving. Of the way through the API server: what of a run is
  read back under each of the three schemas, that \<open>every_run_ends\<close> and \<open>timeouts_stay_anchored\<close> hold
  under each, where times are cut to seconds and fields are lost, and what goes wrong under the
  checked-in schema. Of the memory: deep copies share nothing with their originals, so that the base
  of a patch is a value, as it is in the rest of the model. All functions are total; loops are recursions on lists, so no fuel is
  needed.

  \<^bold>\<open>Not modelled.\<close> Log output; the JSON form of the API server's bodies, which are values here, and
  the metadata of an object beyond the fields the code uses; the registration of the types in a
  scheme, which has no behaviour of its own; leader election, caches and the work queue of controller-runtime; the serving of static
  files; the parsing of flags by cobra and \<^verbatim>\<open>flag\<close>, the loading of the kubeconfig and the alignment
  of tables. The copying methods of apimachinery's types, the text of instants and durations
  (\<open>codec_ok\<close>), the HTTP transport, the JSON parser, \<^verbatim>\<open>labels.Parse\<close>, the manager, clientcmd and the
  arithmetic of \<^verbatim>\<open>float64\<close> are parameters.
\<close>

section \<open>One pass of the operator\<close>

text \<open>
  C1. A pass of the operator deletes a pod, creates a policy or adds a container only when the run
  it fetched is in phase Injecting, is no dry run, is not aborted and has no injection recorded,
  its target resolved, and the safety checker passed for that target and the same spec.
\<close>

theorem injection_gate:
  assumes "patch_keeps_phase k"
    and "run_state (reconcile (operator k newClient tcEnv stressEnv lossPointer) ns name) s = (x, s')"
    and "calls s' = calls s @ new" and "c \<in> set new" and "disruptive c"
  shows "\<exists>run t r s1 s2 s3 s4. fst (k_get_run k ns name (ext s)) = Inr run \<and> may_inject (set_defaults run) \<and>
    resolve_target (operator k newClient tcEnv stressEnv lossPointer) (set_defaults run) s1 = (Inr t, s2) \<and>
    same_object (set_defaults run) r \<and> check k r t s3 = (None, s4)"
  using assms(2)
proof (cases rule: reconcile_cases)
  case 1
  with assms(3,4) show ?thesis by simp
next
  case (2 run s1)
  have "\<not> emits (\<lambda>c. \<not> disruptive c) s1 s'"
    using 2(2) assms(3-5) by (auto simp: emits_def)
  with op.injection_checked [OF _ 2(3)] assms(1)
  have "may_inject (set_defaults run)" "checks_passed (operator k newClient tcEnv stressEnv lossPointer) (set_defaults run)"
    by auto
  with 2(1) show ?thesis
    by (auto simp: checks_passed_def run_safety_checks_def)
qed

theorem injection_gate_witness:
  "disruptive (DeletePod ''flink'' ''tm-1'' (Some 0) True) \<and>
   (\<exists>run t r s1 s2 s3 s4. fst (k_get_run demo_kube ''flink'' ''kill-one'' (ext (demo_sys (demo_run Injecting)))) = Inr run \<and>
     may_inject (set_defaults run) \<and>
     resolve_target (operator demo_kube demo_client '''' '''' ''0xc000012345'') (set_defaults run) s1 = (Inr t, s2) \<and>
     same_object (set_defaults run) r \<and> check demo_kube r t s3 = (None, s4))"
proof -
  have c: "DeletePod ''flink'' ''tm-1'' (Some 0) True \<in> set (calls (snd (demo_pass (demo_sys (demo_run Injecting)))))"
    by code_simp
  from injection_gate [OF demo_keeps demo_pass_run demo_new c] show ?thesis by simp
qed

text \<open>
  C2. Every status patch of a pass sends the phase it found or a successor of it in the phase
  machine, and a terminal phase, Completed, Aborted or Failed, only with an end time and a verdict: Failed for a
  failed run, Inconclusive for an aborted one, and some verdict for a completed one.
\<close>

theorem patches_follow_lifecycle:
  assumes "patch_keeps_phase k"
    and "run_state (reconcile (operator k newClient tcEnv stressEnv lossPointer) ns name) s = (x, s')"
    and "calls s' = calls s @ new" and "StatusPatch r ok \<in> set new"
  shows "\<exists>run. fst (k_get_run k ns name (ext s)) = Inr run \<and>
    (phase_of r = phase_of run \<or> phase_step (phase_of run) (phase_of r)) \<and>
    (phase_of r \<in> {Completed, Aborted, Failed} \<longrightarrow>
       st_endedAt (cr_status r) \<noteq> None \<and> st_verdict (cr_status r) \<noteq> NoVerdict) \<and>
    (phase_of r = Failed \<longrightarrow> st_verdict (cr_status r) = VFailed) \<and>
    (phase_of r = Aborted \<longrightarrow> st_verdict (cr_status r) = VInconclusive)"
  using assms(2)
proof (cases rule: reconcile_cases)
  case 1
  with assms(3,4) show ?thesis by simp
next
  case (2 run s1)
  with pass_patches [OF assms(1) _ assms(2-4), of run] show ?thesis
    by (auto simp: ended_well_def is_terminal_def)
qed

text \<open>An observing run whose recovery has been recorded.\<close>

definition demo_observing :: chaos_run where
  "demo_observing = upd_status (\<lambda>st. st\<lparr>st_observingStartedAt := Some 0,
     st_observation := Some (empty_observation\<lparr>ob_recoveryObservedAt := Some 30\<rparr>)\<rparr>) (demo_run Observing)"

lemma demo_observing_fetch:
  "fst (k_get_run demo_kube ''flink'' ''kill-one'' (ext (demo_sys demo_observing))) = Inr demo_observing"
  by (rule demo_fetch) (simp add: demo_observing_def demo_run_def)

theorem patches_follow_lifecycle_witness:
  "\<exists>r ok. StatusPatch r ok \<in> set (calls (snd (demo_pass (demo_sys demo_observing)))) \<and> phase_of r = Completed \<and>
    phase_step Observing Completed \<and> st_endedAt (cr_status r) \<noteq> None \<and> st_verdict (cr_status r) \<noteq> NoVerdict"
proof -
  have "Completed \<in> set (map phase_of (sent_runs (calls (snd (demo_pass (demo_sys demo_observing))))))" by code_simp
  then obtain r ok where r: "StatusPatch r ok \<in> set (calls (snd (demo_pass (demo_sys demo_observing))))"
    "phase_of r = Completed" by (rule sent_witness)
  from patches_follow_lifecycle [OF demo_keeps demo_pass_run demo_new r(1)] r(2)
  have "phase_step Observing Completed \<and> st_endedAt (cr_status r) \<noteq> None \<and> st_verdict (cr_status r) \<noteq> NoVerdict"
    by (simp only: demo_observing_fetch) (simp add: demo_observing_def demo_run_def demo_status_def)
  with r show ?thesis by blast
qed

subsection \<open>The life of a run\<close>

text \<open>
  C3. Over any number of passes the operator moves a run only along the steps of the phase machine:
  the rank of its phase never falls, and a terminal phase is never left.
\<close>

theorem phases_only_advance:
  assumes "patch_keeps_phase k"
    and "run_history (operator k newClient tcEnv stressEnv lossPointer) ns name p q"
  shows "phase_step\<^sup>*\<^sup>* p q \<and> phase_rank p \<le> phase_rank q \<and> (is_terminal p \<longrightarrow> q = p)"
  using history_steps [OF assms(2,1)] phase_steps_rank phase_steps_terminal by blast

lemma demo_history: "run_history (operator demo_kube demo_client '''' '''' ''0xc000012345'') ''flink'' ''kill-one'' Injecting Observing"
proof -
  let ?cs = "calls (snd (demo_pass (demo_sys (demo_run Injecting))))"
  have "list_ex (\<lambda>c. case c of StatusPatch r ok \<Rightarrow> ok \<and> phase_of r = Observing | _ \<Rightarrow> False) ?cs" by code_simp
  then obtain c where c: "c \<in> set ?cs"
    "case c of StatusPatch r ok \<Rightarrow> ok \<and> phase_of r = Observing | _ \<Rightarrow> False"
    by (auto simp only: list_ex_iff)
  from c(2) obtain r where "c = StatusPatch r True" and ph: "phase_of r = Observing" by (cases c) simp_all
  with c(1) have r: "StatusPatch r True \<in> set ?cs" by simp
  from run_history.history_pass [OF run_history.history_start _ _ demo_pass_run demo_new r(1), of "demo_run Injecting"] ph
  show ?thesis by (simp add: demo_get) (simp add: demo_run_def demo_status_def)
qed

theorem phases_only_advance_witness:
  "phase_step\<^sup>*\<^sup>* Injecting Observing \<and> phase_rank Injecting \<le> phase_rank Observing"
  using phases_only_advance [OF demo_keeps demo_history] by simp

subsection \<open>Verdicts\<close>

text \<open>
  C8. A pass over an observing run sends the verdict Passed only when it is earned: the run had it
  already, or its recovery is recorded in what is sent, or it is a partition whose replacement had been
  seen. There are two exceptions, each by a switch of the spec: with observation off the run passes unseen,
  and ResourceExhaustion passes when the observation timeout has gone by since the observation
  began, or since the start when its begin is not recorded.
\<close>

theorem passed_is_earned:
  assumes "fst (k_get_run k ns name (ext s)) = Inr run" and "phase_of run = Observing"
    and "run_state (reconcile (operator k newClient tcEnv stressEnv lossPointer) ns name) s = (x, s')"
    and "calls s' = calls s @ new" and "StatusPatch r ok \<in> set new" and "st_verdict (cr_status r) = VPassed"
  shows "st_verdict (cr_status run) = VPassed \<or>
    (\<exists>ob. st_observation (cr_status r) = Some ob \<and> ob_recoveryObservedAt ob \<noteq> None) \<or>
    (scenario_of run = NetworkPartition \<and> st_replacementObserved (cr_status run)) \<or>
    \<not> o_enabled (sp_observe (cr_spec (set_defaults run))) \<or>
    (scenario_of run = ResourceExhaustion \<and>
      (\<exists>t0. (if st_observingStartedAt (cr_status run) \<noteq> None then st_observingStartedAt (cr_status run)
            else st_startedAt (cr_status run)) = Some t0 \<and>
         o_timeout (sp_observe (cr_spec (set_defaults run)))
           < time_sub (fst (k_now k (snd (k_get_run k ns name (ext s))))) t0))"
proof (cases "out_of_time (set_defaults run) (pass_clock k ns name s)")
  case True
  show ?thesis
  proof (cases "o_enabled (sp_observe (cr_spec (set_defaults run))) \<and> scenario_of run \<noteq> ResourceExhaustion")
    case earned: True
    have "logs (patches_only (passed_earned (set_defaults run)))
        (reconcile_run (operator k newClient tcEnv stressEnv lossPointer) (set_defaults run))"
      by (rule op.observing_pass_earned) (use assms(2) earned in simp_all)
    from tripleD [OF this reconcile_fetched [OF assms(3)]] assms(1,4,5)
    have "passed_earned (set_defaults run) r" by (auto simp: emits_def)
    with assms(6) show ?thesis by (auto simp: passed_earned_def recovery_seen_def split: option.splits)
  next
    case False
    with True assms(2) show ?thesis
      by (auto simp: out_of_time_def observe_anchor_def pass_clock_def Let_def split: option.splits)
  qed
next
  case False
  have "passed_earned (set_defaults run) r"
    by (rule in_time_patches [OF refl assms(1) False _ assms(3-5)])
      (use assms(2) op.observing_earned(1) op.abort_earned in blast)
  with assms(6) show ?thesis by (auto simp: passed_earned_def recovery_seen_def split: option.splits)
qed

theorem passed_is_earned_witness:
  "\<exists>r ok. StatusPatch r ok \<in> set (calls (snd (demo_pass (demo_sys demo_observing)))) \<and>
    st_verdict (cr_status r) = VPassed \<and>
    (\<exists>ob. st_observation (cr_status r) = Some ob \<and> ob_recoveryObservedAt ob \<noteq> None)"
proof -
  have "VPassed \<in> set (map (\<lambda>r. st_verdict (cr_status r)) (sent_runs (calls (snd (demo_pass (demo_sys demo_observing))))))"
    by code_simp
  then obtain r ok where r: "StatusPatch r ok \<in> set (calls (snd (demo_pass (demo_sys demo_observing))))"
    "st_verdict (cr_status r) = VPassed" by (rule sent_witness)
  have "\<exists>ob. st_observation (cr_status r) = Some ob \<and> ob_recoveryObservedAt ob \<noteq> None"
    using passed_is_earned [OF demo_observing_fetch _ demo_pass_run demo_new r]
    by (simp add: demo_observing_def demo_run_def demo_status_def demo_spec_def set_defaults_def set_observe_defaults_def)
  with r show ?thesis by blast
qed

text \<open>
  C9. Every status a pass sends for a run that is cleaning up leaves it there; or forces it to Failed,
  when the time of the pass is past the deadline, the start of the run and its observation timeout and five
  minutes; or ends it with no policy and no live container recorded: as Aborted and Inconclusive when the abort had
  been recorded, and otherwise as Completed with the verdict that the observation left pending, or
  Passed when it left none.
\<close>

theorem cleaning_outcome:
  assumes "conditions_keyed k"
    and "fst (k_get_run k ns name (ext s)) = Inr run" and "phase_of run = CleaningUp"
    and "run_state (reconcile (operator k newClient tcEnv stressEnv lossPointer) ns name) s = (x, s')"
    and "calls s' = calls s @ new" and "StatusPatch r ok \<in> set new"
  shows "phase_of r = CleaningUp \<or>
    (phase_of r = Failed \<and> (\<exists>t0. st_startedAt (cr_status run) = Some t0 \<and>
       t0 + o_timeout (sp_observe (cr_spec (set_defaults run))) + 5 * minute
         < fst (k_now k (snd (k_get_run k ns name (ext s)))))) \<or>
    (st_networkPolicies (cr_status r) = [] \<and>
     (\<forall>rec \<in> set (st_tcInjections (cr_status r) @ st_stressInjections (cr_status r)). er_cleanedUp rec) \<and>
     (if has_condition_true (st_conditions (cr_status run)) AbortRequested
      then phase_of r = Aborted \<and> st_verdict (cr_status r) = VInconclusive
      else phase_of r = Completed \<and> st_verdict (cr_status r) =
        (if st_verdict (cr_status run) = NoVerdict then VPassed else st_verdict (cr_status run))))"
proof (cases "out_of_time (set_defaults run) (pass_clock k ns name s)")
  case True
  show ?thesis
  proof (cases "cr_deletionTimestamp run = None \<or> \<not> k_contains_finalizer k (cr_finalizers run) chaos_run_finalizer")
    case False
    have "logs (patches_only (\<lambda>_. False))
        (reconcile_run (operator k newClient tcEnv stressEnv lossPointer) (set_defaults run))"
      using False assms(3) op.deleted_patches by (simp add: reconcile_run_def)
    from patch_of_run [OF this reconcile_fetched [OF assms(4)]] assms(2,5,6) show ?thesis by auto
  next
    case alive: True
    from overdue_pass [OF assms(2) True alive _ assms(4,5)] assms(3,6) have "phase_of r = Failed"
      by (auto simp: next_when_over_def dest: sent_patch)
    with True assms(3) show ?thesis
      by (auto simp: out_of_time_def pass_clock_def cleanup_grace_def Let_def split: option.splits)
  qed
next
  case False
  have "cleaned_up (set_defaults run) r"
    by (rule in_time_patches [OF refl assms(2) False _ assms(4-6)])
      (use assms(1,3) in \<open>simp add: op.cleaning_cleaned_up\<close>)
  then show ?thesis
    by (auto simp: cleaned_up_def abort_requested_def leftovers_def filter_empty_conv)
qed

definition demo_cleaning :: chaos_run where
  "demo_cleaning = upd_status (\<lambda>st. st\<lparr>st_phase := CleaningUp, st_networkPolicies := [''gone''],
     st_verdict := VFailed\<rparr>) demo_partition"

theorem cleaning_outcome_witness:
  "\<exists>r ok. StatusPatch r ok \<in> set (calls (snd (demo_pass (demo_sys demo_cleaning)))) \<and>
    phase_of r = Completed \<and> st_verdict (cr_status r) = VFailed \<and> st_networkPolicies (cr_status r) = []"
proof -
  have "Completed \<in> set (map phase_of (sent_runs (calls (snd (demo_pass (demo_sys demo_cleaning))))))"
    by code_simp
  then obtain r ok where r: "StatusPatch r ok \<in> set (calls (snd (demo_pass (demo_sys demo_cleaning))))"
    "phase_of r = Completed" by (rule sent_witness)
  have f: "fst (k_get_run demo_kube ''flink'' ''kill-one'' (ext (demo_sys demo_cleaning))) = Inr demo_cleaning"
    by (rule demo_fetch) (simp add: demo_cleaning_def demo_partition_def with_network_def demo_run_def)
  from cleaning_outcome [OF demo_conditions f _ demo_pass_run demo_new r(1)] r(2)
  have "st_networkPolicies (cr_status r) = []" "st_verdict (cr_status r) = VFailed"
    by (simp_all add: demo_cleaning_def demo_partition_def with_network_def demo_run_def demo_status_def)
  with r show ?thesis by blast
qed

subsection \<open>Terminal, aborted and deleted runs\<close>

text \<open>
  A pass over a run in a terminal phase does nothing at all, also when the run is being deleted
  and still carries the operator's finalizer: such an object stays in the cluster.
\<close>

theorem terminal_runs_left_alone:
  assumes "fst (k_get_run k ns name (ext s)) = Inr run" and "is_terminal (phase_of run)"
    and "run_state (reconcile (operator k newClient tcEnv stressEnv lossPointer) ns name) s = (x, s')"
  shows "x = finished \<and> calls s' = calls s"
  using reconcile_fetched [OF assms(3)] assms(1,2) by (auto simp: reconcile_run_def)

definition demo_stuck :: chaos_run where
  "demo_stuck = (demo_run Failed)\<lparr>cr_deletionTimestamp := Some 5, cr_finalizers := [chaos_run_finalizer]\<rparr>"

theorem terminal_runs_left_alone_witness:
  "cr_deletionTimestamp demo_stuck \<noteq> None \<and> chaos_run_finalizer \<in> set (cr_finalizers demo_stuck) \<and>
   calls (snd (demo_pass (demo_sys demo_stuck))) = []"
proof -
  have f: "fst (k_get_run demo_kube ''flink'' ''kill-one'' (ext (demo_sys demo_stuck))) = Inr demo_stuck"
    by (rule demo_fetch) (simp add: demo_stuck_def demo_run_def)
  from terminal_runs_left_alone [OF f _ demo_pass_run] show ?thesis
    by (simp add: demo_stuck_def demo_run_def demo_status_def demo_sys_def)
qed

text \<open>
  C10. An abort disturbs nothing and sends the status once: a run whose scenario may have left
  resources, past Pending, goes to CleaningUp, every other run straight to Aborted.
\<close>

theorem abort_routing:
  assumes "fst (k_get_run k ns name (ext s)) = Inr run" and "ctl_abort (sp_control (cr_spec run))"
    and "\<not> is_terminal (phase_of run)" and "phase_of run \<noteq> CleaningUp"
    and "cr_deletionTimestamp run = None \<or> \<not> k_contains_finalizer k (cr_finalizers run) chaos_run_finalizer"
    and "run_state (reconcile (operator k newClient tcEnv stressEnv lossPointer) ns name) s = (x, s')"
    and "calls s' = calls s @ new"
  shows "(\<forall>c \<in> set new. \<not> disruptive c) \<and> (\<exists>r. sent_runs new = [r] \<and>
    phase_of r = (if scenario_of run \<in> {NetworkPartition, NetworkChaos, ResourceExhaustion} \<and>
      phase_of run \<noteq> NoPhase \<and> phase_of run \<noteq> Pending then CleaningUp else Aborted))"
  by (rule aborted_pass [OF assms])

definition demo_abort :: chaos_run where
  "demo_abort = demo_partition\<lparr>cr_spec := (cr_spec demo_partition)\<lparr>sp_control := \<lparr>ctl_abort = True\<rparr>\<rparr>\<rparr>"

theorem abort_routing_witness:
  "\<exists>r. sent_runs (calls (snd (demo_pass (demo_sys demo_abort)))) = [r] \<and> phase_of r = CleaningUp"
proof -
  have f: "fst (k_get_run demo_kube ''flink'' ''kill-one'' (ext (demo_sys demo_abort))) = Inr demo_abort"
    by (rule demo_fetch) (simp add: demo_abort_def demo_partition_def with_network_def demo_run_def)
  from abort_routing [OF f _ _ _ _ demo_pass_run demo_new] show ?thesis
    by (simp add: demo_abort_def demo_partition_def with_network_def demo_run_def demo_status_def needs_cleanup_def)
qed

text \<open>
  C14. A deleted run that is not terminal and carries the finalizer is cleaned up first: when the
  driver's cleanup fails the pass ends there, to be retried in five seconds, and only when it
  succeeds is the object patched, without the finalizer.
\<close>

theorem deletion_cleans_first:
  assumes "fst (k_get_run k ns name (ext s)) = Inr run" and "\<not> is_terminal (phase_of run)"
    and "cr_deletionTimestamp run \<noteq> None" and "k_contains_finalizer k (cr_finalizers run) chaos_run_finalizer"
    and "run_state (reconcile (operator k newClient tcEnv stressEnv lossPointer) ns name) s = (x, s')"
    and "cleanup_driver (operator k newClient tcEnv stressEnv lossPointer) (set_defaults run)
      (snd (read_ext (k_get_run k ns name) s)) = (e, run1, s1)"
  shows "if e = None
    then \<exists>r ok. calls s' = calls s1 @ [ObjectPatch r ok] \<and>
      cr_finalizers r = k_remove_finalizer k (cr_finalizers run) chaos_run_finalizer
    else x = requeue_after (5 * second) \<and> s' = s1"
proof -
  let ?rc = "operator k newClient tcEnv stressEnv lossPointer"
  have "cr_finalizers run1 = cr_finalizers run"
    using op.cleanup_effect [OF assms(6)] by (simp add: driver_frame_def same_object_def)
  moreover have "reconcile_run ?rc (set_defaults run) = reconcile_deleted ?rc (set_defaults run)"
    using assms(2-4) by (auto simp: reconcile_run_def)
  with reconcile_fetched [OF assms(5)] assms(1)
  have "run_state (reconcile_deleted ?rc (set_defaults run)) (snd (read_ext (k_get_run k ns name) s)) = (x, s')" by simp
  note reconcile_deleted_effect [OF this assms(6)]
  ultimately show ?thesis by (auto split: if_splits)
qed

definition demo_deleted :: chaos_run where
  "demo_deleted = demo_partition\<lparr>cr_deletionTimestamp := Some 5, cr_finalizers := [chaos_run_finalizer]\<rparr>"

theorem deletion_cleans_first_witness:
  "\<exists>r ok. ObjectPatch r ok \<in> set (calls (snd (demo_pass (demo_sys demo_deleted)))) \<and> cr_finalizers r = []"
proof -
  have f: "fst (k_get_run demo_kube ''flink'' ''kill-one'' (ext (demo_sys demo_deleted))) = Inr demo_deleted"
    by (rule demo_fetch) (simp add: demo_deleted_def demo_partition_def with_network_def demo_run_def)
  obtain e run1 s1 where c: "cleanup_driver (operator demo_kube demo_client '''' '''' ''0xc000012345'')
      (set_defaults demo_deleted) (snd (read_ext (k_get_run demo_kube ''flink'' ''kill-one'') (demo_sys demo_deleted))) =
      (e, run1, s1)" (is "?c = _") by (cases ?c)
  have "fst ?c = None" by code_simp
  with c have "e = None" by simp
  with deletion_cleans_first [OF f _ _ _ demo_pass_run c]
  have "\<exists>r ok. calls (snd (demo_pass (demo_sys demo_deleted))) = calls s1 @ [ObjectPatch r ok] \<and>
      cr_finalizers r = k_remove_finalizer demo_kube (cr_finalizers demo_deleted) chaos_run_finalizer"
    by (simp add: demo_deleted_def demo_partition_def with_network_def demo_run_def demo_status_def demo_kube_def)
  then obtain r ok where "calls (snd (demo_pass (demo_sys demo_deleted))) = calls s1 @ [ObjectPatch r ok]"
    and "cr_finalizers r = []"
    by (auto simp: demo_kube_def demo_deleted_def)
  then show ?thesis by (intro exI [of _ r] exI [of _ ok]) simp
qed

subsection \<open>Clocks that go wrong\<close>

text \<open>
  A cleaning pass over a run whose spec leaves the poll interval unset is never scheduled again,
  even when resources are left: the delay is read after the status patch has replaced the run, with
  the defaults set in memory, by the server's object.
\<close>

theorem cleanup_retry_lost:
  assumes "fst (k_get_run k ns name (ext s)) = Inr run" and "phase_of run = CleaningUp"
    and "cr_deletionTimestamp run = None" and "patch_answers_spec k (cr_spec run)"
    and "o_pollInterval (sp_observe (cr_spec run)) = 0"
    and "run_state (reconcile (operator k newClient tcEnv stressEnv lossPointer) ns name) s = (x, s')"
  shows "not_rescheduled x"
proof -
  let ?rc = "operator k newClient tcEnv stressEnv lossPointer"
  have "reconcile_run ?rc (set_defaults run) = reconcile_cleaning_up ?rc (set_defaults run)"
    using assms(2,3) by (simp add: reconcile_run_def reconcile_phase_def)
  with reconcile_fetched [OF assms(6)] assms(1)
  have pass: "run_state (reconcile_cleaning_up ?rc (set_defaults run)) (snd (read_ext (k_get_run k ns name) s)) = (x, s')"
    by simp
  have "returns not_rescheduled (reconcile_cleaning_up ?rc (set_defaults run))"
    by (rule cleaning_not_rescheduled) (use assms(4,5) in simp_all)
  then have "not_rescheduled (fst (run_state (reconcile_cleaning_up ?rc (set_defaults run))
      (snd (read_ext (k_get_run k ns name) s))))"
    unfolding returns_def by (rule spec)
  with pass show ?thesis by simp
qed

text \<open>A server that cannot list policies, and a run without a poll interval of its own.\<close>

definition demo_retry :: chaos_run where
  "demo_retry = demo_cleaning\<lparr>cr_spec := (cr_spec demo_cleaning)\<lparr>sp_observe :=
     (sp_observe (cr_spec demo_cleaning))\<lparr>o_pollInterval := 0\<rparr>\<rparr>\<rparr>"

definition slow_kube :: "world kube" where
  "slow_kube = demo_kube\<lparr>k_list_policies := \<lambda>ns want w. (Inl (OtherApi ''timeout''), w),
     k_status_patch := \<lambda>base r w.
       (let r' = demo_retry\<lparr>cr_status := cr_status r\<rparr> in (Inr r', w\<lparr>w_run := r'\<rparr>))\<rparr>"

theorem cleanup_retry_lost_witness:
  "let p = run_state (reconcile (operator slow_kube demo_client '''' '''' '''') ''flink'' ''kill-one'') (demo_sys demo_retry)
   in not_rescheduled (fst p) \<and> map (\<lambda>r. (phase_of r, leftovers (cr_status r))) (sent_runs (calls (snd p))) = [(CleaningUp, 1)]"
proof -
  let ?p = "run_state (reconcile (operator slow_kube demo_client '''' '''' '''') ''flink'' ''kill-one'') (demo_sys demo_retry)"
  have f: "fst (k_get_run slow_kube ''flink'' ''kill-one'' (ext (demo_sys demo_retry))) = Inr demo_retry"
    by (simp add: slow_kube_def demo_kube_def demo_sys_def demo_retry_def demo_cleaning_def demo_partition_def
        with_network_def demo_run_def)
  have a: "patch_answers_spec slow_kube (cr_spec demo_retry)"
    by (simp add: patch_answers_spec_def slow_kube_def Let_def)
  have p: "?p = (fst ?p, snd ?p)" by simp
  have "map (\<lambda>r. (phase_of r, leftovers (cr_status r))) (sent_runs (calls (snd ?p))) = [(CleaningUp, 1)]"
    by code_simp
  with cleanup_retry_lost [OF f _ _ a _ p] show ?thesis
    by (simp add: demo_retry_def demo_cleaning_def demo_partition_def with_network_def demo_run_def)
qed

text \<open>
  C34. Each pass over a pending run that validates first sends the time of this very pass as its
  start, whatever start the run has recorded: the deadline for a stable checkpoint, counted from
  there, moves along with every poll.
\<close>

theorem pending_restarts_clock:
  assumes "fst (k_get_run k ns name (ext s)) = Inr run" and "phase_of run = NoPhase \<or> phase_of run = Pending"
    and "cr_deletionTimestamp run = None" and "\<not> ctl_abort (sp_control (cr_spec run))"
    and "validate (set_defaults run) = []"
    and "run_state (reconcile (operator k newClient tcEnv stressEnv lossPointer) ns name) s = (x, s')"
    and "calls s' = calls s @ new"
  shows "\<exists>r rs. sent_runs new = r # rs \<and>
    st_startedAt (cr_status r) = Some (fst (k_now k (snd (k_get_run k ns name (ext s)))))"
proof -
  let ?rc = "operator k newClient tcEnv stressEnv lossPointer"
  let ?s = "snd (read_ext (k_get_run k ns name) s)"
  have "reconcile_run ?rc (set_defaults run) = reconcile_pending ?rc (set_defaults run)"
    using assms(2-4) by (auto simp: reconcile_run_def reconcile_phase_def)
  with reconcile_fetched [OF assms(6)] assms(1)
  have "run_state (reconcile_pending ?rc (set_defaults run)) ?s = (x, s')" by simp
  from reconcile_pending_effect [OF this assms(5)] obtain r ok tl where
    r: "calls s' = calls ?s @ StatusPatch r ok # tl" "st_startedAt (cr_status r) = Some (fst (k_now k (ext ?s)))"
    by auto
  have "ext ?s = snd (k_get_run k ns name (ext s))" by (simp add: read_ext_def split: prod.splits)
  with r assms(7) show ?thesis by simp
qed

definition demo_pending :: chaos_run where
  "demo_pending = upd_status (\<lambda>st. st\<lparr>st_startedAt := Some 7\<rparr>) (demo_run Pending)"

theorem pending_restarts_clock_witness:
  "\<exists>r rs. sent_runs (calls (snd (demo_pass (demo_sys demo_pending)))) = r # rs \<and>
    st_startedAt (cr_status demo_pending) = Some 7 \<and> st_startedAt (cr_status r) = Some 1000000000000"
proof -
  have f: "fst (k_get_run demo_kube ''flink'' ''kill-one'' (ext (demo_sys demo_pending))) = Inr demo_pending"
    by (rule demo_fetch) (simp add: demo_pending_def demo_run_def)
  have v: "validate (set_defaults demo_pending) = []" by code_simp
  from pending_restarts_clock [OF f _ _ _ v demo_pass_run demo_new] show ?thesis
    by (simp add: demo_pending_def demo_run_def demo_status_def demo_spec_def demo_kube_def demo_sys_def)
qed

subsection \<open>The minimum of TaskManagers\<close>

text \<open>
  C16. A random pod kill that passes the safety check leaves at least the required number of the
  target's TaskManagers: the deleted pods and the minimum together are no more than there are.
\<close>

theorem random_kill_keeps_minimum:
  assumes "shuffle_permutes k" and "fst (check k run t s) = None"
    and "scenario_of run = TaskManagerPodKill"
    and "sel_mode (s_selection (sp_scenario (cr_spec run))) \<noteq> ExplicitMode"
    and "sel_count (s_selection (sp_scenario (cr_spec run))) \<ge> 0"
    and "in_i32 (sel_count (s_selection (sp_scenario (cr_spec run))))" and "in_i32 (int (length (rt_tmPods t)))"
    and "pod_kill_driver k run t s1 = (r, run', s1')" and "calls s1' = calls s1 @ new"
  shows "int (length new) + (case sf_minTaskManagers (sp_safety (cr_spec run)) of None \<Rightarrow> 1 | Some m \<Rightarrow> m)
    \<le> int (length (rt_tmPods t))"
proof -
  let ?c = "sel_count (s_selection (sp_scenario (cr_spec run)))"
  let ?eff = "if ?c = 0 then 1 else ?c"
  have range: "in_i32 (int (length (rt_tmPods t)) - ?eff)"
    using assms(5-7) by (auto simp: in_i32_def)
  from assms(2,3) have "check_min_task_managers run t = None"
    by (simp add: check_passes_parts)
  then have min: "(case sf_minTaskManagers (sp_safety (cr_spec run)) of None \<Rightarrow> 1 | Some m \<Rightarrow> m)
      \<le> int (length (rt_tmPods t)) - ?eff"
    using range by (simp add: check_min_task_managers_def Let_def split: if_splits)
  obtain qs oks where "new = delete_calls run qs oks" "length oks = length qs"
    "length qs \<le> min (length (rt_tmPods t)) (nat (max 1 ?c))"
    by (rule pod_kill_new_calls [OF assms(1,8,9)]) (simp add: Let_def assms(4))
  then have "length new \<le> min (length (rt_tmPods t)) (nat (max 1 ?c))"
    by (simp add: delete_calls_def)
  then have "int (length new) \<le> ?eff" using assms(5) by (auto split: if_splits)
  with min show ?thesis by linarith
qed

theorem random_kill_keeps_minimum_witness:
  "int (length [DeletePod ''flink'' ''tm-1'' (Some 0) True]) + 1 \<le> int (length (rt_tmPods demo_target))"
proof -
  have p: "shuffle_permutes demo_kube" by (simp add: shuffle_permutes_def demo_kube_def)
  obtain r run' s' where d: "pod_kill_driver demo_kube (demo_run Injecting) demo_target (demo_sys (demo_run Injecting)) = (r, run', s')"
    (is "?d = _") by (cases ?d)
  have "calls (snd (snd ?d)) = [DeletePod ''flink'' ''tm-1'' (Some 0) True]" by code_simp
  with d have new: "calls s' = calls (demo_sys (demo_run Injecting)) @ [DeletePod ''flink'' ''tm-1'' (Some 0) True]"
    by (simp add: demo_sys_def)
  have c: "fst (check demo_kube (demo_run Injecting) demo_target (demo_sys (demo_run Injecting))) = None"
    by code_simp
  from random_kill_keeps_minimum [OF p c _ _ _ _ _ d new] show ?thesis
    by (simp add: demo_run_def demo_spec_def demo_target_def in_i32_def)
qed

text \<open>
  In Explicit mode the check counts the unused selection count, not the listed pods: with the
  count left at zero, a run that lists every TaskManager of the target passes the check for the
  minimum although the driver selects them all.
\<close>

theorem explicit_kill_ignores_minimum:
  assumes "sel_mode (s_selection (sp_scenario (cr_spec run))) = ExplicitMode"
    and "sel_count (s_selection (sp_scenario (cr_spec run))) = 0"
    and "sel_podNames (s_selection (sp_scenario (cr_spec run))) = rt_tmPods t"
    and "sf_minTaskManagers (sp_safety (cr_spec run)) = Some m"
    and "m < int (length (rt_tmPods t))" and "in_i32 (int (length (rt_tmPods t)))"
  shows "check_min_task_managers run t = None \<and> select_pods (random_select k) run t s = (Inr (rt_tmPods t), s)"
proof -
  have "in_i32 (int (length (rt_tmPods t)) - 1)" using assms(6) by (simp add: in_i32_def)
  then show ?thesis
    using assms
    by (simp add: check_min_task_managers_def select_pods_def explicit_select_def Let_def filter_empty_conv)
qed

definition demo_explicit :: chaos_run where
  "demo_explicit = (demo_run Injecting)\<lparr>cr_spec := demo_spec\<lparr>sp_scenario := (sp_scenario demo_spec)
     \<lparr>s_selection := \<lparr>sel_mode = ExplicitMode, sel_count = 0, sel_podNames = [''tm-0'', ''tm-1'']\<rparr>\<rparr>\<rparr>\<rparr>"

theorem explicit_kill_ignores_minimum_witness:
  "check_min_task_managers demo_explicit demo_target = None \<and>
   select_pods (random_select demo_kube) demo_explicit demo_target (demo_sys demo_explicit) =
     (Inr [''tm-0'', ''tm-1''], demo_sys demo_explicit)"
  using explicit_kill_ignores_minimum [of demo_explicit demo_target 1 demo_kube "demo_sys demo_explicit"]
  by (simp add: demo_explicit_def demo_spec_def demo_target_def in_i32_def)

end
